(* ===== verification/Prelude.thy ===== *)
theory Prelude
  imports Main
begin

text \<open>
  Shared vocabulary of the development: the theorem collections the component
  proofs draw on, the lemmas on lists, options and sums that more than one
  component needs, and the keyed-row operations by which the SQL statements of
  the server (\<open>SELECT ... WHERE\<close>, \<open>UPDATE ... WHERE\<close>) are modelled.
\<close>

text \<open>
  \<open>go_simps\<close> collects the equations of the Go library functions used by the
  code, \<open>handler_defs\<close> the definitions of the HTTP handlers, \<open>row_simps\<close> the
  facts on keyed rows, and \<open>store_simps\<close> the facts on the session stores.
\<close>

named_theorems go_simps
named_theorems handler_defs
named_theorems row_simps
named_theorems store_simps

section \<open>Options and sums\<close>

abbreviation is_Inr :: "'e + 'a \<Rightarrow> bool" where
  "is_Inr r \<equiv> \<exists>x. r = Inr x"

lemma Some_bind_conv: "(Option.bind x f = Some y) \<longleftrightarrow> (\<exists>z. x = Some z \<and> f z = Some y)"
  by (cases x) auto

lemma map_option_Some_conv: "(map_option f x = Some y) \<longleftrightarrow> (\<exists>z. x = Some z \<and> y = f z)"
  by (cases x) auto

section \<open>Association lists\<close>

lemma map_of_rev_distinct: "distinct (map fst xs) \<Longrightarrow> map_of (rev xs) = map_of xs"
  by (intro ext) (metis distinct_rev map_of_eq_Some_iff not_None_eq rev_map set_rev)

section \<open>Traversing a list with an operation that may fail\<close>

text \<open>
  \<open>traverse f xs\<close> applies \<open>f\<close> to every element and fails as soon as one
  application fails.
\<close>

fun traverse :: "('a \<Rightarrow> 'b option) \<Rightarrow> 'a list \<Rightarrow> 'b list option" where
  "traverse f [] = Some []"
| "traverse f (x # xs) =
     (case f x of
        None \<Rightarrow> None
      | Some y \<Rightarrow> (case traverse f xs of None \<Rightarrow> None | Some ys \<Rightarrow> Some (y # ys)))"

lemma traverse_length: "traverse f xs = Some ys \<Longrightarrow> length ys = length xs"
  by (induction xs arbitrary: ys) (auto split: option.splits)

lemma traverse_inverse:
  assumes "\<And>x y. x \<in> set xs \<Longrightarrow> f x = Some y \<Longrightarrow> g y = Some x"
    and "traverse f xs = Some ys"
  shows "traverse g ys = Some xs"
  using assms
proof (induction xs arbitrary: ys)
  case (Cons x xs)
  then obtain y ys' where y: "f x = Some y" "traverse f xs = Some ys'" "ys = y # ys'"
    by (auto split: option.splits)
  from Cons.prems(1) [OF _ y(1)] Cons.IH [OF Cons.prems(1) y(2)] y(3) show ?case by simp
qed simp

lemma traverse_total:
  "\<forall>x \<in> set xs. \<exists>y. f x = Some y \<Longrightarrow> \<exists>ys. traverse f xs = Some ys"
proof (induction xs)
  case (Cons x xs)
  then obtain y ys where "f x = Some y" "traverse f xs = Some ys" by auto
  then show ?case by simp
qed simp

section \<open>Rows addressed by a key\<close>

text \<open>
  A table is the list of its rows in insertion order. \<open>row_where P rows\<close> is the
  first row a query with condition \<open>P\<close> returns, \<open>update_where P f rows\<close> the
  table after an \<open>UPDATE\<close> of the rows that satisfy \<open>P\<close>.
\<close>

definition row_where :: "('r \<Rightarrow> bool) \<Rightarrow> 'r list \<Rightarrow> 'r option" where
  "row_where P rows = List.find P rows"

definition update_where :: "('r \<Rightarrow> bool) \<Rightarrow> ('r \<Rightarrow> 'r) \<Rightarrow> 'r list \<Rightarrow> 'r list" where
  "update_where P f rows = map (\<lambda>r. if P r then f r else r) rows"

lemma row_where_Nil [row_simps, simp]: "row_where P [] = None"
  by (simp add: row_where_def)

lemma row_where_Cons [row_simps, simp]:
  "row_where P (r # rows) = (if P r then Some r else row_where P rows)"
  by (simp add: row_where_def)

lemma row_where_None_iff [row_simps]: "row_where P rows = None \<longleftrightarrow> (\<forall>r \<in> set rows. \<not> P r)"
  by (induction rows) auto

lemma row_where_SomeD: "row_where P rows = Some r \<Longrightarrow> r \<in> set rows \<and> P r"
  by (induction rows) (auto split: if_splits)

lemma row_where_append [row_simps]:
  "row_where P (xs @ ys) = (case row_where P xs of None \<Rightarrow> row_where P ys | Some r \<Rightarrow> Some r)"
  by (induction xs) auto

lemma row_where_unique:
  assumes "r \<in> set rows" "P r" "\<And>r'. r' \<in> set rows \<Longrightarrow> P r' \<Longrightarrow> r' = r"
  shows "row_where P rows = Some r"
proof -
  have "row_where P rows \<noteq> None"
    unfolding row_where_None_iff using assms(1,2) by blast
  then obtain r' where r': "row_where P rows = Some r'" by blast
  then have "r' \<in> set rows" "P r'" by (simp_all add: row_where_SomeD)
  then have "r' = r" by (rule assms(3))
  with r' show ?thesis by (simp only:)
qed

lemma row_where_iff:
  assumes "\<And>r r'. r \<in> set rows \<Longrightarrow> r' \<in> set rows \<Longrightarrow> P r \<Longrightarrow> P r' \<Longrightarrow> r = r'"
  shows "row_where P rows = Some r \<longleftrightarrow> r \<in> set rows \<and> P r"
proof
  assume "row_where P rows = Some r"
  then show "r \<in> set rows \<and> P r" by (rule row_where_SomeD)
next
  assume r: "r \<in> set rows \<and> P r"
  show "row_where P rows = Some r"
    by (rule row_where_unique) (use r assms in blast)+
qed

lemma update_where_Nil [row_simps, simp]: "update_where P f [] = []"
  by (simp add: update_where_def)

lemma update_where_Cons [row_simps, simp]:
  "update_where P f (r # rows) = (if P r then f r else r) # update_where P f rows"
  by (simp add: update_where_def)

lemma set_update_where: "set (update_where P f rows) = (\<lambda>r. if P r then f r else r) ` set rows"
  by (auto simp: update_where_def)

lemma map_update_where:
  "(\<And>r. P r \<Longrightarrow> k (f r) = k r) \<Longrightarrow> map k (update_where P f rows) = map k rows"
  by (simp add: update_where_def)

lemma row_where_update_where:
  assumes "\<And>r. P r \<Longrightarrow> Q (f r) = Q r"
  shows "row_where Q (update_where P f rows) =
         map_option (\<lambda>r. if P r then f r else r) (row_where Q rows)"
  using assms by (induction rows) auto

lemma distinct_map_eqD:
  "distinct (map k rows) \<Longrightarrow> r \<in> set rows \<Longrightarrow> r' \<in> set rows \<Longrightarrow> k r = k r' \<Longrightarrow> r = r'"
  by (auto simp: distinct_map inj_on_def)

section \<open>The transitions of a history\<close>

text \<open>
  \<open>chain P xs\<close> holds when every two neighbours of \<open>xs\<close> are related by \<open>P\<close>.
\<close>

fun chain :: "('a \<Rightarrow> 'a \<Rightarrow> bool) \<Rightarrow> 'a list \<Rightarrow> bool" where
  "chain P (x # y # zs) = (P x y \<and> chain P (y # zs))"
| "chain P _ = True"

lemma chain_snoc: "chain P (xs @ [x]) \<longleftrightarrow> chain P xs \<and> (xs = [] \<or> P (last xs) x)"
  by (induction P xs rule: chain.induct) auto

lemma chain_mono: "chain P xs \<Longrightarrow> (\<And>x y. P x y \<Longrightarrow> Q x y) \<Longrightarrow> chain Q xs"
  by (induction P xs rule: chain.induct) auto

lemma map_of_filter_key: "map_of (filter (\<lambda>s. P (fst s)) xs) k = (if P k then map_of xs k else None)"
  by (induction xs) auto

end
