(* ===== verification/GoStrings.thy ===== *)
theory GoStrings
  imports Prelude
begin

text \<open>
  The functions of Go's \<open>strings\<close>, \<open>strconv\<close> and \<open>fmt\<close> packages that the
  server and the SDK call. A Go string is a sequence of bytes, so it is modelled
  by \<open>string\<close> (a list of 8-bit characters); a non-ASCII character of a literal is
  written out as its UTF-8 bytes.
\<close>

section \<open>Prefixes, substrings, splitting and joining\<close>

definition HasPrefix :: "string \<Rightarrow> string \<Rightarrow> bool" where
  "HasPrefix s p \<longleftrightarrow> take (length p) s = p"

definition TrimPrefix :: "string \<Rightarrow> string \<Rightarrow> string" where
  "TrimPrefix s p = (if HasPrefix s p then drop (length p) s else s)"

fun Contains :: "string \<Rightarrow> string \<Rightarrow> bool" where
  "Contains [] sub = (sub = [])"
| "Contains (c # s) sub = (HasPrefix (c # s) sub \<or> Contains s sub)"

fun Join :: "string list \<Rightarrow> string \<Rightarrow> string" where
  "Join [] sep = []"
| "Join [x] sep = x"
| "Join (x # y # zs) sep = x @ sep @ Join (y # zs) sep"

text \<open>\<open>strings.Split\<close> and \<open>strings.ReplaceAll\<close> at a one-byte separator.\<close>

fun SplitChar :: "string \<Rightarrow> char \<Rightarrow> string list" where
  "SplitChar [] sep = [[]]"
| "SplitChar (c # s) sep =
     (if c = sep then [] # SplitChar s sep
      else (case SplitChar s sep of [] \<Rightarrow> [[c]] | p # ps \<Rightarrow> (c # p) # ps))"

definition ReplaceChar :: "string \<Rightarrow> char \<Rightarrow> string \<Rightarrow> string" where
  "ReplaceChar s c new = concat (map (\<lambda>x. if x = c then new else [x]) s)"

lemma HasPrefix_append [go_simps]: "HasPrefix (p @ s) p"
  by (simp add: HasPrefix_def)

lemma HasPrefix_iff: "HasPrefix s p \<longleftrightarrow> (\<exists>t. s = p @ t)"
  by (metis HasPrefix_def append_eq_conv_conj append_take_drop_id)

lemma TrimPrefix_append [go_simps]: "TrimPrefix (p @ s) p = s"
  by (simp add: TrimPrefix_def HasPrefix_def)

lemma Contains_iff: "Contains s sub \<longleftrightarrow> (\<exists>u v. s = u @ sub @ v)"
proof (induction s)
  case Nil
  then show ?case by simp
next
  case (Cons c s)
  have "(\<exists>u v. c # s = u @ sub @ v) \<longleftrightarrow> (\<exists>v. c # s = sub @ v) \<or> (\<exists>u v. s = u @ sub @ v)"
    by (metis append_Cons append_Nil neq_Nil_conv list.inject)
  with Cons show ?case by (simp add: HasPrefix_iff)
qed

lemma SplitChar_nonempty [simp]: "SplitChar s sep \<noteq> []"
  by (cases s) (auto split: list.splits)

lemma SplitChar_free: "sep \<notin> set s \<Longrightarrow> SplitChar s sep = [s]"
  by (induction s) auto

lemma SplitChar_append: "sep \<notin> set p \<Longrightarrow> SplitChar (p @ sep # s) sep = p # SplitChar s sep"
  by (induction p) auto

lemma SplitChar_parts_free: "p \<in> set (SplitChar s sep) \<Longrightarrow> sep \<notin> set p"
  by (induction s arbitrary: p) (auto split: if_splits list.splits)

text \<open>Splitting a join at its separator gives the parts back.\<close>

lemma SplitChar_Join:
  assumes "ps \<noteq> []" "\<And>p. p \<in> set ps \<Longrightarrow> sep \<notin> set p"
  shows "SplitChar (Join ps [sep]) sep = ps"
  using assms
proof (induction ps "[sep]" rule: Join.induct)
  case (2 x)
  then show ?case by (simp add: SplitChar_free)
next
  case (3 x y zs)
  then show ?case by (simp add: SplitChar_append)
qed simp

lemma Join_SplitChar: "Join (SplitChar s sep) [sep] = s"
proof (induction s)
  case (Cons c s)
  show ?case
  proof (cases "SplitChar s sep")
    case (Cons p ps)
    with Cons.IH show ?thesis by (cases ps) auto
  qed simp
qed simp

section \<open>Decimal numerals\<close>

definition digit_char :: "nat \<Rightarrow> char" where
  "digit_char n = ''0123456789'' ! (n mod 10)"

fun show_nat :: "nat \<Rightarrow> string" where
  "show_nat n =
     (if n < 10 then [digit_char n] else show_nat (n div 10) @ [digit_char (n mod 10)])"

declare show_nat.simps [simp del]

text \<open>The same numeral computed on \<open>int\<close>, whose arithmetic evaluates in binary.\<close>

function show_digits :: "int \<Rightarrow> string" where
  "show_digits i =
     (if i < 10 then [digit_char (nat i)]
      else show_digits (i div 10) @ [digit_char (nat (i mod 10))])"
  by pat_completeness auto
termination
  by (relation "measure nat") (auto intro!: zless_nat_conj [THEN iffD2])

declare show_digits.simps [simp del]

text \<open>\<open>fmt.Sprintf("%d", i)\<close>\<close>

definition show_int :: "int \<Rightarrow> string" where
  "show_int i = (if i < 0 then ''-'' @ show_digits (- i) else show_digits i)"

definition is_digit :: "char \<Rightarrow> bool" where
  "is_digit c \<longleftrightarrow> 48 \<le> (of_char c :: nat) \<and> (of_char c :: nat) \<le> 57"

definition digit_val :: "char \<Rightarrow> nat" where
  "digit_val c = of_char c - 48"

definition parse_digits :: "string \<Rightarrow> nat" where
  "parse_digits s = foldl (\<lambda>a c. 10 * a + digit_val c) 0 s"

text \<open>A numeral padded with zeros to a fixed width, as in \<open>%02d\<close>.\<close>

definition show_padded :: "nat \<Rightarrow> nat \<Rightarrow> string" where
  "show_padded w n = replicate (w - length (show_nat n)) (digit_char 0) @ show_nat n"

lemma of_char_digit [simp]:
  assumes "n < 10"
  shows "(of_char (digit_char n) :: nat) = 48 + n"
proof -
  have "n \<in> {0, 1, 2, 3, 4, 5, 6, 7, 8, 9}" using assms by auto
  then show ?thesis by (auto simp: digit_char_def)
qed

lemma is_digit_digit_char [simp]: "n < 10 \<Longrightarrow> is_digit (digit_char n)"
  by (simp add: is_digit_def)

lemma digit_val_digit_char [simp]: "n < 10 \<Longrightarrow> digit_val (digit_char n) = n"
  by (simp add: digit_val_def)

lemma parse_digits_snoc: "parse_digits (s @ [c]) = 10 * parse_digits s + digit_val c"
  by (simp add: parse_digits_def)

lemma show_nat_digits: "c \<in> set (show_nat n) \<Longrightarrow> is_digit c"
proof (induction n arbitrary: c rule: show_nat.induct)
  case (1 n)
  then show ?case
    by (cases "n < 10") (auto simp: show_nat.simps [of n])
qed

lemma parse_digits_show_nat [simp]: "parse_digits (show_nat n) = n"
proof (induction n rule: show_nat.induct)
  case (1 n)
  then show ?case
    by (cases "n < 10")
      (auto simp: show_nat.simps [of n] parse_digits_snoc, simp add: parse_digits_def)
qed

lemma show_digits_nat: "0 \<le> i \<Longrightarrow> show_digits i = show_nat (nat i)"
proof (induction i rule: show_digits.induct)
  case (1 i)
  show ?case
  proof (cases "i < 10")
    case True
    with 1 have "nat i < 10" by linarith
    with True show ?thesis by (simp add: show_digits.simps [of i] show_nat.simps [of "nat i"])
  next
    case False
    then have "nat (i div 10) = nat i div 10" "nat (i mod 10) = nat i mod 10"
      by (simp_all add: nat_div_distrib nat_mod_distrib)
    moreover from False have "\<not> nat i < 10" "0 \<le> i div 10" by linarith+
    ultimately show ?thesis using 1(1) [OF False]
      by (simp only: show_digits.simps [of i] show_nat.simps [of "nat i"] False if_False)
  qed
qed

lemma show_int_nat [simp]: "show_int (int n) = show_nat n"
  by (simp add: show_int_def show_digits_nat)

lemma show_nat_inj: "show_nat m = show_nat n \<Longrightarrow> m = n"
  by (metis parse_digits_show_nat)

lemma show_nat_nonempty [simp]: "show_nat n \<noteq> []"
  by (simp add: show_nat.simps)

lemma show_nat_length: "n < 10 ^ k \<Longrightarrow> 0 < k \<Longrightarrow> length (show_nat n) \<le> k"
proof (induction n arbitrary: k rule: show_nat.induct)
  case (1 n)
  show ?case
  proof (cases "n < 10")
    case True
    with 1 show ?thesis by (simp add: show_nat.simps)
  next
    case False
    with 1 obtain k' where k: "k = Suc k'" "0 < k'"
      by (cases k) (auto, metis not_less_zero power_0 mult_1_right gr0I)
    from 1 k have "n div 10 < 10 ^ k'"
      by (simp add: less_mult_imp_div_less mult.commute)
    with 1 False k show ?thesis by (simp add: show_nat.simps [of n])
  qed
qed

lemma parse_digits_zeros: "parse_digits (replicate k (digit_char 0) @ s) = parse_digits s"
  by (induction k) (auto simp: parse_digits_def)

lemma parse_digits_show_padded [simp]: "parse_digits (show_padded w n) = n"
  by (simp add: show_padded_def parse_digits_zeros)

lemma length_show_padded: "n < 10 ^ w \<Longrightarrow> 0 < w \<Longrightarrow> length (show_padded w n) = w"
  using show_nat_length [of n w] by (simp add: show_padded_def)

lemma show_padded_digits: "c \<in> set (show_padded w n) \<Longrightarrow> is_digit c"
  by (auto simp: show_padded_def show_nat_digits)

end
