(* ===== verification/GoFloat.thy ===== *)
theory GoFloat
  imports GoStrings Complex_Main "HOL-Library.Log_Nat"
begin

text \<open>
  Go's \<open>float64\<close>, the type of every amount of the data model: IEEE 754 binary64
  with round-to-nearest-even. A finite value is the rational it denotes, so that
  the operations are "the exact result, rounded" (\<open>rnd\<close>), which is what the
  standard prescribes for \<open>+\<close>, \<open>-\<close> and \<open>*\<close>. The two zeros are identified:
  no comparison of the code distinguishes them.

  The theory shows what the amount computations of the server rest on: rounding
  is monotone (\<open>rnd_q_mono\<close>), exact on representable values
  (\<open>rnd_q_exact\<close>), and the sign of a difference is the sign of the exact
  difference (\<open>f_sub_pos_iff\<close>).
\<close>

section \<open>Rounding\<close>

datatype float64 = Fin rat | PosInf | NegInf | NaN

text \<open>Rounding to an integer, ties to even.\<close>

definition rhe :: "rat \<Rightarrow> int" where
  "rhe x = (let n = \<lfloor>x\<rfloor>; d = x - of_int n
            in if d < 1 / 2 then n else if 1 / 2 < d then n + 1
               else if even n then n else n + 1)"

text \<open>The binary exponent: \<open>2 powi binexp x \<le> \<bar>x\<bar> < 2 powi (binexp x + 1)\<close>.\<close>

definition binexp :: "rat \<Rightarrow> int" where
  "binexp x = (let (p, q) = quotient_of \<bar>x\<bar>; k = bitlen p - bitlen q
               in if 2 powi k \<le> \<bar>x\<bar> then k else k - 1)"

text \<open>The exponent of the last place of a binary64 value near \<open>x\<close>.\<close>

definition ulpexp :: "rat \<Rightarrow> int" where
  "ulpexp x = max (binexp x - 52) (-1074)"

definition rnd_q :: "rat \<Rightarrow> rat" where
  "rnd_q x = (if x = 0 then 0 else of_int (rhe (x / 2 powi ulpexp x)) * 2 powi ulpexp x)"

definition rnd :: "rat \<Rightarrow> float64" where
  "rnd x = (let y = rnd_q x
            in if 2 ^ 1024 \<le> y then PosInf else if y \<le> - (2 ^ 1024) then NegInf else Fin y)"

section \<open>The operations the code uses\<close>

fun f_neg :: "float64 \<Rightarrow> float64" where
  "f_neg (Fin x) = Fin (- x)"
| "f_neg PosInf = NegInf"
| "f_neg NegInf = PosInf"
| "f_neg NaN = NaN"

fun f_add :: "float64 \<Rightarrow> float64 \<Rightarrow> float64" where
  "f_add (Fin x) (Fin y) = rnd (x + y)"
| "f_add NaN _ = NaN"
| "f_add _ NaN = NaN"
| "f_add PosInf NegInf = NaN"
| "f_add NegInf PosInf = NaN"
| "f_add PosInf _ = PosInf"
| "f_add _ PosInf = PosInf"
| "f_add NegInf _ = NegInf"
| "f_add _ NegInf = NegInf"

definition f_sub :: "float64 \<Rightarrow> float64 \<Rightarrow> float64" where
  "f_sub a b = f_add a (f_neg b)"

fun f_mul :: "float64 \<Rightarrow> float64 \<Rightarrow> float64" where
  "f_mul (Fin x) (Fin y) = rnd (x * y)"
| "f_mul NaN _ = NaN"
| "f_mul _ NaN = NaN"
| "f_mul (Fin x) b = (if x = 0 then NaN else if 0 < x then b else f_neg b)"
| "f_mul a (Fin y) = (if y = 0 then NaN else if 0 < y then a else f_neg a)"
| "f_mul PosInf PosInf = PosInf"
| "f_mul NegInf NegInf = PosInf"
| "f_mul _ _ = NegInf"

text \<open>The comparisons \<open><\<close> and \<open><=\<close>; \<open>>\<close> and \<open>>=\<close> swap the operands.\<close>

fun f_lt :: "float64 \<Rightarrow> float64 \<Rightarrow> bool" where
  "f_lt (Fin x) (Fin y) = (x < y)"
| "f_lt NaN _ = False"
| "f_lt _ NaN = False"
| "f_lt PosInf _ = False"
| "f_lt _ PosInf = True"
| "f_lt _ NegInf = False"
| "f_lt NegInf _ = True"

fun f_le :: "float64 \<Rightarrow> float64 \<Rightarrow> bool" where
  "f_le (Fin x) (Fin y) = (x \<le> y)"
| "f_le NaN _ = False"
| "f_le _ NaN = False"
| "f_le _ PosInf = True"
| "f_le PosInf _ = False"
| "f_le NegInf _ = True"
| "f_le _ NegInf = False"

abbreviation f_zero :: float64 where "f_zero \<equiv> Fin 0"

text \<open>
  \<open>fmt.Sprintf("%.2f", x)\<close>: the exact value rounded to hundredths, ties to even
  (\<open>strconv\<close>'s decimal rounding).
\<close>

fun fmt_2f :: "float64 \<Rightarrow> string" where
  "fmt_2f (Fin x) =
     (let n = rhe (\<bar>x\<bar> * 100)
      in (if x < 0 then ''-'' else []) @ show_int (n div 100) @ ''.'' @ show_padded 2 (nat (n mod 100)))"
| "fmt_2f PosInf = ''+Inf''"
| "fmt_2f NegInf = ''-Inf''"
| "fmt_2f NaN = ''NaN''"

text \<open>A value the type can hold: not a number, an infinity, or a fixed point of rounding.\<close>

fun f_wf :: "float64 \<Rightarrow> bool" where
  "f_wf (Fin x) = (rnd x = Fin x)"
| "f_wf _ = True"

fun f_finite :: "float64 \<Rightarrow> bool" where
  "f_finite (Fin x) = True"
| "f_finite _ = False"

text \<open>The value of a finite float.\<close>

fun f_val :: "float64 \<Rightarrow> rat" where
  "f_val (Fin x) = x"
| "f_val _ = 0"

section \<open>Rounding to an integer\<close>

lemma rhe_of_int [simp]: "rhe (of_int n) = n"
  by (simp add: rhe_def)

lemma rhe_cases: "rhe x = \<lfloor>x\<rfloor> \<or> rhe x = \<lfloor>x\<rfloor> + 1"
  by (simp add: rhe_def Let_def)

lemma rhe_error: "\<bar>of_int (rhe x) - x\<bar> \<le> 1 / 2"
proof -
  have "of_int \<lfloor>x\<rfloor> \<le> x" "x < of_int \<lfloor>x\<rfloor> + 1" by linarith+
  then show ?thesis by (auto simp: rhe_def Let_def)
qed

lemma rhe_mono: "x \<le> y \<Longrightarrow> rhe x \<le> rhe y"
proof (cases "\<lfloor>x\<rfloor> = \<lfloor>y\<rfloor>")
  case True
  assume "x \<le> y"
  with True show ?thesis by (auto simp: rhe_def Let_def)
next
  case False
  assume "x \<le> y"
  with False have "\<lfloor>x\<rfloor> + 1 \<le> \<lfloor>y\<rfloor>" using floor_mono [of x y] by linarith
  then show ?thesis using rhe_cases [of x] rhe_cases [of y] by linarith
qed

lemma rhe_minus: "rhe (- x) = - rhe x"
proof (cases "x = of_int \<lfloor>x\<rfloor>")
  case True
  then obtain n where "x = of_int n" by blast
  then show ?thesis by (metis of_int_minus rhe_of_int)
next
  case False
  then have f: "\<lfloor>- x\<rfloor> = - \<lfloor>x\<rfloor> - 1"
    by (metis ceiling_altdef ceiling_def minus_diff_eq diff_minus_eq_add minus_add_distrib
        add_uminus_conv_diff minus_equation_iff)
  then show ?thesis by (auto simp: rhe_def Let_def)
qed

section \<open>The binary exponent\<close>

abbreviation two :: "int \<Rightarrow> rat" where "two e \<equiv> 2 powi e"

lemma two_add: "two (a + b) = two a * two b"
  by (simp add: power_int_add)

lemma two_mono: "a \<le> b \<Longrightarrow> two a \<le> two b"
  by (rule power_int_increasing) simp_all

lemma two_strict: "a < b \<Longrightarrow> two a < two b"
  by (rule power_int_strict_increasing) simp_all

lemma two_less_cancel: "two a < two b \<Longrightarrow> a < b"
  by (meson linorder_not_less two_mono)

lemma two_int: "0 \<le> e \<Longrightarrow> two e = of_int (2 ^ nat e)"
  by (simp add: power_int_def)

lemma bitlen_two:
  assumes "0 < p"
  shows "two (bitlen p - 1) \<le> of_int p" and "of_int p < two (bitlen p)"
proof -
  have pos: "1 \<le> bitlen p"
    using assms bitlen_nonneg [of p] bitlen_eq_zero_iff [of p] by linarith
  have b: "2 ^ nat (bitlen p - 1) \<le> p" "p < 2 ^ nat (bitlen p)"
    using bitlen_bounds [OF assms] by auto
  from b(1) have "of_int (2 ^ nat (bitlen p - 1)) \<le> (of_int p :: rat)" by linarith
  then show "two (bitlen p - 1) \<le> of_int p" using pos by (simp add: two_int)
  from b(2) have "(of_int p :: rat) < of_int (2 ^ nat (bitlen p))" by linarith
  then show "of_int p < two (bitlen p)" using pos by (simp add: two_int)
qed

lemma binexp_bounds:
  assumes "x \<noteq> 0"
  shows "two (binexp x) \<le> \<bar>x\<bar>" and "\<bar>x\<bar> < two (binexp x + 1)"
proof -
  obtain p q where pq: "quotient_of \<bar>x\<bar> = (p, q)" by fastforce
  have q: "0 < q" by (rule quotient_of_denom_pos [OF pq])
  have x: "\<bar>x\<bar> = of_int p / of_int q" by (rule quotient_of_div [OF pq])
  have "0 < (of_int p / of_int q :: rat)" using x assms by (metis zero_less_abs_iff)
  with q have p: "0 < p" by (simp add: zero_less_divide_iff)
  let ?k = "bitlen p - bitlen q"
  have q': "0 < (of_int q :: rat)" using q by simp
  have "of_int p < two (bitlen p)" by (rule bitlen_two(2) [OF p])
  also have "two (bitlen p) = two (?k + 1) * two (bitlen q - 1)" by (simp flip: two_add)
  also have "\<dots> \<le> two (?k + 1) * of_int q"
    using bitlen_two(1) [OF q] by (intro mult_left_mono) simp_all
  finally have up: "\<bar>x\<bar> < two (?k + 1)" using q' x by (simp add: pos_divide_less_eq)
  have "two (?k - 1) * of_int q \<le> two (?k - 1) * two (bitlen q)"
    using bitlen_two(2) [OF q] by (intro mult_left_mono) simp_all
  also have "\<dots> = two (bitlen p - 1)" by (simp flip: two_add)
  also have "\<dots> \<le> of_int p" by (rule bitlen_two(1) [OF p])
  finally have lo: "two (?k - 1) \<le> \<bar>x\<bar>" using q' x by (simp add: pos_le_divide_eq)
  have b: "binexp x = (if two ?k \<le> \<bar>x\<bar> then ?k else ?k - 1)"
    by (simp add: binexp_def pq)
  show "two (binexp x) \<le> \<bar>x\<bar>" using lo by (simp add: b)
  show "\<bar>x\<bar> < two (binexp x + 1)" using up by (auto simp: b not_le)
qed

lemma binexp_minus [simp]: "binexp (- x) = binexp x"
  by (simp add: binexp_def)

lemma binexp_le: "x \<noteq> 0 \<Longrightarrow> \<bar>x\<bar> < two e \<Longrightarrow> binexp x < e"
  using binexp_bounds(1) [of x] by (intro two_less_cancel) linarith

lemma binexp_mono:
  assumes "0 < x" "x \<le> y" shows "binexp x \<le> binexp y"
proof -
  have "two (binexp x) \<le> x" "y < two (binexp y + 1)"
    using assms binexp_bounds(1) [of x] binexp_bounds(2) [of y] by auto
  then have "two (binexp x) < two (binexp y + 1)" using assms by linarith
  then show ?thesis by (drule_tac two_less_cancel) simp
qed

section \<open>Rounding is monotone and exact on representable values\<close>

lemma rnd_q_0 [simp]: "rnd_q 0 = 0"
  by (simp add: rnd_q_def)

lemma rnd_q_minus: "rnd_q (- x) = - rnd_q x"
  by (simp add: rnd_q_def ulpexp_def rhe_minus)

lemma rnd_q_grid: "\<exists>m. rnd_q x = of_int m * two (ulpexp x)"
  by (cases "x = 0") (auto simp: rnd_q_def intro: exI [of _ 0])

lemma ulpexp_ge: "-1074 \<le> ulpexp x"
  by (simp add: ulpexp_def)

text \<open>A multiple of the grid of \<open>x\<close> bounds \<open>rnd_q x\<close> as it bounds \<open>x\<close>.\<close>

lemma rnd_q_le_grid:
  assumes "x \<noteq> 0" "x \<le> of_int m * two (ulpexp x)"
  shows "rnd_q x \<le> of_int m * two (ulpexp x)"
proof -
  have "x / two (ulpexp x) \<le> of_int m" using assms by (simp add: pos_divide_le_eq)
  then have "rhe (x / two (ulpexp x)) \<le> m" using rhe_mono rhe_of_int by metis
  then show ?thesis using assms(1) by (simp add: rnd_q_def)
qed

lemma rnd_q_ge_grid:
  assumes "x \<noteq> 0" "of_int m * two (ulpexp x) \<le> x"
  shows "of_int m * two (ulpexp x) \<le> rnd_q x"
proof -
  have "of_int m \<le> x / two (ulpexp x)" using assms by (simp add: pos_le_divide_eq)
  then have "m \<le> rhe (x / two (ulpexp x))" using rhe_mono rhe_of_int by metis
  then show ?thesis using assms(1) by (simp add: rnd_q_def)
qed

lemma two_on_grid:
  assumes "u \<le> e" shows "two e = of_int (2 ^ nat (e - u)) * two u"
proof -
  have "two e = two (e - u) * two u" by (simp flip: two_add)
  then show ?thesis using assms by (simp only: two_int)
qed

lemma rnd_q_le_two: "x \<noteq> 0 \<Longrightarrow> ulpexp x \<le> e \<Longrightarrow> x \<le> two e \<Longrightarrow> rnd_q x \<le> two e"
  using rnd_q_le_grid [of x "2 ^ nat (e - ulpexp x)"] two_on_grid [of "ulpexp x" e] by metis

lemma rnd_q_ge_two: "x \<noteq> 0 \<Longrightarrow> ulpexp x \<le> e \<Longrightarrow> two e \<le> x \<Longrightarrow> two e \<le> rnd_q x"
  using rnd_q_ge_grid [of x "2 ^ nat (e - ulpexp x)"] two_on_grid [of "ulpexp x" e] by metis

lemma rnd_q_nonneg: "0 \<le> x \<Longrightarrow> 0 \<le> rnd_q x"
  using rnd_q_ge_grid [of x 0] by (cases "x = 0") simp_all

lemma rnd_q_mono_pos:
  assumes "0 < x" "x \<le> y" shows "rnd_q x \<le> rnd_q y"
proof (cases "ulpexp x = ulpexp y")
  case True
  have "rhe (x / two (ulpexp y)) \<le> rhe (y / two (ulpexp y))"
    using assms by (intro rhe_mono divide_right_mono) simp_all
  with assms True show ?thesis by (simp add: rnd_q_def)
next
  case False
  let ?b = "binexp y"
  have m: "binexp x \<le> ?b" by (rule binexp_mono [OF assms])
  with False have u: "ulpexp y = ?b - 52" "ulpexp x < ulpexp y" "binexp x < ?b"
    by (auto simp: ulpexp_def max_def split: if_splits)
  have "x < two (binexp x + 1)" using assms binexp_bounds(2) [of x] by simp
  also have "\<dots> \<le> two ?b" using u(3) by (intro two_mono) simp
  finally have "x \<le> two ?b" by simp
  then have "rnd_q x \<le> two ?b"
    using u assms by (intro rnd_q_le_two) simp_all
  also have "two ?b \<le> rnd_q y"
    using u assms binexp_bounds(1) [of y] by (intro rnd_q_ge_two) simp_all
  finally show ?thesis .
qed

lemma rnd_q_mono: "x \<le> y \<Longrightarrow> rnd_q x \<le> rnd_q y"
proof -
  assume xy: "x \<le> y"
  consider "0 < x" | "x \<le> 0" "0 \<le> y" | "y < 0" by linarith
  then show ?thesis
  proof cases
    case 1
    then show ?thesis using xy by (rule rnd_q_mono_pos)
  next
    case 2
    then show ?thesis
      using rnd_q_nonneg [of y] rnd_q_nonneg [of "- x"] by (simp add: rnd_q_minus)
  next
    case 3
    then show ?thesis
      using xy rnd_q_mono_pos [of "- y" "- x"] by (simp add: rnd_q_minus)
  qed
qed

lemma rnd_q_exact:
  assumes "\<bar>m\<bar> < 2 ^ 53" "-1074 \<le> e"
  shows "rnd_q (of_int m * two e) = of_int m * two e"
proof (cases "m = 0")
  case False
  let ?x = "of_int m * two e :: rat"
  have nz: "?x \<noteq> 0" using False by simp
  have "of_int \<bar>m\<bar> < (of_int (2 ^ 53) :: rat)" using assms(1) by linarith
  then have "\<bar>?x\<bar> < two 53 * two e" by (simp add: abs_mult)
  then have "binexp ?x < 53 + e" by (intro binexp_le [OF nz]) (simp only: two_add)
  with assms(2) have u: "ulpexp ?x \<le> e" by (simp add: ulpexp_def)
  then have "?x / two (ulpexp ?x) = of_int (m * 2 ^ nat (e - ulpexp ?x))"
    by (subst two_on_grid [OF u]) simp
  then have "of_int (rhe (?x / two (ulpexp ?x))) = ?x / two (ulpexp ?x)"
    by (simp only: rhe_of_int)
  then show ?thesis using nz by (simp add: rnd_q_def)
qed simp

lemma rnd_q_of_int: "\<bar>m\<bar> < 2 ^ 53 \<Longrightarrow> rnd_q (of_int m) = of_int m"
  using rnd_q_exact [of m 0] by simp

text \<open>Executable form of the two definitions that raise 2 to a negative power.\<close>

lemma two_Fract: "two e = (if 0 \<le> e then of_int (2 ^ nat e) else Fract 1 (2 ^ nat (- e)))"
  by (auto simp: power_int_def Fract_of_int_quotient inverse_eq_divide power_divide)

lemma rnd_q_code [code]:
  "rnd_q x = (if x = 0 then 0
     else let u = ulpexp x; n = rhe (x / (if 0 \<le> u then of_int (2 ^ nat u) else Fract 1 (2 ^ nat (- u))))
          in if 0 \<le> u then of_int (n * 2 ^ nat u) else Fract n (2 ^ nat (- u)))"
  by (auto simp: rnd_q_def two_Fract Let_def Fract_of_int_quotient)

lemma binexp_code [code]:
  "binexp x = (let (p, q) = quotient_of \<bar>x\<bar>; k = bitlen p - bitlen q
               in if (if 0 \<le> k then of_int (2 ^ nat k) else Fract 1 (2 ^ nat (- k))) \<le> \<bar>x\<bar>
                  then k else k - 1)"
  unfolding binexp_def two_Fract ..

section \<open>Representable values\<close>

lemma rnd_FinD: "rnd x = Fin y \<Longrightarrow> y = rnd_q x \<and> \<bar>y\<bar> < 2 ^ 1024"
  by (auto simp: rnd_def Let_def not_le split: if_splits)

lemma rnd_in_range: "\<bar>rnd_q x\<bar> < 2 ^ 1024 \<Longrightarrow> rnd x = Fin (rnd_q x)"
  by (auto simp: rnd_def Let_def abs_less_iff)

lemma f_wf_FinD:
  assumes "f_wf (Fin x)" shows "rnd_q x = x" and "\<bar>x\<bar> < 2 ^ 1024"
  using assms rnd_FinD by fastforce+

lemma f_wf_FinI: "rnd_q x = x \<Longrightarrow> \<bar>x\<bar> < 2 ^ 1024 \<Longrightarrow> f_wf (Fin x)"
  by (simp add: rnd_in_range)

lemma f_wf_of_int: "\<bar>m\<bar> < 2 ^ 53 \<Longrightarrow> f_wf (Fin (of_int m))"
proof (rule f_wf_FinI)
  assume m: "\<bar>m\<bar> < 2 ^ 53"
  then show "rnd_q (of_int m) = of_int m" by (rule rnd_q_of_int)
  have "of_int \<bar>m\<bar> < (of_int (2 ^ 53) :: rat)" using m by linarith
  then show "\<bar>of_int m\<bar> < (2 ^ 1024 :: rat)" by simp
qed

text \<open>Every representable value is a multiple of the smallest positive one.\<close>

lemma f_wf_multiple:
  assumes "f_wf (Fin x)" shows "\<exists>m. x = of_int m * two (-1074)"
proof -
  obtain m where "x = of_int m * two (ulpexp x)"
    using rnd_q_grid [of x] f_wf_FinD(1) [OF assms] by metis
  also have "\<dots> = of_int (m * 2 ^ nat (ulpexp x + 1074)) * two (-1074)"
    using two_on_grid [OF ulpexp_ge [of x]] by simp
  finally show ?thesis by blast
qed

lemma rnd_q_pos_multiple:
  assumes "x = of_int m * two (-1074)" "0 < x" shows "0 < rnd_q x"
proof -
  have "0 < m" using assms by (simp add: zero_less_mult_iff)
  then have "two (-1074) \<le> x" using assms(1) by simp
  then have "rnd_q (two (-1074)) \<le> rnd_q x" by (rule rnd_q_mono)
  moreover have "rnd_q (two (-1074)) = two (-1074)" using rnd_q_exact [of 1 "-1074"] by simp
  ultimately show ?thesis by (metis less_le_trans zero_less_power_int zero_less_numeral)
qed

lemma rnd_pos_cases: "0 < rnd_q x \<Longrightarrow> rnd x = PosInf \<or> rnd x = Fin (rnd_q x)"
  by (simp add: rnd_def Let_def)

lemma rnd_lt_iff: "f_lt (Fin 0) (rnd x) \<longleftrightarrow> 0 < rnd_q x"
  by (auto simp: rnd_def Let_def intro: less_le_trans [of 0 "2 ^ 1024"])

lemma rnd_le_iff: "f_le (rnd x) (Fin 0) \<longleftrightarrow> rnd_q x \<le> 0"
  using rnd_lt_iff [of x] by (auto simp: rnd_def Let_def not_le)

text \<open>Subtraction rounds, but never changes which operand is the larger one.\<close>

lemma f_sub_pos_iff:
  assumes "f_wf (Fin a)" "f_wf (Fin b)"
  shows "f_lt f_zero (f_sub (Fin a) (Fin b)) \<longleftrightarrow> b < a"
proof -
  obtain m n where "a = of_int m * two (-1074)" "b = of_int n * two (-1074)"
    using f_wf_multiple assms by blast
  then have d: "a - b = of_int (m - n) * two (-1074)" by (simp add: left_diff_distrib)
  have "0 < rnd_q (a - b) \<longleftrightarrow> b < a"
  proof
    assume "b < a"
    then show "0 < rnd_q (a - b)" using rnd_q_pos_multiple [OF d] by simp
  next
    assume *: "0 < rnd_q (a - b)"
    have "rnd_q (a - b) \<le> 0" if "a \<le> b" using rnd_q_mono [of "a - b" 0] that by simp
    with * show "b < a" by force
  qed
  then show ?thesis by (simp add: f_sub_def rnd_lt_iff)
qed

lemma f_sub_nonpos_iff:
  assumes "f_wf (Fin a)" "f_wf (Fin b)"
  shows "f_le (f_sub (Fin a) (Fin b)) f_zero \<longleftrightarrow> a \<le> b"
  using f_sub_pos_iff [OF assms] by (auto simp: f_sub_def rnd_le_iff rnd_lt_iff not_less)

text \<open>The difference of two ordered non-negative values is finite and between 0 and the larger.\<close>

lemma f_sub_between:
  assumes "f_wf (Fin a)" "f_wf (Fin b)" "0 \<le> b" "b \<le> a"
  shows "\<exists>d. f_sub (Fin a) (Fin b) = Fin d \<and> 0 \<le> d \<and> d \<le> a"
proof -
  have le: "rnd_q (a - b) \<le> a"
    using rnd_q_mono [of "a - b" a] f_wf_FinD(1) [OF assms(1)] assms(3) by simp
  have ge: "0 \<le> rnd_q (a - b)" using assms(4) by (intro rnd_q_nonneg) simp
  have "\<bar>rnd_q (a - b)\<bar> < 2 ^ 1024" using le ge f_wf_FinD(2) [OF assms(1)] by linarith
  then show ?thesis using le ge by (simp add: f_sub_def rnd_in_range)
qed

lemma f_sub_self: "f_sub (Fin a) (Fin a) = f_zero"
  by (simp add: f_sub_def rnd_def)

lemma f_sub_of_int:
  assumes "\<bar>m - n\<bar> < 2 ^ 53"
  shows "f_sub (Fin (of_int m)) (Fin (of_int n)) = Fin (of_int (m - n))"
proof -
  have "rnd (of_int (m - n)) = Fin (of_int (m - n))" using f_wf_of_int [OF assms] by simp
  then show ?thesis by (simp add: f_sub_def)
qed

lemma f_add_of_int:
  assumes "\<bar>m + n\<bar> < 2 ^ 53"
  shows "f_add (Fin (of_int m)) (Fin (of_int n)) = Fin (of_int (m + n))"
proof -
  have "rnd (of_int (m + n)) = Fin (of_int (m + n))" using f_wf_of_int [OF assms] by simp
  then show ?thesis by simp
qed

text \<open>Whole numbers below 2 ^ 53 are evaluated without rounding.\<close>

lemma rnd_code [code]:
  "rnd x = (case quotient_of x of (p, q) \<Rightarrow>
     if q = 1 \<and> \<bar>p\<bar> < 9007199254740992 then Fin x
     else let y = rnd_q x in if 2 ^ 1024 \<le> y then PosInf else if y \<le> - (2 ^ 1024) then NegInf else Fin y)"
proof (cases "quotient_of x")
  case (Pair p q)
  have "rnd x = Fin x" if "q = 1" "\<bar>p\<bar> < 9007199254740992"
  proof -
    have "x = of_int p" using quotient_of_div [OF Pair] that(1) by simp
    then show ?thesis using f_add_of_int [of p 0] that(2) by simp
  qed
  then show ?thesis unfolding Pair prod.case rnd_def [symmetric] by simp
qed

section \<open>Results are representable\<close>

lemma rnd_q_mantissa: "\<exists>m. rnd_q x = of_int m * two (ulpexp x) \<and> \<bar>m\<bar> \<le> 2 ^ 53"
proof (cases "x = 0")
  case False
  let ?u = "ulpexp x" and ?y = "x / two (ulpexp x)"
  have "\<bar>x\<bar> < two (binexp x + 1)" using binexp_bounds(2) [OF False] .
  also have "\<dots> \<le> two (53 + ?u)" by (intro two_mono) (simp add: ulpexp_def)
  finally have "\<bar>x\<bar> < of_int (2 ^ 53) * two ?u" using two_int [of 53] by (simp add: two_add)
  then have "?y \<le> of_int (2 ^ 53)" "of_int (- (2 ^ 53)) \<le> ?y"
    by (auto simp: pos_divide_le_eq pos_le_divide_eq abs_less_iff)
  then have "rhe ?y \<le> 2 ^ 53" "- (2 ^ 53) \<le> rhe ?y" using rhe_mono rhe_of_int by metis+
  then show ?thesis using False by (intro exI [of _ "rhe ?y"]) (simp add: rnd_q_def abs_le_iff)
qed (simp add: exI [of _ 0])

lemma rnd_q_idem: "rnd_q (rnd_q x) = rnd_q x"
proof -
  obtain m where m: "rnd_q x = of_int m * two (ulpexp x)" "\<bar>m\<bar> \<le> 2 ^ 53" using rnd_q_mantissa by blast
  show ?thesis
  proof (cases "\<bar>m\<bar> = 2 ^ 53")
    case False
    then show ?thesis using m rnd_q_exact [of m "ulpexp x"] ulpexp_ge by simp
  next
    case True
    then obtain s where "m = s * 2 ^ 53" "\<bar>s\<bar> = 1" by (cases "m < 0") (auto intro: exI [of _ "-1"] exI [of _ 1])
    then have "rnd_q x = of_int (s * 2 ^ 52) * two (ulpexp x + 1)" "\<bar>s * 2 ^ 52\<bar> < 2 ^ 53"
      using m(1) by (simp_all add: two_add abs_mult)
    then show ?thesis using rnd_q_exact [of "s * 2 ^ 52" "ulpexp x + 1"] ulpexp_ge [of x] by simp
  qed
qed

lemma f_wf_rnd: "f_wf (rnd x)"
  using rnd_q_idem rnd_FinD by (cases "rnd x") (auto intro!: f_wf_FinI simp del: f_wf.simps(1))

text \<open>The relative error of rounding a value of at least 1.\<close>

lemma rnd_q_rel:
  assumes "1 \<le> x"
  shows "rnd_q x \<le> x * (1 + 1 / 2 ^ 53)"
proof -
  have x0: "x \<noteq> 0" "\<bar>x\<bar> = x" using assms by auto
  have "two 0 < two (binexp x + 1)" using binexp_bounds(2) [OF x0(1)] assms by simp
  then have "0 < binexp x + 1" by (rule two_less_cancel)
  then have u: "ulpexp x = binexp x - 52" by (simp add: ulpexp_def)
  have "two (ulpexp x) * 2 ^ 52 = two (binexp x)"
    using two_add [of "ulpexp x" 52] by (simp add: u)
  then have ulp: "two (ulpexp x) * 2 ^ 52 \<le> x" using binexp_bounds(1) [OF x0(1)] x0(2) by simp
  have "of_int (rhe (x / two (ulpexp x))) \<le> x / two (ulpexp x) + 1 / 2"
    using rhe_error [of "x / two (ulpexp x)"] by linarith
  then have "of_int (rhe (x / two (ulpexp x))) * two (ulpexp x) \<le> (x / two (ulpexp x) + 1 / 2) * two (ulpexp x)"
    by (rule mult_right_mono) simp
  also have "\<dots> = x + two (ulpexp x) / 2" by (simp add: distrib_right)
  also have "\<dots> \<le> x + x / 2 ^ 53" using ulp by (simp add: field_simps)
  finally show ?thesis using x0 by (simp add: rnd_q_def distrib_left)
qed

end
