(* ===== verification/GoTime.thy ===== *)
theory GoTime
  imports GoStrings
begin

text \<open>
  The parts of Go's \<open>time\<close> package the server uses. An instant (\<open>time.Time\<close> in
  UTC) is the number of nanoseconds since the Unix epoch; durations are
  nanoseconds. Dates are those of the proleptic Gregorian calendar, as in
  \<open>Time.Date\<close>, \<open>time.Date\<close>, \<open>Time.AddDate\<close>, \<open>Time.Format("2006-01-02")\<close>,
  \<open>Time.Format(time.RFC3339)\<close> and \<open>time.Parse("2006-01-02", s)\<close>.
\<close>

type_synonym time = int
type_synonym duration = int

definition Second :: duration where "Second = 1000000000"
definition Minute :: duration where "Minute = 60 * Second"
definition Hour :: duration where "Hour = 60 * Minute"
definition Day :: duration where "Day = 24 * Hour"

lemmas duration_defs = Second_def Minute_def Hour_def Day_def

definition After :: "time \<Rightarrow> time \<Rightarrow> bool" where
  "After t u \<longleftrightarrow> u < t"

section \<open>The calendar\<close>

definition is_leap :: "int \<Rightarrow> bool" where
  "is_leap y \<longleftrightarrow> 4 dvd y \<and> (\<not> 100 dvd y \<or> 400 dvd y)"

definition days_in :: "int \<Rightarrow> int \<Rightarrow> int" where
  "days_in m y = (if m = 2 then (if is_leap y then 29 else 28)
                  else if m = 4 \<or> m = 6 \<or> m = 9 \<or> m = 11 then 30 else 31)"

text \<open>Days before the first of January of year \<open>y\<close>, counted from 1 January of year 1.\<close>

definition days_before_year :: "int \<Rightarrow> int" where
  "days_before_year y = 365 * (y - 1) + (y - 1) div 4 - (y - 1) div 100 + (y - 1) div 400"

definition leap_day :: "int \<Rightarrow> int" where
  "leap_day y = (if is_leap y then 1 else 0)"

text \<open>Days of the year before the first of month \<open>m\<close>.\<close>

definition days_before_month :: "int \<Rightarrow> int \<Rightarrow> int" where
  "days_before_month m y =
     (if m \<le> 1 then 0 else if m = 2 then 31
      else leap_day y +
        (if m = 3 then 59 else if m = 4 then 90 else if m = 5 then 120 else if m = 6 then 151
         else if m = 7 then 181 else if m = 8 then 212 else if m = 9 then 243
         else if m = 10 then 273 else if m = 11 then 304 else 334))"

text \<open>Day number (from 1 January of year 1) of a date.\<close>

definition day_number :: "int \<Rightarrow> int \<Rightarrow> int \<Rightarrow> int" where
  "day_number y m d = days_before_year y + days_before_month m y + (d - 1)"

definition valid_date :: "int \<Rightarrow> int \<Rightarrow> int \<Rightarrow> bool" where
  "valid_date y m d \<longleftrightarrow> 1 \<le> m \<and> m \<le> 12 \<and> 1 \<le> d \<and> d \<le> days_in m y"

text \<open>
  The year of a day number: the 400-, 100-, 4- and 1-year cycles are divided out in
  turn, the last year of a 100- and of a 4-year cycle being one day longer.
\<close>

definition year_of_day :: "int \<Rightarrow> int" where
  "year_of_day n =
     (let a = n div 146097; r = n mod 146097;
          b = min (r div 36524) 3; s = r - 36524 * b;
          c = s div 1461; t = s mod 1461;
          e = min (t div 365) 3
      in 400 * a + 100 * b + 4 * c + e + 1)"

text \<open>The month of day \<open>k\<close> (from 0) of year \<open>y\<close>.\<close>

definition month_of_yday :: "int \<Rightarrow> int \<Rightarrow> int" where
  "month_of_yday y k =
     (if k < 31 then 1 else if k < 59 + leap_day y then 2 else if k < 90 + leap_day y then 3
      else if k < 120 + leap_day y then 4 else if k < 151 + leap_day y then 5
      else if k < 181 + leap_day y then 6 else if k < 212 + leap_day y then 7
      else if k < 243 + leap_day y then 8 else if k < 273 + leap_day y then 9
      else if k < 304 + leap_day y then 10 else if k < 334 + leap_day y then 11 else 12)"

definition date_of_day :: "int \<Rightarrow> int \<times> int \<times> int" where
  "date_of_day n =
     (let y = year_of_day n; k = n - days_before_year y; m = month_of_yday y k
      in (y, m, k - days_before_month m y + 1))"

section \<open>Instants and dates\<close>

text \<open>Day number of the Unix epoch, 1 January 1970.\<close>

definition epoch_day :: int where
  "epoch_day = 719162"

definition day_of_time :: "time \<Rightarrow> int" where
  "day_of_time t = t div Day + epoch_day"

definition nanos_of_day :: "time \<Rightarrow> int" where
  "nanos_of_day t = t mod Day"

text \<open>\<open>t.Date()\<close>\<close>

definition date_of :: "time \<Rightarrow> int \<times> int \<times> int" where
  "date_of t = date_of_day (day_of_time t)"

text \<open>
  \<open>time.Date(y, m, d, ...)\<close> normalises a month outside 1..12 into the year and a
  day outside the month into the following (or preceding) days.
\<close>

definition norm_day :: "int \<Rightarrow> int \<Rightarrow> int \<Rightarrow> int" where
  "norm_day y m d = day_number (y + (m - 1) div 12) ((m - 1) mod 12 + 1) d"

definition AddDate :: "time \<Rightarrow> int \<Rightarrow> int \<Rightarrow> int \<Rightarrow> time" where
  "AddDate t years months days =
     (case date_of t of (y, m, d) \<Rightarrow>
        (norm_day (y + years) (m + months) (d + days) - epoch_day) * Day + nanos_of_day t)"

text \<open>The zero value \<open>time.Time{}\<close>: 1 January of year 1, midnight.\<close>

definition zero_time :: time where
  "zero_time = - epoch_day * Day"

section \<open>Formatting and parsing\<close>

text \<open>
  \<open>appendInt(b, y, 4)\<close>: the sign, then the absolute value padded to the width.
\<close>

definition show_width :: "nat \<Rightarrow> int \<Rightarrow> string" where
  "show_width w i = (if i < 0 then ''-'' else []) @ show_padded w (nat \<bar>i\<bar>)"

definition show_date :: "int \<times> int \<times> int \<Rightarrow> string" where
  "show_date ymd = (case ymd of (y, m, d) \<Rightarrow>
     show_width 4 y @ ''-'' @ show_width 2 m @ ''-'' @ show_width 2 d)"

text \<open>\<open>t.Format("2006-01-02")\<close>\<close>

definition FormatDate :: "time \<Rightarrow> string" where
  "FormatDate t = show_date (date_of t)"

text \<open>\<open>t.Format(time.RFC3339)\<close> of a UTC instant\<close>

definition FormatRFC3339 :: "time \<Rightarrow> string" where
  "FormatRFC3339 t =
     (let s = nanos_of_day t div Second
      in FormatDate t @ ''T'' @ show_width 2 (s div 3600) @ '':'' @ show_width 2 (s div 60 mod 60)
           @ '':'' @ show_width 2 (s mod 60) @ ''Z'')"

text \<open>
  \<open>time.Parse("2006-01-02", s)\<close>: four digits, a dash, two digits, a dash, two
  digits and nothing else; then the month and the day are checked against the
  calendar. The result is midnight of that date.
\<close>

definition all_digits :: "string \<Rightarrow> bool" where
  "all_digits s = list_all is_digit s"

definition ParseDate :: "string \<Rightarrow> time option" where
  "ParseDate s =
     (let ys = take 4 s; ms = take 2 (drop 5 s); ds = take 2 (drop 8 s);
          y = int (parse_digits ys); m = int (parse_digits ms); d = int (parse_digits ds)
      in if length s = 10 \<and> all_digits ys \<and> take 1 (drop 4 s) = ''-'' \<and> all_digits ms
            \<and> take 1 (drop 7 s) = ''-'' \<and> all_digits ds \<and> valid_date y m d
         then Some ((day_number y m d - epoch_day) * Day) else None)"

section \<open>The calendar is a bijection between valid dates and day numbers\<close>

lemma div_step:
  assumes "0 < (k :: int)" shows "y div k = (y - 1) div k + (if k dvd y then 1 else 0)"
proof (cases "k dvd y")
  case True
  then obtain q where q: "y = k * q" by blast
  have "(y - 1) div k = q - 1"
    using assms q by (intro int_div_pos_eq [where r = "k - 1"]) (auto simp: algebra_simps)
  with True q assms show ?thesis by simp
next
  case False
  then have "0 < y mod k" "y mod k < k" using assms pos_mod_sign [of k y]
    by (simp_all add: dvd_eq_mod_eq_0 order_less_le [of 0])
  then have "(y - 1) div k = y div k"
    by (intro int_div_pos_eq [where r = "y mod k - 1"]) (auto simp: algebra_simps)
  with False show ?thesis by simp
qed

lemma leap_count_step:
  fixes A B C y :: int
  assumes "A' = A + (if p then 1 else 0)" "B' = B + (if q then 1 else 0)"
    and "C' = C + (if r then 1 else 0)" "r \<Longrightarrow> q" "q \<Longrightarrow> p"
  shows "365 * y + A' - B' + C' =
    365 * (y - 1) + A - B + C + 365 + (if p \<and> (\<not> q \<or> r) then 1 else 0)"
  using assms by (cases p; cases q; cases r) simp_all

lemma days_before_year_step: "days_before_year (y + 1) = days_before_year y + 365 + leap_day y"
proof -
  have "400 dvd y \<Longrightarrow> 100 dvd y" "100 dvd y \<Longrightarrow> 4 dvd y"
    using dvd_trans [of 100 400 y] dvd_trans [of 4 100 y] by simp_all
  then show ?thesis
    unfolding days_before_year_def leap_day_def is_leap_def add_diff_cancel
    by (intro leap_count_step div_step) simp_all
qed

lemma leap_day_bounds: "0 \<le> leap_day y" "leap_day y \<le> 1"
  by (simp_all add: leap_day_def)

lemma days_before_year_mono: "y \<le> y' \<Longrightarrow> days_before_year y \<le> days_before_year y'"
proof (induction y' rule: int_ge_induct)
  case (step i)
  then show ?case using days_before_year_step [of i] leap_day_bounds [of i] by linarith
qed simp

text \<open>A year is determined by the interval of day numbers it covers.\<close>

lemma year_unique:
  assumes "days_before_year y \<le> n" "n < days_before_year (y + 1)"
    and "days_before_year y' \<le> n" "n < days_before_year (y' + 1)"
  shows "y = y'"
proof (rule ccontr)
  assume "y \<noteq> y'"
  then consider "y + 1 \<le> y'" | "y' + 1 \<le> y" by linarith
  then show False using assms days_before_year_mono by cases fastforce+
qed

lemma days_before_year_cycles:
  assumes "0 \<le> b" "b \<le> 3" "0 \<le> c" "c \<le> 24" "0 \<le> e" "e \<le> 3"
  shows "days_before_year (400 * a + 100 * b + 4 * c + e + 1) =
         146097 * a + 36524 * b + 1461 * c + 365 * e"
proof -
  have "(400 * a + 100 * b + 4 * c + e) div 4 = 100 * a + 25 * b + c" using assms by linarith
  moreover have "(400 * a + 100 * b + 4 * c + e) div 100 = 4 * a + b" using assms by linarith
  moreover have "(400 * a + 100 * b + 4 * c + e) div 400 = a" using assms by linarith
  ultimately show ?thesis by (simp add: days_before_year_def)
qed

lemma is_leap_cycles:
  assumes "0 \<le> b" "b \<le> 3" "0 \<le> c" "c \<le> 24"
  shows "is_leap (400 * a + 100 * b + 4 * c + 3 + 1) \<longleftrightarrow> c < 24 \<or> b = 3"
proof -
  have "400 * a + 100 * b + 4 * c + 3 + 1 = 100 * (4 * a + b) + 4 * (c + 1)" by simp
  moreover have "100 dvd 4 * (c + 1) \<longleftrightarrow> c = 24" using assms by presburger
  ultimately have d100: "100 dvd 400 * a + 100 * b + 4 * c + 3 + 1 \<longleftrightarrow> c = 24"
    by (metis dvd_add_right_iff dvd_triv_left)
  have d4: "4 dvd 400 * a + 100 * b + 4 * c + 3 + 1" by presburger
  have "400 dvd 400 * a + 100 * b + 4 * 24 + 3 + 1 \<longleftrightarrow> 100 * 4 dvd 100 * (4 * a + b + 1)"
    by (simp add: algebra_simps)
  also have "\<dots> \<longleftrightarrow> 4 dvd 4 * a + b + 1" by (subst dvd_mult_cancel_left) simp
  also have "\<dots> \<longleftrightarrow> b = 3" using assms by presburger
  finally have "400 dvd 400 * a + 100 * b + 4 * 24 + 3 + 1 \<longleftrightarrow> b = 3" .
  with d100 d4 assms show ?thesis by (auto simp: is_leap_def)
qed

lemma year_of_day_bounds:
  "days_before_year (year_of_day n) \<le> n" "n < days_before_year (year_of_day n + 1)"
proof -
  define a where "a = n div 146097"
  define r where "r = n mod 146097"
  define b where "b = min (r div 36524) 3"
  define s where "s = r - 36524 * b"
  define c where "c = s div 1461"
  define t where "t = s mod 1461"
  define e where "e = min (t div 365) 3"
  have y: "year_of_day n = 400 * a + 100 * b + 4 * c + e + 1"
    unfolding year_of_day_def Let_def a_def r_def b_def s_def c_def t_def e_def by (rule refl)
  have n: "n = 146097 * a + r" "0 \<le> r" "r < 146097" by (simp_all add: a_def r_def)
  then have b: "0 \<le> b" "b \<le> 3" "0 \<le> s" "s \<le> 36524" "b < 3 \<longrightarrow> s \<le> 36523"
    unfolding b_def s_def by (auto simp: min_def)
  then have c: "0 \<le> c" "c \<le> 24" "s = 1461 * c + t" "0 \<le> t" "t < 1461"
    unfolding c_def t_def by auto
  then have e: "0 \<le> e" "e \<le> 3" "365 * e \<le> t" "t < 365 * (e + 1) \<or> e = 3"
    unfolding e_def by (auto simp: min_def)
  have d: "days_before_year (year_of_day n) = 146097 * a + 36524 * b + 1461 * c + 365 * e"
    unfolding y using b c e by (intro days_before_year_cycles) auto
  then show "days_before_year (year_of_day n) \<le> n" using n c e by (simp add: s_def)
  have "t < 365 + 365 * e + leap_day (year_of_day n)"
  proof (cases "e = 3")
    case True
    then have "leap_day (year_of_day n) = (if c < 24 \<or> b = 3 then 1 else 0)"
      unfolding y leap_day_def using is_leap_cycles [of b c a] b c by simp
    then show ?thesis using True b c by auto
  next
    case False
    with e have "t < 365 * (e + 1)" by simp
    then show ?thesis using leap_day_bounds(1) [of "year_of_day n"] by (simp add: algebra_simps)
  qed
  then show "n < days_before_year (year_of_day n + 1)"
    using d n c e by (simp add: days_before_year_step s_def)
qed

lemma year_of_day_eqI:
  "days_before_year y \<le> n \<Longrightarrow> n < days_before_year (y + 1) \<Longrightarrow> year_of_day n = y"
  using year_of_day_bounds year_unique by blast

lemma month_of_yday_inverse:
  assumes "valid_date y m d"
  shows "month_of_yday y (days_before_month m y + (d - 1)) = m"
    and "0 \<le> days_before_month m y + (d - 1)"
    and "days_before_month m y + (d - 1) < 365 + leap_day y"
proof -
  have l: "leap_day y = 0 \<and> days_in 2 y = 28 \<or> leap_day y = 1 \<and> days_in 2 y = 29"
    by (simp add: leap_day_def days_in_def)
  have "m \<in> {1, 2, 3, 4, 5, 6, 7, 8, 9, 10, 11, 12}"
    using assms unfolding valid_date_def by (simp, presburger)
  then have "month_of_yday y (days_before_month m y + (d - 1)) = m \<and>
      0 \<le> days_before_month m y + (d - 1) \<and>
      days_before_month m y + (d - 1) < 365 + leap_day y"
    using assms l unfolding valid_date_def
    by (elim insertE; simp add: month_of_yday_def days_before_month_def days_in_def
        split: if_splits)
  then show "month_of_yday y (days_before_month m y + (d - 1)) = m"
    and "0 \<le> days_before_month m y + (d - 1)"
    and "days_before_month m y + (d - 1) < 365 + leap_day y" by auto
qed

lemma month_of_yday_cases:
  assumes "0 \<le> k" "k < 365 + leap_day y" "month_of_yday y k = m"
  shows "1 \<le> m \<and> m \<le> 12 \<and> days_before_month m y \<le> k \<and> k < days_before_month m y + days_in m y"
proof -
  have l: "leap_day y = 0 \<and> days_in 2 y = 28 \<or> leap_day y = 1 \<and> days_in 2 y = 29"
    by (simp add: leap_day_def days_in_def)
  have "m \<in> {1, 2, 3, 4, 5, 6, 7, 8, 9, 10, 11, 12}"
    unfolding assms(3) [symmetric] month_of_yday_def by simp
  then show ?thesis
    using assms l
    by (elim insertE; simp add: month_of_yday_def days_before_month_def days_in_def
        split: if_splits)
qed

lemma month_of_yday_valid:
  assumes "0 \<le> k" "k < 365 + leap_day y"
  shows "valid_date y (month_of_yday y k) (k - days_before_month (month_of_yday y k) y + 1)"
  using month_of_yday_cases [OF assms refl] by (simp add: valid_date_def)

text \<open>Reading a date off its day number gives the date back, and conversely.\<close>

lemma date_of_day_number:
  assumes "valid_date y m d" shows "date_of_day (day_number y m d) = (y, m, d)"
proof -
  have "year_of_day (day_number y m d) = y"
    using month_of_yday_inverse [OF assms]
    by (intro year_of_day_eqI) (auto simp: day_number_def days_before_year_step)
  then show ?thesis
    using month_of_yday_inverse(1) [OF assms]
    by (simp add: date_of_day_def Let_def day_number_def)
qed

lemma date_of_day_valid:
  assumes "date_of_day n = (y, m, d)"
  shows "valid_date y m d" and "day_number y m d = n"
proof -
  let ?y = "year_of_day n" and ?k = "n - days_before_year (year_of_day n)"
  have k: "0 \<le> ?k" "?k < 365 + leap_day ?y"
    using year_of_day_bounds [of n] by (simp_all add: days_before_year_step)
  have "y = ?y" "m = month_of_yday ?y ?k" "d = ?k - days_before_month m y + 1"
    using assms by (auto simp: date_of_day_def Let_def)
  then show "valid_date y m d" "day_number y m d = n"
    using month_of_yday_valid [OF k] by (simp_all add: day_number_def)
qed

section \<open>Arithmetic on dates\<close>

lemma Day_pos [simp]: "0 < Day"
  by (simp add: duration_defs)

lemma Day_nonzero [simp]: "Day \<noteq> 0"
  by (simp add: duration_defs)

lemma day_of_time_midnight [simp]: "day_of_time ((n - epoch_day) * Day) = n"
  by (simp add: day_of_time_def)

lemma time_split: "t = (day_of_time t - epoch_day) * Day + nanos_of_day t"
  by (simp add: day_of_time_def nanos_of_day_def)

lemma norm_day_valid: "1 \<le> m \<Longrightarrow> m \<le> 12 \<Longrightarrow> norm_day y m d = day_number y m d"
  by (simp add: norm_day_def)

text \<open>Adding days moves the instant by that many days.\<close>

lemma AddDate_days: "AddDate t 0 0 k = t + k * Day"
proof -
  obtain y m d where ymd: "date_of_day (day_of_time t) = (y, m, d)" by (metis prod_cases3)
  then have "1 \<le> m" "m \<le> 12" "day_number y m d = day_of_time t"
    using date_of_day_valid [OF ymd] by (auto simp: valid_date_def)
  then have "AddDate t 0 0 k = (day_of_time t + k - epoch_day) * Day + nanos_of_day t"
    using ymd by (simp add: AddDate_def date_of_def norm_day_valid) (simp add: day_number_def)
  then show ?thesis using time_split [of t] by (simp add: algebra_simps)
qed

lemma valid_date_next_year:
  assumes "valid_date y m d" "\<not> (m = 2 \<and> d = 29)" shows "valid_date (y + 1) m d"
  using assms by (auto simp: valid_date_def days_in_def split: if_splits)

lemma leap_then_common: "valid_date y 2 29 \<Longrightarrow> \<not> is_leap (y + 1)"
proof -
  assume "valid_date y 2 29"
  then have "4 dvd y" by (auto simp: valid_date_def days_in_def is_leap_def split: if_splits)
  then have "\<not> 4 dvd y + 1" by presburger
  then show ?thesis by (simp add: is_leap_def)
qed

text \<open>
  Adding a year keeps month and day, except that 29 February becomes 1 March.
\<close>

lemma AddDate_year:
  assumes "date_of t = (y, m, d)"
  shows "date_of (AddDate t 1 0 0) = (if m = 2 \<and> d = 29 then (y + 1, 3, 1) else (y + 1, m, d))"
proof -
  have v: "valid_date y m d" using assms date_of_day_valid by (simp add: date_of_def)
  then have m: "1 \<le> m" "m \<le> 12" by (auto simp: valid_date_def)
  have "0 \<le> nanos_of_day t" "nanos_of_day t < Day" by (simp_all add: nanos_of_day_def)
  then have "day_of_time (AddDate t 1 0 0) = day_number (y + 1) m d"
    using assms m by (simp add: AddDate_def norm_day_valid day_of_time_def)
  then have *: "date_of (AddDate t 1 0 0) = date_of_day (day_number (y + 1) m d)"
    by (simp add: date_of_def)
  show ?thesis
  proof (cases "m = 2 \<and> d = 29")
    case True
    then have "day_number (y + 1) m d = day_number (y + 1) 3 1"
      using v leap_then_common [of y]
      by (simp add: day_number_def days_before_month_def leap_day_def)
    moreover have "valid_date (y + 1) 3 1" by (simp add: valid_date_def days_in_def)
    ultimately show ?thesis using * True date_of_day_number by simp
  next
    case False
    then show ?thesis using * date_of_day_number [OF valid_date_next_year [OF v]] by auto
  qed
qed

section \<open>Parsing and printing a date\<close>

lemma digit_val_less: "is_digit c \<Longrightarrow> digit_val c < 10"
  by (auto simp: digit_val_def is_digit_def)

lemma digit_char_val:
  assumes "is_digit c"
  shows "digit_char (digit_val c) = c"
proof -
  have "(of_char (digit_char (digit_val c)) :: nat) = of_char c"
    using of_char_digit [OF digit_val_less [OF assms]] assms by (auto simp: digit_val_def is_digit_def)
  then show ?thesis by simp
qed

lemma digits_split:
  assumes "(a :: nat) < 10" "b < 10" "10 * x + a = 10 * y + b"
  shows "x = y \<and> a = b"
proof -
  have "(10 * x + a) div 10 = (10 * y + b) div 10" using assms(3) by simp
  with assms(1,2) have "x = y" by simp
  with assms(3) show ?thesis by simp
qed

lemma parse_digits_inj:
  assumes "length s = length s'" "all_digits s" "all_digits s'" "parse_digits s = parse_digits s'"
  shows "s = s'"
  using assms
proof (induction s arbitrary: s' rule: rev_induct)
  case (snoc c s)
  then obtain t c' where s': "s' = t @ [c']" by (cases s' rule: rev_cases) auto
  have "digit_val c < 10" "digit_val c' < 10"
    using snoc.prems s' by (auto simp: all_digits_def intro: digit_val_less)
  moreover have "10 * parse_digits s + digit_val c = 10 * parse_digits t + digit_val c'"
    using snoc.prems(4) s' by (simp add: parse_digits_snoc)
  ultimately have "parse_digits s = parse_digits t" "digit_val c = digit_val c'" using digits_split by blast+
  moreover have "is_digit c" "is_digit c'" using snoc.prems s' by (auto simp: all_digits_def)
  ultimately show ?case
    using snoc s' by (auto simp: all_digits_def) (metis digit_char_val)
qed simp

lemma parse_digits_bound: "all_digits s \<Longrightarrow> parse_digits s < 10 ^ length s"
proof (induction s rule: rev_induct)
  case (snoc c s)
  then have "parse_digits s < 10 ^ length s" "digit_val c < 10"
    by (auto simp: all_digits_def intro: digit_val_less)
  then show ?case by (simp add: parse_digits_snoc)
qed (simp add: parse_digits_def)

lemma all_digits_show_padded [simp]: "all_digits (show_padded w n)"
  using show_padded_digits by (auto simp: all_digits_def list_all_iff)

lemma show_padded_parse:
  assumes "all_digits s" "s \<noteq> []" shows "show_padded (length s) (parse_digits s) = s"
  using assms by (intro parse_digits_inj) (simp_all add: length_show_padded parse_digits_bound)

lemma length_show_date:
  assumes "0 \<le> y" "y \<le> 9999" "1 \<le> m" "m \<le> 12" "1 \<le> d" "d \<le> 31"
  shows "length (show_width 4 y) = 4" "length (show_width 2 m) = 2" "length (show_width 2 d) = 2"
  using assms by (simp_all add: show_width_def length_show_padded nat_less_iff)

text \<open>A printed date parses back to the midnight that starts it.\<close>

lemma ParseDate_show_date:
  assumes "valid_date y m d" "0 \<le> y" "y \<le> 9999"
  shows "ParseDate (show_date (y, m, d)) = Some ((day_number y m d - epoch_day) * Day)"
proof -
  have md: "1 \<le> m" "m \<le> 12" "1 \<le> d" "d \<le> 31"
    using assms(1) by (auto simp: valid_date_def days_in_def split: if_splits)
  note len = length_show_date [OF assms(2,3) md]
  have w: "show_width 4 y = show_padded 4 (nat y)" "show_width 2 m = show_padded 2 (nat m)"
    "show_width 2 d = show_padded 2 (nat d)"
    using assms md by (simp_all add: show_width_def)
  show ?thesis
    using assms md len
    by (simp add: ParseDate_def show_date_def w)
qed

lemma FormatDate_midnight:
  "valid_date y m d \<Longrightarrow> FormatDate ((day_number y m d - epoch_day) * Day) = show_date (y, m, d)"
  by (simp add: FormatDate_def date_of_def date_of_day_number)

text \<open>Only strings that are printed dates parse.\<close>

lemma ParseDate_SomeD:
  assumes "ParseDate s = Some t"
  shows "\<exists>y m d. valid_date y m d \<and> 0 \<le> y \<and> y \<le> 9999 \<and> s = show_date (y, m, d)
           \<and> date_of t = (y, m, d) \<and> nanos_of_day t = 0"
proof -
  let ?ys = "take 4 s" and ?ms = "take 2 (drop 5 s)" and ?ds = "take 2 (drop 8 s)"
  let ?y = "int (parse_digits ?ys)" and ?m = "int (parse_digits ?ms)"
  let ?d = "int (parse_digits ?ds)"
  have l: "length s = 10" and dig: "all_digits ?ys" "all_digits ?ms" "all_digits ?ds"
    and dash: "take 1 (drop 4 s) = ''-''" "take 1 (drop 7 s) = ''-''"
    and v: "valid_date ?y ?m ?d" and t: "t = (day_number ?y ?m ?d - epoch_day) * Day"
    using assms by (auto simp: ParseDate_def Let_def split: if_splits)
  have "drop 4 s = take 1 (drop 4 s) @ drop 5 s" "drop 5 s = ?ms @ drop 7 s"
    "drop 7 s = take 1 (drop 7 s) @ drop 8 s" "drop 8 s = ?ds"
    using append_take_drop_id [of 1 "drop 4 s"] append_take_drop_id [of 2 "drop 5 s"]
      append_take_drop_id [of 1 "drop 7 s"] l by simp_all
  then have "s = ?ys @ take 1 (drop 4 s) @ ?ms @ take 1 (drop 7 s) @ ?ds"
    by (metis append_take_drop_id)
  then have s: "s = ?ys @ ''-'' @ ?ms @ ''-'' @ ?ds" using dash by simp
  have "show_padded 4 (parse_digits ?ys) = ?ys" "show_padded 2 (parse_digits ?ms) = ?ms"
    "show_padded 2 (parse_digits ?ds) = ?ds"
    using show_padded_parse [OF dig(1)] show_padded_parse [OF dig(2)] show_padded_parse [OF dig(3)] l
    by (cases "s = []"; simp)+
  then have "s = show_date (?y, ?m, ?d)" using s by (simp add: show_date_def show_width_def)
  moreover have "?y \<le> 9999" using parse_digits_bound [OF dig(1)] l by simp
  ultimately show ?thesis
    using v t by (auto simp: date_of_def date_of_day_number nanos_of_day_def)
qed

end
