(* ===== verification/Models.thy ===== *)
theory Models
  imports GoFloat GoTime
begin

text \<open>
  The data model of the server (\<open>server/internal/models/deposit.go\<close>): one record
  per struct, fields in the order of the source and named
  \<open>Struct_Field\<close>. A pointer field is an \<open>option\<close> (\<open>None\<close> for \<open>nil\<close>), a
  slice a list, a \<open>float64\<close> a \<open>float64\<close> of GoFloat, a \<open>time.Time\<close> a \<open>time\<close>.
  \<open>zero_S\<close> is Go's zero value \<open>S{}\<close>.
\<close>

section \<open>String types with named constants\<close>

text \<open>
  The lifecycle state is a Go string type; the server only ever stores one of the
  ten constants. \<open>StateOther\<close> stands for any other string, in particular for the
  empty string that \<open>StateForIdentityUpdate\<close> returns besides \<open>false\<close>.
\<close>

datatype LifecycleState =
    StateRequested | StateIdentified | StateFunded | StatePledged | StateReleased
  | StateClaimed | StateSettleProposed | StateDisputed | StatePartiallyReleased | StateClosed
  | StateOther string

fun state_string :: "LifecycleState \<Rightarrow> string" where
  "state_string StateRequested = ''REQUESTED''"
| "state_string StateIdentified = ''IDENTIFIED''"
| "state_string StateFunded = ''FUNDED''"
| "state_string StatePledged = ''PLEDGED''"
| "state_string StateReleased = ''RELEASED''"
| "state_string StateClaimed = ''CLAIMED''"
| "state_string StateSettleProposed = ''SETTLE_PROPOSED''"
| "state_string StateDisputed = ''DISPUTED''"
| "state_string StatePartiallyReleased = ''PARTIALLY_RELEASED''"
| "state_string StateClosed = ''CLOSED''"
| "state_string (StateOther s) = s"

definition known_states :: "LifecycleState list" where
  "known_states = [StateRequested, StateIdentified, StateFunded, StatePledged, StateReleased,
     StateClaimed, StateSettleProposed, StateDisputed, StatePartiallyReleased, StateClosed]"

text \<open>The conversion \<open>models.LifecycleState(s)\<close> of a stored string.\<close>

definition state_of_string :: "string \<Rightarrow> LifecycleState" where
  "state_of_string s =
     (case List.find (\<lambda>x. state_string x = s) known_states of Some x \<Rightarrow> x | None \<Rightarrow> StateOther s)"

definition state_wf :: "LifecycleState \<Rightarrow> bool" where
  "state_wf x \<longleftrightarrow> state_of_string (state_string x) = x"

lemma state_of_string_string: "x \<in> set known_states \<Longrightarrow> state_of_string (state_string x) = x"
  unfolding known_states_def by (elim set_ConsD [THEN disjE]) (auto simp: state_of_string_def known_states_def)

lemma state_string_of_string [simp]: "state_string (state_of_string s) = s"
  by (auto simp: state_of_string_def find_Some_iff split: option.splits)

type_synonym ClaimCategory = string
type_synonym DepositType = string
type_synonym EIDStatus = string
type_synonym TrustAccountType = string
type_synonym TransportProtocol = string
type_synonym EBICSVersion = string
type_synonym EBICSSignatureClass = string

definition ClaimCategoryUtilityArrears :: ClaimCategory where
  "ClaimCategoryUtilityArrears = ''UTILITY_ARREARS''"

definition DepositTypeCash :: DepositType where
  "DepositTypeCash = ''CASH_EQUIVALENT''"
definition DepositTypeBankGuarantee :: DepositType where
  "DepositTypeBankGuarantee = ''BANK_GUARANTEE''"
definition DepositTypeInsurance :: DepositType where
  "DepositTypeInsurance = ''INSURANCE''"

definition EIDNotStarted :: EIDStatus where "EIDNotStarted = ''NOT_STARTED''"
definition EIDInProgress :: EIDStatus where "EIDInProgress = ''IN_PROGRESS''"
definition EIDVerified :: EIDStatus where "EIDVerified = ''VERIFIED''"
definition EIDFailed :: EIDStatus where "EIDFailed = ''FAILED''"

text \<open>The string literal \<open>"BGB \<section> 551"\<close>, the section sign as its two UTF-8 bytes.\<close>

definition BGB_551 :: string where
  "BGB_551 = ''BGB '' @ [CHR 0xC2, CHR 0xA7] @ '' 551''"

section \<open>The deposit document\<close>

record UtilityReservation =
  UtilityReservation_ReleasedAmount :: float64
  UtilityReservation_ReservedAmount :: float64
  UtilityReservation_MonthlyAdvance :: float64
  UtilityReservation_BillingPeriodEnd :: string
  UtilityReservation_ResolutionDeadline :: string
  UtilityReservation_SettlementRef :: string
  UtilityReservation_ActualCost :: float64
  UtilityReservation_TotalAdvancePaid :: float64
  UtilityReservation_ResolvedAt :: string

record ClaimItem =
  ClaimItem_ID :: string
  ClaimItem_Category :: ClaimCategory
  ClaimItem_Description :: string
  ClaimItem_AmountClaimed :: float64
  ClaimItem_EvidenceRefs :: "string list"
  ClaimItem_RoomOrArea :: string

record Settlement =
  Settlement_InitiatedBy :: string
  Settlement_InitiatedAt :: time
  Settlement_LastProposedBy :: string
  Settlement_LastProposedAt :: time
  Settlement_TenancyEndDate :: string
  Settlement_HandoverDate :: string
  Settlement_HandoverProtocolRef :: string
  Settlement_ClaimItems :: "ClaimItem list"
  Settlement_TotalClaimed :: float64
  Settlement_ProposedTenantRefund :: float64
  Settlement_ProposedLandlordRetention :: float64
  Settlement_ResponseDeadline :: string
  Settlement_EscalationType :: string
  Settlement_ExternalAuthority :: string
  Settlement_ExternalReference :: string
  Settlement_AgreedTenantRefund :: float64
  Settlement_AgreedLandlordRetention :: float64

definition zero_Settlement :: Settlement where
  "zero_Settlement = \<lparr>
     Settlement_InitiatedBy = [], Settlement_InitiatedAt = zero_time,
     Settlement_LastProposedBy = [], Settlement_LastProposedAt = zero_time,
     Settlement_TenancyEndDate = [], Settlement_HandoverDate = [],
     Settlement_HandoverProtocolRef = [], Settlement_ClaimItems = [],
     Settlement_TotalClaimed = f_zero, Settlement_ProposedTenantRefund = f_zero,
     Settlement_ProposedLandlordRetention = f_zero, Settlement_ResponseDeadline = [],
     Settlement_EscalationType = [], Settlement_ExternalAuthority = [],
     Settlement_ExternalReference = [], Settlement_AgreedTenantRefund = f_zero,
     Settlement_AgreedLandlordRetention = f_zero \<rparr>"

record Address =
  Address_Street :: string
  Address_ZIP :: string
  Address_City :: string
  Address_Country :: string

record WalletMetadata =
  WalletMetadata_Issuer :: string
  WalletMetadata_IssuerID :: string
  WalletMetadata_WalletProvider :: string
  WalletMetadata_CredentialType :: string
  WalletMetadata_CredentialFormat :: string
  WalletMetadata_AssuranceLevel :: string
  WalletMetadata_PresentationID :: string
  WalletMetadata_IssuingCountry :: string
  WalletMetadata_VerifiedAt :: string
  WalletMetadata_ExpiresAt :: string

record Tenant =
  Tenant_FirstName :: string
  Tenant_LastName :: string
  Tenant_Email :: string
  Tenant_TaxID :: string
  Tenant_EIDStatus :: EIDStatus
  Tenant_WalletMetadata :: "WalletMetadata option"
  Tenant_Address :: "Address option"

record Landlord =
  Landlord_Name :: string
  Landlord_Type :: string
  Landlord_IBAN :: string

record Property =
  Property_Address :: Address
  Property_UnitID :: string

record HistoryEntry =
  HistoryEntry_State :: LifecycleState
  HistoryEntry_Timestamp :: time
  HistoryEntry_Actor :: string
  HistoryEntry_Comment :: string
  HistoryEntry_Signature :: string

record InstallmentScheduleEntry =
  InstallmentScheduleEntry_InstallmentNumber :: int
  InstallmentScheduleEntry_DueDate :: string
  InstallmentScheduleEntry_PaidDate :: string
  InstallmentScheduleEntry_Amount :: float64

record InstallmentPlan =
  InstallmentPlan_TotalInstallments :: int
  InstallmentPlan_InstallmentAmount :: float64
  InstallmentPlan_Schedule :: "InstallmentScheduleEntry list"

record DepositData =
  DepositData_Amount :: float64
  DepositData_Currency :: string
  DepositData_Type :: DepositType
  DepositData_LifecycleState :: LifecycleState
  DepositData_History :: "HistoryEntry list"
  DepositData_InstallmentPlan :: "InstallmentPlan option"

record Pledge =
  Pledge_PledgeDate :: string
  Pledge_StatutoryBasis :: string
  Pledge_IsConfirmedByBank :: bool

record InterestRateEntry =
  InterestRateEntry_Rate :: float64
  InterestRateEntry_EffectiveFrom :: string
  InterestRateEntry_EffectiveTo :: string

record Trusteeship =
  Trusteeship_AccountType :: TrustAccountType
  Trusteeship_TrusteeEntity :: string
  Trusteeship_TrustAccountIBAN :: string
  Trusteeship_InsolvencyProtectionConfirmed :: bool
  Trusteeship_InsolvencyProtectionConfirmedDate :: string
  Trusteeship_StatutoryBasis :: string
  Trusteeship_InterestRate :: float64
  Trusteeship_InterestRateHistory :: "InterestRateEntry list"
  Trusteeship_AccruedInterest :: float64
  Trusteeship_InterestCalculatedAt :: string
  Trusteeship_TotalBalance :: float64

record Provider =
  Provider_ProviderType :: string
  Provider_ExecutingEntity :: string
  Provider_BrandName :: string
  Provider_ProviderID :: string
  Provider_InsurancePolicyNumber :: string

record Meta =
  Meta_Version :: string
  Meta_Timestamp :: time
  Meta_ExternalID :: string

record EBICSBTF =
  EBICSBTF_ServiceName :: string
  EBICSBTF_ServiceOption :: string
  EBICSBTF_Scope :: string
  EBICSBTF_Container :: string
  EBICSBTF_MsgName :: string
  EBICSBTF_MsgVersion :: string

record EBICSMetadata =
  EBICSMetadata_HostID :: string
  EBICSMetadata_PartnerID :: string
  EBICSMetadata_UserID :: string
  EBICSMetadata_EBICSVersion :: EBICSVersion
  EBICSMetadata_BankURL :: string
  EBICSMetadata_OrderType :: string
  EBICSMetadata_BTF :: "EBICSBTF option"
  EBICSMetadata_SignatureClass :: EBICSSignatureClass
  EBICSMetadata_BankBIC :: string

record Transport =
  Transport_Protocol :: TransportProtocol
  Transport_EBICSMetadata :: "EBICSMetadata option"

record Deposit =
  Deposit_ID :: string
  Deposit_Meta :: Meta
  Deposit_Tenant :: Tenant
  Deposit_Landlord :: Landlord
  Deposit_Property :: Property
  Deposit_Deposit :: DepositData
  Deposit_Pledge :: "Pledge option"
  Deposit_Trusteeship :: "Trusteeship option"
  Deposit_Provider :: "Provider option"
  Deposit_Transport :: "Transport option"
  Deposit_Settlement :: "Settlement option"
  Deposit_UtilityReservation :: "UtilityReservation option"

abbreviation lifecycle :: "Deposit \<Rightarrow> LifecycleState" where
  "lifecycle d \<equiv> DepositData_LifecycleState (Deposit_Deposit d)"

abbreviation history :: "Deposit \<Rightarrow> HistoryEntry list" where
  "history d \<equiv> DepositData_History (Deposit_Deposit d)"

section \<open>Requests of the action endpoints\<close>

record IdentityUpdateRequest =
  IdentityUpdateRequest_EIDStatus :: EIDStatus
  IdentityUpdateRequest_VerificationTimestamp :: string
  IdentityUpdateRequest_ProviderReference :: string
  IdentityUpdateRequest_WalletMetadata :: "WalletMetadata option"

record PledgeRequest =
  PledgeRequest_PledgeDate :: string
  PledgeRequest_IsConfirmedByBank :: bool
  PledgeRequest_ProviderReference :: string

record ClaimRequest =
  ClaimRequest_ClaimAmount :: float64
  ClaimRequest_Reason :: string
  ClaimRequest_EvidenceURLs :: "string list"

record ClaimItemInput =
  ClaimItemInput_Category :: ClaimCategory
  ClaimItemInput_Description :: string
  ClaimItemInput_AmountClaimed :: float64
  ClaimItemInput_EvidenceRefs :: "string list"
  ClaimItemInput_RoomOrArea :: string

record SettleRequest =
  SettleRequest_InitiatedBy :: string
  SettleRequest_TenancyEndDate :: string
  SettleRequest_HandoverDate :: string
  SettleRequest_HandoverProtocolRef :: string
  SettleRequest_ClaimItems :: "ClaimItemInput list"
  SettleRequest_ProposedTenantRefund :: float64
  SettleRequest_ProposedLandlordRetention :: float64

record SettleAcceptRequest =
  SettleAcceptRequest_AcceptedBy :: string

record DisputeRequest =
  DisputeRequest_EscalatedBy :: string
  DisputeRequest_EscalationType :: string
  DisputeRequest_ExternalReference :: string
  DisputeRequest_Statement :: string

record DisputeResolveRequest =
  DisputeResolveRequest_AgreedTenantRefund :: float64
  DisputeResolveRequest_AgreedLandlordRetention :: float64
  DisputeResolveRequest_ResolutionReference :: string

record PartialReleaseRequest =
  PartialReleaseRequest_ReleasedAmount :: float64
  PartialReleaseRequest_ReservedAmount :: float64
  PartialReleaseRequest_MonthlyAdvance :: float64
  PartialReleaseRequest_BillingPeriodEnd :: string

record UtilitySettleRequest =
  UtilitySettleRequest_SettlementRef :: string
  UtilitySettleRequest_ActualCost :: float64
  UtilitySettleRequest_TotalAdvancePaid :: float64

record WebhookEvent =
  WebhookEvent_EventType :: string
  WebhookEvent_DepositID :: string
  WebhookEvent_NewState :: LifecycleState
  WebhookEvent_Timestamp :: time
  WebhookEvent_CredentialOfferURL :: string

end
