(* ===== verification/StateMachine.thy ===== *)
theory StateMachine
  imports Models
begin

text \<open>
  The lifecycle state machine of a deposit
  (\<open>server/internal/statemachine/transitions.go\<close>): the transition table, the two
  functions the handlers call and the mapping of an eID outcome to a state. The
  locale \<open>ranked_machine\<close> is the contract the rest of the development uses: every
  step lowers a rank, so that a history of allowed steps has bounded length.
\<close>

section \<open>The transition table\<close>

fun validTransitions :: "LifecycleState \<Rightarrow> LifecycleState list option" where
  "validTransitions StateRequested = Some [StateIdentified]"
| "validTransitions StateIdentified = Some [StateFunded, StatePledged]"
| "validTransitions StateFunded = Some [StatePledged, StateSettleProposed]"
| "validTransitions StatePledged =
     Some [StateReleased, StateClaimed, StateSettleProposed, StatePartiallyReleased]"
| "validTransitions StateClaimed = Some [StateReleased]"
| "validTransitions StateReleased = Some [StateClosed]"
| "validTransitions StatePartiallyReleased = Some [StateSettleProposed, StateClosed]"
| "validTransitions StateSettleProposed = Some [StateClosed, StateDisputed]"
| "validTransitions StateDisputed = Some [StateClosed]"
| "validTransitions StateClosed = Some []"
| "validTransitions (StateOther s) = None"

record ErrInvalidTransition =
  ErrInvalidTransition_From :: LifecycleState
  ErrInvalidTransition_To :: LifecycleState

text \<open>\<open>(*ErrInvalidTransition).Error\<close>\<close>

definition ErrInvalidTransition_Error :: "ErrInvalidTransition \<Rightarrow> string" where
  "ErrInvalidTransition_Error e =
     ''transition from '' @ state_string (ErrInvalidTransition_From e) @ '' to '' @
     state_string (ErrInvalidTransition_To e) @ '' is not allowed''"

text \<open>The loop of \<open>CanTransition\<close> over the targets.\<close>

fun target_in :: "LifecycleState list \<Rightarrow> LifecycleState \<Rightarrow> bool" where
  "target_in [] to = False"
| "target_in (t # ts) to = (if t = to then True else target_in ts to)"

definition CanTransition :: "LifecycleState \<Rightarrow> LifecycleState \<Rightarrow> bool" where
  "CanTransition from to =
     (case validTransitions from of None \<Rightarrow> False | Some targets \<Rightarrow> target_in targets to)"

definition Transition ::
  "LifecycleState \<Rightarrow> LifecycleState \<Rightarrow> LifecycleState \<times> ErrInvalidTransition option" where
  "Transition current next =
     (if \<not> CanTransition current next
      then (current, Some \<lparr>ErrInvalidTransition_From = current, ErrInvalidTransition_To = next\<rparr>)
      else (next, None))"

definition StateForIdentityUpdate :: "EIDStatus \<Rightarrow> LifecycleState \<times> bool" where
  "StateForIdentityUpdate eidStatus =
     (if eidStatus = EIDVerified then (StateIdentified, True) else (StateOther [], False))"

section \<open>Facts on single steps\<close>

lemma target_in_iff [simp]: "target_in ts to \<longleftrightarrow> to \<in> set ts"
  by (induction ts) auto

lemma CanTransition_iff:
  "CanTransition from to \<longleftrightarrow> (\<exists>ts. validTransitions from = Some ts \<and> to \<in> set ts)"
  by (simp add: CanTransition_def split: option.splits)

lemma Transition_ok [simp]: "snd (Transition a b) = None \<longleftrightarrow> CanTransition a b"
  by (simp add: Transition_def)

lemma Transition_err: "snd (Transition a b) = Some e \<Longrightarrow> \<not> CanTransition a b"
  by (auto simp: Transition_def split: if_splits)

lemma CanTransition_code [simp]:
  "CanTransition StateRequested t \<longleftrightarrow> t = StateIdentified"
  "CanTransition StateIdentified t \<longleftrightarrow> t = StateFunded \<or> t = StatePledged"
  "CanTransition StateFunded t \<longleftrightarrow> t = StatePledged \<or> t = StateSettleProposed"
  "CanTransition StatePledged t \<longleftrightarrow> t = StateReleased \<or> t = StateClaimed \<or>
     t = StateSettleProposed \<or> t = StatePartiallyReleased"
  "CanTransition StateClaimed t \<longleftrightarrow> t = StateReleased"
  "CanTransition StateReleased t \<longleftrightarrow> t = StateClosed"
  "CanTransition StatePartiallyReleased t \<longleftrightarrow> t = StateSettleProposed \<or> t = StateClosed"
  "CanTransition StateSettleProposed t \<longleftrightarrow> t = StateClosed \<or> t = StateDisputed"
  "CanTransition StateDisputed t \<longleftrightarrow> t = StateClosed"
  "CanTransition StateClosed t \<longleftrightarrow> False"
  "CanTransition (StateOther s) t \<longleftrightarrow> False"
  by (auto simp: CanTransition_def)

text \<open>The states from which a given state can be entered.\<close>

lemma CanTransition_to:
  "CanTransition s StateIdentified \<longleftrightarrow> s = StateRequested"
  "CanTransition s StateFunded \<longleftrightarrow> s = StateIdentified"
  "CanTransition s StatePledged \<longleftrightarrow> s = StateIdentified \<or> s = StateFunded"
  "CanTransition s StateReleased \<longleftrightarrow> s = StatePledged \<or> s = StateClaimed"
  "CanTransition s StateClaimed \<longleftrightarrow> s = StatePledged"
  "CanTransition s StatePartiallyReleased \<longleftrightarrow> s = StatePledged"
  "CanTransition s StateSettleProposed \<longleftrightarrow>
     s = StateFunded \<or> s = StatePledged \<or> s = StatePartiallyReleased"
  "CanTransition s StateDisputed \<longleftrightarrow> s = StateSettleProposed"
  "CanTransition s StateClosed \<longleftrightarrow> s = StateReleased \<or> s = StatePartiallyReleased \<or>
     s = StateSettleProposed \<or> s = StateDisputed"
  "CanTransition s StateRequested \<longleftrightarrow> False"
  "CanTransition s (StateOther x) \<longleftrightarrow> False"
  by (cases s; simp)+

lemma CanTransition_known: "CanTransition a b \<Longrightarrow> a \<in> set known_states \<and> b \<in> set known_states"
  by (cases a) (auto simp: known_states_def)

lemma known_state_wf: "s \<in> set known_states \<Longrightarrow> state_wf s"
  by (simp add: state_wf_def state_of_string_string)

section \<open>The contract: every step lowers a rank\<close>

locale ranked_machine =
  fixes step :: "'s \<Rightarrow> 's \<Rightarrow> bool" and rank :: "'s \<Rightarrow> nat"
  assumes step_rank: "step a b \<Longrightarrow> rank b < rank a"
begin

lemma step_irrefl: "\<not> step a a"
  using step_rank by blast

lemma chain_rank: "chain step (a # xs) \<Longrightarrow> rank (last (a # xs)) + length xs \<le> rank a"
proof (induction xs arbitrary: a)
  case (Cons b xs)
  then have "step a b" "rank (last (b # xs)) + length xs \<le> rank b" by auto
  then show ?case using step_rank [of a b] by simp
qed simp

lemma chain_bounded: "chain step (a # xs) \<Longrightarrow> length xs \<le> rank a"
  using chain_rank by fastforce

lemma chain_distinct: "chain step xs \<Longrightarrow> distinct xs"
proof (induction xs)
  case (Cons a xs)
  have "a \<notin> set xs"
  proof
    assume "a \<in> set xs"
    then obtain ys zs where xs: "xs = ys @ a # zs" by (meson split_list)
    have prefix: "chain step (us @ vs) \<Longrightarrow> chain step us" for us vs
      by (induction step us rule: chain.induct) (auto elim: chain.elims)
    have "chain step ((a # ys @ [a]) @ zs)" using Cons.prems xs by simp
    then have "chain step (a # ys @ [a])" by (rule prefix)
    then show False using chain_rank [of a "ys @ [a]"] by simp
  qed
  moreover have "chain step xs" using Cons.prems by (cases xs) auto
  ultimately show ?case using Cons.IH by simp
qed simp

end

text \<open>The number of steps a deposit can still take from a state.\<close>

fun lifecycle_rank :: "LifecycleState \<Rightarrow> nat" where
  "lifecycle_rank StateRequested = 7"
| "lifecycle_rank StateIdentified = 6"
| "lifecycle_rank StateFunded = 5"
| "lifecycle_rank StatePledged = 4"
| "lifecycle_rank StatePartiallyReleased = 3"
| "lifecycle_rank StateClaimed = 2"
| "lifecycle_rank StateSettleProposed = 2"
| "lifecycle_rank StateReleased = 1"
| "lifecycle_rank StateDisputed = 1"
| "lifecycle_rank StateClosed = 0"
| "lifecycle_rank (StateOther s) = 0"

interpretation lm: ranked_machine CanTransition lifecycle_rank
proof unfold_locales
  fix a b
  show "CanTransition a b \<Longrightarrow> lifecycle_rank b < lifecycle_rank a"
    by (cases a) auto
qed

section \<open>Whole lifecycles\<close>

lemma closed_reachable:
  "s \<in> set known_states \<Longrightarrow> \<exists>xs. chain CanTransition (s # xs) \<and> last (s # xs) = StateClosed"
proof -
  assume "s \<in> set known_states"
  then consider "s = StateClosed" | "CanTransition s StateClosed"
    | "s = StateClaimed" | "s = StatePledged" | "s = StateFunded" | "s = StateIdentified"
    | "s = StateRequested"
    by (auto simp: known_states_def CanTransition_to)
  then show ?thesis
  proof cases
    case 1 then show ?thesis by (intro exI [of _ "[]"]) simp
  next
    case 2 then show ?thesis by (intro exI [of _ "[StateClosed]"]) simp
  next
    case 3 then show ?thesis by (intro exI [of _ "[StateReleased, StateClosed]"]) simp
  next
    case 4 then show ?thesis by (intro exI [of _ "[StateReleased, StateClosed]"]) simp
  next
    case 5 then show ?thesis by (intro exI [of _ "[StateSettleProposed, StateClosed]"]) simp
  next
    case 6
    then show ?thesis by (intro exI [of _ "[StatePledged, StateReleased, StateClosed]"]) simp
  next
    case 7
    then show ?thesis
      by (intro exI [of _ "[StateIdentified, StatePledged, StateReleased, StateClosed]"]) simp
  qed
qed

end
