(* ===== verification/Json.thy ===== *)
theory Json
  imports Models "HOL-Library.Monad_Syntax"
begin

text \<open>
  The JSON form in which deposits are stored (\<open>json.Marshal\<close> and
  \<open>json.Unmarshal\<close> in \<open>server/internal/db/postgres.go\<close>, driven by the struct tags
  of \<open>server/internal/models/deposit.go\<close>): every field with its key and its
  \<open>omitempty\<close> option. A document is a JSON tree; numbers and instants are leaves
  that carry their value, since their text is chosen by the encoder so that it
  reads back exactly. Encoding fails, as in Go, on a float that is not finite and
  on an instant whose year is outside 0..9999; decoding fails on a value of the
  wrong kind and takes the zero value for a missing key or \<open>null\<close>. The documents
  decoded are those the server has written, so keys are compared exactly.

  The result is \<open>dec_enc_Deposit\<close>: what is marshalled is read back unchanged.
\<close>

datatype json =
    JNull | JBool bool | JNum float64 | JInt int | JTime time | JStr string
  | JArr "json list" | JObj "(string \<times> json) list"

named_theorems json_simps
named_theorems json_inverts

section \<open>Encoding\<close>

definition enc_float :: "float64 \<Rightarrow> json option" where
  "enc_float x = (if f_finite x then Some (JNum x) else None)"

definition enc_time :: "time \<Rightarrow> json option" where
  "enc_time t = (case date_of t of (y, _, _) \<Rightarrow> if 0 \<le> y \<and> y \<le> 9999 then Some (JTime t) else None)"

definition enc_string :: "string \<Rightarrow> json option" where
  "enc_string s = Some (JStr s)"

definition enc_ptr :: "('a \<Rightarrow> json option) \<Rightarrow> 'a option \<Rightarrow> json option" where
  "enc_ptr e p = (case p of None \<Rightarrow> Some JNull | Some x \<Rightarrow> e x)"

definition enc_list :: "('a \<Rightarrow> json option) \<Rightarrow> 'a list \<Rightarrow> json option" where
  "enc_list e xs = (if xs = [] then Some JNull else map_option JArr (traverse e xs))"

text \<open>A field of a struct: its key, whether \<open>omitempty\<close> leaves it out, its encoding.\<close>

type_synonym field = "string \<times> bool \<times> json option"

fun enc_fields :: "field list \<Rightarrow> (string \<times> json) list option" where
  "enc_fields [] = Some []"
| "enc_fields ((k, omit, v) # fs) =
     (if omit then enc_fields fs
      else (case v of None \<Rightarrow> None
            | Some j \<Rightarrow> (case enc_fields fs of None \<Rightarrow> None | Some r \<Rightarrow> Some ((k, j) # r))))"

definition enc_obj :: "field list \<Rightarrow> json option" where
  "enc_obj fs = map_option JObj (enc_fields fs)"

section \<open>Decoding\<close>

text \<open>The keys of an object; \<open>null\<close> leaves every field at its zero value.\<close>

fun obj_of :: "json \<Rightarrow> (string \<rightharpoonup> json) option" where
  "obj_of (JObj kvs) = Some (map_of (rev kvs))"
| "obj_of JNull = Some Map.empty"
| "obj_of _ = None"

definition is_int64 :: "int \<Rightarrow> bool" where
  "is_int64 i \<longleftrightarrow> - (2 ^ 63) \<le> i \<and> i < 2 ^ 63"

fun g_str :: "json option \<Rightarrow> string option" where
  "g_str None = Some []"
| "g_str (Some JNull) = Some []"
| "g_str (Some (JStr s)) = Some s"
| "g_str (Some _) = None"

fun g_float :: "json option \<Rightarrow> float64 option" where
  "g_float None = Some f_zero"
| "g_float (Some JNull) = Some f_zero"
| "g_float (Some (JNum x)) = (if f_finite x then Some x else None)"
| "g_float (Some (JInt i)) = (if f_finite (rnd (of_int i)) then Some (rnd (of_int i)) else None)"
| "g_float (Some _) = None"

fun g_bool :: "json option \<Rightarrow> bool option" where
  "g_bool None = Some False"
| "g_bool (Some JNull) = Some False"
| "g_bool (Some (JBool b)) = Some b"
| "g_bool (Some _) = None"

fun g_int :: "json option \<Rightarrow> int option" where
  "g_int None = Some 0"
| "g_int (Some JNull) = Some 0"
| "g_int (Some (JInt i)) = (if is_int64 i then Some i else None)"
| "g_int (Some _) = None"

fun g_time :: "json option \<Rightarrow> time option" where
  "g_time None = Some zero_time"
| "g_time (Some JNull) = Some zero_time"
| "g_time (Some (JTime t)) = Some t"
| "g_time (Some _) = None"

definition g_state :: "json option \<Rightarrow> LifecycleState option" where
  "g_state j = map_option state_of_string (g_str j)"

definition dec_string :: "json \<Rightarrow> string option" where
  "dec_string j = g_str (Some j)"

fun g_ptr :: "(json \<Rightarrow> 'a option) \<Rightarrow> json option \<Rightarrow> 'a option option" where
  "g_ptr d None = Some None"
| "g_ptr d (Some JNull) = Some None"
| "g_ptr d (Some j) = map_option Some (d j)"

fun g_list :: "(json \<Rightarrow> 'a option) \<Rightarrow> json option \<Rightarrow> 'a list option" where
  "g_list d None = Some []"
| "g_list d (Some JNull) = Some []"
| "g_list d (Some (JArr js)) = traverse d js"
| "g_list d (Some _) = None"

definition g_struct :: "(json \<Rightarrow> 'a option) \<Rightarrow> json option \<Rightarrow> 'a option" where
  "g_struct d j = (case j of None \<Rightarrow> d JNull | Some v \<Rightarrow> d v)"

section \<open>Decoding inverts encoding\<close>

definition inverts :: "('a \<Rightarrow> json option) \<Rightarrow> (json \<Rightarrow> 'a option) \<Rightarrow> 'a \<Rightarrow> bool" where
  "inverts e d x \<longleftrightarrow> (\<forall>j. e x = Some j \<longrightarrow> j \<noteq> JNull \<and> d j = Some x)"

text \<open>What a key of an encoded object holds.\<close>

definition field_value :: "field list \<Rightarrow> string \<rightharpoonup> json" where
  "field_value fs k = (case map_of fs k of None \<Rightarrow> None | Some (omit, v) \<Rightarrow> if omit then None else v)"

definition fields_ok :: "field list \<Rightarrow> bool" where
  "fields_ok fs = list_all (\<lambda>(k, omit, v). omit \<or> v \<noteq> None) fs"

lemma enc_fields_ok: "enc_fields fs = Some r \<Longrightarrow> fields_ok fs"
  by (induction fs arbitrary: r rule: enc_fields.induct)
    (auto simp: fields_ok_def split: if_splits option.splits)

lemma enc_fields_ConsE:
  assumes "enc_fields ((k, om, v) # fs) = Some r"
  obtains "om" "enc_fields fs = Some r"
  | w r' where "\<not> om" "v = Some w" "enc_fields fs = Some r'" "r = (k, w) # r'"
  using assms by (auto split: if_splits option.splits)

lemma enc_fields_keys: "enc_fields fs = Some r \<Longrightarrow> fst ` set r \<subseteq> fst ` set fs"
proof (induction fs arbitrary: r rule: enc_fields.induct)
  case (2 k om v fs)
  from 2(3) show ?case
  proof (cases rule: enc_fields_ConsE)
    case 1
    then show ?thesis using 2(1) by auto
  next
    case (2 w r')
    then show ?thesis using "2.IH"(2) by auto
  qed
qed simp

lemma enc_fields_lookup:
  assumes "enc_fields fs = Some r" "distinct (map fst fs)"
  shows "distinct (map fst r) \<and> map_of r k = field_value fs k"
  using assms
proof (induction fs arbitrary: r rule: enc_fields.induct)
  case (2 k' om v fs)
  have dist: "distinct (map fst fs)" and notin: "k' \<notin> fst ` set fs" using "2.prems"(2) by auto
  then have none: "map_of fs k' = None" by (simp add: map_of_eq_None_iff)
  from 2(3) show ?case
  proof (cases rule: enc_fields_ConsE)
    case 1
    then show ?thesis using "2.IH"(1) dist none by (auto simp: field_value_def)
  next
    case (2 w r')
    have "k' \<notin> fst ` set r'" using enc_fields_keys [OF 2(3)] notin by blast
    then show ?thesis using "2.IH"(2) 2 dist by (auto simp: field_value_def)
  qed
qed (simp add: field_value_def)

lemma enc_obj_SomeD:
  assumes "enc_obj fs = Some j" "distinct (map fst fs)"
  shows "obj_of j = Some (field_value fs)" "fields_ok fs" "j \<noteq> JNull"
proof -
  obtain r where r: "enc_fields fs = Some r" "j = JObj r"
    using assms(1) by (auto simp: enc_obj_def)
  have "map_of (rev r) = map_of r"
    using enc_fields_lookup [OF r(1) assms(2)] by (simp add: map_of_rev_distinct)
  then show "obj_of j = Some (field_value fs)"
    using enc_fields_lookup [OF r(1) assms(2)] r(2) by auto
  show "fields_ok fs" using enc_fields_ok [OF r(1)] .
  show "j \<noteq> JNull" using r(2) by simp
qed

text \<open>
  A struct codec inverts when, on the values the keys of its own encoding hold, the
  decoder's field readers return the fields.
\<close>

lemma inverts_objI:
  assumes "\<And>x. e x = enc_obj (fs x)" "distinct (map fst (fs x))"
    and "\<And>j. d j = Option.bind (obj_of j) body"
    and "fields_ok (fs x) \<Longrightarrow> body (field_value (fs x)) = Some x"
  shows "inverts e d x"
  using assms enc_obj_SomeD by (fastforce simp: inverts_def)

lemmas [json_simps] = field_value_def fields_ok_def enc_string_def dec_string_def g_state_def

lemma g_str_omit [json_simps]: "g_str (if s = [] then None else Some (JStr s)) = Some s"
  by simp

lemma enc_float_ok [json_simps]: "(\<exists>y. enc_float x = Some y) \<longleftrightarrow> f_finite x"
  by (simp add: enc_float_def)

lemma g_float_enc [json_simps]: "f_finite x \<Longrightarrow> g_float (enc_float x) = Some x"
  by (simp add: enc_float_def)

lemma g_float_omit [json_simps]:
  "x = f_zero \<or> f_finite x \<Longrightarrow> g_float (if x = f_zero then None else enc_float x) = Some x"
  by (auto simp: enc_float_def)

lemma g_time_enc [json_simps]: "\<exists>y. enc_time t = Some y \<Longrightarrow> g_time (enc_time t) = Some t"
  by (auto simp: enc_time_def split: prod.splits if_splits)

lemma g_state_enc [json_simps]: "state_wf x \<Longrightarrow> state_of_string (state_string x) = x"
  by (simp add: state_wf_def)

lemma g_struct_enc [json_simps]:
  "\<exists>y. e x = Some y \<Longrightarrow> inverts e d x \<Longrightarrow> g_struct d (e x) = Some x"
  by (auto simp: g_struct_def inverts_def)

lemma g_ptr_Some: "j \<noteq> JNull \<Longrightarrow> g_ptr d (Some j) = map_option Some (d j)"
  by (cases j) simp_all

lemma g_ptr_omit [json_simps]:
  assumes "p = None \<or> (\<exists>y. enc_ptr e p = Some y)" "\<forall>x. p = Some x \<longrightarrow> inverts e d x"
  shows "g_ptr d (if p = None then None else enc_ptr e p) = Some p"
  using assms by (cases p) (auto simp: enc_ptr_def inverts_def g_ptr_Some)

lemma g_list_enc [json_simps]:
  assumes "\<exists>y. enc_list e xs = Some y" "\<forall>x \<in> set xs. inverts e d x"
  shows "g_list d (enc_list e xs) = Some xs"
proof (cases "xs = []")
  case False
  with assms(1) obtain js where "traverse e xs = Some js" "enc_list e xs = Some (JArr js)"
    by (auto simp: enc_list_def)
  moreover from this have "traverse d js = Some xs"
    using assms(2) by (intro traverse_inverse [of xs e]) (auto simp: inverts_def)
  ultimately show ?thesis by simp
qed (simp add: enc_list_def)

lemma g_list_omit [json_simps]:
  assumes "xs = [] \<or> (\<exists>y. enc_list e xs = Some y)" "\<forall>x \<in> set xs. inverts e d x"
  shows "g_list d (if xs = [] then None else enc_list e xs) = Some xs"
  using assms g_list_enc [of e xs d] by auto

lemma dec_enc_string [json_inverts]: "inverts enc_string dec_string s"
  by (simp add: inverts_def json_simps)

section \<open>The codecs of the data model\<close>

definition enc_UtilityReservation :: "UtilityReservation \<Rightarrow> json option" where
  "enc_UtilityReservation x = enc_obj [
     (''released_amount'', False, enc_float (UtilityReservation_ReleasedAmount x)),
     (''reserved_amount'', False, enc_float (UtilityReservation_ReservedAmount x)),
     (''monthly_advance'', UtilityReservation_MonthlyAdvance x = f_zero, enc_float (UtilityReservation_MonthlyAdvance x)),
     (''billing_period_end'', False, Some (JStr (UtilityReservation_BillingPeriodEnd x))),
     (''resolution_deadline'', False, Some (JStr (UtilityReservation_ResolutionDeadline x))),
     (''settlement_ref'', UtilityReservation_SettlementRef x = [], Some (JStr (UtilityReservation_SettlementRef x))),
     (''actual_cost'', UtilityReservation_ActualCost x = f_zero, enc_float (UtilityReservation_ActualCost x)),
     (''total_advance_paid'', UtilityReservation_TotalAdvancePaid x = f_zero, enc_float (UtilityReservation_TotalAdvancePaid x)),
     (''resolved_at'', UtilityReservation_ResolvedAt x = [], Some (JStr (UtilityReservation_ResolvedAt x)))]"

definition dec_UtilityReservation :: "json \<Rightarrow> UtilityReservation option" where
  "dec_UtilityReservation j = do {
     kv \<leftarrow> obj_of j;
     v0 \<leftarrow> g_float (kv ''released_amount'');
     v1 \<leftarrow> g_float (kv ''reserved_amount'');
     v2 \<leftarrow> g_float (kv ''monthly_advance'');
     v3 \<leftarrow> g_str (kv ''billing_period_end'');
     v4 \<leftarrow> g_str (kv ''resolution_deadline'');
     v5 \<leftarrow> g_str (kv ''settlement_ref'');
     v6 \<leftarrow> g_float (kv ''actual_cost'');
     v7 \<leftarrow> g_float (kv ''total_advance_paid'');
     v8 \<leftarrow> g_str (kv ''resolved_at'');
     Some \<lparr> UtilityReservation_ReleasedAmount = v0,
       UtilityReservation_ReservedAmount = v1, UtilityReservation_MonthlyAdvance = v2,
       UtilityReservation_BillingPeriodEnd = v3, UtilityReservation_ResolutionDeadline = v4,
       UtilityReservation_SettlementRef = v5, UtilityReservation_ActualCost = v6,
       UtilityReservation_TotalAdvancePaid = v7, UtilityReservation_ResolvedAt = v8 \<rparr> }"

lemma dec_enc_UtilityReservation [json_inverts]: "inverts enc_UtilityReservation dec_UtilityReservation x"
  by (rule inverts_objI [OF enc_UtilityReservation_def _ dec_UtilityReservation_def]) (simp_all add: json_simps json_inverts)

definition enc_ClaimItem :: "ClaimItem \<Rightarrow> json option" where
  "enc_ClaimItem x = enc_obj [
     (''id'', False, Some (JStr (ClaimItem_ID x))),
     (''category'', False, Some (JStr (ClaimItem_Category x))),
     (''description'', False, Some (JStr (ClaimItem_Description x))),
     (''amount_claimed'', False, enc_float (ClaimItem_AmountClaimed x)),
     (''evidence_refs'', ClaimItem_EvidenceRefs x = [], enc_list enc_string (ClaimItem_EvidenceRefs x)),
     (''room_or_area'', ClaimItem_RoomOrArea x = [], Some (JStr (ClaimItem_RoomOrArea x)))]"

definition dec_ClaimItem :: "json \<Rightarrow> ClaimItem option" where
  "dec_ClaimItem j = do {
     kv \<leftarrow> obj_of j;
     v0 \<leftarrow> g_str (kv ''id'');
     v1 \<leftarrow> g_str (kv ''category'');
     v2 \<leftarrow> g_str (kv ''description'');
     v3 \<leftarrow> g_float (kv ''amount_claimed'');
     v4 \<leftarrow> g_list dec_string (kv ''evidence_refs'');
     v5 \<leftarrow> g_str (kv ''room_or_area'');
     Some \<lparr> ClaimItem_ID = v0, ClaimItem_Category = v1, ClaimItem_Description = v2,
       ClaimItem_AmountClaimed = v3, ClaimItem_EvidenceRefs = v4,
       ClaimItem_RoomOrArea = v5 \<rparr> }"

lemma dec_enc_ClaimItem [json_inverts]: "inverts enc_ClaimItem dec_ClaimItem x"
  by (rule inverts_objI [OF enc_ClaimItem_def _ dec_ClaimItem_def]) (simp_all add: json_simps json_inverts)

definition enc_Settlement :: "Settlement \<Rightarrow> json option" where
  "enc_Settlement x = enc_obj [
     (''initiated_by'', False, Some (JStr (Settlement_InitiatedBy x))),
     (''initiated_at'', False, enc_time (Settlement_InitiatedAt x)),
     (''last_proposed_by'', False, Some (JStr (Settlement_LastProposedBy x))),
     (''last_proposed_at'', False, enc_time (Settlement_LastProposedAt x)),
     (''tenancy_end_date'', Settlement_TenancyEndDate x = [], Some (JStr (Settlement_TenancyEndDate x))),
     (''handover_date'', Settlement_HandoverDate x = [], Some (JStr (Settlement_HandoverDate x))),
     (''handover_protocol_ref'', Settlement_HandoverProtocolRef x = [], Some (JStr (Settlement_HandoverProtocolRef x))),
     (''claim_items'', False, enc_list enc_ClaimItem (Settlement_ClaimItems x)),
     (''total_claimed'', False, enc_float (Settlement_TotalClaimed x)),
     (''proposed_tenant_refund'', False, enc_float (Settlement_ProposedTenantRefund x)),
     (''proposed_landlord_retention'', False, enc_float (Settlement_ProposedLandlordRetention x)),
     (''response_deadline'', Settlement_ResponseDeadline x = [], Some (JStr (Settlement_ResponseDeadline x))),
     (''escalation_type'', Settlement_EscalationType x = [], Some (JStr (Settlement_EscalationType x))),
     (''external_authority'', Settlement_ExternalAuthority x = [], Some (JStr (Settlement_ExternalAuthority x))),
     (''external_reference'', Settlement_ExternalReference x = [], Some (JStr (Settlement_ExternalReference x))),
     (''agreed_tenant_refund'', Settlement_AgreedTenantRefund x = f_zero, enc_float (Settlement_AgreedTenantRefund x)),
     (''agreed_landlord_retention'', Settlement_AgreedLandlordRetention x = f_zero, enc_float (Settlement_AgreedLandlordRetention x))]"

definition dec_Settlement :: "json \<Rightarrow> Settlement option" where
  "dec_Settlement j = do {
     kv \<leftarrow> obj_of j;
     v0 \<leftarrow> g_str (kv ''initiated_by'');
     v1 \<leftarrow> g_time (kv ''initiated_at'');
     v2 \<leftarrow> g_str (kv ''last_proposed_by'');
     v3 \<leftarrow> g_time (kv ''last_proposed_at'');
     v4 \<leftarrow> g_str (kv ''tenancy_end_date'');
     v5 \<leftarrow> g_str (kv ''handover_date'');
     v6 \<leftarrow> g_str (kv ''handover_protocol_ref'');
     v7 \<leftarrow> g_list dec_ClaimItem (kv ''claim_items'');
     v8 \<leftarrow> g_float (kv ''total_claimed'');
     v9 \<leftarrow> g_float (kv ''proposed_tenant_refund'');
     v10 \<leftarrow> g_float (kv ''proposed_landlord_retention'');
     v11 \<leftarrow> g_str (kv ''response_deadline'');
     v12 \<leftarrow> g_str (kv ''escalation_type'');
     v13 \<leftarrow> g_str (kv ''external_authority'');
     v14 \<leftarrow> g_str (kv ''external_reference'');
     v15 \<leftarrow> g_float (kv ''agreed_tenant_refund'');
     v16 \<leftarrow> g_float (kv ''agreed_landlord_retention'');
     Some \<lparr> Settlement_InitiatedBy = v0, Settlement_InitiatedAt = v1,
       Settlement_LastProposedBy = v2, Settlement_LastProposedAt = v3,
       Settlement_TenancyEndDate = v4, Settlement_HandoverDate = v5,
       Settlement_HandoverProtocolRef = v6, Settlement_ClaimItems = v7,
       Settlement_TotalClaimed = v8, Settlement_ProposedTenantRefund = v9,
       Settlement_ProposedLandlordRetention = v10, Settlement_ResponseDeadline = v11,
       Settlement_EscalationType = v12, Settlement_ExternalAuthority = v13,
       Settlement_ExternalReference = v14, Settlement_AgreedTenantRefund = v15,
       Settlement_AgreedLandlordRetention = v16 \<rparr> }"

lemma dec_enc_Settlement [json_inverts]: "inverts enc_Settlement dec_Settlement x"
  by (rule inverts_objI [OF enc_Settlement_def _ dec_Settlement_def]) (simp_all add: json_simps json_inverts)

definition enc_Address :: "Address \<Rightarrow> json option" where
  "enc_Address x = enc_obj [
     (''street'', False, Some (JStr (Address_Street x))),
     (''zip'', False, Some (JStr (Address_ZIP x))),
     (''city'', False, Some (JStr (Address_City x))),
     (''country'', False, Some (JStr (Address_Country x)))]"

definition dec_Address :: "json \<Rightarrow> Address option" where
  "dec_Address j = do {
     kv \<leftarrow> obj_of j;
     v0 \<leftarrow> g_str (kv ''street'');
     v1 \<leftarrow> g_str (kv ''zip'');
     v2 \<leftarrow> g_str (kv ''city'');
     v3 \<leftarrow> g_str (kv ''country'');
     Some \<lparr> Address_Street = v0, Address_ZIP = v1, Address_City = v2,
       Address_Country = v3 \<rparr> }"

lemma dec_enc_Address [json_inverts]: "inverts enc_Address dec_Address x"
  by (rule inverts_objI [OF enc_Address_def _ dec_Address_def]) (simp_all add: json_simps json_inverts)

definition enc_WalletMetadata :: "WalletMetadata \<Rightarrow> json option" where
  "enc_WalletMetadata x = enc_obj [
     (''issuer'', WalletMetadata_Issuer x = [], Some (JStr (WalletMetadata_Issuer x))),
     (''issuer_id'', WalletMetadata_IssuerID x = [], Some (JStr (WalletMetadata_IssuerID x))),
     (''wallet_provider'', WalletMetadata_WalletProvider x = [], Some (JStr (WalletMetadata_WalletProvider x))),
     (''credential_type'', WalletMetadata_CredentialType x = [], Some (JStr (WalletMetadata_CredentialType x))),
     (''credential_format'', WalletMetadata_CredentialFormat x = [], Some (JStr (WalletMetadata_CredentialFormat x))),
     (''assurance_level'', WalletMetadata_AssuranceLevel x = [], Some (JStr (WalletMetadata_AssuranceLevel x))),
     (''presentation_id'', WalletMetadata_PresentationID x = [], Some (JStr (WalletMetadata_PresentationID x))),
     (''issuing_country'', WalletMetadata_IssuingCountry x = [], Some (JStr (WalletMetadata_IssuingCountry x))),
     (''verified_at'', WalletMetadata_VerifiedAt x = [], Some (JStr (WalletMetadata_VerifiedAt x))),
     (''expires_at'', WalletMetadata_ExpiresAt x = [], Some (JStr (WalletMetadata_ExpiresAt x)))]"

definition dec_WalletMetadata :: "json \<Rightarrow> WalletMetadata option" where
  "dec_WalletMetadata j = do {
     kv \<leftarrow> obj_of j;
     v0 \<leftarrow> g_str (kv ''issuer'');
     v1 \<leftarrow> g_str (kv ''issuer_id'');
     v2 \<leftarrow> g_str (kv ''wallet_provider'');
     v3 \<leftarrow> g_str (kv ''credential_type'');
     v4 \<leftarrow> g_str (kv ''credential_format'');
     v5 \<leftarrow> g_str (kv ''assurance_level'');
     v6 \<leftarrow> g_str (kv ''presentation_id'');
     v7 \<leftarrow> g_str (kv ''issuing_country'');
     v8 \<leftarrow> g_str (kv ''verified_at'');
     v9 \<leftarrow> g_str (kv ''expires_at'');
     Some \<lparr> WalletMetadata_Issuer = v0, WalletMetadata_IssuerID = v1,
       WalletMetadata_WalletProvider = v2, WalletMetadata_CredentialType = v3,
       WalletMetadata_CredentialFormat = v4, WalletMetadata_AssuranceLevel = v5,
       WalletMetadata_PresentationID = v6, WalletMetadata_IssuingCountry = v7,
       WalletMetadata_VerifiedAt = v8, WalletMetadata_ExpiresAt = v9 \<rparr> }"

lemma dec_enc_WalletMetadata [json_inverts]: "inverts enc_WalletMetadata dec_WalletMetadata x"
  by (rule inverts_objI [OF enc_WalletMetadata_def _ dec_WalletMetadata_def]) (simp_all add: json_simps json_inverts)

definition enc_Tenant :: "Tenant \<Rightarrow> json option" where
  "enc_Tenant x = enc_obj [
     (''first_name'', False, Some (JStr (Tenant_FirstName x))),
     (''last_name'', False, Some (JStr (Tenant_LastName x))),
     (''email'', False, Some (JStr (Tenant_Email x))),
     (''tax_id'', Tenant_TaxID x = [], Some (JStr (Tenant_TaxID x))),
     (''eid_status'', Tenant_EIDStatus x = [], Some (JStr (Tenant_EIDStatus x))),
     (''wallet_metadata'', Tenant_WalletMetadata x = None, enc_ptr enc_WalletMetadata (Tenant_WalletMetadata x)),
     (''address'', Tenant_Address x = None, enc_ptr enc_Address (Tenant_Address x))]"

definition dec_Tenant :: "json \<Rightarrow> Tenant option" where
  "dec_Tenant j = do {
     kv \<leftarrow> obj_of j;
     v0 \<leftarrow> g_str (kv ''first_name'');
     v1 \<leftarrow> g_str (kv ''last_name'');
     v2 \<leftarrow> g_str (kv ''email'');
     v3 \<leftarrow> g_str (kv ''tax_id'');
     v4 \<leftarrow> g_str (kv ''eid_status'');
     v5 \<leftarrow> g_ptr dec_WalletMetadata (kv ''wallet_metadata'');
     v6 \<leftarrow> g_ptr dec_Address (kv ''address'');
     Some \<lparr> Tenant_FirstName = v0, Tenant_LastName = v1, Tenant_Email = v2,
       Tenant_TaxID = v3, Tenant_EIDStatus = v4, Tenant_WalletMetadata = v5,
       Tenant_Address = v6 \<rparr> }"

lemma dec_enc_Tenant [json_inverts]: "inverts enc_Tenant dec_Tenant x"
  by (rule inverts_objI [OF enc_Tenant_def _ dec_Tenant_def]) (simp_all add: json_simps json_inverts)

definition enc_Landlord :: "Landlord \<Rightarrow> json option" where
  "enc_Landlord x = enc_obj [
     (''name'', False, Some (JStr (Landlord_Name x))),
     (''type'', Landlord_Type x = [], Some (JStr (Landlord_Type x))),
     (''iban'', Landlord_IBAN x = [], Some (JStr (Landlord_IBAN x)))]"

definition dec_Landlord :: "json \<Rightarrow> Landlord option" where
  "dec_Landlord j = do {
     kv \<leftarrow> obj_of j;
     v0 \<leftarrow> g_str (kv ''name'');
     v1 \<leftarrow> g_str (kv ''type'');
     v2 \<leftarrow> g_str (kv ''iban'');
     Some \<lparr> Landlord_Name = v0, Landlord_Type = v1, Landlord_IBAN = v2 \<rparr> }"

lemma dec_enc_Landlord [json_inverts]: "inverts enc_Landlord dec_Landlord x"
  by (rule inverts_objI [OF enc_Landlord_def _ dec_Landlord_def]) (simp_all add: json_simps json_inverts)

definition enc_Property :: "Property \<Rightarrow> json option" where
  "enc_Property x = enc_obj [
     (''address'', False, enc_Address (Property_Address x)),
     (''unit_id'', Property_UnitID x = [], Some (JStr (Property_UnitID x)))]"

definition dec_Property :: "json \<Rightarrow> Property option" where
  "dec_Property j = do {
     kv \<leftarrow> obj_of j;
     v0 \<leftarrow> g_struct dec_Address (kv ''address'');
     v1 \<leftarrow> g_str (kv ''unit_id'');
     Some \<lparr> Property_Address = v0, Property_UnitID = v1 \<rparr> }"

lemma dec_enc_Property [json_inverts]: "inverts enc_Property dec_Property x"
  by (rule inverts_objI [OF enc_Property_def _ dec_Property_def]) (simp_all add: json_simps json_inverts)

definition enc_HistoryEntry :: "HistoryEntry \<Rightarrow> json option" where
  "enc_HistoryEntry x = enc_obj [
     (''state'', False, Some (JStr (state_string (HistoryEntry_State x)))),
     (''timestamp'', False, enc_time (HistoryEntry_Timestamp x)),
     (''actor'', HistoryEntry_Actor x = [], Some (JStr (HistoryEntry_Actor x))),
     (''comment'', HistoryEntry_Comment x = [], Some (JStr (HistoryEntry_Comment x))),
     (''signature'', HistoryEntry_Signature x = [], Some (JStr (HistoryEntry_Signature x)))]"

definition dec_HistoryEntry :: "json \<Rightarrow> HistoryEntry option" where
  "dec_HistoryEntry j = do {
     kv \<leftarrow> obj_of j;
     v0 \<leftarrow> g_state (kv ''state'');
     v1 \<leftarrow> g_time (kv ''timestamp'');
     v2 \<leftarrow> g_str (kv ''actor'');
     v3 \<leftarrow> g_str (kv ''comment'');
     v4 \<leftarrow> g_str (kv ''signature'');
     Some \<lparr> HistoryEntry_State = v0, HistoryEntry_Timestamp = v1, HistoryEntry_Actor = v2,
       HistoryEntry_Comment = v3, HistoryEntry_Signature = v4 \<rparr> }"

definition HistoryEntry_wf :: "HistoryEntry \<Rightarrow> bool" where
  "HistoryEntry_wf x \<longleftrightarrow> state_wf (HistoryEntry_State x)"

lemma dec_enc_HistoryEntry [json_inverts]: "HistoryEntry_wf x \<Longrightarrow> inverts enc_HistoryEntry dec_HistoryEntry x"
  by (rule inverts_objI [OF enc_HistoryEntry_def _ dec_HistoryEntry_def]) (simp_all add: json_simps json_inverts HistoryEntry_wf_def option.pred_set list_all_iff)

definition enc_InstallmentScheduleEntry :: "InstallmentScheduleEntry \<Rightarrow> json option" where
  "enc_InstallmentScheduleEntry x = enc_obj [
     (''installment_number'', False, Some (JInt (InstallmentScheduleEntry_InstallmentNumber x))),
     (''due_date'', False, Some (JStr (InstallmentScheduleEntry_DueDate x))),
     (''paid_date'', InstallmentScheduleEntry_PaidDate x = [], Some (JStr (InstallmentScheduleEntry_PaidDate x))),
     (''amount'', InstallmentScheduleEntry_Amount x = f_zero, enc_float (InstallmentScheduleEntry_Amount x))]"

definition dec_InstallmentScheduleEntry :: "json \<Rightarrow> InstallmentScheduleEntry option" where
  "dec_InstallmentScheduleEntry j = do {
     kv \<leftarrow> obj_of j;
     v0 \<leftarrow> g_int (kv ''installment_number'');
     v1 \<leftarrow> g_str (kv ''due_date'');
     v2 \<leftarrow> g_str (kv ''paid_date'');
     v3 \<leftarrow> g_float (kv ''amount'');
     Some \<lparr> InstallmentScheduleEntry_InstallmentNumber = v0,
       InstallmentScheduleEntry_DueDate = v1, InstallmentScheduleEntry_PaidDate = v2,
       InstallmentScheduleEntry_Amount = v3 \<rparr> }"

definition InstallmentScheduleEntry_wf :: "InstallmentScheduleEntry \<Rightarrow> bool" where
  "InstallmentScheduleEntry_wf x \<longleftrightarrow> is_int64 (InstallmentScheduleEntry_InstallmentNumber x)"

lemma dec_enc_InstallmentScheduleEntry [json_inverts]: "InstallmentScheduleEntry_wf x \<Longrightarrow> inverts enc_InstallmentScheduleEntry dec_InstallmentScheduleEntry x"
  by (rule inverts_objI [OF enc_InstallmentScheduleEntry_def _ dec_InstallmentScheduleEntry_def]) (simp_all add: json_simps json_inverts InstallmentScheduleEntry_wf_def option.pred_set list_all_iff)

definition enc_InstallmentPlan :: "InstallmentPlan \<Rightarrow> json option" where
  "enc_InstallmentPlan x = enc_obj [
     (''total_installments'', False, Some (JInt (InstallmentPlan_TotalInstallments x))),
     (''installment_amount'', InstallmentPlan_InstallmentAmount x = f_zero, enc_float (InstallmentPlan_InstallmentAmount x)),
     (''schedule'', InstallmentPlan_Schedule x = [], enc_list enc_InstallmentScheduleEntry (InstallmentPlan_Schedule x))]"

definition dec_InstallmentPlan :: "json \<Rightarrow> InstallmentPlan option" where
  "dec_InstallmentPlan j = do {
     kv \<leftarrow> obj_of j;
     v0 \<leftarrow> g_int (kv ''total_installments'');
     v1 \<leftarrow> g_float (kv ''installment_amount'');
     v2 \<leftarrow> g_list dec_InstallmentScheduleEntry (kv ''schedule'');
     Some \<lparr> InstallmentPlan_TotalInstallments = v0,
       InstallmentPlan_InstallmentAmount = v1, InstallmentPlan_Schedule = v2 \<rparr> }"

definition InstallmentPlan_wf :: "InstallmentPlan \<Rightarrow> bool" where
  "InstallmentPlan_wf x \<longleftrightarrow> is_int64 (InstallmentPlan_TotalInstallments x) \<and> list_all InstallmentScheduleEntry_wf (InstallmentPlan_Schedule x)"

lemma dec_enc_InstallmentPlan [json_inverts]: "InstallmentPlan_wf x \<Longrightarrow> inverts enc_InstallmentPlan dec_InstallmentPlan x"
  by (rule inverts_objI [OF enc_InstallmentPlan_def _ dec_InstallmentPlan_def]) (simp_all add: json_simps json_inverts InstallmentPlan_wf_def option.pred_set list_all_iff)

definition enc_DepositData :: "DepositData \<Rightarrow> json option" where
  "enc_DepositData x = enc_obj [
     (''amount'', False, enc_float (DepositData_Amount x)),
     (''currency'', False, Some (JStr (DepositData_Currency x))),
     (''type'', False, Some (JStr (DepositData_Type x))),
     (''lifecycle_state'', False, Some (JStr (state_string (DepositData_LifecycleState x)))),
     (''history'', DepositData_History x = [], enc_list enc_HistoryEntry (DepositData_History x)),
     (''installment_plan'', DepositData_InstallmentPlan x = None, enc_ptr enc_InstallmentPlan (DepositData_InstallmentPlan x))]"

definition dec_DepositData :: "json \<Rightarrow> DepositData option" where
  "dec_DepositData j = do {
     kv \<leftarrow> obj_of j;
     v0 \<leftarrow> g_float (kv ''amount'');
     v1 \<leftarrow> g_str (kv ''currency'');
     v2 \<leftarrow> g_str (kv ''type'');
     v3 \<leftarrow> g_state (kv ''lifecycle_state'');
     v4 \<leftarrow> g_list dec_HistoryEntry (kv ''history'');
     v5 \<leftarrow> g_ptr dec_InstallmentPlan (kv ''installment_plan'');
     Some \<lparr> DepositData_Amount = v0, DepositData_Currency = v1, DepositData_Type = v2,
       DepositData_LifecycleState = v3, DepositData_History = v4,
       DepositData_InstallmentPlan = v5 \<rparr> }"

definition DepositData_wf :: "DepositData \<Rightarrow> bool" where
  "DepositData_wf x \<longleftrightarrow> state_wf (DepositData_LifecycleState x) \<and> list_all HistoryEntry_wf (DepositData_History x) \<and> pred_option InstallmentPlan_wf (DepositData_InstallmentPlan x)"

lemma dec_enc_DepositData [json_inverts]: "DepositData_wf x \<Longrightarrow> inverts enc_DepositData dec_DepositData x"
  by (rule inverts_objI [OF enc_DepositData_def _ dec_DepositData_def]) (simp_all add: json_simps json_inverts DepositData_wf_def option.pred_set list_all_iff)

definition enc_Pledge :: "Pledge \<Rightarrow> json option" where
  "enc_Pledge x = enc_obj [
     (''pledge_date'', Pledge_PledgeDate x = [], Some (JStr (Pledge_PledgeDate x))),
     (''statutory_basis'', Pledge_StatutoryBasis x = [], Some (JStr (Pledge_StatutoryBasis x))),
     (''is_confirmed_by_bank'', False, Some (JBool (Pledge_IsConfirmedByBank x)))]"

definition dec_Pledge :: "json \<Rightarrow> Pledge option" where
  "dec_Pledge j = do {
     kv \<leftarrow> obj_of j;
     v0 \<leftarrow> g_str (kv ''pledge_date'');
     v1 \<leftarrow> g_str (kv ''statutory_basis'');
     v2 \<leftarrow> g_bool (kv ''is_confirmed_by_bank'');
     Some \<lparr> Pledge_PledgeDate = v0, Pledge_StatutoryBasis = v1,
       Pledge_IsConfirmedByBank = v2 \<rparr> }"

lemma dec_enc_Pledge [json_inverts]: "inverts enc_Pledge dec_Pledge x"
  by (rule inverts_objI [OF enc_Pledge_def _ dec_Pledge_def]) (simp_all add: json_simps json_inverts)

definition enc_InterestRateEntry :: "InterestRateEntry \<Rightarrow> json option" where
  "enc_InterestRateEntry x = enc_obj [
     (''rate'', False, enc_float (InterestRateEntry_Rate x)),
     (''effective_from'', False, Some (JStr (InterestRateEntry_EffectiveFrom x))),
     (''effective_to'', InterestRateEntry_EffectiveTo x = [], Some (JStr (InterestRateEntry_EffectiveTo x)))]"

definition dec_InterestRateEntry :: "json \<Rightarrow> InterestRateEntry option" where
  "dec_InterestRateEntry j = do {
     kv \<leftarrow> obj_of j;
     v0 \<leftarrow> g_float (kv ''rate'');
     v1 \<leftarrow> g_str (kv ''effective_from'');
     v2 \<leftarrow> g_str (kv ''effective_to'');
     Some \<lparr> InterestRateEntry_Rate = v0, InterestRateEntry_EffectiveFrom = v1,
       InterestRateEntry_EffectiveTo = v2 \<rparr> }"

lemma dec_enc_InterestRateEntry [json_inverts]: "inverts enc_InterestRateEntry dec_InterestRateEntry x"
  by (rule inverts_objI [OF enc_InterestRateEntry_def _ dec_InterestRateEntry_def]) (simp_all add: json_simps json_inverts)

definition enc_Trusteeship :: "Trusteeship \<Rightarrow> json option" where
  "enc_Trusteeship x = enc_obj [
     (''account_type'', Trusteeship_AccountType x = [], Some (JStr (Trusteeship_AccountType x))),
     (''trustee_entity'', Trusteeship_TrusteeEntity x = [], Some (JStr (Trusteeship_TrusteeEntity x))),
     (''trust_account_iban'', Trusteeship_TrustAccountIBAN x = [], Some (JStr (Trusteeship_TrustAccountIBAN x))),
     (''insolvency_protection_confirmed'', False, Some (JBool (Trusteeship_InsolvencyProtectionConfirmed x))),
     (''insolvency_protection_confirmed_date'', Trusteeship_InsolvencyProtectionConfirmedDate x = [], Some (JStr (Trusteeship_InsolvencyProtectionConfirmedDate x))),
     (''statutory_basis'', Trusteeship_StatutoryBasis x = [], Some (JStr (Trusteeship_StatutoryBasis x))),
     (''interest_rate'', Trusteeship_InterestRate x = f_zero, enc_float (Trusteeship_InterestRate x)),
     (''interest_rate_history'', Trusteeship_InterestRateHistory x = [], enc_list enc_InterestRateEntry (Trusteeship_InterestRateHistory x)),
     (''accrued_interest'', Trusteeship_AccruedInterest x = f_zero, enc_float (Trusteeship_AccruedInterest x)),
     (''interest_calculated_at'', Trusteeship_InterestCalculatedAt x = [], Some (JStr (Trusteeship_InterestCalculatedAt x))),
     (''total_balance'', Trusteeship_TotalBalance x = f_zero, enc_float (Trusteeship_TotalBalance x))]"

definition dec_Trusteeship :: "json \<Rightarrow> Trusteeship option" where
  "dec_Trusteeship j = do {
     kv \<leftarrow> obj_of j;
     v0 \<leftarrow> g_str (kv ''account_type'');
     v1 \<leftarrow> g_str (kv ''trustee_entity'');
     v2 \<leftarrow> g_str (kv ''trust_account_iban'');
     v3 \<leftarrow> g_bool (kv ''insolvency_protection_confirmed'');
     v4 \<leftarrow> g_str (kv ''insolvency_protection_confirmed_date'');
     v5 \<leftarrow> g_str (kv ''statutory_basis'');
     v6 \<leftarrow> g_float (kv ''interest_rate'');
     v7 \<leftarrow> g_list dec_InterestRateEntry (kv ''interest_rate_history'');
     v8 \<leftarrow> g_float (kv ''accrued_interest'');
     v9 \<leftarrow> g_str (kv ''interest_calculated_at'');
     v10 \<leftarrow> g_float (kv ''total_balance'');
     Some \<lparr> Trusteeship_AccountType = v0, Trusteeship_TrusteeEntity = v1,
       Trusteeship_TrustAccountIBAN = v2, Trusteeship_InsolvencyProtectionConfirmed = v3,
       Trusteeship_InsolvencyProtectionConfirmedDate = v4, Trusteeship_StatutoryBasis = v5,
       Trusteeship_InterestRate = v6, Trusteeship_InterestRateHistory = v7,
       Trusteeship_AccruedInterest = v8, Trusteeship_InterestCalculatedAt = v9,
       Trusteeship_TotalBalance = v10 \<rparr> }"

lemma dec_enc_Trusteeship [json_inverts]: "inverts enc_Trusteeship dec_Trusteeship x"
  by (rule inverts_objI [OF enc_Trusteeship_def _ dec_Trusteeship_def]) (simp_all add: json_simps json_inverts)

definition enc_Provider :: "Provider \<Rightarrow> json option" where
  "enc_Provider x = enc_obj [
     (''provider_type'', False, Some (JStr (Provider_ProviderType x))),
     (''executing_entity'', False, Some (JStr (Provider_ExecutingEntity x))),
     (''brand_name'', Provider_BrandName x = [], Some (JStr (Provider_BrandName x))),
     (''provider_id'', Provider_ProviderID x = [], Some (JStr (Provider_ProviderID x))),
     (''insurance_policy_number'', Provider_InsurancePolicyNumber x = [], Some (JStr (Provider_InsurancePolicyNumber x)))]"

definition dec_Provider :: "json \<Rightarrow> Provider option" where
  "dec_Provider j = do {
     kv \<leftarrow> obj_of j;
     v0 \<leftarrow> g_str (kv ''provider_type'');
     v1 \<leftarrow> g_str (kv ''executing_entity'');
     v2 \<leftarrow> g_str (kv ''brand_name'');
     v3 \<leftarrow> g_str (kv ''provider_id'');
     v4 \<leftarrow> g_str (kv ''insurance_policy_number'');
     Some \<lparr> Provider_ProviderType = v0, Provider_ExecutingEntity = v1,
       Provider_BrandName = v2, Provider_ProviderID = v3,
       Provider_InsurancePolicyNumber = v4 \<rparr> }"

lemma dec_enc_Provider [json_inverts]: "inverts enc_Provider dec_Provider x"
  by (rule inverts_objI [OF enc_Provider_def _ dec_Provider_def]) (simp_all add: json_simps json_inverts)

definition enc_Meta :: "Meta \<Rightarrow> json option" where
  "enc_Meta x = enc_obj [
     (''version'', False, Some (JStr (Meta_Version x))),
     (''timestamp'', False, enc_time (Meta_Timestamp x)),
     (''external_id'', Meta_ExternalID x = [], Some (JStr (Meta_ExternalID x)))]"

definition dec_Meta :: "json \<Rightarrow> Meta option" where
  "dec_Meta j = do {
     kv \<leftarrow> obj_of j;
     v0 \<leftarrow> g_str (kv ''version'');
     v1 \<leftarrow> g_time (kv ''timestamp'');
     v2 \<leftarrow> g_str (kv ''external_id'');
     Some \<lparr> Meta_Version = v0, Meta_Timestamp = v1, Meta_ExternalID = v2 \<rparr> }"

lemma dec_enc_Meta [json_inverts]: "inverts enc_Meta dec_Meta x"
  by (rule inverts_objI [OF enc_Meta_def _ dec_Meta_def]) (simp_all add: json_simps json_inverts)

definition enc_EBICSBTF :: "EBICSBTF \<Rightarrow> json option" where
  "enc_EBICSBTF x = enc_obj [
     (''service_name'', False, Some (JStr (EBICSBTF_ServiceName x))),
     (''service_option'', EBICSBTF_ServiceOption x = [], Some (JStr (EBICSBTF_ServiceOption x))),
     (''scope'', EBICSBTF_Scope x = [], Some (JStr (EBICSBTF_Scope x))),
     (''container'', EBICSBTF_Container x = [], Some (JStr (EBICSBTF_Container x))),
     (''msg_name'', False, Some (JStr (EBICSBTF_MsgName x))),
     (''msg_version'', EBICSBTF_MsgVersion x = [], Some (JStr (EBICSBTF_MsgVersion x)))]"

definition dec_EBICSBTF :: "json \<Rightarrow> EBICSBTF option" where
  "dec_EBICSBTF j = do {
     kv \<leftarrow> obj_of j;
     v0 \<leftarrow> g_str (kv ''service_name'');
     v1 \<leftarrow> g_str (kv ''service_option'');
     v2 \<leftarrow> g_str (kv ''scope'');
     v3 \<leftarrow> g_str (kv ''container'');
     v4 \<leftarrow> g_str (kv ''msg_name'');
     v5 \<leftarrow> g_str (kv ''msg_version'');
     Some \<lparr> EBICSBTF_ServiceName = v0, EBICSBTF_ServiceOption = v1, EBICSBTF_Scope = v2,
       EBICSBTF_Container = v3, EBICSBTF_MsgName = v4, EBICSBTF_MsgVersion = v5 \<rparr> }"

lemma dec_enc_EBICSBTF [json_inverts]: "inverts enc_EBICSBTF dec_EBICSBTF x"
  by (rule inverts_objI [OF enc_EBICSBTF_def _ dec_EBICSBTF_def]) (simp_all add: json_simps json_inverts)

definition enc_EBICSMetadata :: "EBICSMetadata \<Rightarrow> json option" where
  "enc_EBICSMetadata x = enc_obj [
     (''host_id'', False, Some (JStr (EBICSMetadata_HostID x))),
     (''partner_id'', False, Some (JStr (EBICSMetadata_PartnerID x))),
     (''user_id'', False, Some (JStr (EBICSMetadata_UserID x))),
     (''ebics_version'', False, Some (JStr (EBICSMetadata_EBICSVersion x))),
     (''bank_url'', False, Some (JStr (EBICSMetadata_BankURL x))),
     (''order_type'', EBICSMetadata_OrderType x = [], Some (JStr (EBICSMetadata_OrderType x))),
     (''btf'', EBICSMetadata_BTF x = None, enc_ptr enc_EBICSBTF (EBICSMetadata_BTF x)),
     (''signature_class'', EBICSMetadata_SignatureClass x = [], Some (JStr (EBICSMetadata_SignatureClass x))),
     (''bank_bic'', EBICSMetadata_BankBIC x = [], Some (JStr (EBICSMetadata_BankBIC x)))]"

definition dec_EBICSMetadata :: "json \<Rightarrow> EBICSMetadata option" where
  "dec_EBICSMetadata j = do {
     kv \<leftarrow> obj_of j;
     v0 \<leftarrow> g_str (kv ''host_id'');
     v1 \<leftarrow> g_str (kv ''partner_id'');
     v2 \<leftarrow> g_str (kv ''user_id'');
     v3 \<leftarrow> g_str (kv ''ebics_version'');
     v4 \<leftarrow> g_str (kv ''bank_url'');
     v5 \<leftarrow> g_str (kv ''order_type'');
     v6 \<leftarrow> g_ptr dec_EBICSBTF (kv ''btf'');
     v7 \<leftarrow> g_str (kv ''signature_class'');
     v8 \<leftarrow> g_str (kv ''bank_bic'');
     Some \<lparr> EBICSMetadata_HostID = v0, EBICSMetadata_PartnerID = v1,
       EBICSMetadata_UserID = v2, EBICSMetadata_EBICSVersion = v3, EBICSMetadata_BankURL = v4,
       EBICSMetadata_OrderType = v5, EBICSMetadata_BTF = v6, EBICSMetadata_SignatureClass = v7,
       EBICSMetadata_BankBIC = v8 \<rparr> }"

lemma dec_enc_EBICSMetadata [json_inverts]: "inverts enc_EBICSMetadata dec_EBICSMetadata x"
  by (rule inverts_objI [OF enc_EBICSMetadata_def _ dec_EBICSMetadata_def]) (simp_all add: json_simps json_inverts)

definition enc_Transport :: "Transport \<Rightarrow> json option" where
  "enc_Transport x = enc_obj [
     (''protocol'', False, Some (JStr (Transport_Protocol x))),
     (''ebics_metadata'', Transport_EBICSMetadata x = None, enc_ptr enc_EBICSMetadata (Transport_EBICSMetadata x))]"

definition dec_Transport :: "json \<Rightarrow> Transport option" where
  "dec_Transport j = do {
     kv \<leftarrow> obj_of j;
     v0 \<leftarrow> g_str (kv ''protocol'');
     v1 \<leftarrow> g_ptr dec_EBICSMetadata (kv ''ebics_metadata'');
     Some \<lparr> Transport_Protocol = v0, Transport_EBICSMetadata = v1 \<rparr> }"

lemma dec_enc_Transport [json_inverts]: "inverts enc_Transport dec_Transport x"
  by (rule inverts_objI [OF enc_Transport_def _ dec_Transport_def]) (simp_all add: json_simps json_inverts)

definition enc_Deposit :: "Deposit \<Rightarrow> json option" where
  "enc_Deposit x = enc_obj [
     (''id'', False, Some (JStr (Deposit_ID x))),
     (''meta'', False, enc_Meta (Deposit_Meta x)),
     (''tenant'', False, enc_Tenant (Deposit_Tenant x)),
     (''landlord'', False, enc_Landlord (Deposit_Landlord x)),
     (''property'', False, enc_Property (Deposit_Property x)),
     (''deposit'', False, enc_DepositData (Deposit_Deposit x)),
     (''pledge'', Deposit_Pledge x = None, enc_ptr enc_Pledge (Deposit_Pledge x)),
     (''trusteeship'', Deposit_Trusteeship x = None, enc_ptr enc_Trusteeship (Deposit_Trusteeship x)),
     (''provider'', Deposit_Provider x = None, enc_ptr enc_Provider (Deposit_Provider x)),
     (''transport'', Deposit_Transport x = None, enc_ptr enc_Transport (Deposit_Transport x)),
     (''settlement'', Deposit_Settlement x = None, enc_ptr enc_Settlement (Deposit_Settlement x)),
     (''utility_reservation'', Deposit_UtilityReservation x = None, enc_ptr enc_UtilityReservation (Deposit_UtilityReservation x))]"

definition dec_Deposit :: "json \<Rightarrow> Deposit option" where
  "dec_Deposit j = do {
     kv \<leftarrow> obj_of j;
     v0 \<leftarrow> g_str (kv ''id'');
     v1 \<leftarrow> g_struct dec_Meta (kv ''meta'');
     v2 \<leftarrow> g_struct dec_Tenant (kv ''tenant'');
     v3 \<leftarrow> g_struct dec_Landlord (kv ''landlord'');
     v4 \<leftarrow> g_struct dec_Property (kv ''property'');
     v5 \<leftarrow> g_struct dec_DepositData (kv ''deposit'');
     v6 \<leftarrow> g_ptr dec_Pledge (kv ''pledge'');
     v7 \<leftarrow> g_ptr dec_Trusteeship (kv ''trusteeship'');
     v8 \<leftarrow> g_ptr dec_Provider (kv ''provider'');
     v9 \<leftarrow> g_ptr dec_Transport (kv ''transport'');
     v10 \<leftarrow> g_ptr dec_Settlement (kv ''settlement'');
     v11 \<leftarrow> g_ptr dec_UtilityReservation (kv ''utility_reservation'');
     Some \<lparr> Deposit_ID = v0, Deposit_Meta = v1, Deposit_Tenant = v2,
       Deposit_Landlord = v3, Deposit_Property = v4, Deposit_Deposit = v5, Deposit_Pledge = v6,
       Deposit_Trusteeship = v7, Deposit_Provider = v8, Deposit_Transport = v9,
       Deposit_Settlement = v10, Deposit_UtilityReservation = v11 \<rparr> }"

definition Deposit_wf :: "Deposit \<Rightarrow> bool" where
  "Deposit_wf x \<longleftrightarrow> DepositData_wf (Deposit_Deposit x)"

lemma dec_enc_Deposit [json_inverts]: "Deposit_wf x \<Longrightarrow> inverts enc_Deposit dec_Deposit x"
  by (rule inverts_objI [OF enc_Deposit_def _ dec_Deposit_def]) (simp_all add: json_simps json_inverts Deposit_wf_def option.pred_set list_all_iff)

section \<open>Which values can be encoded\<close>

named_theorems json_ok

lemma enc_obj_None_iff [json_ok]: "enc_obj fs = None \<longleftrightarrow> \<not> fields_ok fs"
proof -
  have "enc_fields fs = None \<longleftrightarrow> \<not> fields_ok fs"
    by (induction fs rule: enc_fields.induct) (auto simp: fields_ok_def split: option.splits)
  then show ?thesis by (simp add: enc_obj_def)
qed

lemma traverse_None_iff: "traverse f xs = None \<longleftrightarrow> (\<exists>x \<in> set xs. f x = None)"
  by (induction xs) (auto split: option.splits)

lemma enc_list_None_iff [json_ok]: "enc_list e xs = None \<longleftrightarrow> (\<exists>x \<in> set xs. e x = None)"
  by (auto simp: enc_list_def traverse_None_iff)

lemma enc_ptr_None_iff [json_ok]: "enc_ptr e p = None \<longleftrightarrow> (\<exists>x. p = Some x \<and> e x = None)"
  by (auto simp: enc_ptr_def split: option.splits)

lemmas [json_ok] = fields_ok_def

end
