(* ===== verification/Repository.thy ===== *)
theory Repository
  imports StateMachine Json
begin

text \<open>
  The database (\<open>server/internal/db/migrations\<close>) and the deposit repository
  (\<open>server/internal/db/postgres.go\<close>, \<open>repository.go\<close>). A table is the list of its
  rows; every SQL statement of the source is one update of the \<open>Database\<close> record.
  The database service itself may fail: each operation takes \<open>fails\<close>, which says
  which of its statements the service rejects (\<open>fails n\<close>: the \<open>n\<close>-th statement of
  the call), so that every error path of the source is a branch here. A
  transaction that does not commit leaves the database as it was.

  The locale \<open>repository\<close> is the contract of the Go interface
  \<open>db.Repository\<close> against the map from ids to deposits (\<open>view\<close>);
  \<open>PostgresRepo\<close> is proved to satisfy it.
\<close>

section \<open>The schema\<close>

record DepositRow =
  DepositRow_id :: string
  DepositRow_lifecycle_state :: string
  DepositRow_data :: json

record HistoryRow =
  HistoryRow_deposit_id :: string
  HistoryRow_state :: string
  HistoryRow_timestamp :: time
  HistoryRow_actor :: string
  HistoryRow_comment :: "string option"
  HistoryRow_signature :: "string option"

record SessionRow =
  SessionRow_id :: string
  SessionRow_deposit_id :: string
  SessionRow_pre_authorized_code :: string
  SessionRow_access_token :: "string option"
  SessionRow_nonce :: "string option"
  SessionRow_state :: string
  SessionRow_created_at :: time
  SessionRow_expires_at :: time
  SessionRow_credential_id :: "string option"
  SessionRow_valid_until :: "string option"
  SessionRow_status_list_index :: "int option"

record Database =
  deposits :: "DepositRow list"
  deposit_history :: "HistoryRow list"
  issuance_sessions :: "SessionRow list"
  status_list_counter :: int

definition empty_db :: Database where
  "empty_db = \<lparr>deposits = [], deposit_history = [], issuance_sessions = [], status_list_counter = 0\<rparr>"

text \<open>A \<open>TIMESTAMPTZ\<close> column keeps microseconds.\<close>

definition timestamptz :: "time \<Rightarrow> time" where
  "timestamptz t = t div 1000 * 1000"

definition deposit_row :: "Database \<Rightarrow> string \<Rightarrow> DepositRow option" where
  "deposit_row db did = row_where (\<lambda>r. DepositRow_id r = did) (deposits db)"

section \<open>The operations of \<open>PostgresRepo\<close>\<close>

datatype repo_error = ErrNotFound | ErrDB | ErrJSON | ErrPanic

type_synonym faults = "nat \<Rightarrow> bool"

definition no_fault :: faults where
  "no_fault n = False"

text \<open>
  The mutation a handler passes to \<open>UpdateState\<close>; \<open>None\<close> is a run-time panic (a
  \<open>nil\<close> pointer dereferenced), and the \<open>nil\<close> function is \<open>no_patch\<close>.
\<close>

type_synonym patch = "Deposit \<Rightarrow> Deposit option"

definition no_patch :: patch where
  "no_patch d = Some d"

definition init_deposit :: "string \<Rightarrow> time \<Rightarrow> Deposit \<Rightarrow> Deposit" where
  "init_deposit uuid now d = d\<lparr>
     Deposit_ID := uuid,
     Deposit_Meta := (Deposit_Meta d)\<lparr>Meta_Timestamp := now\<rparr>,
     Deposit_Deposit := (Deposit_Deposit d)\<lparr>
       DepositData_LifecycleState := StateRequested,
       DepositData_History := [\<lparr>HistoryEntry_State = StateRequested, HistoryEntry_Timestamp = now,
         HistoryEntry_Actor = ''TENANT'', HistoryEntry_Comment = [], HistoryEntry_Signature = []\<rparr>]\<rparr>\<rparr>"

definition PostgresRepo_Create ::
  "faults \<Rightarrow> string \<Rightarrow> time \<Rightarrow> Deposit \<Rightarrow> Database \<Rightarrow> (repo_error + Deposit) \<times> Database" where
  "PostgresRepo_Create fails uuid now d0 db =
     (let d = init_deposit uuid now d0 in
      case enc_Deposit d of
        None \<Rightarrow> (Inl ErrJSON, db)
      | Some raw \<Rightarrow>
          if fails 0 \<or> deposit_row db uuid \<noteq> None then (Inl ErrDB, db)
          else
            (let db1 = db\<lparr>deposits := deposits db @
                   [\<lparr>DepositRow_id = uuid, DepositRow_lifecycle_state = state_string StateRequested,
                     DepositRow_data = raw\<rparr>]\<rparr>
             in if fails 1 then (Inl ErrDB, db1)
                else (Inr d, db1\<lparr>deposit_history := deposit_history db1 @
                   [\<lparr>HistoryRow_deposit_id = uuid, HistoryRow_state = state_string StateRequested,
                     HistoryRow_timestamp = timestamptz now, HistoryRow_actor = ''TENANT'',
                     HistoryRow_comment = None, HistoryRow_signature = None\<rparr>]\<rparr>)))"

definition PostgresRepo_GetByID :: "faults \<Rightarrow> string \<Rightarrow> Database \<Rightarrow> repo_error + Deposit" where
  "PostgresRepo_GetByID fails did db =
     (if fails 0 then Inl ErrDB
      else case deposit_row db did of
             None \<Rightarrow> Inl ErrNotFound
           | Some row \<Rightarrow> (case dec_Deposit (DepositRow_data row) of
                             None \<Rightarrow> Inl ErrJSON
                           | Some d \<Rightarrow> Inr d))"

text \<open>What \<open>UpdateState\<close> does to the patched deposit: state, timestamp, history.\<close>

definition enter_state :: "time \<Rightarrow> LifecycleState \<Rightarrow> HistoryEntry \<Rightarrow> Deposit \<Rightarrow> Deposit" where
  "enter_state now newState entry d = d\<lparr>
     Deposit_Deposit := (Deposit_Deposit d)\<lparr>
       DepositData_LifecycleState := newState,
       DepositData_History := history d @ [entry\<lparr>HistoryEntry_Timestamp := now\<rparr>]\<rparr>\<rparr>"

definition PostgresRepo_UpdateState ::
  "faults \<Rightarrow> time \<Rightarrow> string \<Rightarrow> LifecycleState \<Rightarrow> HistoryEntry \<Rightarrow> patch \<Rightarrow> Database \<Rightarrow>
     (repo_error + Deposit) \<times> Database" where
  "PostgresRepo_UpdateState fails now did newState entry patch db =
     (if fails 0 then (Inl ErrDB, db)
      else if fails 1 then (Inl ErrDB, db)
      else case deposit_row db did of
        None \<Rightarrow> (Inl ErrNotFound, db)
      | Some row \<Rightarrow> (case dec_Deposit (DepositRow_data row) of
          None \<Rightarrow> (Inl ErrJSON, db)
        | Some d0 \<Rightarrow> (case patch d0 of
            None \<Rightarrow> (Inl ErrPanic, db)
          | Some d1 \<Rightarrow>
              (let d = enter_state now newState entry d1 in
               case enc_Deposit d of
                 None \<Rightarrow> (Inl ErrJSON, db)
               | Some updated \<Rightarrow>
                   if fails 2 then (Inl ErrDB, db)
                   else if fails 3 then (Inl ErrDB, db)
                   else if fails 4 then (Inl ErrDB, db)
                   else (Inr d, db\<lparr>
                     deposits := update_where (\<lambda>r. DepositRow_id r = did)
                       (\<lambda>r. r\<lparr>DepositRow_lifecycle_state := state_string newState,
                               DepositRow_data := updated\<rparr>) (deposits db),
                     deposit_history := deposit_history db @
                       [\<lparr>HistoryRow_deposit_id = did, HistoryRow_state = state_string newState,
                         HistoryRow_timestamp = timestamptz now,
                         HistoryRow_actor = HistoryEntry_Actor entry,
                         HistoryRow_comment = Some (HistoryEntry_Comment entry),
                         HistoryRow_signature = Some (HistoryEntry_Signature entry)\<rparr>]\<rparr>)))))"

section \<open>The contract of a repository\<close>

text \<open>
  A patch is admissible when it keeps the deposit well-formed, its id, its state
  and its history: \<open>UpdateState\<close> alone writes the latter two.
\<close>

definition patch_ok :: "patch \<Rightarrow> bool" where
  "patch_ok p \<longleftrightarrow> (\<forall>d d'. p d = Some d' \<longrightarrow> Deposit_wf d \<longrightarrow>
     Deposit_wf d' \<and> Deposit_ID d' = Deposit_ID d \<and> lifecycle d' = lifecycle d \<and> history d' = history d)"

locale repository =
  fixes create :: "faults \<Rightarrow> string \<Rightarrow> time \<Rightarrow> Deposit \<Rightarrow> 'db \<Rightarrow> (repo_error + Deposit) \<times> 'db"
    and get :: "faults \<Rightarrow> string \<Rightarrow> 'db \<Rightarrow> repo_error + Deposit"
    and update :: "faults \<Rightarrow> time \<Rightarrow> string \<Rightarrow> LifecycleState \<Rightarrow> HistoryEntry \<Rightarrow> patch \<Rightarrow> 'db \<Rightarrow>
           (repo_error + Deposit) \<times> 'db"
    and view :: "'db \<Rightarrow> string \<rightharpoonup> Deposit"
    and inv :: "'db \<Rightarrow> bool"
  assumes get_view: "inv db \<Longrightarrow> get f did db =
      (if f 0 then Inl ErrDB else case view db did of None \<Rightarrow> Inl ErrNotFound | Some d \<Rightarrow> Inr d)"
    and view_wf: "inv db \<Longrightarrow> view db did = Some d \<Longrightarrow> Deposit_wf d \<and> Deposit_ID d = did"
    and create_Inr: "inv db \<Longrightarrow> create f u now d db = (Inr d', db') \<Longrightarrow> Deposit_wf (init_deposit u now d) \<Longrightarrow>
      d' = init_deposit u now d \<and> view db u = None \<and> view db' = (view db)(u \<mapsto> d') \<and> inv db'"
    and update_Inr: "inv db \<Longrightarrow> update f now did s e p db = (Inr d', db') \<Longrightarrow>
      \<exists>d d1. view db did = Some d \<and> p d = Some d1 \<and> d' = enter_state now s e d1"
    and update_view: "inv db \<Longrightarrow> update f now did s e p db = (Inr d', db') \<Longrightarrow> patch_ok p \<Longrightarrow>
      state_wf s \<Longrightarrow> state_wf (HistoryEntry_State e) \<Longrightarrow>
      view db' = (view db)(did \<mapsto> d') \<and> inv db'"
    and update_Inl: "update f now did s e p db = (Inl err, db') \<Longrightarrow> db' = db"
    and update_total: "inv db \<Longrightarrow> view db did = Some d \<Longrightarrow> p d = Some d1 \<Longrightarrow> \<forall>n. \<not> f n \<Longrightarrow>
      enc_Deposit (enter_state now s e d1) \<noteq> None \<Longrightarrow> \<exists>db'. update f now did s e p db =
        (Inr (enter_state now s e d1), db')"
begin

text \<open>After a successful update a read returns the updated deposit; other deposits are unaffected.\<close>

lemma read_after_write:
  assumes "inv db" "update f now did s e p db = (Inr d', db')" "patch_ok p"
    and "state_wf s" "state_wf (HistoryEntry_State e)" "\<not> g 0"
  shows "get g did db' = Inr d'"
    and "did' \<noteq> did \<Longrightarrow> get g did' db' = get g did' db"
  using update_view [OF assms(1-5)] assms(1,6) by (simp_all add: get_view)

lemma get_Inr: "inv db \<Longrightarrow> get f did db = Inr d \<Longrightarrow> view db did = Some d"
  by (auto simp: get_view split: if_splits option.splits)

end

section \<open>\<open>PostgresRepo\<close> satisfies the contract\<close>

definition repo_view :: "Database \<Rightarrow> string \<rightharpoonup> Deposit" where
  "repo_view db did = Option.bind (deposit_row db did) (\<lambda>r. dec_Deposit (DepositRow_data r))"

definition row_ok :: "DepositRow \<Rightarrow> bool" where
  "row_ok r = (case dec_Deposit (DepositRow_data r) of
     None \<Rightarrow> False
   | Some d \<Rightarrow> Deposit_wf d \<and> enc_Deposit d \<noteq> None \<and> Deposit_ID d = DepositRow_id r
       \<and> DepositRow_lifecycle_state r = state_string (lifecycle d))"

definition repo_inv :: "Database \<Rightarrow> bool" where
  "repo_inv db \<longleftrightarrow> distinct (map DepositRow_id (deposits db)) \<and> list_all row_ok (deposits db)"

lemma deposit_row_SomeD:
  "deposit_row db did = Some r \<Longrightarrow> r \<in> set (deposits db) \<and> DepositRow_id r = did"
  by (auto simp: deposit_row_def dest: row_where_SomeD)

lemma repo_inv_row:
  assumes "repo_inv db" "deposit_row db did = Some r"
  obtains d where "dec_Deposit (DepositRow_data r) = Some d" "Deposit_wf d" "Deposit_ID d = did"
    "DepositRow_lifecycle_state r = state_string (lifecycle d)" "repo_view db did = Some d"
proof -
  have "row_ok r" "DepositRow_id r = did"
    using assms deposit_row_SomeD [OF assms(2)] by (auto simp: repo_inv_def list_all_iff)
  then show ?thesis
    using that assms(2) by (auto simp: row_ok_def repo_view_def split: option.splits)
qed

lemma repo_view_Some_row:
  "repo_view db did = Some d \<Longrightarrow>
     \<exists>r. deposit_row db did = Some r \<and> dec_Deposit (DepositRow_data r) = Some d"
  by (auto simp: repo_view_def bind_eq_Some_conv)

lemma repo_inv_encodable:
  assumes "repo_inv db" "repo_view db did = Some d"
  obtains j where "enc_Deposit d = Some j"
proof -
  obtain r where r: "deposit_row db did = Some r" "dec_Deposit (DepositRow_data r) = Some d"
    using repo_view_Some_row [OF assms(2)] by blast
  then have "row_ok r" using assms(1) deposit_row_SomeD [OF r(1)] by (auto simp: repo_inv_def list_all_iff)
  then show ?thesis using that r(2) by (auto simp: row_ok_def)
qed

lemma enter_state_simps [simp]:
  "Deposit_ID (enter_state now s e d) = Deposit_ID d"
  "lifecycle (enter_state now s e d) = s"
  "history (enter_state now s e d) = history d @ [e\<lparr>HistoryEntry_Timestamp := now\<rparr>]"
  "Deposit_Settlement (enter_state now s e d) = Deposit_Settlement d"
  "Deposit_UtilityReservation (enter_state now s e d) = Deposit_UtilityReservation d"
  "Deposit_Pledge (enter_state now s e d) = Deposit_Pledge d"
  "Deposit_Tenant (enter_state now s e d) = Deposit_Tenant d"
  by (simp_all add: enter_state_def)

lemma enter_state_wf:
  "Deposit_wf d \<Longrightarrow> state_wf s \<Longrightarrow> state_wf (HistoryEntry_State e) \<Longrightarrow> Deposit_wf (enter_state now s e d)"
  by (simp add: enter_state_def Deposit_wf_def DepositData_wf_def HistoryEntry_wf_def)

lemma enc_dec_Deposit: "Deposit_wf d \<Longrightarrow> enc_Deposit d = Some j \<Longrightarrow> dec_Deposit j = Some d"
  using dec_enc_Deposit [of d] by (simp add: inverts_def)

text \<open>The rows after an update or an insertion.\<close>

lemma deposit_row_update:
  "deposit_row (db\<lparr>deposits := update_where (\<lambda>r. DepositRow_id r = did)
       (\<lambda>r. r\<lparr>DepositRow_lifecycle_state := s, DepositRow_data := j\<rparr>) (deposits db),
     deposit_history := h\<rparr>) k =
   map_option (\<lambda>r. if k = did then r\<lparr>DepositRow_lifecycle_state := s, DepositRow_data := j\<rparr> else r)
     (deposit_row db k)"
proof -
  have "row_where (\<lambda>r. DepositRow_id r = k) (update_where (\<lambda>r. DepositRow_id r = did)
       (\<lambda>r. r\<lparr>DepositRow_lifecycle_state := s, DepositRow_data := j\<rparr>) (deposits db)) =
     map_option (\<lambda>r. if DepositRow_id r = did
         then r\<lparr>DepositRow_lifecycle_state := s, DepositRow_data := j\<rparr> else r)
       (row_where (\<lambda>r. DepositRow_id r = k) (deposits db))"
    by (rule row_where_update_where) simp
  then show ?thesis
    by (auto simp: deposit_row_def dest: row_where_SomeD intro!: option.map_cong0)
qed

lemma PostgresRepo_UpdateState_InrE:
  assumes "PostgresRepo_UpdateState f now did s e p db = (Inr d', db')"
  obtains r d0 d1 j where "deposit_row db did = Some r" "dec_Deposit (DepositRow_data r) = Some d0"
    "p d0 = Some d1" "d' = enter_state now s e d1" "enc_Deposit d' = Some j"
    "db' = db\<lparr>
       deposits := update_where (\<lambda>r. DepositRow_id r = did)
         (\<lambda>r. r\<lparr>DepositRow_lifecycle_state := state_string s, DepositRow_data := j\<rparr>) (deposits db),
       deposit_history := deposit_history db @
         [\<lparr>HistoryRow_deposit_id = did, HistoryRow_state = state_string s,
           HistoryRow_timestamp = timestamptz now, HistoryRow_actor = HistoryEntry_Actor e,
           HistoryRow_comment = Some (HistoryEntry_Comment e),
           HistoryRow_signature = Some (HistoryEntry_Signature e)\<rparr>]\<rparr>"
  using assms
  by (auto simp: PostgresRepo_UpdateState_def Let_def split: if_splits option.splits)

lemma PostgresRepo_UpdateState_view:
  assumes "repo_inv db" "PostgresRepo_UpdateState f now did s e p db = (Inr d', db')" "patch_ok p"
    and "state_wf s" "state_wf (HistoryEntry_State e)"
  shows "repo_view db' = (repo_view db)(did \<mapsto> d')" and "repo_inv db'"
proof -
  obtain r d0 d1 j where u: "deposit_row db did = Some r" "dec_Deposit (DepositRow_data r) = Some d0"
    "p d0 = Some d1" "d' = enter_state now s e d1" "enc_Deposit d' = Some j"
    and db': "db' = db\<lparr>
       deposits := update_where (\<lambda>r. DepositRow_id r = did)
         (\<lambda>r. r\<lparr>DepositRow_lifecycle_state := state_string s, DepositRow_data := j\<rparr>) (deposits db),
       deposit_history := deposit_history db @
         [\<lparr>HistoryRow_deposit_id = did, HistoryRow_state = state_string s,
           HistoryRow_timestamp = timestamptz now, HistoryRow_actor = HistoryEntry_Actor e,
           HistoryRow_comment = Some (HistoryEntry_Comment e),
           HistoryRow_signature = Some (HistoryEntry_Signature e)\<rparr>]\<rparr>"
    using assms(2) by (rule PostgresRepo_UpdateState_InrE)
  have "Deposit_wf d0" "Deposit_ID d0 = did"
    using repo_inv_row [OF assms(1) u(1)] u(2) by auto
  then have wf: "Deposit_wf d'" "Deposit_ID d' = did" "lifecycle d' = s"
    using assms(3-5) u(3,4) by (auto simp: patch_ok_def enter_state_wf)
  then have dec: "dec_Deposit j = Some d'" using enc_dec_Deposit u(5) by blast
  show "repo_view db' = (repo_view db)(did \<mapsto> d')"
    using u(1) dec
    by (intro ext) (auto simp: repo_view_def db' deposit_row_update option.map_ident split: option.splits)
  have "row_ok r'" if "r' \<in> set (deposits db')" for r'
    using that assms(1) dec wf u(5)
    by (auto simp: db' set_update_where repo_inv_def list_all_iff row_ok_def split: if_splits)
  moreover have "map DepositRow_id (deposits db') = map DepositRow_id (deposits db)"
    by (simp add: db' map_update_where)
  ultimately show "repo_inv db'" using assms(1) by (simp add: repo_inv_def list_all_iff)
qed

text \<open>The insertion of a new row; without a transaction it is kept even when the call fails later.\<close>

definition inserted :: "string \<Rightarrow> Deposit \<Rightarrow> Database \<Rightarrow> Database \<Rightarrow> bool" where
  "inserted u d db db' \<longleftrightarrow> deposit_row db u = None \<and> issuance_sessions db' = issuance_sessions db \<and>
     (\<exists>j. enc_Deposit d = Some j \<and> deposits db' = deposits db @ [\<lparr>DepositRow_id = u,
        DepositRow_lifecycle_state = state_string StateRequested, DepositRow_data = j\<rparr>])"

lemma inserted_view:
  assumes "repo_inv db" "inserted u d db db'" "Deposit_wf d" "Deposit_ID d = u" "lifecycle d = StateRequested"
  shows "repo_view db u = None" "repo_view db' = (repo_view db)(u \<mapsto> d)" "repo_inv db'"
proof -
  obtain j where j: "enc_Deposit d = Some j" "deposit_row db u = None"
    and db': "deposits db' = deposits db @ [\<lparr>DepositRow_id = u,
      DepositRow_lifecycle_state = state_string StateRequested, DepositRow_data = j\<rparr>]"
    using assms(2) by (auto simp: inserted_def)
  have dec: "dec_Deposit j = Some d" using enc_dec_Deposit assms(3) j by blast
  show "repo_view db u = None" using j by (simp add: repo_view_def)
  show "repo_view db' = (repo_view db)(u \<mapsto> d)"
    using dec j(2)
    by (auto simp: repo_view_def deposit_row_def db' row_where_append split: option.splits
        intro!: ext)
  have "u \<notin> DepositRow_id ` set (deposits db)"
    using j(2) by (auto simp: deposit_row_def row_where_None_iff)
  then show "repo_inv db'"
    using assms(1,3-5) dec j(1) by (auto simp: repo_inv_def db' row_ok_def)
qed

lemma PostgresRepo_Create_Inr:
  "PostgresRepo_Create f u now d db = (Inr d', db') \<Longrightarrow>
     d' = init_deposit u now d \<and> inserted u d' db db'"
  by (auto simp: PostgresRepo_Create_def Let_def inserted_def split: if_splits option.splits)

lemma PostgresRepo_Create_Inl:
  "PostgresRepo_Create f u now d db = (Inl err, db') \<Longrightarrow>
     db' = db \<or> inserted u (init_deposit u now d) db db'"
  by (auto simp: PostgresRepo_Create_def Let_def inserted_def split: if_splits option.splits)

lemma init_deposit_simps [simp]:
  "Deposit_ID (init_deposit u now d) = u" "lifecycle (init_deposit u now d) = StateRequested"
  "map HistoryEntry_State (history (init_deposit u now d)) = [StateRequested]"
  by (simp_all add: init_deposit_def)

lemma PostgresRepo_Create_view:
  assumes "repo_inv db" "PostgresRepo_Create f u now d db = (Inr d', db')"
    and "Deposit_wf (init_deposit u now d)"
  shows "d' = init_deposit u now d" "repo_view db u = None"
    "repo_view db' = (repo_view db)(u \<mapsto> d')" "repo_inv db'"
  using PostgresRepo_Create_Inr [OF assms(2)] inserted_view [OF assms(1), of u d' db'] assms(3) by auto

interpretation pg: repository PostgresRepo_Create PostgresRepo_GetByID PostgresRepo_UpdateState
  repo_view repo_inv
proof unfold_locales
  fix db f did d s e p d1 d' db' err u now
  show "repo_inv db \<Longrightarrow> PostgresRepo_GetByID f did db =
      (if f 0 then Inl ErrDB else case repo_view db did of None \<Rightarrow> Inl ErrNotFound | Some d \<Rightarrow> Inr d)"
    by (auto simp: PostgresRepo_GetByID_def repo_view_def split: option.splits elim: repo_inv_row)
  show "repo_inv db \<Longrightarrow> repo_view db did = Some d \<Longrightarrow> Deposit_wf d \<and> Deposit_ID d = did"
    using repo_view_Some_row repo_inv_row by (metis option.inject)
  show "repo_inv db \<Longrightarrow> PostgresRepo_Create f u now d db = (Inr d', db') \<Longrightarrow>
      Deposit_wf (init_deposit u now d) \<Longrightarrow>
      d' = init_deposit u now d \<and> repo_view db u = None \<and> repo_view db' = (repo_view db)(u \<mapsto> d')
        \<and> repo_inv db'"
    by (intro conjI) (fact PostgresRepo_Create_view)+
  show "repo_inv db \<Longrightarrow> PostgresRepo_UpdateState f now did s e p db = (Inr d', db') \<Longrightarrow>
      \<exists>d d1. repo_view db did = Some d \<and> p d = Some d1 \<and> d' = enter_state now s e d1"
    by (erule PostgresRepo_UpdateState_InrE) (auto simp: repo_view_def)
  show "repo_inv db \<Longrightarrow> PostgresRepo_UpdateState f now did s e p db = (Inr d', db') \<Longrightarrow> patch_ok p \<Longrightarrow>
      state_wf s \<Longrightarrow> state_wf (HistoryEntry_State e) \<Longrightarrow>
      repo_view db' = (repo_view db)(did \<mapsto> d') \<and> repo_inv db'"
    by (intro conjI) (fact PostgresRepo_UpdateState_view)+
  show "PostgresRepo_UpdateState f now did s e p db = (Inl err, db') \<Longrightarrow> db' = db"
    by (auto simp: PostgresRepo_UpdateState_def Let_def split: if_splits option.splits)
  show "repo_inv db \<Longrightarrow> repo_view db did = Some d \<Longrightarrow> p d = Some d1 \<Longrightarrow> \<forall>n. \<not> f n \<Longrightarrow>
      enc_Deposit (enter_state now s e d1) \<noteq> None \<Longrightarrow>
      \<exists>db'. PostgresRepo_UpdateState f now did s e p db = (Inr (enter_state now s e d1), db')"
    by (auto simp: PostgresRepo_UpdateState_def Let_def dest!: repo_view_Some_row)
qed

end
