(* ===== verification/Issuance.thy ===== *)
theory Issuance
  imports Repository "HOL-Library.AList" "HOL-Library.Word"
begin

text \<open>
  Issuance sessions of the OpenID4VCI pre-authorized code flow: the interface
  \<open>issuance.SessionStore\<close> (\<open>server/internal/issuance/store.go\<close>) and its two
  implementations, the in-memory \<open>Store\<close> (\<open>issuance/session.go\<close>) and the
  database-backed \<open>PostgresSessionStore\<close> (\<open>server/internal/db/session_store.go\<close>),
  and the two allocators of status list indices
  (\<open>issuance/statuslist.go\<close>, \<open>db/statuslist_store.go\<close>).

  The in-memory store shares one session object between four maps, so it is
  modelled with an explicit heap: the maps hold addresses, and a write through one
  map is seen through the others. Random identifiers (\<open>uuid.NewString\<close>) and the
  clock are arguments.

  The locale \<open>session_store\<close> states what the handlers rely on; both
  implementations are proved to satisfy it.
\<close>

section \<open>Sessions\<close>

type_synonym SessionState = string

definition SessionStatePending :: SessionState where "SessionStatePending = ''PENDING''"
definition SessionStateConsumed :: SessionState where "SessionStateConsumed = ''CONSUMED''"
definition SessionStateRevoked :: SessionState where "SessionStateRevoked = ''REVOKED''"

lemma session_states_distinct [simp]:
  "SessionStatePending \<noteq> SessionStateConsumed" "SessionStatePending \<noteq> SessionStateRevoked"
  "SessionStateConsumed \<noteq> SessionStateRevoked" "SessionStateConsumed \<noteq> SessionStatePending"
  "SessionStateRevoked \<noteq> SessionStatePending" "SessionStateRevoked \<noteq> SessionStateConsumed"
  by (simp_all add: SessionStatePending_def SessionStateConsumed_def SessionStateRevoked_def)

record Session =
  Session_ID :: string
  Session_DepositID :: string
  Session_PreAuthorizedCode :: string
  Session_AccessToken :: string
  Session_Nonce :: string
  Session_State :: SessionState
  Session_CreatedAt :: time
  Session_ExpiresAt :: time
  Session_CredentialID :: string
  Session_ValidUntil :: string
  Session_StatusListIndex :: int

text \<open>The session both implementations build; \<open>u n\<close> is the \<open>n\<close>-th identifier drawn.\<close>

definition new_session ::
  "(nat \<Rightarrow> string) \<Rightarrow> time \<Rightarrow> string \<Rightarrow> string \<Rightarrow> int \<Rightarrow> Session" where
  "new_session u now depositID validUntil statusListIndex = \<lparr>
     Session_ID = u 0, Session_DepositID = depositID, Session_PreAuthorizedCode = u 1,
     Session_AccessToken = [], Session_Nonce = u 2, Session_State = SessionStatePending,
     Session_CreatedAt = now, Session_ExpiresAt = now + 15 * Minute,
     Session_CredentialID = [], Session_ValidUntil = validUntil,
     Session_StatusListIndex = statusListIndex\<rparr>"

text \<open>The guard of both \<open>ExchangeCodeForToken\<close> and \<open>ConsumeByToken\<close>.\<close>

definition usable :: "time \<Rightarrow> Session \<Rightarrow> bool" where
  "usable now sess \<longleftrightarrow> Session_State sess = SessionStatePending \<and> \<not> After now (Session_ExpiresAt sess)"

section \<open>The in-memory store\<close>

type_synonym addr = nat

record Store =
  heap :: "addr \<rightharpoonup> Session"
  next_addr :: addr
  byID :: "(string \<times> addr) list"
  byCode :: "(string \<times> addr) list"
  byToken :: "(string \<times> addr) list"
  byCred :: "(string \<times> addr) list"

definition NewStore :: Store where
  "NewStore = \<lparr>heap = Map.empty, next_addr = 0, byID = [], byCode = [], byToken = [], byCred = []\<rparr>"

definition Store_Create ::
  "(nat \<Rightarrow> string) \<Rightarrow> time \<Rightarrow> string \<Rightarrow> string \<Rightarrow> int \<Rightarrow> Store \<Rightarrow> Session \<times> Store" where
  "Store_Create u now depositID validUntil statusListIndex s =
     (let sess = new_session u now depositID validUntil statusListIndex; a = next_addr s
      in (sess, s\<lparr>heap := (heap s)(a \<mapsto> sess), next_addr := Suc a,
                  byID := AList.update (Session_ID sess) a (byID s),
                  byCode := AList.update (Session_PreAuthorizedCode sess) a (byCode s)\<rparr>))"

definition deref :: "Store \<Rightarrow> (string \<times> addr) list \<Rightarrow> string \<rightharpoonup> Session" where
  "deref s m k = Option.bind (map_of m k) (heap s)"

definition Store_GetByID :: "Store \<Rightarrow> string \<rightharpoonup> Session" where
  "Store_GetByID s = deref s (byID s)"

definition Store_GetByCode :: "Store \<Rightarrow> string \<rightharpoonup> Session" where
  "Store_GetByCode s = deref s (byCode s)"

definition Store_GetByToken :: "Store \<Rightarrow> string \<rightharpoonup> Session" where
  "Store_GetByToken s = deref s (byToken s)"

definition Store_ExchangeCodeForToken ::
  "(nat \<Rightarrow> string) \<Rightarrow> time \<Rightarrow> string \<Rightarrow> Store \<Rightarrow> (string \<times> string) option \<times> Store" where
  "Store_ExchangeCodeForToken u now code s =
     (case map_of (byCode s) code of
        None \<Rightarrow> (None, s)
      | Some a \<Rightarrow> (case heap s a of
          None \<Rightarrow> (None, s)
        | Some sess \<Rightarrow>
            if \<not> usable now sess then (None, s)
            else (Some (u 0, u 1),
                  s\<lparr>heap := (heap s)(a \<mapsto> sess\<lparr>Session_AccessToken := u 0, Session_Nonce := u 1\<rparr>),
                    byToken := AList.update (u 0) a (byToken s)\<rparr>)))"

definition Store_ConsumeByToken ::
  "time \<Rightarrow> string \<Rightarrow> string \<Rightarrow> Store \<Rightarrow> Session option \<times> Store" where
  "Store_ConsumeByToken now token credentialID s =
     (case map_of (byToken s) token of
        None \<Rightarrow> (None, s)
      | Some a \<Rightarrow> (case heap s a of
          None \<Rightarrow> (None, s)
        | Some sess \<Rightarrow>
            if \<not> usable now sess then (None, s)
            else let sess' = sess\<lparr>Session_State := SessionStateConsumed,
                                 Session_CredentialID := credentialID\<rparr>
                 in (Some sess', s\<lparr>heap := (heap s)(a \<mapsto> sess'),
                                   byCred := AList.update credentialID a (byCred s)\<rparr>)))"

text \<open>The loop over \<open>byCred\<close> writes through each session pointer.\<close>

fun revoke_all :: "string \<Rightarrow> addr list \<Rightarrow> (addr \<rightharpoonup> Session) \<Rightarrow> (addr \<rightharpoonup> Session)" where
  "revoke_all depositID [] h = h"
| "revoke_all depositID (a # as) h =
     revoke_all depositID as
       (case h a of
          None \<Rightarrow> h
        | Some sess \<Rightarrow>
            if Session_DepositID sess = depositID
            then h(a \<mapsto> sess\<lparr>Session_State := SessionStateRevoked\<rparr>) else h)"

definition Store_RevokeByDepositID :: "string \<Rightarrow> Store \<Rightarrow> Store" where
  "Store_RevokeByDepositID depositID s = s\<lparr>heap := revoke_all depositID (map snd (byCred s)) (heap s)\<rparr>"

fun revoked_indices :: "(addr \<rightharpoonup> Session) \<Rightarrow> addr list \<Rightarrow> int list" where
  "revoked_indices h [] = []"
| "revoked_indices h (a # as) =
     (case h a of
        None \<Rightarrow> revoked_indices h as
      | Some sess \<Rightarrow>
          if Session_State sess = SessionStateRevoked
          then Session_StatusListIndex sess # revoked_indices h as else revoked_indices h as)"

definition Store_RevokedStatusListIndices :: "Store \<Rightarrow> int list" where
  "Store_RevokedStatusListIndices s = revoked_indices (heap s) (map snd (byCred s))"

definition Store_CredentialStatus :: "string \<Rightarrow> Store \<Rightarrow> string \<times> bool" where
  "Store_CredentialStatus credID s =
     (case deref s (byCred s) credID of
        None \<Rightarrow> (''unknown'', False)
      | Some sess \<Rightarrow>
          if Session_State sess = SessionStateRevoked then (''revoked'', True) else (''active'', True))"

text \<open>\<open>MemIndexAllocator\<close>: \<open>atomic.Int64.Add\<close> wraps around at 64 bits.\<close>

definition MemIndexAllocator_AllocateIndex :: "64 word \<Rightarrow> int \<times> 64 word" where
  "MemIndexAllocator_AllocateIndex counter = (sint (counter + 1 - 1), counter + 1)"

section \<open>The database-backed store\<close>

text \<open>\<open>queryOne\<close>: the columns with \<open>COALESCE\<close> defaults.\<close>

definition session_of_row :: "SessionRow \<Rightarrow> Session" where
  "session_of_row r = \<lparr>
     Session_ID = SessionRow_id r, Session_DepositID = SessionRow_deposit_id r,
     Session_PreAuthorizedCode = SessionRow_pre_authorized_code r,
     Session_AccessToken = case_option [] (\<lambda>x. x) (SessionRow_access_token r),
     Session_Nonce = case_option [] (\<lambda>x. x) (SessionRow_nonce r),
     Session_State = SessionRow_state r,
     Session_CreatedAt = SessionRow_created_at r, Session_ExpiresAt = SessionRow_expires_at r,
     Session_CredentialID = case_option [] (\<lambda>x. x) (SessionRow_credential_id r),
     Session_ValidUntil = case_option [] (\<lambda>x. x) (SessionRow_valid_until r),
     Session_StatusListIndex = case_option 0 (\<lambda>x. x) (SessionRow_status_list_index r)\<rparr>"

definition queryOne :: "faults \<Rightarrow> (SessionRow \<Rightarrow> bool) \<Rightarrow> Database \<Rightarrow> Session option" where
  "queryOne fails P db =
     (if fails 0 then None else map_option session_of_row (row_where P (issuance_sessions db)))"

definition PostgresSessionStore_Create ::
  "faults \<Rightarrow> (nat \<Rightarrow> string) \<Rightarrow> time \<Rightarrow> string \<Rightarrow> string \<Rightarrow> int \<Rightarrow> Database \<Rightarrow>
     (repo_error + Session) \<times> Database" where
  "PostgresSessionStore_Create fails u now depositID validUntil statusListIndex db =
     (let sess = new_session u now depositID validUntil statusListIndex in
      if fails 0 \<or> deposit_row db depositID = None
         \<or> row_where (\<lambda>r. SessionRow_id r = Session_ID sess
              \<or> SessionRow_pre_authorized_code r = Session_PreAuthorizedCode sess)
              (issuance_sessions db) \<noteq> None
      then (Inl ErrDB, db)
      else (Inr sess, db\<lparr>issuance_sessions := issuance_sessions db @ [\<lparr>
          SessionRow_id = Session_ID sess, SessionRow_deposit_id = Session_DepositID sess,
          SessionRow_pre_authorized_code = Session_PreAuthorizedCode sess,
          SessionRow_access_token = None, SessionRow_nonce = Some (Session_Nonce sess),
          SessionRow_state = Session_State sess,
          SessionRow_created_at = timestamptz (Session_CreatedAt sess),
          SessionRow_expires_at = timestamptz (Session_ExpiresAt sess),
          SessionRow_credential_id = None,
          SessionRow_valid_until = Some (Session_ValidUntil sess),
          SessionRow_status_list_index = Some (Session_StatusListIndex sess)\<rparr>]\<rparr>))"

definition PostgresSessionStore_GetByID :: "faults \<Rightarrow> Database \<Rightarrow> string \<rightharpoonup> Session" where
  "PostgresSessionStore_GetByID fails db sid = queryOne fails (\<lambda>r. SessionRow_id r = sid) db"

definition PostgresSessionStore_GetByCode :: "faults \<Rightarrow> Database \<Rightarrow> string \<rightharpoonup> Session" where
  "PostgresSessionStore_GetByCode fails db code =
     queryOne fails (\<lambda>r. SessionRow_pre_authorized_code r = code) db"

definition PostgresSessionStore_GetByToken :: "faults \<Rightarrow> Database \<Rightarrow> string \<rightharpoonup> Session" where
  "PostgresSessionStore_GetByToken fails db token =
     queryOne fails (\<lambda>r. SessionRow_access_token r = Some token) db"

text \<open>The statements are \<open>BEGIN\<close>, \<open>SELECT ... FOR UPDATE\<close>, \<open>UPDATE\<close> and \<open>COMMIT\<close>.\<close>

definition PostgresSessionStore_ExchangeCodeForToken ::
  "faults \<Rightarrow> (nat \<Rightarrow> string) \<Rightarrow> time \<Rightarrow> string \<Rightarrow> Database \<Rightarrow> (string \<times> string) option \<times> Database" where
  "PostgresSessionStore_ExchangeCodeForToken fails u now code db =
     (if fails 0 \<or> fails 1 then (None, db)
      else case row_where (\<lambda>r. SessionRow_pre_authorized_code r = code) (issuance_sessions db) of
        None \<Rightarrow> (None, db)
      | Some row \<Rightarrow>
          if SessionRow_state row \<noteq> SessionStatePending \<or> After now (SessionRow_expires_at row)
          then (None, db)
          else if fails 2 \<or> row_where (\<lambda>r. SessionRow_access_token r = Some (u 0)
                 \<and> SessionRow_id r \<noteq> SessionRow_id row) (issuance_sessions db) \<noteq> None
          then (None, db)
          else if fails 3 then (None, db)
          else (Some (u 0, u 1), db\<lparr>issuance_sessions :=
                 update_where (\<lambda>r. SessionRow_id r = SessionRow_id row)
                   (\<lambda>r. r\<lparr>SessionRow_access_token := Some (u 0), SessionRow_nonce := Some (u 1)\<rparr>)
                   (issuance_sessions db)\<rparr>))"

definition PostgresSessionStore_ConsumeByToken ::
  "faults \<Rightarrow> time \<Rightarrow> string \<Rightarrow> string \<Rightarrow> Database \<Rightarrow> Session option \<times> Database" where
  "PostgresSessionStore_ConsumeByToken fails now token credentialID db =
     (if fails 0 \<or> fails 1 then (None, db)
      else case row_where (\<lambda>r. SessionRow_access_token r = Some token) (issuance_sessions db) of
        None \<Rightarrow> (None, db)
      | Some row \<Rightarrow>
          if SessionRow_state row \<noteq> SessionStatePending \<or> After now (SessionRow_expires_at row)
          then (None, db)
          else if fails 2 \<or> row_where (\<lambda>r. SessionRow_credential_id r = Some credentialID
                 \<and> SessionRow_id r \<noteq> SessionRow_id row) (issuance_sessions db) \<noteq> None
          then (None, db)
          else if fails 3 then (None, db)
          else (Some ((session_of_row row)\<lparr>Session_State := SessionStateConsumed,
                        Session_AccessToken := token, Session_CredentialID := credentialID\<rparr>),
                db\<lparr>issuance_sessions :=
                 update_where (\<lambda>r. SessionRow_id r = SessionRow_id row)
                   (\<lambda>r. r\<lparr>SessionRow_state := SessionStateConsumed,
                           SessionRow_credential_id := Some credentialID\<rparr>)
                   (issuance_sessions db)\<rparr>))"

definition PostgresSessionStore_RevokeByDepositID :: "faults \<Rightarrow> string \<Rightarrow> Database \<Rightarrow> Database" where
  "PostgresSessionStore_RevokeByDepositID fails depositID db =
     (if fails 0 then db
      else db\<lparr>issuance_sessions :=
        update_where (\<lambda>r. SessionRow_deposit_id r = depositID \<and> SessionRow_state r = SessionStateConsumed)
          (\<lambda>r. r\<lparr>SessionRow_state := SessionStateRevoked\<rparr>) (issuance_sessions db)\<rparr>)"

definition PostgresSessionStore_CredentialStatus ::
  "faults \<Rightarrow> string \<Rightarrow> Database \<Rightarrow> string \<times> bool" where
  "PostgresSessionStore_CredentialStatus fails credID db =
     (if fails 0 then (''unknown'', False)
      else case row_where (\<lambda>r. SessionRow_credential_id r = Some credID) (issuance_sessions db) of
        None \<Rightarrow> (''unknown'', False)
      | Some row \<Rightarrow>
          if SessionRow_state row = SessionStateRevoked then (''revoked'', True) else (''active'', True))"

definition PostgresSessionStore_RevokedStatusListIndices ::
  "faults \<Rightarrow> Database \<Rightarrow> repo_error + int list" where
  "PostgresSessionStore_RevokedStatusListIndices fails db =
     (if fails 0 \<or> fails 1 then Inl ErrDB
      else Inr (map (\<lambda>r. case_option 0 (\<lambda>x. x) (SessionRow_status_list_index r))
             (filter (\<lambda>r. SessionRow_state r = SessionStateRevoked
                \<and> SessionRow_status_list_index r \<noteq> None) (issuance_sessions db))))"

text \<open>\<open>PostgresIndexAllocator\<close>: a \<open>BIGINT\<close> counter; running out of range is a database error.\<close>

definition PostgresIndexAllocator_AllocateIndex ::
  "faults \<Rightarrow> Database \<Rightarrow> (repo_error + int) \<times> Database" where
  "PostgresIndexAllocator_AllocateIndex fails db =
     (let n = status_list_counter db + 1
      in if fails 0 \<or> 2 ^ 63 \<le> n then (Inl ErrDB, db)
         else (Inr (n - 1), db\<lparr>status_list_counter := n\<rparr>))"

section \<open>The contract of a session store\<close>

text \<open>
  The calls that change a session store; a run is any sequence of them. The
  operations are arguments, so that one definition serves both implementations.
\<close>

datatype sess_op =
    OpCreate "nat \<Rightarrow> string" time string string int
  | OpExchange "nat \<Rightarrow> string" time string
  | OpConsume time string string
  | OpRevoke string

fun session_step ::
  "((nat \<Rightarrow> string) \<Rightarrow> time \<Rightarrow> string \<Rightarrow> string \<Rightarrow> int \<Rightarrow> 's \<Rightarrow> 'r \<times> 's) \<Rightarrow>
   ((nat \<Rightarrow> string) \<Rightarrow> time \<Rightarrow> string \<Rightarrow> 's \<Rightarrow> (string \<times> string) option \<times> 's) \<Rightarrow>
   (time \<Rightarrow> string \<Rightarrow> string \<Rightarrow> 's \<Rightarrow> Session option \<times> 's) \<Rightarrow> (string \<Rightarrow> 's \<Rightarrow> 's) \<Rightarrow>
   sess_op \<Rightarrow> 's \<Rightarrow> 's" where
  "session_step cr ex co re (OpCreate u now did vu idx) s = snd (cr u now did vu idx s)"
| "session_step cr ex co re (OpExchange u now code) s = snd (ex u now code s)"
| "session_step cr ex co re (OpConsume now token cid) s = snd (co now token cid s)"
| "session_step cr ex co re (OpRevoke did) s = re did s"

fun op_mints_token :: "string \<Rightarrow> sess_op \<Rightarrow> bool" where
  "op_mints_token t (OpExchange u now code) \<longleftrightarrow> u 0 = t"
| "op_mints_token t _ \<longleftrightarrow> False"

fun op_issues :: "string \<Rightarrow> sess_op \<Rightarrow> bool" where
  "op_issues cid (OpConsume now token cid') \<longleftrightarrow> cid' = cid"
| "op_issues cid _ \<longleftrightarrow> False"

definition cred_status :: "Session option \<Rightarrow> string \<times> bool" where
  "cred_status c =
     (case c of
        None \<Rightarrow> (''unknown'', False)
      | Some sess \<Rightarrow>
          if Session_State sess = SessionStateRevoked then (''revoked'', True) else (''active'', True))"

definition revoke_session :: "string \<Rightarrow> Session \<Rightarrow> Session" where
  "revoke_session did x =
     (if Session_DepositID x = did then x\<lparr>Session_State := SessionStateRevoked\<rparr> else x)"

lemma revoke_session_simps [simp]:
  "Session_StatusListIndex (revoke_session did x) = Session_StatusListIndex x"
  "Session_DepositID (revoke_session did x) = Session_DepositID x"
  "Session_State (revoke_session did x) =
     (if Session_DepositID x = did then SessionStateRevoked else Session_State x)"
  by (simp_all add: revoke_session_def)

text \<open>
  \<open>cred s\<close> is the abstract contents: the credentials handed out, by credential id;
  \<open>tok s\<close> the sessions reachable by an access token.
\<close>

locale session_store =
  fixes create :: "(nat \<Rightarrow> string) \<Rightarrow> time \<Rightarrow> string \<Rightarrow> string \<Rightarrow> int \<Rightarrow> 's \<Rightarrow> 'r \<times> 's"
    and exchange :: "(nat \<Rightarrow> string) \<Rightarrow> time \<Rightarrow> string \<Rightarrow> 's \<Rightarrow> (string \<times> string) option \<times> 's"
    and consume :: "time \<Rightarrow> string \<Rightarrow> string \<Rightarrow> 's \<Rightarrow> Session option \<times> 's"
    and revoke :: "string \<Rightarrow> 's \<Rightarrow> 's"
    and status :: "string \<Rightarrow> 's \<Rightarrow> string \<times> bool"
    and revoked :: "'s \<Rightarrow> int list"
    and cred :: "'s \<Rightarrow> string \<rightharpoonup> Session"
    and tok :: "'s \<Rightarrow> string \<rightharpoonup> Session"
    and inv :: "'s \<Rightarrow> bool"
  assumes status_cred: "inv s \<Longrightarrow> status cid s = cred_status (cred s cid)"
    and revoked_cred: "inv s \<Longrightarrow> i \<in> set (revoked s) \<longleftrightarrow>
      (\<exists>cid x. cred s cid = Some x \<and> Session_State x = SessionStateRevoked \<and> Session_StatusListIndex x = i)"
    and revoke_cred: "inv s \<Longrightarrow> cred (revoke did s) cid = map_option (revoke_session did) (cred s cid)"
    and revoke_tok: "inv s \<Longrightarrow> tok (revoke did s) t = Some x \<Longrightarrow> Session_State x = SessionStatePending \<Longrightarrow>
      tok s t = Some x"
    and revoke_inv: "inv s \<Longrightarrow> inv (revoke did s)"
    and consume_Some: "inv s \<Longrightarrow> consume now t cid s = (Some x, s') \<Longrightarrow>
      (\<exists>y. tok s t = Some y \<and> usable now y \<and>
         x = y\<lparr>Session_State := SessionStateConsumed, Session_CredentialID := cid\<rparr>) \<and>
      cred s' = (cred s)(cid \<mapsto> x) \<and> tok s' t = Some x \<and>
      (\<forall>t' z. tok s' t' = Some z \<longrightarrow> Session_State z = SessionStatePending \<longrightarrow> tok s t' = Some z)"
    and consume_inv: "inv s \<Longrightarrow> consume now t cid s = (Some x, s') \<Longrightarrow> inv s'"
    and consume_None: "inv s \<Longrightarrow> consume now t cid s = (None, s') \<Longrightarrow>
      s' = s \<and> \<not> (\<exists>y. tok s t = Some y \<and> usable now y \<and> cred s cid = None)"
    and exchange_cred: "inv s \<Longrightarrow> exchange u now code s = (r, s') \<Longrightarrow> inv s' \<and> cred s' = cred s"
    and exchange_tok: "inv s \<Longrightarrow> exchange u now code s = (r, s') \<Longrightarrow> u 0 \<noteq> t \<Longrightarrow> tok s' t = Some x \<Longrightarrow>
      \<exists>y. tok s t = Some y \<and> Session_State y = Session_State x"
    and exchange_Some: "inv s \<Longrightarrow> exchange u now code s = (Some (t, n), s') \<Longrightarrow>
      \<exists>y. tok s' t = Some y \<and> usable now y \<and> Session_Nonce y = n"
    and create_keeps: "inv s \<Longrightarrow> inv (snd (create u now did vu idx s)) \<and>
      cred (snd (create u now did vu idx s)) = cred s \<and> tok (snd (create u now did vu idx s)) = tok s"
begin

definition run :: "sess_op list \<Rightarrow> 's \<Rightarrow> 's" where
  "run ops s = fold (session_step create exchange consume revoke) ops s"

lemma consume_cases:
  assumes "inv s"
  obtains "snd (consume now t cid s) = s" "fst (consume now t cid s) = None"
  | x s' where "consume now t cid s = (Some x, s')"
  using consume_None [OF assms] by (cases "consume now t cid s"; cases "fst (consume now t cid s)") auto

lemma consume_spends:
  "inv s \<Longrightarrow> consume now t cid s = (Some x, s') \<Longrightarrow> tok s' t' = Some z \<Longrightarrow>
     Session_State z = SessionStatePending \<Longrightarrow> tok s t' = Some z"
  by (drule (1) consume_Some) blast

lemma consume_conds:
  assumes "inv s" "consume now t cid s = (Some x, s')"
  obtains y where "tok s t = Some y" "usable now y" "tok s' t = Some x" "cred s' = (cred s)(cid \<mapsto> x)"
    "x = y\<lparr>Session_State := SessionStateConsumed, Session_CredentialID := cid\<rparr>" "inv s'"
proof -
  note c = consume_Some [OF assms]
  from c obtain y where "tok s t = Some y" "usable now y"
    "x = y\<lparr>Session_State := SessionStateConsumed, Session_CredentialID := cid\<rparr>" by blast
  moreover from c have "tok s' t = Some x" "cred s' = (cred s)(cid \<mapsto> x)" by blast+
  ultimately show ?thesis using that consume_inv [OF assms] by blast
qed

lemma step_inv:
  assumes "inv s"
  shows "inv (session_step create exchange consume revoke op s)"
proof (cases op)
  case (OpConsume now t cid)
  show ?thesis
    by (cases rule: consume_cases [OF assms, of now t cid])
      (simp_all add: OpConsume assms consume_inv [OF assms])
next
  case (OpExchange u now code)
  show ?thesis
    using exchange_cred [OF assms, of u now code]
    by (cases "exchange u now code s") (simp add: OpExchange)
qed (simp_all add: assms create_keeps revoke_inv)

lemma run_inv: "inv s \<Longrightarrow> inv (run ops s)"
  unfolding run_def by (induction ops arbitrary: s) (simp_all add: step_inv)

text \<open>A token whose session has left PENDING never comes back.\<close>

definition spent :: "string \<Rightarrow> 's \<Rightarrow> bool" where
  "spent t s \<longleftrightarrow> (\<forall>x. tok s t = Some x \<longrightarrow> Session_State x \<noteq> SessionStatePending)"

lemma step_spent:
  assumes "inv s" "spent t s" "\<not> op_mints_token t op"
  shows "spent t (session_step create exchange consume revoke op s)"
proof (cases op)
  case (OpConsume now t' cid)
  show ?thesis
  proof (cases rule: consume_cases [OF assms(1), of now t' cid])
    case 1
    then show ?thesis using assms by (simp add: OpConsume)
  next
    case (2 x s')
    then show ?thesis
      unfolding spent_def OpConsume session_step.simps 2 snd_conv
      using assms(2) [unfolded spent_def] consume_spends [OF assms(1) 2] by blast
  qed
next
  case (OpExchange u now code)
  obtain r s' where e: "exchange u now code s = (r, s')" by fastforce
  show ?thesis
    unfolding spent_def OpExchange session_step.simps e snd_conv
  proof (intro allI impI)
    fix x assume "tok s' t = Some x"
    with exchange_tok [OF assms(1) e] assms(3) OpExchange
    obtain y where "tok s t = Some y" "Session_State y = Session_State x" by auto
    then show "Session_State x \<noteq> SessionStatePending" using assms(2) by (auto simp: spent_def)
  qed
next
  case (OpRevoke did)
  show ?thesis
    unfolding spent_def OpRevoke session_step.simps
    using revoke_tok [OF assms(1)] assms(2) [unfolded spent_def] by blast
next
  case (OpCreate u now did vu idx)
  then show ?thesis using assms by (simp add: spent_def create_keeps)
qed

lemma run_spent:
  "inv s \<Longrightarrow> spent t s \<Longrightarrow> list_all (\<lambda>op. \<not> op_mints_token t op) ops \<Longrightarrow> spent t (run ops s)"
  unfolding run_def by (induction ops arbitrary: s) (simp_all add: step_inv step_spent)

lemma single_use:
  assumes "inv s" "consume now t cid s = (Some x, s')"
    and "list_all (\<lambda>op. \<not> op_mints_token t op) ops"
  shows "fst (consume now' t cid' (run ops s')) = None"
proof -
  have i: "inv s'" using assms by (auto dest: consume_inv)
  have "spent t s'" by (rule consume_conds [OF assms(1,2)]) (simp add: spent_def)
  from run_spent [OF i this assms(3)] have s: "spent t (run ops s')" .
  show ?thesis
  proof (cases rule: consume_cases [OF run_inv [OF i, of ops], of now' t cid'])
    case (2 x' s'')
    show ?thesis
      by (rule consume_conds [OF run_inv [OF i] 2]) (use s in \<open>simp add: spent_def usable_def\<close>)
  qed
qed

text \<open>Revocation reaches every credential of the deposit and is permanent.\<close>

definition is_revoked :: "string \<Rightarrow> int \<Rightarrow> 's \<Rightarrow> bool" where
  "is_revoked cid i s \<longleftrightarrow>
     (\<exists>x. cred s cid = Some x \<and> Session_State x = SessionStateRevoked \<and> Session_StatusListIndex x = i)"

lemma revoke_revokes:
  assumes "inv s" "cred s cid = Some x" "Session_DepositID x = did"
  shows "is_revoked cid (Session_StatusListIndex x) (revoke did s)"
  using assms by (simp add: is_revoked_def revoke_cred)

lemma step_revoked:
  assumes "inv s" "is_revoked cid i s" "\<not> op_issues cid op"
  shows "is_revoked cid i (session_step create exchange consume revoke op s)"
proof (cases op)
  case (OpConsume now t cid')
  show ?thesis
  proof (cases rule: consume_cases [OF assms(1), of now t cid'])
    case 1
    then show ?thesis using assms(2) by (simp add: OpConsume)
  next
    case (2 x s')
    show ?thesis
      by (rule consume_conds [OF assms(1) 2])
        (use assms(2,3) 2 in \<open>auto simp: OpConsume is_revoked_def\<close>)
  qed
next
  case (OpExchange u now code)
  obtain r s' where e: "exchange u now code s = (r, s')" by fastforce
  with exchange_cred [OF assms(1) e] assms(2) show ?thesis by (simp add: is_revoked_def OpExchange)
next
  case (OpRevoke did)
  then show ?thesis using assms by (auto simp: is_revoked_def revoke_cred)
next
  case (OpCreate u now did vu idx)
  then show ?thesis using assms by (simp add: is_revoked_def create_keeps)
qed

lemma run_revoked:
  "inv s \<Longrightarrow> is_revoked cid i s \<Longrightarrow> list_all (\<lambda>op. \<not> op_issues cid op) ops \<Longrightarrow>
     is_revoked cid i (run ops s)"
  unfolding run_def by (induction ops arbitrary: s) (simp_all add: step_inv step_revoked)

lemma is_revoked_observed:
  assumes "inv s" "is_revoked cid i s"
  shows "status cid s = (''revoked'', True)" "i \<in> set (revoked s)"
  using assms by (auto simp: is_revoked_def status_cred revoked_cred cred_status_def)

lemma revocation_permanent:
  assumes "inv s" "cred s cid = Some x" "Session_DepositID x = did"
    and "list_all (\<lambda>op. \<not> op_issues cid op) ops"
  shows "status cid (run ops (revoke did s)) = (''revoked'', True)"
    and "Session_StatusListIndex x \<in> set (revoked (run ops (revoke did s)))"
  using is_revoked_observed [OF run_inv run_revoked, OF revoke_inv revoke_inv revoke_revokes] assms
  by auto

lemma revoke_total:
  assumes "inv s" "status cid (revoke did s) = (''active'', True)"
  obtains x where "cred s cid = Some x" "Session_DepositID x \<noteq> did"
  using assms by (auto simp: status_cred revoke_inv revoke_cred cred_status_def split: option.splits if_splits)

end

section \<open>The in-memory store satisfies the contract\<close>

definition Store_cred :: "Store \<Rightarrow> string \<rightharpoonup> Session" where
  "Store_cred s = deref s (byCred s)"

text \<open>
  The maps hold live addresses, a session reached through \<open>byCred\<close> has left
  PENDING, and the address counter is ahead of the heap.
\<close>

definition Store_inv :: "Store \<Rightarrow> bool" where
  "Store_inv s \<longleftrightarrow>
     (\<forall>a x. heap s a = Some x \<longrightarrow> a < next_addr s)
   \<and> (\<forall>k a. map_of (byCode s) k = Some a \<longrightarrow> heap s a \<noteq> None)
   \<and> (\<forall>k a. map_of (byToken s) k = Some a \<longrightarrow> heap s a \<noteq> None)
   \<and> distinct (map fst (byCred s))
   \<and> (\<forall>k a. map_of (byCred s) k = Some a \<longrightarrow>
        (\<exists>x. heap s a = Some x \<and> Session_State x \<noteq> SessionStatePending))"

lemma Store_invD:
  assumes "Store_inv s"
  shows "heap s a = Some x \<Longrightarrow> a < next_addr s"
    and "map_of (byCode s) k = Some a \<Longrightarrow> heap s a \<noteq> None"
    and "map_of (byToken s) k = Some a \<Longrightarrow> heap s a \<noteq> None"
    and "map_of (byCred s) k = Some a \<Longrightarrow> \<exists>x. heap s a = Some x \<and> Session_State x \<noteq> SessionStatePending"
    and "(k, a) \<in> set (byCred s) \<longleftrightarrow> map_of (byCred s) k = Some a"
  using assms unfolding Store_inv_def by (blast, blast, blast, blast, simp)

lemma NewStore_inv: "Store_inv NewStore"
  by (simp add: Store_inv_def NewStore_def)

lemma revoke_all_at:
  "revoke_all did as h b = (if b \<in> set as then map_option (revoke_session did) (h b) else h b)"
proof (induction as arbitrary: h)
  case (Cons a as)
  have "(case h a of None \<Rightarrow> h | Some sess \<Rightarrow>
            if Session_DepositID sess = did
            then h(a \<mapsto> sess\<lparr>Session_State := SessionStateRevoked\<rparr>) else h) =
        h(a := map_option (revoke_session did) (h a))"
    by (auto simp: revoke_session_def fun_eq_iff split: option.splits)
  then have "revoke_all did (a # as) h b =
      revoke_all did as (h(a := map_option (revoke_session did) (h a))) b" by simp
  then show ?case
    by (cases "h b") (auto simp: Cons revoke_session_def)
qed simp

lemma revoked_indices_iff:
  "i \<in> set (revoked_indices h as) \<longleftrightarrow>
     (\<exists>a \<in> set as. \<exists>x. h a = Some x \<and> Session_State x = SessionStateRevoked \<and> Session_StatusListIndex x = i)"
  by (induction as) (auto split: option.splits)

lemma Store_RevokeByDepositID_at:
  "heap (Store_RevokeByDepositID did s) a =
     (if a \<in> snd ` set (byCred s) then map_option (revoke_session did) (heap s a) else heap s a)"
  by (simp add: Store_RevokeByDepositID_def revoke_all_at)

lemma Store_Revoke_cred:
  assumes "Store_inv s"
  shows "Store_cred (Store_RevokeByDepositID did s) cid = map_option (revoke_session did) (Store_cred s cid)"
proof (cases "map_of (byCred s) cid")
  case (Some a)
  then have "a \<in> snd ` set (byCred s)" by (force dest: map_of_SomeD)
  with Some show ?thesis
    by (simp add: Store_cred_def deref_def Store_RevokeByDepositID_def revoke_all_at)
qed (simp add: Store_cred_def deref_def Store_RevokeByDepositID_def)

lemma Store_Revoke_inv:
  assumes "Store_inv s"
  shows "Store_inv (Store_RevokeByDepositID did s)"
proof -
  let ?s = "Store_RevokeByDepositID did s"
  have live: "(heap ?s a = None) = (heap s a = None)" for a
    by (simp add: Store_RevokeByDepositID_at)
  have left: "\<exists>x'. heap ?s a = Some x' \<and> Session_State x' \<noteq> SessionStatePending"
    if "heap s a = Some x" "Session_State x \<noteq> SessionStatePending" for a x
    using that by (simp add: Store_RevokeByDepositID_at)
  have maps: "byCode ?s = byCode s" "byToken ?s = byToken s" "byCred ?s = byCred s"
    "next_addr ?s = next_addr s"
    by (simp_all add: Store_RevokeByDepositID_def)
  have "heap ?s a = Some x \<Longrightarrow> a < next_addr s" for a x
    using Store_invD(1) [OF assms, of a] live [of a] by (cases "heap s a") auto
  then show ?thesis
    using assms left unfolding Store_inv_def maps live by blast
qed

text \<open>Consuming and exchanging write one session, and that session is PENDING.\<close>

lemma Store_ConsumeByToken_Some:
  "Store_ConsumeByToken now t cid s = (Some x, s') \<Longrightarrow>
   \<exists>a y. map_of (byToken s) t = Some a \<and> heap s a = Some y \<and> usable now y \<and>
     x = y\<lparr>Session_State := SessionStateConsumed, Session_CredentialID := cid\<rparr> \<and>
     s' = s\<lparr>heap := (heap s)(a \<mapsto> x), byCred := AList.update cid a (byCred s)\<rparr>"
  unfolding Store_ConsumeByToken_def by (auto simp: Let_def split: option.splits if_splits)

lemma Store_ExchangeCodeForToken_Some:
  "Store_ExchangeCodeForToken u now code s = (Some p, s') \<Longrightarrow>
   \<exists>a y. p = (u 0, u 1) \<and> heap s a = Some y \<and> usable now y \<and>
     s' = s\<lparr>heap := (heap s)(a \<mapsto> y\<lparr>Session_AccessToken := u 0, Session_Nonce := u 1\<rparr>),
            byToken := AList.update (u 0) a (byToken s)\<rparr>"
  unfolding Store_ExchangeCodeForToken_def by (auto split: option.splits if_splits)

lemma Store_ExchangeCodeForToken_None:
  "Store_ExchangeCodeForToken u now code s = (None, s') \<Longrightarrow> s' = s"
  unfolding Store_ExchangeCodeForToken_def by (auto split: option.splits if_splits)

lemma Store_ConsumeByToken_None:
  "Store_ConsumeByToken now t cid s = (None, s') \<Longrightarrow>
     s' = s \<and> \<not> (\<exists>y. Store_GetByToken s t = Some y \<and> usable now y)"
  unfolding Store_ConsumeByToken_def Store_GetByToken_def deref_def
  by (auto simp: Let_def split: option.splits if_splits)

lemma Store_pending_not_cred:
  assumes "Store_inv s" "heap s a = Some y" "usable now y"
  shows "map_of (byCred s) k \<noteq> Some a"
  using Store_invD(4) [OF assms(1), of k a] assms(2,3) by (auto simp: usable_def)

lemma Store_exchange_inv:
  assumes "Store_inv s" "heap s a = Some y" "usable now y"
  shows "Store_inv (s\<lparr>heap := (heap s)(a \<mapsto> x), byToken := AList.update t a (byToken s)\<rparr>)"
  using assms(1,2) Store_pending_not_cred [OF assms] unfolding Store_inv_def
  by (simp add: update_conv' split: if_splits)

lemma Store_consume_inv:
  assumes "Store_inv s" "heap s a = Some y" "Session_State x \<noteq> SessionStatePending"
  shows "Store_inv (s\<lparr>heap := (heap s)(a \<mapsto> x), byCred := AList.update cid a (byCred s)\<rparr>)"
  using assms unfolding Store_inv_def
  by (simp add: update_conv' distinct_update split: if_splits)

lemma Store_fresh:
  assumes "Store_inv s"
  shows "heap s (next_addr s) = None" "map_of (byCred s) k \<noteq> Some (next_addr s)"
    "map_of (byToken s) k \<noteq> Some (next_addr s)"
proof -
  show f: "heap s (next_addr s) = None"
    using Store_invD(1) [OF assms, of "next_addr s"] by (cases "heap s (next_addr s)") auto
  show "map_of (byCred s) k \<noteq> Some (next_addr s)" "map_of (byToken s) k \<noteq> Some (next_addr s)"
    using Store_invD(3,4) [OF assms, of k "next_addr s"] f by auto
qed

lemma Store_Create_inv:
  assumes "Store_inv s"
  shows "Store_inv (snd (Store_Create u now did vu idx s))"
  using assms Store_fresh [OF assms] unfolding Store_inv_def Store_Create_def
  by (auto simp: update_conv' Let_def less_Suc_eq split: if_splits)

lemma Store_Revoked_cred:
  assumes "Store_inv s"
  shows "i \<in> set (Store_RevokedStatusListIndices s) \<longleftrightarrow> (\<exists>cid x. Store_cred s cid = Some x \<and>
          Session_State x = SessionStateRevoked \<and> Session_StatusListIndex x = i)"
proof -
  have "a \<in> set (map snd (byCred s)) \<longleftrightarrow> (\<exists>k. map_of (byCred s) k = Some a)" for a
    using Store_invD(5) [OF assms] by force
  then show ?thesis
    unfolding Store_RevokedStatusListIndices_def revoked_indices_iff Store_cred_def deref_def
      bind_eq_Some_conv by blast
qed

lemma Store_Revoke_token:
  "Store_GetByToken (Store_RevokeByDepositID did s) t = Some x \<Longrightarrow>
     Session_State x = SessionStatePending \<Longrightarrow> Store_GetByToken s t = Some x"
  by (auto simp: Store_GetByToken_def deref_def bind_eq_Some_conv revoke_all_at
      Store_RevokeByDepositID_def revoke_session_def split: if_splits)

lemma Store_consume_law:
  assumes i: "Store_inv s" and c: "Store_ConsumeByToken now t cid s = (Some x, s')"
  shows "Store_inv s'"
    and "\<exists>y. Store_GetByToken s t = Some y \<and> usable now y \<and>
        x = y\<lparr>Session_State := SessionStateConsumed, Session_CredentialID := cid\<rparr>"
    and "Store_cred s' = (Store_cred s)(cid \<mapsto> x)" "Store_GetByToken s' t = Some x"
    and "\<forall>t' z. Store_GetByToken s' t' = Some z \<longrightarrow> Session_State z = SessionStatePending \<longrightarrow>
        Store_GetByToken s t' = Some z"
proof -
  obtain a y where a: "map_of (byToken s) t = Some a" "heap s a = Some y" and u: "usable now y"
    and x: "x = y\<lparr>Session_State := SessionStateConsumed, Session_CredentialID := cid\<rparr>"
    and s': "s' = s\<lparr>heap := (heap s)(a \<mapsto> x), byCred := AList.update cid a (byCred s)\<rparr>"
    using Store_ConsumeByToken_Some [OF c] by blast
  show "Store_inv s'" unfolding s' by (rule Store_consume_inv [OF i a(2)]) (simp add: x)
  show "Store_cred s' = (Store_cred s)(cid \<mapsto> x)"
    using Store_pending_not_cred [OF i a(2) u]
    by (auto simp: s' Store_cred_def deref_def update_conv' fun_eq_iff split: Option.bind_splits)
  have y: "Store_GetByToken s t = Some y" using a by (simp add: Store_GetByToken_def deref_def)
  show "Store_GetByToken s' t = Some x" using a by (simp add: s' Store_GetByToken_def deref_def)
  show "\<exists>y. Store_GetByToken s t = Some y \<and> usable now y \<and>
        x = y\<lparr>Session_State := SessionStateConsumed, Session_CredentialID := cid\<rparr>"
    using u x y by blast
  show "\<forall>t' z. Store_GetByToken s' t' = Some z \<longrightarrow> Session_State z = SessionStatePending \<longrightarrow>
        Store_GetByToken s t' = Some z"
    by (auto simp: s' x Store_GetByToken_def deref_def bind_eq_Some_conv split: if_splits)
qed

lemma Store_exchange_law:
  assumes i: "Store_inv s" and e: "Store_ExchangeCodeForToken u now code s = (r, s')"
  shows "Store_inv s' \<and> Store_cred s' = Store_cred s"
    and "u 0 \<noteq> t \<Longrightarrow> Store_GetByToken s' t = Some x \<Longrightarrow>
      \<exists>y. Store_GetByToken s t = Some y \<and> Session_State y = Session_State x"
proof -
  consider "s' = s" | a y where "heap s a = Some y" "usable now y"
    "s' = s\<lparr>heap := (heap s)(a \<mapsto> y\<lparr>Session_AccessToken := u 0, Session_Nonce := u 1\<rparr>),
            byToken := AList.update (u 0) a (byToken s)\<rparr>"
    using Store_ExchangeCodeForToken_None [of u now code s s']
      Store_ExchangeCodeForToken_Some [of u now code s _ s'] e by (cases r) blast+
  note split = this
  from split show "Store_inv s' \<and> Store_cred s' = Store_cred s"
  proof cases
    case (2 a y)
    then show ?thesis
      using Store_exchange_inv [OF i 2(1,2)] Store_pending_not_cred [OF i 2(1,2)]
      by (auto simp: Store_cred_def deref_def fun_eq_iff split: Option.bind_splits)
  qed (simp add: i)
  from split show "\<exists>y. Store_GetByToken s t = Some y \<and> Session_State y = Session_State x"
    if "u 0 \<noteq> t" "Store_GetByToken s' t = Some x"
  proof cases
    case (2 a y)
    then show ?thesis using that
      by (auto simp: Store_GetByToken_def deref_def update_conv' bind_eq_Some_conv split: if_splits)
  qed (use that in simp)
qed

lemma Store_exchange_token:
  "Store_ExchangeCodeForToken u now code s = (Some (t, n), s') \<Longrightarrow>
     \<exists>y. Store_GetByToken s' t = Some y \<and> usable now y \<and> Session_Nonce y = n"
  by (drule Store_ExchangeCodeForToken_Some)
    (auto simp: Store_GetByToken_def deref_def update_conv' usable_def)

lemma Store_Create_law:
  assumes "Store_inv s"
  shows "Store_inv (snd (Store_Create u now did vu idx s)) \<and>
    Store_cred (snd (Store_Create u now did vu idx s)) = Store_cred s \<and>
    Store_GetByToken (snd (Store_Create u now did vu idx s)) = Store_GetByToken s"
  using Store_Create_inv [OF assms] Store_fresh(2,3) [OF assms]
  by (auto simp: Store_Create_def Let_def Store_cred_def Store_GetByToken_def deref_def fun_eq_iff
      split: Option.bind_splits)

interpretation mem: session_store Store_Create Store_ExchangeCodeForToken Store_ConsumeByToken
  Store_RevokeByDepositID Store_CredentialStatus Store_RevokedStatusListIndices
  Store_cred Store_GetByToken Store_inv
proof (unfold_locales, goal_cases)
  case (1 s cid)
  show ?case by (simp add: Store_CredentialStatus_def cred_status_def Store_cred_def)
next
  case (2 s i)
  then show ?case by (rule Store_Revoked_cred)
next
  case (3 s did cid)
  then show ?case by (rule Store_Revoke_cred)
next
  case (4 s did t x)
  then show ?case by (auto dest: Store_Revoke_token)
next
  case (5 s did)
  then show ?case by (rule Store_Revoke_inv)
next
  case (6 s now t cid x s')
  then show ?case using Store_consume_law [of s now t cid x s'] by blast
next
  case (7 s now t cid x s')
  then show ?case by (rule Store_consume_law)
next
  case (8 s now t cid s')
  then show ?case using Store_ConsumeByToken_None by blast
next
  case (9 s u now code r s')
  then show ?case by (rule Store_exchange_law)
next
  case (10 s u now code r s' t x)
  then show ?case by (rule Store_exchange_law)
next
  case (11 s u now code t n s')
  from 11(2) show ?case by (rule Store_exchange_token)
next
  case (12 s u now did vu idx)
  then show ?case by (rule Store_Create_law)
qed

section \<open>The database-backed store satisfies the contract\<close>

text \<open>The queries by credential id and by access token, on sessions.\<close>

definition pg_cred :: "Database \<Rightarrow> string \<rightharpoonup> Session" where
  "pg_cred db cid = map_option session_of_row
     (row_where (\<lambda>r. SessionRow_credential_id r = Some cid) (issuance_sessions db))"

definition pg_tok :: "Database \<Rightarrow> string \<rightharpoonup> Session" where
  "pg_tok db t = map_option session_of_row
     (row_where (\<lambda>r. SessionRow_access_token r = Some t) (issuance_sessions db))"

text \<open>
  The constraints of the schema (primary key, unique columns) and what the
  operations keep: exactly the PENDING rows have no credential.
\<close>

definition unique_column :: "('r \<Rightarrow> 'k option) \<Rightarrow> 'r list \<Rightarrow> bool" where
  "unique_column k rows \<longleftrightarrow>
     (\<forall>r \<in> set rows. \<forall>r' \<in> set rows. k r \<noteq> None \<longrightarrow> k r = k r' \<longrightarrow> r = r')"

definition session_row_ok :: "SessionRow \<Rightarrow> bool" where
  "session_row_ok r \<longleftrightarrow>
     (SessionRow_state r = SessionStatePending \<or> SessionRow_state r = SessionStateConsumed
        \<or> SessionRow_state r = SessionStateRevoked)
   \<and> (SessionRow_state r = SessionStatePending \<longleftrightarrow> SessionRow_credential_id r = None)
   \<and> SessionRow_status_list_index r \<noteq> None"

definition sessions_inv :: "Database \<Rightarrow> bool" where
  "sessions_inv db \<longleftrightarrow>
     distinct (map SessionRow_id (issuance_sessions db))
   \<and> unique_column SessionRow_credential_id (issuance_sessions db)
   \<and> unique_column SessionRow_access_token (issuance_sessions db)
   \<and> list_all session_row_ok (issuance_sessions db)"

lemma session_of_row_simps [simp]:
  "Session_State (session_of_row r) = SessionRow_state r"
  "Session_DepositID (session_of_row r) = SessionRow_deposit_id r"
  "Session_ExpiresAt (session_of_row r) = SessionRow_expires_at r"
  "Session_Nonce (session_of_row r) = case_option [] (\<lambda>x. x) (SessionRow_nonce r)"
  "Session_StatusListIndex (session_of_row r) = case_option 0 (\<lambda>x. x) (SessionRow_status_list_index r)"
  by (simp_all add: session_of_row_def)

lemma unique_columnD:
  "unique_column k rows \<Longrightarrow> row_where (\<lambda>r. k r = Some v) rows = Some r \<longleftrightarrow> r \<in> set rows \<and> k r = Some v"
  by (rule row_where_iff) (simp add: unique_column_def)

lemma pg_credD:
  assumes "sessions_inv db"
  shows "pg_cred db cid = Some x \<longleftrightarrow> (\<exists>r \<in> set (issuance_sessions db).
    SessionRow_credential_id r = Some cid \<and> x = session_of_row r)"
  using assms by (auto simp: pg_cred_def sessions_inv_def unique_columnD)

lemma pg_tokD:
  assumes "sessions_inv db"
  shows "pg_tok db t = Some x \<longleftrightarrow> (\<exists>r \<in> set (issuance_sessions db).
    SessionRow_access_token r = Some t \<and> x = session_of_row r)"
  using assms by (auto simp: pg_tok_def sessions_inv_def unique_columnD)

lemma sessions_inv_row:
  "sessions_inv db \<Longrightarrow> r \<in> set (issuance_sessions db) \<Longrightarrow> session_row_ok r"
  by (simp add: sessions_inv_def list_all_iff)

text \<open>An \<open>UPDATE\<close> of rows that keeps the constraints.\<close>

lemma unique_column_update:
  assumes "unique_column k rows" "\<And>r. r \<in> set rows \<Longrightarrow> P r \<Longrightarrow> k (f r) = k r"
  shows "unique_column k (update_where P f rows)"
proof -
  have "k (if P r then f r else r) = k r" if "r \<in> set rows" for r using assms(2) that by simp
  with assms(1) show ?thesis
    unfolding unique_column_def set_update_where by force
qed

lemma unique_column_set:
  assumes "unique_column k rows" "row_where (\<lambda>r. k r = Some v \<and> i r \<noteq> c) rows = None"
    and "distinct (map i rows)" "\<And>r. k (f r) = Some v"
  shows "unique_column k (update_where (\<lambda>r. i r = c) f rows)"
proof -
  let ?g = "\<lambda>r. if i r = c then f r else r"
  have free: "i r = c" if "r \<in> set rows" "k r = Some v" for r
    using assms(2) that unfolding row_where_None_iff by blast
  have "?g r = ?g r'"
    if r: "r \<in> set rows" "r' \<in> set rows" "k (?g r) \<noteq> None" "k (?g r) = k (?g r')" for r r'
  proof (cases "i r = c")
    case True
    then have "k r' = Some v" if "i r' \<noteq> c" using r(4) that assms(4) by simp
    then have "i r' = c" using free [OF r(2)] by blast
    with True distinct_map_eqD [OF assms(3) r(1,2)] show ?thesis by simp
  next
    case False
    then have "k r = Some v" if "i r' = c" using r(4) that assms(4) by simp
    then have "i r' \<noteq> c" using False free [OF r(1)] by blast
    with False r assms(1) show ?thesis by (simp add: unique_column_def)
  qed
  then show ?thesis unfolding unique_column_def set_update_where by blast
qed

text \<open>What a successful exchange and a successful consumption write.\<close>

lemma pg_exchange_Some:
  "PostgresSessionStore_ExchangeCodeForToken f u now code db = (Some p, db') \<Longrightarrow>
   \<exists>row \<in> set (issuance_sessions db). p = (u 0, u 1) \<and> usable now (session_of_row row) \<and>
     row_where (\<lambda>r. SessionRow_access_token r = Some (u 0) \<and> SessionRow_id r \<noteq> SessionRow_id row)
       (issuance_sessions db) = None \<and>
     db' = db\<lparr>issuance_sessions := update_where (\<lambda>r. SessionRow_id r = SessionRow_id row)
       (\<lambda>r. r\<lparr>SessionRow_access_token := Some (u 0), SessionRow_nonce := Some (u 1)\<rparr>)
       (issuance_sessions db)\<rparr>"
  unfolding PostgresSessionStore_ExchangeCodeForToken_def usable_def
  by (auto split: if_splits option.splits dest: row_where_SomeD)

lemma pg_exchange_None:
  "PostgresSessionStore_ExchangeCodeForToken f u now code db = (None, db') \<Longrightarrow> db' = db"
  unfolding PostgresSessionStore_ExchangeCodeForToken_def
  by (auto split: if_splits option.splits)

lemma pg_consume_Some:
  "PostgresSessionStore_ConsumeByToken f now t cid db = (Some x, db') \<Longrightarrow>
   \<exists>row \<in> set (issuance_sessions db). SessionRow_access_token row = Some t \<and>
     usable now (session_of_row row) \<and>
     x = (session_of_row row)\<lparr>Session_State := SessionStateConsumed, Session_AccessToken := t,
           Session_CredentialID := cid\<rparr> \<and>
     row_where (\<lambda>r. SessionRow_credential_id r = Some cid \<and> SessionRow_id r \<noteq> SessionRow_id row)
       (issuance_sessions db) = None \<and>
     db' = db\<lparr>issuance_sessions := update_where (\<lambda>r. SessionRow_id r = SessionRow_id row)
       (\<lambda>r. r\<lparr>SessionRow_state := SessionStateConsumed, SessionRow_credential_id := Some cid\<rparr>)
       (issuance_sessions db)\<rparr>"
  unfolding PostgresSessionStore_ConsumeByToken_def usable_def
  by (auto split: if_splits option.splits dest: row_where_SomeD)

lemma pg_consume_None:
  "PostgresSessionStore_ConsumeByToken f now t cid db = (None, db') \<Longrightarrow> db' = db"
  unfolding PostgresSessionStore_ConsumeByToken_def
  by (auto split: if_splits option.splits)

lemma pg_consume_None_no_fault:
  assumes "PostgresSessionStore_ConsumeByToken no_fault now t cid db = (None, db')"
  shows "\<not> (\<exists>y. pg_tok db t = Some y \<and> usable now y \<and> pg_cred db cid = None)"
proof
  assume "\<exists>y. pg_tok db t = Some y \<and> usable now y \<and> pg_cred db cid = None"
  then obtain row where row: "row_where (\<lambda>r. SessionRow_access_token r = Some t) (issuance_sessions db) = Some row"
    "usable now (session_of_row row)"
    and none: "\<forall>r \<in> set (issuance_sessions db). SessionRow_credential_id r \<noteq> Some cid"
    by (auto simp: pg_tok_def pg_cred_def row_where_None_iff)
  then have "row_where (\<lambda>r. SessionRow_credential_id r = Some cid \<and> SessionRow_id r \<noteq> SessionRow_id row)
      (issuance_sessions db) = None" by (simp add: row_where_None_iff)
  with row assms show False
    by (simp add: PostgresSessionStore_ConsumeByToken_def no_fault_def usable_def)
qed

lemma sessions_inv_eqD:
  "sessions_inv db \<Longrightarrow> r \<in> set (issuance_sessions db) \<Longrightarrow> r' \<in> set (issuance_sessions db) \<Longrightarrow>
     SessionRow_id r = SessionRow_id r' \<Longrightarrow> r = r'"
  by (auto simp: sessions_inv_def dest: distinct_map_eqD)

lemma set_update_where_key:
  assumes "distinct (map k rows)" "row \<in> set rows"
  shows "set (update_where (\<lambda>r. k r = k row) g rows) = insert (g row) (set rows - {row})"
proof -
  have "k r = k row \<longleftrightarrow> r = row" if "r \<in> set rows" for r
    using distinct_map_eqD [OF assms(1) that assms(2)] by blast
  then have "(\<lambda>r. if k r = k row then g r else r) ` set rows =
      (\<lambda>r. if r = row then g r else r) ` set rows" by (intro image_cong) auto
  also have "\<dots> = insert (g row) (set rows - {row})" using assms(2) by auto
  finally show ?thesis by (simp only: set_update_where)
qed

lemma list_all_update_where:
  "list_all P rows \<Longrightarrow> (\<And>r. r \<in> set rows \<Longrightarrow> P r \<Longrightarrow> Q r \<Longrightarrow> P (f r)) \<Longrightarrow> list_all P (update_where Q f rows)"
  by (auto simp: list_all_iff set_update_where)

text \<open>An \<open>UPDATE\<close> by primary key that sets at most one of the unique columns.\<close>

lemma sessions_inv_update:
  assumes "sessions_inv db" "\<And>r. SessionRow_id (g r) = SessionRow_id r"
    and "unique_column SessionRow_credential_id (update_where P g (issuance_sessions db))"
    and "unique_column SessionRow_access_token (update_where P g (issuance_sessions db))"
    and "\<And>r. r \<in> set (issuance_sessions db) \<Longrightarrow> session_row_ok r \<Longrightarrow> P r \<Longrightarrow> session_row_ok (g r)"
  shows "sessions_inv (db\<lparr>issuance_sessions := update_where P g (issuance_sessions db)\<rparr>)"
  using assms by (simp add: sessions_inv_def map_update_where list_all_update_where)

lemma pg_exchange_inv:
  assumes "sessions_inv db" "PostgresSessionStore_ExchangeCodeForToken f u now code db = (r, db')"
  shows "sessions_inv db'"
proof (cases r)
  case None
  with assms show ?thesis by (auto dest: pg_exchange_None)
next
  case (Some p)
  have uc: "unique_column SessionRow_credential_id (issuance_sessions db)"
    "unique_column SessionRow_access_token (issuance_sessions db)"
    "distinct (map SessionRow_id (issuance_sessions db))"
    using assms(1) by (simp_all add: sessions_inv_def)
  from pg_exchange_Some [OF assms(2) [unfolded Some]] obtain row :: SessionRow where
    none: "row_where (\<lambda>r. SessionRow_access_token r = Some (u 0) \<and> SessionRow_id r \<noteq> SessionRow_id row)
       (issuance_sessions db) = None"
    and db': "db' = db\<lparr>issuance_sessions := update_where (\<lambda>r. SessionRow_id r = SessionRow_id row)
       (\<lambda>r. r\<lparr>SessionRow_access_token := Some (u 0), SessionRow_nonce := Some (u 1)\<rparr>)
       (issuance_sessions db)\<rparr>" by blast
  show ?thesis
    unfolding db'
  proof (rule sessions_inv_update [OF assms(1)])
    show "unique_column SessionRow_access_token (update_where (\<lambda>r. SessionRow_id r = SessionRow_id row)
       (\<lambda>r. r\<lparr>SessionRow_access_token := Some (u 0), SessionRow_nonce := Some (u 1)\<rparr>)
       (issuance_sessions db))"
      by (rule unique_column_set [OF uc(2) none uc(3)]) simp
  qed (auto simp: uc unique_column_update session_row_ok_def)
qed

lemma pg_consume_inv:
  assumes "sessions_inv db" "PostgresSessionStore_ConsumeByToken f now t cid db = (Some x, db')"
  shows "sessions_inv db'"
proof -
  have uc: "unique_column SessionRow_credential_id (issuance_sessions db)"
    "unique_column SessionRow_access_token (issuance_sessions db)"
    "distinct (map SessionRow_id (issuance_sessions db))"
    using assms(1) by (simp_all add: sessions_inv_def)
  from pg_consume_Some [OF assms(2)] obtain row :: SessionRow where
    none: "row_where (\<lambda>r. SessionRow_credential_id r = Some cid \<and> SessionRow_id r \<noteq> SessionRow_id row)
       (issuance_sessions db) = None"
    and db': "db' = db\<lparr>issuance_sessions := update_where (\<lambda>r. SessionRow_id r = SessionRow_id row)
       (\<lambda>r. r\<lparr>SessionRow_state := SessionStateConsumed, SessionRow_credential_id := Some cid\<rparr>)
       (issuance_sessions db)\<rparr>" by blast
  show ?thesis
    unfolding db'
  proof (rule sessions_inv_update [OF assms(1)])
    show "unique_column SessionRow_credential_id (update_where (\<lambda>r. SessionRow_id r = SessionRow_id row)
       (\<lambda>r. r\<lparr>SessionRow_state := SessionStateConsumed, SessionRow_credential_id := Some cid\<rparr>)
       (issuance_sessions db))"
      by (rule unique_column_set [OF uc(1) none uc(3)]) simp
  qed (auto simp: uc unique_column_update session_row_ok_def)
qed

lemma pg_revoke_inv:
  assumes "sessions_inv db"
  shows "sessions_inv (PostgresSessionStore_RevokeByDepositID f did db)"
proof -
  have uc: "unique_column SessionRow_credential_id (issuance_sessions db)"
    "unique_column SessionRow_access_token (issuance_sessions db)"
    using assms(1) by (simp_all add: sessions_inv_def)
  show ?thesis
    unfolding PostgresSessionStore_RevokeByDepositID_def
    by (simp add: assms) (intro impI sessions_inv_update [OF assms];
      simp add: uc unique_column_update session_row_ok_def)
qed

lemma unique_column_snoc:
  assumes "unique_column k rows" "k r \<noteq> None \<Longrightarrow> \<forall>r' \<in> set rows. k r' \<noteq> k r"
  shows "unique_column k (rows @ [r])"
  using assms by (auto simp: unique_column_def)

lemma pg_create_inv:
  assumes "sessions_inv db"
  shows "sessions_inv (snd (PostgresSessionStore_Create f u now did vu idx db))"
  using assms
  by (auto simp: PostgresSessionStore_Create_def Let_def sessions_inv_def row_where_None_iff
      new_session_def session_row_ok_def intro!: unique_column_snoc)

text \<open>The rows, and so the sessions, that each operation leaves.\<close>

lemma pg_create_views:
  "pg_cred (snd (PostgresSessionStore_Create f u now did vu idx db)) = pg_cred db"
  "pg_tok (snd (PostgresSessionStore_Create f u now did vu idx db)) = pg_tok db"
  by (auto simp: PostgresSessionStore_Create_def Let_def pg_cred_def pg_tok_def row_where_append
      fun_eq_iff split: option.splits)

lemma pg_revoke_row:
  assumes "sessions_inv db" "r \<in> set (issuance_sessions db)" "SessionRow_credential_id r = Some cid"
  shows "session_of_row (if SessionRow_deposit_id r = did \<and> SessionRow_state r = SessionStateConsumed
           then r\<lparr>SessionRow_state := SessionStateRevoked\<rparr> else r) = revoke_session did (session_of_row r)"
  using sessions_inv_row [OF assms(1,2)] assms(3)
  by (auto simp: session_row_ok_def revoke_session_def session_of_row_def)

lemma pg_revoke_cred:
  assumes "sessions_inv db"
  shows "pg_cred (PostgresSessionStore_RevokeByDepositID no_fault did db) cid =
    map_option (revoke_session did) (pg_cred db cid)"
  using pg_revoke_row [OF assms]
  by (auto simp: PostgresSessionStore_RevokeByDepositID_def no_fault_def pg_cred_def
      row_where_update_where option.map_comp comp_def intro!: option.map_cong0 dest!: row_where_SomeD)

lemma pg_revoke_tok:
  assumes "pg_tok (PostgresSessionStore_RevokeByDepositID f did db) t = Some x"
    "Session_State x = SessionStatePending"
  shows "pg_tok db t = Some x"
  using assms
  by (auto simp: PostgresSessionStore_RevokeByDepositID_def pg_tok_def row_where_update_where
      split: if_splits)

lemma pg_consume_law:
  assumes i: "sessions_inv db" and c: "PostgresSessionStore_ConsumeByToken f now t cid db = (Some x, db')"
  shows "\<exists>y. pg_tok db t = Some y \<and> usable now y \<and>
        x = y\<lparr>Session_State := SessionStateConsumed, Session_CredentialID := cid\<rparr>"
    and "pg_cred db' = (pg_cred db)(cid \<mapsto> x)" "pg_tok db' t = Some x"
    and "\<forall>t' z. pg_tok db' t' = Some z \<longrightarrow> Session_State z = SessionStatePending \<longrightarrow> pg_tok db t' = Some z"
proof -
  let ?g = "\<lambda>r. r\<lparr>SessionRow_state := SessionStateConsumed, SessionRow_credential_id := Some cid\<rparr>"
  obtain row :: SessionRow where row: "row \<in> set (issuance_sessions db)"
      "SessionRow_access_token row = Some t" "usable now (session_of_row row)"
    and x: "x = (session_of_row row)\<lparr>Session_State := SessionStateConsumed, Session_AccessToken := t,
           Session_CredentialID := cid\<rparr>"
    and none: "row_where (\<lambda>r. SessionRow_credential_id r = Some cid \<and> SessionRow_id r \<noteq> SessionRow_id row)
       (issuance_sessions db) = None"
    and db': "db' = db\<lparr>issuance_sessions := update_where (\<lambda>r. SessionRow_id r = SessionRow_id row)
       ?g (issuance_sessions db)\<rparr>"
    using pg_consume_Some [OF c] by blast
  have i': "sessions_inv db'" by (rule pg_consume_inv [OF i c])
  have x': "x = session_of_row (?g row)"
    "x = (session_of_row row)\<lparr>Session_State := SessionStateConsumed, Session_CredentialID := cid\<rparr>"
    using row(2) by (simp_all add: x session_of_row_def)
  have free: "SessionRow_credential_id row = None"
    using sessions_inv_row [OF i row(1)] row(3) by (simp add: session_row_ok_def usable_def)
  have upd: "set (issuance_sessions db') = insert (?g row) (set (issuance_sessions db) - {row})"
    using set_update_where_key [OF _ row(1), of SessionRow_id ?g] i
    by (simp add: db' sessions_inv_def)
  show "\<exists>y. pg_tok db t = Some y \<and> usable now y \<and>
        x = y\<lparr>Session_State := SessionStateConsumed, Session_CredentialID := cid\<rparr>"
    using row x' pg_tokD [OF i] by blast
  show "pg_tok db' t = Some x"
    unfolding pg_tokD [OF i'] using upd row(2) x'(1) by (intro bexI [of _ "?g row"]) simp_all
  have none': "SessionRow_credential_id r \<noteq> Some cid" if "r \<in> set (issuance_sessions db)" for r
    using none that free sessions_inv_eqD [OF i that row(1)] unfolding row_where_None_iff by auto
  show "pg_cred db' = (pg_cred db)(cid \<mapsto> x)"
  proof (intro ext)
    fix c
    have "pg_cred db' c = Some z \<longleftrightarrow> ((pg_cred db)(cid \<mapsto> x)) c = Some z" for z
      using free x'(1) none' by (auto simp: pg_credD [OF i'] pg_credD [OF i] upd)
    then show "pg_cred db' c = ((pg_cred db)(cid \<mapsto> x)) c" by (metis not_None_eq)
  qed
  show "\<forall>t' z. pg_tok db' t' = Some z \<longrightarrow> Session_State z = SessionStatePending \<longrightarrow> pg_tok db t' = Some z"
    by (auto simp: pg_tokD [OF i'] pg_tokD [OF i] upd)
qed

lemma pg_exchange_law:
  assumes i: "sessions_inv db" and e: "PostgresSessionStore_ExchangeCodeForToken f u now code db = (Some (t, n), db')"
  shows "pg_cred db' = pg_cred db"
    and "u 0 \<noteq> t' \<Longrightarrow> pg_tok db' t' = Some z \<Longrightarrow> pg_tok db t' = Some z"
    and "\<exists>y. pg_tok db' t = Some y \<and> usable now y \<and> Session_Nonce y = n"
proof -
  let ?g = "\<lambda>r. r\<lparr>SessionRow_access_token := Some (u 0), SessionRow_nonce := Some (u 1)\<rparr>"
  obtain row :: SessionRow where row: "row \<in> set (issuance_sessions db)"
      "(t, n) = (u 0, u 1)" "usable now (session_of_row row)"
    and db': "db' = db\<lparr>issuance_sessions := update_where (\<lambda>r. SessionRow_id r = SessionRow_id row)
       ?g (issuance_sessions db)\<rparr>"
    using pg_exchange_Some [OF e] by blast
  have i': "sessions_inv db'" by (rule pg_exchange_inv [OF i e])
  have free: "SessionRow_credential_id row = None"
    using sessions_inv_row [OF i row(1)] row(3) by (simp add: session_row_ok_def usable_def)
  have upd: "set (issuance_sessions db') = insert (?g row) (set (issuance_sessions db) - {row})"
    using set_update_where_key [OF _ row(1), of SessionRow_id ?g] i
    by (simp add: db' sessions_inv_def)
  show "pg_cred db' = pg_cred db"
  proof (intro ext)
    fix c
    have "pg_cred db' c = Some z \<longleftrightarrow> pg_cred db c = Some z" for z
      using free row(1) by (auto simp: pg_credD [OF i'] pg_credD [OF i] upd)
    then show "pg_cred db' c = pg_cred db c" by (metis not_None_eq)
  qed
  show "pg_tok db t' = Some z" if "u 0 \<noteq> t'" "pg_tok db' t' = Some z"
    using that by (auto simp: pg_tokD [OF i'] pg_tokD [OF i] upd)
  have "pg_tok db' t = Some (session_of_row (?g row))"
    unfolding pg_tokD [OF i'] using upd row(2) by (intro bexI [of _ "?g row"]) simp_all
  then show "\<exists>y. pg_tok db' t = Some y \<and> usable now y \<and> Session_Nonce y = n"
    using row(2,3) by (simp add: usable_def)
qed

lemma pg_revoked_cred:
  assumes "sessions_inv db"
  shows "i \<in> set (projr (PostgresSessionStore_RevokedStatusListIndices no_fault db)) \<longleftrightarrow>
    (\<exists>cid x. pg_cred db cid = Some x \<and> Session_State x = SessionStateRevoked \<and> Session_StatusListIndex x = i)"
  using sessions_inv_row [OF assms]
  by (fastforce simp: PostgresSessionStore_RevokedStatusListIndices_def no_fault_def pg_credD [OF assms]
      session_row_ok_def)

lemma pg_status_cred:
  "PostgresSessionStore_CredentialStatus no_fault cid db = cred_status (pg_cred db cid)"
  by (simp add: PostgresSessionStore_CredentialStatus_def no_fault_def cred_status_def pg_cred_def
      split: option.splits)

interpretation pgs: session_store "PostgresSessionStore_Create no_fault"
  "PostgresSessionStore_ExchangeCodeForToken no_fault" "PostgresSessionStore_ConsumeByToken no_fault"
  "PostgresSessionStore_RevokeByDepositID no_fault" "PostgresSessionStore_CredentialStatus no_fault"
  "\<lambda>db. projr (PostgresSessionStore_RevokedStatusListIndices no_fault db)" pg_cred pg_tok sessions_inv
proof (unfold_locales, goal_cases)
  case (1 s cid)
  show ?case by (rule pg_status_cred)
next
  case (2 s i)
  then show ?case by (rule pg_revoked_cred)
next
  case (3 s did cid)
  then show ?case by (rule pg_revoke_cred)
next
  case (4 s did t x)
  then show ?case by (auto dest: pg_revoke_tok)
next
  case (5 s did)
  then show ?case by (rule pg_revoke_inv)
next
  case (6 s now t cid x s')
  then show ?case using pg_consume_law [of s no_fault now t cid x s'] by blast
next
  case (7 s now t cid x s')
  then show ?case by (rule pg_consume_inv)
next
  case (8 s now t cid s')
  then show ?case using pg_consume_None pg_consume_None_no_fault by blast
next
  case (9 s u now code r s')
  then show ?case
    using pg_exchange_inv pg_exchange_law(1) pg_exchange_None by (cases r) fastforce+
next
  case (10 s u now code r s' t x)
  then show ?case
    using pg_exchange_law(2) pg_exchange_None by (cases r) fastforce+
next
  case (11 s u now code t n s')
  then show ?case by (rule pg_exchange_law)
next
  case (12 s u now did vu idx)
  then show ?case by (simp add: pg_create_inv pg_create_views)
qed

section \<open>Index allocators\<close>

text \<open>Successive allocations hand out successive indices.\<close>

lemma PostgresIndexAllocator_next:
  "PostgresIndexAllocator_AllocateIndex f db = (Inr i, db') \<Longrightarrow>
     i = status_list_counter db \<and> status_list_counter db' = i + 1"
  by (auto simp: PostgresIndexAllocator_AllocateIndex_def Let_def split: if_splits)

section \<open>Successive indices of the in-memory allocator\<close>

fun mem_indices :: "nat \<Rightarrow> 64 word \<Rightarrow> int list" where
  "mem_indices 0 counter = []"
| "mem_indices (Suc n) counter =
     (case MemIndexAllocator_AllocateIndex counter of (i, counter') \<Rightarrow> i # mem_indices n counter')"

lemma sint_of_nat_64: "n < 2 ^ 63 \<Longrightarrow> sint (of_nat n :: 64 word) = int n"
  by (simp add: signed_of_nat signed_take_bit_int_eq_self)

lemma mem_indices_upt:
  "k + n \<le> 2 ^ 63 \<Longrightarrow> mem_indices n (of_nat k) = map int [k..<k + n]"
proof (induction n arbitrary: k)
  case (Suc n)
  have "sint (of_nat k :: 64 word) = int k" using Suc.prems by (intro sint_of_nat_64) simp
  moreover have "mem_indices n (of_nat k + 1) = map int [Suc k..<Suc k + n]"
    using Suc.IH [of "Suc k"] Suc.prems by (simp add: add.commute)
  ultimately show ?case
    by (simp add: MemIndexAllocator_AllocateIndex_def upt_conv_Cons del: upt_Suc)
qed simp

end
