(* ===== verification/GoBase64.thy ===== *)
theory GoBase64
  imports GoStrings "HOL-Library.Word"
begin

text \<open>
  \<open>base64.RawURLEncoding\<close> of Go's \<open>encoding/base64\<close>, as the server uses it for
  disclosures, hashes and the status list: the URL alphabet without padding. The
  decoder ignores line breaks and does not check unused trailing bits, as Go's
  does by default.
\<close>

type_synonym byte = "8 word"

definition b64_alphabet :: string where
  "b64_alphabet = ''ABCDEFGHIJKLMNOPQRSTUVWXYZabcdefghijklmnopqrstuvwxyz0123456789-_''"

definition b64_digit :: "int \<Rightarrow> char" where
  "b64_digit n = b64_alphabet ! nat n"

text \<open>The position of a character in the alphabet.\<close>

fun position :: "char \<Rightarrow> string \<Rightarrow> int option" where
  "position c [] = None"
| "position c (x # xs) = (if c = x then Some 0 else map_option (\<lambda>n. n + 1) (position c xs))"

definition b64_value :: "char \<Rightarrow> int option" where
  "b64_value c = position c b64_alphabet"

fun b64_sextets :: "byte list \<Rightarrow> int list" where
  "b64_sextets [] = []"
| "b64_sextets [a] = (let v = uint a * 16 in [v div 64, v mod 64])"
| "b64_sextets [a, b] =
     (let v = (uint a * 256 + uint b) * 4 in [v div 4096, v div 64 mod 64, v mod 64])"
| "b64_sextets (a # b # c # rest) =
     (let v = uint a * 65536 + uint b * 256 + uint c
      in [v div 262144, v div 4096 mod 64, v div 64 mod 64, v mod 64] @ b64_sextets rest)"

definition RawURLEncode :: "byte list \<Rightarrow> string" where
  "RawURLEncode bs = map b64_digit (b64_sextets bs)"

fun b64_bytes :: "int list \<Rightarrow> byte list option" where
  "b64_bytes [] = Some []"
| "b64_bytes [w] = None"
| "b64_bytes [w, x] = Some [word_of_int ((w * 64 + x) div 16)]"
| "b64_bytes [w, x, y] =
     (let v = (w * 4096 + x * 64 + y) div 4 in Some [word_of_int (v div 256), word_of_int (v mod 256)])"
| "b64_bytes (w # x # y # z # rest) =
     (let v = w * 262144 + x * 4096 + y * 64 + z
      in map_option (\<lambda>bs. [word_of_int (v div 65536), word_of_int (v div 256 mod 256),
                           word_of_int (v mod 256)] @ bs) (b64_bytes rest))"

definition RawURLDecode :: "string \<Rightarrow> byte list option" where
  "RawURLDecode s =
     Option.bind (traverse b64_value (filter (\<lambda>c. c \<noteq> CHR 0x0A \<and> c \<noteq> CHR 0x0D) s)) b64_bytes"

text \<open>The bytes of a Go string, and back.\<close>

definition bytes_of :: "string \<Rightarrow> byte list" where
  "bytes_of s = map (\<lambda>c. of_nat (of_char c)) s"

definition string_of :: "byte list \<Rightarrow> string" where
  "string_of bs = map (\<lambda>b. char_of (unat b)) bs"

section \<open>Decoding inverts encoding\<close>

lemma string_of_bytes_of [simp]: "string_of (bytes_of s) = s"
proof -
  have "char_of (unat (of_nat (of_char c) :: byte)) = c" for c :: char
  proof -
    have "(of_char c :: nat) < 2 ^ 8" by simp
    then have "unat (of_nat (of_char c) :: byte) = of_char c" by (simp add: unat_of_nat)
    then show ?thesis by simp
  qed
  then show ?thesis by (simp add: string_of_def bytes_of_def comp_def)
qed

lemma position_nth:
  "distinct xs \<Longrightarrow> n < length xs \<Longrightarrow> position (xs ! n) xs = Some (int n)"
  by (induction xs arbitrary: n) (auto simp: nth_Cons split: nat.splits)

lemma b64_alphabet_facts: "distinct b64_alphabet" "length b64_alphabet = 64"
  "CHR 0x0A \<notin> set b64_alphabet" "CHR 0x0D \<notin> set b64_alphabet"
  "CHR ''~'' \<notin> set b64_alphabet" "CHR ''.'' \<notin> set b64_alphabet"
  by (code_simp)+

lemma b64_value_digit:
  assumes "0 \<le> n" "n < 64"
  shows "b64_value (b64_digit n) = Some n"
  using position_nth [OF b64_alphabet_facts(1), of "nat n"] assms b64_alphabet_facts(2)
  by (simp add: b64_value_def b64_digit_def)

lemma b64_digit_in: "0 \<le> n \<Longrightarrow> n < 64 \<Longrightarrow> b64_digit n \<in> set b64_alphabet"
  using b64_alphabet_facts(2) by (simp add: b64_digit_def)

lemma byte_bounds: "0 \<le> uint (a :: byte)" "uint (a :: byte) < 256"
  using uint_bounded [of a] by simp_all

text \<open>Positional arithmetic, with the quotients as variables.\<close>

lemma radix: "0 \<le> y \<Longrightarrow> y < k \<Longrightarrow> (x * k + y) div k = x \<and> (x * k + y) mod k = (y :: int)"
  by simp

lemma div_div: "(v :: int) div 4096 = v div 64 div 64" "(v :: int) div 262144 = v div 64 div 64 div 64"
  "(v :: int) div 65536 = v div 256 div 256"
  by (simp_all add: zdiv_zmult2_eq [symmetric])

lemma digits3:
  fixes v :: int
  assumes "v = p * 64 + a" "p = q * 64 + b" "q = r * 64 + c"
  shows "r * 262144 + c * 4096 + b * 64 + a = v" "q * 4096 + b * 64 + a = v"
  using assms by simp_all

lemma sextets_value:
  "(v :: int) div 262144 * 262144 + v div 4096 mod 64 * 4096 + v div 64 mod 64 * 64 + v mod 64 = v"
  "(v :: int) div 4096 * 4096 + v div 64 mod 64 * 64 + v mod 64 = v"
  unfolding div_div by (rule digits3 [OF div_mult_mod_eq [symmetric] div_mult_mod_eq [symmetric]
    div_mult_mod_eq [symmetric]])+

lemma bytes_value:
  fixes a b c :: byte
  shows "(uint a * 65536 + uint b * 256 + uint c) div 65536 = uint a"
    "(uint a * 65536 + uint b * 256 + uint c) div 256 mod 256 = uint b"
    "(uint a * 65536 + uint b * 256 + uint c) mod 256 = uint c"
proof -
  have v: "uint a * 65536 + uint b * 256 + uint c = (uint a * 256 + uint b) * 256 + uint c" by simp
  note rc = radix [OF byte_bounds [of c], of "uint a * 256 + uint b"]
  note rb = radix [OF byte_bounds [of b], of "uint a"]
  show "(uint a * 65536 + uint b * 256 + uint c) mod 256 = uint c" unfolding v using rc by blast
  show "(uint a * 65536 + uint b * 256 + uint c) div 256 mod 256 = uint b"
    unfolding v using rc rb by presburger
  show "(uint a * 65536 + uint b * 256 + uint c) div 65536 = uint a"
    unfolding v div_div using rc rb by presburger
qed

lemma div_range:
  assumes "0 \<le> (x :: int)" "x \<le> m" "0 < k" "m div k < 64"
  shows "0 \<le> x div k \<and> x div k < 64"
  using assms zdiv_mono1 [OF assms(2,3)] by (simp add: pos_imp_zdiv_nonneg_iff)

lemma b64_sextets_range: "n \<in> set (b64_sextets bs) \<Longrightarrow> 0 \<le> n \<and> n < 64"
proof (induction bs rule: b64_sextets.induct)
  case (2 a)
  have "0 \<le> uint a * 16" "uint a * 16 \<le> 4080" using byte_bounds [of a] by simp_all
  from div_range [OF this, of 64] 2 show ?case by (auto simp: Let_def)
next
  case (3 a b)
  have "0 \<le> (uint a * 256 + uint b) * 4" "(uint a * 256 + uint b) * 4 \<le> 262140"
    using byte_bounds [of a] byte_bounds [of b] by simp_all
  from div_range [OF this, of 4096] 3 show ?case by (auto simp: Let_def)
next
  case (4 a b c rest)
  have "0 \<le> uint a * 65536 + uint b * 256 + uint c"
    "uint a * 65536 + uint b * 256 + uint c \<le> 16777215"
    using byte_bounds [of a] byte_bounds [of b] byte_bounds [of c] by simp_all
  from div_range [OF this, of 262144] 4 show ?case by (auto simp: Let_def)
qed simp

lemma b64_bytes_sextets: "b64_bytes (b64_sextets bs) = Some bs"
proof (induction bs rule: b64_sextets.induct)
  case (2 a)
  have "(uint a * 16 div 64 * 64 + uint a * 16 mod 64) div 16 = uint a"
    unfolding div_mult_mod_eq by simp
  then show ?case by (simp only: Let_def b64_sextets.simps b64_bytes.simps word_of_int_uint)
next
  case (3 a b)
  have "(uint a * 256 + uint b) * 4 div 4 = uint a * 256 + uint b" by simp
  then show ?case
    using radix [OF byte_bounds [of b], of "uint a"]
    by (simp only: Let_def b64_sextets.simps b64_bytes.simps sextets_value word_of_int_uint)
next
  case (4 a b c rest)
  then show ?case
    by (simp only: Let_def b64_sextets.simps b64_bytes.simps append.simps sextets_value bytes_value
        option.map word_of_int_uint)
qed simp

theorem RawURLDecode_Encode: "RawURLDecode (RawURLEncode bs) = Some bs"
proof -
  have f: "filter (\<lambda>c. c \<noteq> CHR 0x0A \<and> c \<noteq> CHR 0x0D) (RawURLEncode bs) = RawURLEncode bs"
    unfolding filter_id_conv
    using b64_alphabet_facts(3,4) b64_digit_in b64_sextets_range by (fastforce simp: RawURLEncode_def)
  have t: "traverse b64_value (map b64_digit ns) = Some ns"
    if "\<forall>n \<in> set ns. 0 \<le> n \<and> n < 64" for ns
    using that by (induction ns) (simp_all add: b64_value_digit)
  show ?thesis
    unfolding RawURLDecode_def f using t [of "b64_sextets bs"] b64_sextets_range
    by (simp add: RawURLEncode_def b64_bytes_sextets)
qed

text \<open>An encoding contains neither the separator of SD-JWT parts nor that of JWT parts.\<close>

lemma RawURLEncode_chars: "CHR ''~'' \<notin> set (RawURLEncode bs)" "CHR ''.'' \<notin> set (RawURLEncode bs)"
  using b64_alphabet_facts(5,6) b64_digit_in b64_sextets_range by (fastforce simp: RawURLEncode_def)+

end
