(* ===== verification/StatusList.thy ===== *)
theory StatusList
  imports Issuance GoBase64
begin

unbundle bit_operations_syntax

text \<open>
  The W3C bitstring status list (\<open>server/internal/issuance/statuslist.go\<close>): the
  bitstring built from the revoked indices, its encoding and the credential that
  carries it. Compression (\<open>compress/gzip\<close>) and the signature (\<open>golang-jwt\<close>) are
  parameters; the theorems about what a verifier reads back assume that the
  verifier's decompression inverts the compression.
\<close>

section \<open>The bitstring\<close>

definition StatusListSize :: int where
  "StatusListSize = 131072"

definition set_bit_msb :: "int \<Rightarrow> byte list \<Rightarrow> byte list" where
  "set_bit_msb idx bs =
     bs[nat (idx div 8) := (bs ! nat (idx div 8)) OR push_bit (nat (7 - idx mod 8)) 1]"

fun set_bits_msb :: "int list \<Rightarrow> byte list \<Rightarrow> byte list" where
  "set_bits_msb [] bs = bs"
| "set_bits_msb (idx # rest) bs =
     (if idx < 0 \<or> StatusListSize \<le> idx then set_bits_msb rest bs
      else set_bits_msb rest (set_bit_msb idx bs))"

definition revocation_bitstring :: "int list \<Rightarrow> byte list" where
  "revocation_bitstring revokedIndices =
     set_bits_msb revokedIndices (replicate (nat (StatusListSize div 8)) 0)"

text \<open>\<open>BuildEncodedList\<close>; \<open>gzip\<close> is \<open>None\<close> when the writer reports an error.\<close>

definition BuildEncodedList :: "(byte list \<Rightarrow> byte list option) \<Rightarrow> int list \<Rightarrow> string option" where
  "BuildEncodedList gzip revokedIndices =
     (case gzip (revocation_bitstring revokedIndices) of
        None \<Rightarrow> None
      | Some buf \<Rightarrow> Some (RawURLEncode buf))"

text \<open>How a verifier reads the entry of an index (W3C: bit 0 is the first bit of the list).\<close>

definition status_bit :: "byte list \<Rightarrow> int \<Rightarrow> bool" where
  "status_bit bs i = bit (bs ! nat (i div 8)) (nat (7 - i mod 8))"

section \<open>The status list credential\<close>

record statusListSubject =
  statusListSubject_ID :: string
  statusListSubject_Type :: string
  statusListSubject_StatusPurpose :: string
  statusListSubject_EncodedList :: string

record statusListVC =
  statusListVC_Context :: "string list"
  statusListVC_ID :: string
  statusListVC_Type :: "string list"
  statusListVC_Issuer :: string
  statusListVC_ValidFrom :: string
  statusListVC_CredentialSubject :: statusListSubject

text \<open>The registered claims of golang-jwt the server sets; numeric dates are in seconds.\<close>

record RegisteredClaims =
  RegisteredClaims_Issuer :: string
  RegisteredClaims_Subject :: string
  RegisteredClaims_ID :: string
  RegisteredClaims_IssuedAt :: int
  RegisteredClaims_ExpiresAt :: int

record statusListVCClaims =
  statusListVCClaims_RegisteredClaims :: RegisteredClaims
  statusListVCClaims_VC :: statusListVC

record jwt_header =
  jwt_typ :: string
  jwt_kid :: string

definition NumericDate :: "time \<Rightarrow> int" where
  "NumericDate t = t div Second"

definition status_list_url :: "string \<Rightarrow> string" where
  "status_list_url issuerURL = issuerURL @ ''/v1/status-list/revocation''"

definition statusListClaims :: "string \<Rightarrow> time \<Rightarrow> string \<Rightarrow> statusListVCClaims" where
  "statusListClaims issuerURL now encodedList =
     (let statusListURL = status_list_url issuerURL in
      \<lparr>statusListVCClaims_RegisteredClaims = \<lparr>
         RegisteredClaims_Issuer = issuerURL, RegisteredClaims_Subject = statusListURL,
         RegisteredClaims_ID = statusListURL, RegisteredClaims_IssuedAt = NumericDate now,
         RegisteredClaims_ExpiresAt = NumericDate (now + 24 * Hour)\<rparr>,
       statusListVCClaims_VC = \<lparr>
         statusListVC_Context = [''https://www.w3.org/ns/credentials/v2''],
         statusListVC_ID = statusListURL,
         statusListVC_Type = [''VerifiableCredential'', ''BitstringStatusListCredential''],
         statusListVC_Issuer = issuerURL, statusListVC_ValidFrom = FormatRFC3339 now,
         statusListVC_CredentialSubject = \<lparr>
           statusListSubject_ID = statusListURL @ ''#list'',
           statusListSubject_Type = ''BitstringStatusList'',
           statusListSubject_StatusPurpose = ''revocation'',
           statusListSubject_EncodedList = encodedList\<rparr>\<rparr>\<rparr>)"

definition BuildStatusListJWT ::
  "(byte list \<Rightarrow> byte list option) \<Rightarrow> (jwt_header \<Rightarrow> statusListVCClaims \<Rightarrow> string option) \<Rightarrow> string \<Rightarrow>
     time \<Rightarrow> string \<Rightarrow> int list \<Rightarrow> string option" where
  "BuildStatusListJWT gzip sign keyID now issuerURL revokedIndices =
     (case BuildEncodedList gzip revokedIndices of
        None \<Rightarrow> None
      | Some encodedList \<Rightarrow>
          sign \<lparr>jwt_typ = ''vc+ld+jwt'', jwt_kid = keyID\<rparr> (statusListClaims issuerURL now encodedList))"

section \<open>The bits are the revoked indices\<close>

lemma length_set_bit_msb [simp]: "length (set_bit_msb idx bs) = length bs"
  by (simp add: set_bit_msb_def)

lemma length_set_bits_msb [simp]: "length (set_bits_msb idxs bs) = length bs"
  by (induction idxs arbitrary: bs) simp_all

lemma length_revocation_bitstring [simp]: "length (revocation_bitstring idxs) = 16384"
  by (simp add: revocation_bitstring_def StatusListSize_def)

lemma byte_index: "0 \<le> i \<Longrightarrow> i < StatusListSize \<Longrightarrow> nat (i div 8) < 16384"
  using zdiv_mono1 [of i 131071 8] by (simp add: StatusListSize_def)

lemma same_bit:
  fixes i j :: int
  assumes "0 \<le> i" "0 \<le> j" "nat (i div 8) = nat (j div 8)" "nat (7 - i mod 8) = nat (7 - j mod 8)"
  shows "i = j"
proof -
  have "i div 8 = j div 8" using assms(1-3) by (simp add: eq_nat_nat_iff pos_imp_zdiv_nonneg_iff)
  moreover have "i mod 8 = j mod 8"
    using assms(4) pos_mod_bound [of 8 i] pos_mod_bound [of 8 j] by (simp add: eq_nat_nat_iff)
  ultimately show ?thesis by (metis div_mult_mod_eq)
qed

lemma status_bit_set_bit_msb:
  assumes "0 \<le> i" "i < StatusListSize" "0 \<le> j" "j < StatusListSize" "length bs = 16384"
  shows "status_bit (set_bit_msb j bs) i \<longleftrightarrow> i = j \<or> status_bit bs i"
proof -
  have len: "nat (j div 8) < length bs" using byte_index [OF assms(3,4)] assms(5) by simp
  have small: "nat (7 - i mod 8) < 8" "nat (7 - j mod 8) < 8"
    using pos_mod_sign [of 8 i] pos_mod_sign [of 8 j] by linarith+
  show ?thesis
  proof (cases "nat (i div 8) = nat (j div 8)")
    case True
    have "nat (7 - i mod 8) = nat (7 - j mod 8) \<longleftrightarrow> i = j"
      using same_bit [OF assms(1,3) True] by auto
    then show ?thesis
      using True len small
      by (auto simp: status_bit_def set_bit_msb_def bit_or_iff bit_exp_iff)
  next
    case False
    then show ?thesis by (auto simp: status_bit_def set_bit_msb_def)
  qed
qed

lemma status_bit_set_bits_msb:
  assumes "0 \<le> i" "i < StatusListSize" "length bs = 16384"
  shows "status_bit (set_bits_msb idxs bs) i \<longleftrightarrow> i \<in> set idxs \<or> status_bit bs i"
  using assms by (induction idxs arbitrary: bs) (auto simp: status_bit_set_bit_msb)

lemma revocation_bitstring_bit:
  assumes "0 \<le> i" "i < StatusListSize"
  shows "status_bit (revocation_bitstring idxs) i \<longleftrightarrow> i \<in> set idxs"
proof -
  have "\<not> status_bit (replicate 16384 0) i"
    using byte_index [OF assms] by (simp add: status_bit_def)
  then show ?thesis
    using status_bit_set_bits_msb [OF assms, of "replicate 16384 0" idxs]
    by (simp add: revocation_bitstring_def StatusListSize_def)
qed

text \<open>An index beyond the list leaves the bitstring unchanged.\<close>

lemma revocation_bitstring_out_of_range:
  "revocation_bitstring idxs = revocation_bitstring (filter (\<lambda>i. 0 \<le> i \<and> i < StatusListSize) idxs)"
proof -
  have "set_bits_msb idxs bs = set_bits_msb (filter (\<lambda>i. 0 \<le> i \<and> i < StatusListSize) idxs) bs" for bs
    by (induction idxs arbitrary: bs) auto
  then show ?thesis by (simp add: revocation_bitstring_def)
qed

text \<open>A verifier decodes the published list and reads the bit.\<close>

definition verifier_reads :: "(byte list \<Rightarrow> byte list option) \<Rightarrow> string \<Rightarrow> int \<Rightarrow> bool option" where
  "verifier_reads gunzip encodedList i =
     (case RawURLDecode encodedList of
        None \<Rightarrow> None
      | Some buf \<Rightarrow> map_option (\<lambda>bs. status_bit bs i) (gunzip buf))"

lemma verifier_reads_revoked:
  assumes "\<And>bs buf. gzip bs = Some buf \<Longrightarrow> gunzip buf = Some bs"
    and "BuildEncodedList gzip idxs = Some enc" "0 \<le> i" "i < StatusListSize"
  shows "verifier_reads gunzip enc i = Some (i \<in> set idxs)"
proof -
  obtain buf where "gzip (revocation_bitstring idxs) = Some buf" "enc = RawURLEncode buf"
    using assms(2) by (auto simp: BuildEncodedList_def split: option.splits)
  then show ?thesis
    using assms(1) revocation_bitstring_bit [OF assms(3,4)]
    by (simp add: verifier_reads_def RawURLDecode_Encode)
qed

end
