(* ===== verification/Receipt.thy ===== *)
theory Receipt
  imports Models GoBase64 "HOL-Library.State_Monad"
begin

text \<open>
  The PDF documents (\<open>server/internal/receipt/pdf.go\<close>): the deposit receipt and the release
  confirmation. A document is the sequence of calls made to the library \<open>fpdf\<close>, threaded by a state
  monad as the source threads the document object. The library is a parameter (\<open>Fpdf\<close>): its page width, its
  vertical position and its output are functions of the calls made so far.

  \<open>writes m ts\<close> says that a piece of drawing code puts the texts \<open>ts\<close> on the page, whatever the layout
  is; it is compositional, and \<open>Generate_texts\<close> and \<open>GenerateReleaseReceipt_texts\<close> give the
  text of both documents in closed form.
\<close>

section \<open>The interface of the library\<close>

datatype pdf_call =
    NewPdf string string string string
  | SetMargins float64 float64 float64
  | AddPage
  | SetFont string string float64
  | SetDrawColor int int int
  | SetTextColor int int int
  | DrawLine float64 float64 float64 float64
  | SetXY float64 float64
  | Ln float64
  | CellFormat float64 float64 string string int string bool int string
  | MultiCell float64 float64 string string string bool

record Fpdf =
  fpdf_pageWidth :: "pdf_call list \<Rightarrow> float64"
  fpdf_Y :: "pdf_call list \<Rightarrow> float64"
  fpdf_Output :: "pdf_call list \<Rightarrow> byte list option"

type_synonym 'a drawing = "(pdf_call list, 'a) state"

definition draw :: "pdf_call \<Rightarrow> unit drawing" where
  "draw c = State (\<lambda>cs. ((), cs @ [c]))"

definition pageWidth :: "Fpdf \<Rightarrow> float64 drawing" where
  "pageWidth F = State (\<lambda>cs. (fpdf_pageWidth F cs, cs))"

definition GetY :: "Fpdf \<Rightarrow> float64 drawing" where
  "GetY F = State (\<lambda>cs. (fpdf_Y F cs, cs))"

definition draw_nothing :: "unit drawing" where
  "draw_nothing = State_Monad.return ()"

text \<open>\<open>f.CellFormat(w, h, txt, "", ln, align, false, 0, "")\<close>, the only form the source uses\<close>

definition draw_cell :: "float64 \<Rightarrow> float64 \<Rightarrow> string \<Rightarrow> int \<Rightarrow> string \<Rightarrow> unit drawing" where
  "draw_cell w h txt newline align = draw (CellFormat w h txt [] newline align False 0 [])"

text \<open>\<open>x / 2\<close>: division by two and multiplication by a half round the same real number.\<close>

definition f_half :: "float64 \<Rightarrow> float64" where
  "f_half x = f_mul x (Fin (1 / 2))"

text \<open>The function \<open>max\<close> of the source: the second argument also when the first is not a number.\<close>

definition go_max :: "float64 \<Rightarrow> float64 \<Rightarrow> float64" where
  "go_max a b = (if f_lt b a then a else b)"

section \<open>Texts\<close>

text \<open>UTF-8 of the letters outside ASCII\<close>

definition per_BGB551 :: string where
  "per_BGB551 = ''gem'' @ [CHR 0xC3, CHR 0xA4, CHR 0xC3, CHR 0x9F] @ '' BGB '' @ [CHR 0xC2, CHR 0xA7] @ '' 551''"

definition formatDepositType :: "string \<Rightarrow> string" where
  "formatDepositType t =
     (if t = DepositTypeCash then ''Cash Equivalent (Barkaution)''
      else if t = DepositTypeBankGuarantee then ''Bank Guarantee (Bankb'' @ [CHR 0xC3, CHR 0xBC] @ ''rgschaft)''
      else if t = DepositTypeInsurance then ''Insurance (Kautionsversicherung)''
      else t)"

text \<open>The date of the first RELEASED entry of the history, otherwise of \<open>now\<close>.\<close>

definition releasedAt :: "time \<Rightarrow> Deposit \<Rightarrow> string" where
  "releasedAt now d =
     (case List.find (\<lambda>h. HistoryEntry_State h = StateReleased) (DepositData_History (Deposit_Deposit d)) of
        Some h \<Rightarrow> FormatDate (HistoryEntry_Timestamp h)
      | None \<Rightarrow> FormatDate now)"

text \<open>\<open>t.Format("2006-01-02 15:04:05")\<close>\<close>

definition FormatDateTime :: "time \<Rightarrow> string" where
  "FormatDateTime t =
     (let s = nanos_of_day t div Second
      in FormatDate t @ '' '' @ show_width 2 (s div 3600) @ '':'' @ show_width 2 (s div 60 mod 60)
           @ '':'' @ show_width 2 (s mod 60))"

definition money :: "float64 \<Rightarrow> Deposit \<Rightarrow> string" where
  "money x d = fmt_2f x @ '' '' @ DepositData_Currency (Deposit_Deposit d)"

section \<open>The parts both documents have\<close>

definition bold_font :: "unit drawing" where
  "bold_font = draw (SetFont ''Helvetica'' ''B'' (Fin 10))"

definition regular_font :: "unit drawing" where
  "regular_font = draw (SetFont ''Helvetica'' [] (Fin 10))"

definition draw_divider :: "Fpdf \<Rightarrow> float64 \<Rightarrow> unit drawing" where
  "draw_divider F pageW = do {
     y1 \<leftarrow> GetY F;
     y2 \<leftarrow> GetY F;
     draw (DrawLine (Fin 20) y1 (f_sub pageW (Fin 20)) y2) }"

definition draw_row :: "float64 \<Rightarrow> string \<Rightarrow> string \<Rightarrow> unit drawing" where
  "draw_row contentW label val = do {
     draw_cell (Fin 60) (Fin 5) label 0 ''L'';
     draw_cell (f_sub contentW (Fin 60)) (Fin 5) val 1 ''L'' }"

text \<open>A heading in bold, then back to the regular font\<close>

definition draw_heading :: "float64 \<Rightarrow> string \<Rightarrow> unit drawing" where
  "draw_heading w txt = do { bold_font; draw_cell w (Fin 6) txt 1 ''L''; regular_font }"

definition new_document :: "unit drawing" where
  "new_document = do {
     draw (NewPdf ''P'' ''mm'' ''A4'' []);
     draw (SetMargins (Fin 20) (Fin 20) (Fin 20));
     draw AddPage }"

text \<open>Title, divider and the reference block with the deposit's id and a date\<close>

definition title_block :: "Fpdf \<Rightarrow> float64 \<Rightarrow> string \<Rightarrow> string \<Rightarrow> string \<Rightarrow> string \<Rightarrow> unit drawing" where
  "title_block F pageW title subtitle did dated =
     (let contentW = f_sub pageW (Fin 40) in do {
     draw (SetFont ''Helvetica'' ''B'' (Fin 18));
     draw_cell contentW (Fin 10) title 1 ''C'';
     regular_font;
     draw_cell contentW (Fin 6) subtitle 1 ''C'';
     draw (Ln (Fin 6));
     draw (SetDrawColor 180 180 180);
     draw_divider F pageW;
     draw (Ln (Fin 6));
     draw (SetFont ''Helvetica'' [] (Fin 9));
     draw (SetTextColor 100 100 100);
     draw_cell (f_half contentW) (Fin 5) (''Deposit ID: '' @ did) 0 ''L'';
     draw_cell (f_half contentW) (Fin 5) dated 1 ''R'';
     draw (SetTextColor 0 0 0);
     draw (Ln (Fin 6)) })"

definition tenant_block :: "float64 \<Rightarrow> Deposit \<Rightarrow> unit drawing" where
  "tenant_block colW d =
     (let t = Deposit_Tenant d in do {
     draw_heading colW ''TENANT'';
     draw_cell colW (Fin 5) (Tenant_FirstName t @ '' '' @ Tenant_LastName t) 1 ''L'';
     draw_cell colW (Fin 5) (Tenant_Email t) 1 ''L'';
     (case Tenant_Address t of
        None \<Rightarrow> draw_nothing
      | Some a \<Rightarrow> do {
          draw_cell colW (Fin 5) (Address_Street a) 1 ''L'';
          draw_cell colW (Fin 5) (Address_ZIP a @ '' '' @ Address_City a) 1 ''L'' }) })"

definition property_block :: "float64 \<Rightarrow> Deposit \<Rightarrow> unit drawing" where
  "property_block colW d =
     (let p = Deposit_Property d; a = Property_Address p in do {
     draw_heading colW ''PROPERTY'';
     draw_cell colW (Fin 5) (Address_Street a) 1 ''L'';
     draw_cell colW (Fin 5) (Address_ZIP a @ '' '' @ Address_City a) 1 ''L'';
     (if Property_UnitID p = [] then draw_nothing else draw_cell colW (Fin 5) (''Unit: '' @ Property_UnitID p) 1 ''L'') })"

text \<open>Tenant and property side by side, the landlord below, a divider\<close>

definition parties_block :: "Fpdf \<Rightarrow> float64 \<Rightarrow> Deposit \<Rightarrow> unit drawing" where
  "parties_block F pageW d =
     (let contentW = f_sub pageW (Fin 40); colW = f_half contentW in do {
     startY \<leftarrow> GetY F;
     tenant_block colW d;
     tenantEndY \<leftarrow> GetY F;
     draw (SetXY (f_half pageW) startY);
     property_block colW d;
     y \<leftarrow> GetY F;
     draw (SetXY (Fin 20) (go_max tenantEndY y));
     draw (Ln (Fin 4));
     draw_heading contentW ''LANDLORD'';
     draw_cell contentW (Fin 5) (Landlord_Name (Deposit_Landlord d)) 1 ''L'';
     draw (Ln (Fin 6));
     draw_divider F pageW;
     draw (Ln (Fin 6)) })"

definition draw_footer :: "Fpdf \<Rightarrow> float64 \<Rightarrow> string \<Rightarrow> time \<Rightarrow> unit drawing" where
  "draw_footer F pageW notice now =
     (let contentW = f_sub pageW (Fin 40) in do {
     draw (Ln (Fin 10));
     draw_divider F pageW;
     draw (Ln (Fin 4));
     draw (SetFont ''Helvetica'' ''I'' (Fin 8));
     draw (SetTextColor 120 120 120);
     draw (MultiCell contentW (Fin 4) notice [] ''L'' False);
     draw (Ln (Fin 2));
     draw_cell contentW (Fin 4) (''Generated '' @ FormatDateTime now @ '' UTC'') 1 ''R'' })"

section \<open>The deposit receipt\<close>

definition pledge_rows :: "float64 \<Rightarrow> Deposit \<Rightarrow> unit drawing" where
  "pledge_rows contentW d =
     (case Deposit_Pledge d of
        None \<Rightarrow> draw_nothing
      | Some p \<Rightarrow> do {
          draw_row contentW ''Pledge Date:'' (Pledge_PledgeDate p);
          draw_row contentW ''Statutory Basis:'' (Pledge_StatutoryBasis p);
          draw_row contentW ''Confirmed by Bank:'' (if Pledge_IsConfirmedByBank p then ''Yes'' else ''No'') })"

definition trust_rows :: "float64 \<Rightarrow> Deposit \<Rightarrow> unit drawing" where
  "trust_rows contentW d =
     (case Deposit_Trusteeship d of
        None \<Rightarrow> draw_nothing
      | Some t \<Rightarrow> do {
          draw (Ln (Fin 4));
          draw_heading contentW (''TRUST ACCOUNT (BGB '' @ [CHR 0xC2, CHR 0xA7] @ '' 551 Abs. 3)'');
          (if Trusteeship_TrusteeEntity t = [] then draw_nothing else draw_row contentW ''Trustee:'' (Trusteeship_TrusteeEntity t));
          (if Trusteeship_TrustAccountIBAN t = [] then draw_nothing else draw_row contentW ''Trust IBAN:'' (Trusteeship_TrustAccountIBAN t));
          (if Trusteeship_InsolvencyProtectionConfirmed t
           then draw_row contentW ''Insolvency Protection:''
                  (''Confirmed'' @ (if Trusteeship_InsolvencyProtectionConfirmedDate t = [] then []
                                    else '' '' @ Trusteeship_InsolvencyProtectionConfirmedDate t))
           else draw_nothing);
          (if f_lt f_zero (Trusteeship_AccruedInterest t)
           then draw_row contentW ''Accrued Interest:'' (money (Trusteeship_AccruedInterest t) d) else draw_nothing) })"

definition receipt_notice :: string where
  "receipt_notice = ''This receipt was generated automatically by XMiete. ''
     @ ''Where the tenant holds a compatible EUDI Wallet, a Qualified Electronic Attestation of Attributes (QEAA) ''
     @ ''has been or will be issued as the tamper-evident digital credential for this deposit.''"

text \<open>\<open>now\<close> and \<open>now'\<close> are the two readings of the clock, for the date of issue and the footer.\<close>

definition draw_receipt :: "Fpdf \<Rightarrow> time \<Rightarrow> time \<Rightarrow> Deposit \<Rightarrow> unit drawing" where
  "draw_receipt F now now' d = do {
     new_document;
     pageW \<leftarrow> pageWidth F;
     title_block F pageW ''Rental Deposit Receipt'' (''Kautionsquittung '' @ per_BGB551) (Deposit_ID d)
       (''Issued: '' @ FormatDate now);
     parties_block F pageW d;
     let contentW = f_sub pageW (Fin 40);
     draw_heading contentW ''DEPOSIT DETAILS'';
     draw_row contentW ''Amount:'' (money (DepositData_Amount (Deposit_Deposit d)) d);
     draw_row contentW ''Type:'' (formatDepositType (DepositData_Type (Deposit_Deposit d)));
     pledge_rows contentW d;
     trust_rows contentW d;
     draw_footer F pageW receipt_notice now' }"

definition Generate :: "Fpdf \<Rightarrow> time \<Rightarrow> time \<Rightarrow> Deposit \<Rightarrow> byte list option" where
  "Generate F now now' d = fpdf_Output F (snd (run_state (draw_receipt F now now' d) []))"

section \<open>The release confirmation\<close>

definition release_notice :: string where
  "release_notice = ''This release confirmation was generated automatically by XMiete. ''
     @ ''It confirms that the rental deposit has been released by the landlord and the funds are to be returned to the tenant.''"

text \<open>The amount the document calls returned\<close>

definition total_returned :: "Deposit \<Rightarrow> float64" where
  "total_returned d =
     (case Deposit_Trusteeship d of
        None \<Rightarrow> DepositData_Amount (Deposit_Deposit d)
      | Some t \<Rightarrow> if f_lt f_zero (Trusteeship_TotalBalance t) then Trusteeship_TotalBalance t
                  else DepositData_Amount (Deposit_Deposit d))"

definition interest_rows :: "float64 \<Rightarrow> Deposit \<Rightarrow> unit drawing" where
  "interest_rows contentW d =
     (case Deposit_Trusteeship d of
        None \<Rightarrow> draw_nothing
      | Some t \<Rightarrow>
          if f_lt f_zero (Trusteeship_TotalBalance t) \<and> f_lt f_zero (Trusteeship_AccruedInterest t)
          then do {
            draw_row contentW ''Principal:'' (money (DepositData_Amount (Deposit_Deposit d)) d);
            draw_row contentW ''Accrued Interest:'' (money (Trusteeship_AccruedInterest t) d) }
          else draw_nothing)"

definition draw_release_receipt :: "Fpdf \<Rightarrow> time \<Rightarrow> time \<Rightarrow> Deposit \<Rightarrow> unit drawing" where
  "draw_release_receipt F now now' d = do {
     let releaseDate = releasedAt now d;
     new_document;
     pageW \<leftarrow> pageWidth F;
     title_block F pageW ''Deposit Release Confirmation'' (''Kautionsfreigabe '' @ per_BGB551) (Deposit_ID d)
       (''Released: '' @ releaseDate);
     parties_block F pageW d;
     let contentW = f_sub pageW (Fin 40);
     draw_heading contentW ''ORIGINAL DEPOSIT'';
     draw_row contentW ''Amount:'' (money (DepositData_Amount (Deposit_Deposit d)) d);
     draw_row contentW ''Type:'' (formatDepositType (DepositData_Type (Deposit_Deposit d)));
     (case Deposit_Pledge d of
        None \<Rightarrow> draw_nothing
      | Some p \<Rightarrow> if Pledge_PledgeDate p = [] then draw_nothing else draw_row contentW ''Pledge Date:'' (Pledge_PledgeDate p));
     draw (Ln (Fin 4));
     draw_heading contentW ''RELEASE DETAILS'';
     draw_row contentW ''Release Date:'' releaseDate;
     draw_row contentW ''Released By:'' ''Landlord'';
     interest_rows contentW d;
     draw_row contentW ''Total Returned:'' (money (total_returned d) d);
     draw_footer F pageW release_notice now' }"

definition GenerateReleaseReceipt :: "Fpdf \<Rightarrow> time \<Rightarrow> time \<Rightarrow> Deposit \<Rightarrow> byte list option" where
  "GenerateReleaseReceipt F now now' d = fpdf_Output F (snd (run_state (draw_release_receipt F now now' d) []))"

section \<open>What a document says\<close>

text \<open>The texts of a sequence of calls, in order\<close>

fun call_texts :: "pdf_call \<Rightarrow> string list" where
  "call_texts (CellFormat w h txt border newline align fill link linkStr) = [txt]"
| "call_texts (MultiCell w h txt border align fill) = [txt]"
| "call_texts _ = []"

definition pdf_texts :: "pdf_call list \<Rightarrow> string list" where
  "pdf_texts cs = concat (map call_texts cs)"

definition writes :: "'a drawing \<Rightarrow> string list \<Rightarrow> bool" where
  "writes m ts \<longleftrightarrow> (\<forall>cs. pdf_texts (snd (run_state m cs)) = pdf_texts cs @ ts)"

named_theorems writes_rules

lemma writes_eq: "writes m ts \<Longrightarrow> ts = ts' \<Longrightarrow> writes m ts'"
  by simp

lemma writes_call [writes_rules]:
  "writes (draw (NewPdf a b c e)) []" "writes (draw (SetMargins x y z)) []" "writes (draw AddPage) []"
  "writes (draw (SetFont a b x)) []" "writes (draw (SetDrawColor i j k)) []" "writes (draw (SetTextColor i j k)) []"
  "writes (draw (DrawLine x y z u)) []" "writes (draw (SetXY x y)) []" "writes (draw (Ln x)) []"
  "writes (draw (MultiCell x y txt a b fill)) [txt]"
  by (simp_all add: writes_def draw_def pdf_texts_def)

lemma writes_cell [writes_rules]: "writes (draw_cell w h txt newline align) [txt]"
  by (simp add: writes_def draw_cell_def draw_def pdf_texts_def)

lemma writes_silent [writes_rules]: "writes (pageWidth F) []" "writes (GetY F) []" "writes draw_nothing []"
  by (simp_all add: writes_def pageWidth_def GetY_def draw_nothing_def)

lemma writes_bind [writes_rules]:
  assumes "writes m ts" "\<And>x. writes (k x) us"
  shows "writes (State_Monad.bind m k) (ts @ us)"
  using assms by (simp add: writes_def split_beta)

lemma writes_if [writes_rules]:
  assumes "writes m ts" "writes n us"
  shows "writes (if b then m else n) (if b then ts else us)"
  using assms by simp

lemma writes_option [writes_rules]:
  assumes "writes m ts" "\<And>x. writes (k x) (us x)"
  shows "writes (case p of None \<Rightarrow> m | Some x \<Rightarrow> k x) (case p of None \<Rightarrow> ts | Some x \<Rightarrow> us x)"
  using assms by (cases p) simp_all

text \<open>The texts of the parts\<close>

lemma writes_basic [writes_rules]: "writes bold_font []" "writes regular_font []" "writes new_document []"
  "writes (draw_row w l v) [l, v]" "writes (draw_heading w t) [t]" "writes (draw_divider F p) []"
proof -
  show b: "writes bold_font []" "writes regular_font []"
    unfolding bold_font_def regular_font_def by (rule writes_eq, rule writes_rules, simp)+
  show "writes new_document []"
    unfolding new_document_def by (rule writes_eq, (rule writes_rules)+, simp)
  show "writes (draw_row w l v) [l, v]"
    unfolding draw_row_def by (rule writes_eq, (rule writes_rules)+, simp)
  show "writes (draw_heading w t) [t]"
    unfolding draw_heading_def by (rule writes_eq, (rule b writes_rules)+, simp)
  show "writes (draw_divider F p) []"
    unfolding draw_divider_def by (rule writes_eq, (rule writes_rules)+, simp)
qed

lemma writes_title [writes_rules]: "writes (title_block F p title sub did dated) [title, sub, ''Deposit ID: '' @ did, dated]"
  unfolding title_block_def Let_def by (rule writes_eq, (rule writes_rules)+, simp)

lemma writes_footer [writes_rules]: "writes (draw_footer F p notice now) [notice, ''Generated '' @ FormatDateTime now @ '' UTC'']"
  unfolding draw_footer_def Let_def by (rule writes_eq, (rule writes_rules)+, simp)

definition address_texts :: "Address \<Rightarrow> string list" where
  "address_texts a = [Address_Street a, Address_ZIP a @ '' '' @ Address_City a]"

definition party_texts :: "Deposit \<Rightarrow> string list" where
  "party_texts d =
     [''TENANT'', Tenant_FirstName (Deposit_Tenant d) @ '' '' @ Tenant_LastName (Deposit_Tenant d), Tenant_Email (Deposit_Tenant d)]
   @ (case Tenant_Address (Deposit_Tenant d) of None \<Rightarrow> [] | Some a \<Rightarrow> address_texts a)
   @ [''PROPERTY''] @ address_texts (Property_Address (Deposit_Property d))
   @ (if Property_UnitID (Deposit_Property d) = [] then [] else [''Unit: '' @ Property_UnitID (Deposit_Property d)])
   @ [''LANDLORD'', Landlord_Name (Deposit_Landlord d)]"

lemma writes_parties [writes_rules]: "writes (parties_block F p d) (party_texts d)"
  unfolding parties_block_def tenant_block_def property_block_def Let_def
  by (rule writes_eq, (rule writes_rules)+, simp add: party_texts_def address_texts_def cong: option.case_cong)

text \<open>The rows below the parties, as label and value\<close>

definition receipt_rows :: "Deposit \<Rightarrow> (string \<times> string) list" where
  "receipt_rows d =
     [(''Amount:'', money (DepositData_Amount (Deposit_Deposit d)) d),
      (''Type:'', formatDepositType (DepositData_Type (Deposit_Deposit d)))]
   @ (case Deposit_Pledge d of None \<Rightarrow> []
      | Some p \<Rightarrow> [(''Pledge Date:'', Pledge_PledgeDate p), (''Statutory Basis:'', Pledge_StatutoryBasis p),
                   (''Confirmed by Bank:'', if Pledge_IsConfirmedByBank p then ''Yes'' else ''No'')])"

definition trust_texts :: "Deposit \<Rightarrow> Trusteeship \<Rightarrow> (string \<times> string) list" where
  "trust_texts d t =
     (if Trusteeship_TrusteeEntity t = [] then [] else [(''Trustee:'', Trusteeship_TrusteeEntity t)])
   @ (if Trusteeship_TrustAccountIBAN t = [] then [] else [(''Trust IBAN:'', Trusteeship_TrustAccountIBAN t)])
   @ (if Trusteeship_InsolvencyProtectionConfirmed t
      then [(''Insolvency Protection:'', ''Confirmed'' @ (if Trusteeship_InsolvencyProtectionConfirmedDate t = [] then []
               else '' '' @ Trusteeship_InsolvencyProtectionConfirmedDate t))] else [])
   @ (if f_lt f_zero (Trusteeship_AccruedInterest t)
      then [(''Accrued Interest:'', money (Trusteeship_AccruedInterest t) d)] else [])"

definition row_texts :: "(string \<times> string) list \<Rightarrow> string list" where
  "row_texts rs = concat (map (\<lambda>(l, v). [l, v]) rs)"

lemma row_texts_simps [simp]: "row_texts [] = []" "row_texts ((l, v) # rs) = l # v # row_texts rs"
  "row_texts (rs @ rs') = row_texts rs @ row_texts rs'"
  by (simp_all add: row_texts_def)

definition receipt_texts :: "time \<Rightarrow> time \<Rightarrow> Deposit \<Rightarrow> string list" where
  "receipt_texts now now' d =
     [''Rental Deposit Receipt'', ''Kautionsquittung '' @ per_BGB551, ''Deposit ID: '' @ Deposit_ID d, ''Issued: '' @ FormatDate now]
   @ party_texts d @ [''DEPOSIT DETAILS''] @ row_texts (receipt_rows d)
   @ (case Deposit_Trusteeship d of None \<Rightarrow> []
      | Some t \<Rightarrow> (''TRUST ACCOUNT (BGB '' @ [CHR 0xC2, CHR 0xA7] @ '' 551 Abs. 3)'') # row_texts (trust_texts d t))
   @ [receipt_notice, ''Generated '' @ FormatDateTime now' @ '' UTC'']"

lemma draw_receipt_texts: "writes (draw_receipt F now now' d) (receipt_texts now now' d)"
  unfolding draw_receipt_def pledge_rows_def trust_rows_def Let_def
  by (rule writes_eq, (rule writes_rules)+,
      simp add: receipt_texts_def receipt_rows_def trust_texts_def split: option.split)

definition release_rows :: "time \<Rightarrow> Deposit \<Rightarrow> (string \<times> string) list" where
  "release_rows now d =
     [(''Release Date:'', releasedAt now d), (''Released By:'', ''Landlord'')]
   @ (case Deposit_Trusteeship d of None \<Rightarrow> []
      | Some t \<Rightarrow> if f_lt f_zero (Trusteeship_TotalBalance t) \<and> f_lt f_zero (Trusteeship_AccruedInterest t)
                  then [(''Principal:'', money (DepositData_Amount (Deposit_Deposit d)) d),
                        (''Accrued Interest:'', money (Trusteeship_AccruedInterest t) d)] else [])
   @ [(''Total Returned:'', money (total_returned d) d)]"

definition release_texts :: "time \<Rightarrow> time \<Rightarrow> Deposit \<Rightarrow> string list" where
  "release_texts now now' d =
     [''Deposit Release Confirmation'', ''Kautionsfreigabe '' @ per_BGB551, ''Deposit ID: '' @ Deposit_ID d,
      ''Released: '' @ releasedAt now d]
   @ party_texts d @ [''ORIGINAL DEPOSIT'']
   @ row_texts ([(''Amount:'', money (DepositData_Amount (Deposit_Deposit d)) d),
       (''Type:'', formatDepositType (DepositData_Type (Deposit_Deposit d)))]
       @ (case Deposit_Pledge d of None \<Rightarrow> []
          | Some p \<Rightarrow> if Pledge_PledgeDate p = [] then [] else [(''Pledge Date:'', Pledge_PledgeDate p)]))
   @ [''RELEASE DETAILS''] @ row_texts (release_rows now d)
   @ [release_notice, ''Generated '' @ FormatDateTime now' @ '' UTC'']"

lemma draw_release_receipt_texts: "writes (draw_release_receipt F now now' d) (release_texts now now' d)"
  unfolding draw_release_receipt_def interest_rows_def Let_def
  by (rule writes_eq, (rule writes_rules)+,
      simp add: release_texts_def release_rows_def split: option.split)

lemma Generate_texts:
  assumes "Generate F now now' d = Some pdf"
  obtains cs where "fpdf_Output F cs = Some pdf" "pdf_texts cs = receipt_texts now now' d"
proof
  show "fpdf_Output F (snd (run_state (draw_receipt F now now' d) [])) = Some pdf"
    using assms by (simp add: Generate_def)
  show "pdf_texts (snd (run_state (draw_receipt F now now' d) [])) = receipt_texts now now' d"
    using draw_receipt_texts [of F now now' d] by (simp add: writes_def pdf_texts_def)
qed

lemma GenerateReleaseReceipt_texts:
  assumes "GenerateReleaseReceipt F now now' d = Some pdf"
  obtains cs where "fpdf_Output F cs = Some pdf" "pdf_texts cs = release_texts now now' d"
proof
  show "fpdf_Output F (snd (run_state (draw_release_receipt F now now' d) [])) = Some pdf"
    using assms by (simp add: GenerateReleaseReceipt_def)
  show "pdf_texts (snd (run_state (draw_release_receipt F now now' d) [])) = release_texts now now' d"
    using draw_release_receipt_texts [of F now now' d] by (simp add: writes_def pdf_texts_def)
qed

lemma find_filter: "List.find P xs = (if filter P xs = [] then None else Some (hd (filter P xs)))"
  by (induction xs) auto

lemma releasedAt_filter:
  "releasedAt now d =
     (if StateReleased \<in> set (map HistoryEntry_State (DepositData_History (Deposit_Deposit d)))
      then FormatDate (HistoryEntry_Timestamp
        (hd (filter (\<lambda>h. HistoryEntry_State h = StateReleased) (DepositData_History (Deposit_Deposit d)))))
      else FormatDate now)"
  by (force simp: releasedAt_def find_filter filter_empty_conv)

end
