(* ===== verification/Server.thy ===== *)
theory Server
  imports StatusList Receipt
begin

text \<open>
  The deposit endpoints of the server (\<open>server/internal/api/handlers.go\<close>), one
  definition per handler. A handler gets its configuration (\<open>Server\<close>), the
  outcomes of the services it calls (\<open>Env\<close>: clock readings, identifiers,
  which database statements fail), the decoded request body (\<open>None\<close> when decoding
  fails), the id of the path and the database; it returns the response, the
  asynchronous effects it starts and the database afterwards. The documents a handler
  renders are those of theory Receipt.

  The handlers that change a deposit share one shape, which the source repeats in
  each: check the body, fetch the deposit, decide from the fetched deposit
  (\<open>plan\<close>), call \<open>UpdateState\<close>, then notify. \<open>X_check\<close> and \<open>X_plan\<close> are the parts of
  handler \<open>X\<close> that differ; \<open>handle_action\<close> composes them. The locale
  \<open>lifecycle_action\<close> states what every plan promises; its client lemmas give the
  invariants of the deposit store once for all handlers.
\<close>

section \<open>Requests, responses and effects\<close>

datatype Body =
    JSON_Deposit Deposit
  | JSON_Error string string
  | JSON_Value json
  | PDF string "byte list"

text \<open>\<open>Panicked\<close>: a run-time panic, which the router's \<open>Recoverer\<close> turns into a bare 500.\<close>

datatype response = Respond int Body | Panicked

datatype effect =
    Webhook string WebhookEvent
  | MailReceipt Deposit "byte list"
  | MailReleaseReceipt Deposit "byte list"

record Server =
  Server_webhookURL :: string
  Server_issuerURL :: string
  Server_pdf :: Fpdf

record Env =
  env_now :: time
  env_repo_now :: time
  env_hook_now :: time
  env_pdf_now :: time
  env_pdf_done :: time
  env_uuid :: "nat \<Rightarrow> string"
  env_get :: faults
  env_update :: faults
  env_revoke :: faults

definition writeJSON :: "int \<Rightarrow> Body \<Rightarrow> response" where
  "writeJSON status v = Respond status v"

definition writeError :: "int \<Rightarrow> string \<Rightarrow> string \<Rightarrow> response" where
  "writeError status msg code = writeJSON status (JSON_Error msg code)"

definition fireWebhook :: "Server \<Rightarrow> Env \<Rightarrow> Deposit \<Rightarrow> effect list" where
  "fireWebhook s env d =
     (if Server_webhookURL s = [] then []
      else [Webhook (Server_webhookURL s) \<lparr>
              WebhookEvent_EventType = ''deposit.status_changed'', WebhookEvent_DepositID = Deposit_ID d,
              WebhookEvent_NewState = lifecycle d, WebhookEvent_Timestamp = env_hook_now env,
              WebhookEvent_CredentialOfferURL = []\<rparr>])"

definition sendReceiptEmail :: "Server \<Rightarrow> Env \<Rightarrow> Deposit \<Rightarrow> effect list" where
  "sendReceiptEmail s env d =
     (case Generate (Server_pdf s) (env_pdf_now env) (env_pdf_done env) d of
        None \<Rightarrow> []
      | Some pdf \<Rightarrow> [MailReceipt d pdf])"

definition sendReleaseReceiptEmail :: "Server \<Rightarrow> Env \<Rightarrow> Deposit \<Rightarrow> effect list" where
  "sendReleaseReceiptEmail s env d =
     (case GenerateReleaseReceipt (Server_pdf s) (env_pdf_now env) (env_pdf_done env) d of
        None \<Rightarrow> []
      | Some pdf \<Rightarrow> [MailReleaseReceipt d pdf])"

text \<open>The error responses the handlers share.\<close>

definition bad_json :: response where
  "bad_json = writeError 400 ''invalid JSON'' ''BAD_REQUEST''"

definition invalid :: "string \<Rightarrow> response" where
  "invalid msg = writeError 400 msg ''VALIDATION_ERROR''"

definition not_allowed :: "ErrInvalidTransition \<Rightarrow> response" where
  "not_allowed e = writeError 409 (ErrInvalidTransition_Error e) ''INVALID_TRANSITION''"

definition em_dash :: string where
  "em_dash = [CHR 0xE2, CHR 0x80, CHR 0x94]"

definition ge_sign :: string where
  "ge_sign = [CHR 0xE2, CHR 0x89, CHR 0xA5]"

section \<open>The shape of a handler\<close>

text \<open>The fetch every handler starts with: 404, 500 or the deposit.\<close>

definition fetch_deposit :: "Env \<Rightarrow> string \<Rightarrow> Database \<Rightarrow> response + Deposit" where
  "fetch_deposit env did db =
     (case PostgresRepo_GetByID (env_get env) did db of
        Inr d \<Rightarrow> Inr d
      | Inl ErrNotFound \<Rightarrow> Inl (writeError 404 ''deposit not found'' ''NOT_FOUND'')
      | Inl _ \<Rightarrow> Inl (writeError 500 ''failed to fetch deposit'' ''INTERNAL_ERROR''))"

text \<open>What a handler asks \<open>UpdateState\<close> for: the new state, the history entry, the patch.\<close>

type_synonym update = "LifecycleState \<times> HistoryEntry \<times> patch"

type_synonym result = "response \<times> effect list \<times> Database"

definition commit_update ::
  "Server \<Rightarrow> Env \<Rightarrow> bool \<Rightarrow> (Deposit \<Rightarrow> effect list) \<Rightarrow> string \<Rightarrow> update \<Rightarrow> Database \<Rightarrow> result" where
  "commit_update s env revokes mail did u db =
     (case u of (newState, entry, patch) \<Rightarrow>
      (case PostgresRepo_UpdateState (env_update env) (env_repo_now env) did newState entry patch db of
         (Inl ErrPanic, db') \<Rightarrow> (Panicked, [], db')
       | (Inl _, db') \<Rightarrow> (writeError 500 ''failed to update deposit'' ''INTERNAL_ERROR'', [], db')
       | (Inr updated, db') \<Rightarrow>
           (writeJSON 200 (JSON_Deposit updated), fireWebhook s env updated @ mail updated,
            if revokes then PostgresSessionStore_RevokeByDepositID (env_revoke env) did db' else db')))"

definition handle_action ::
  "Server \<Rightarrow> Env \<Rightarrow> response option \<Rightarrow> (Deposit \<Rightarrow> response + update) \<Rightarrow> bool \<Rightarrow>
     (Deposit \<Rightarrow> effect list) \<Rightarrow> string \<Rightarrow> Database \<Rightarrow> result" where
  "handle_action s env bad plan revokes mail did db =
     (case bad of
        Some r \<Rightarrow> (r, [], db)
      | None \<Rightarrow> (case fetch_deposit env did db of
          Inl r \<Rightarrow> (r, [], db)
        | Inr current \<Rightarrow> (case plan current of
            Inl r \<Rightarrow> (r, [], db)
          | Inr u \<Rightarrow> commit_update s env revokes mail did u db)))"

definition no_mail :: "Deposit \<Rightarrow> effect list" where
  "no_mail d = []"

text \<open>The history entry a handler builds; the repository sets its time.\<close>

definition entry :: "LifecycleState \<Rightarrow> string \<Rightarrow> string \<Rightarrow> HistoryEntry" where
  "entry st actor comment = \<lparr>HistoryEntry_State = st, HistoryEntry_Timestamp = zero_time,
     HistoryEntry_Actor = actor, HistoryEntry_Comment = comment, HistoryEntry_Signature = []\<rparr>"

text \<open>\<open>if _, err := statemachine.Transition(...); err != nil\<close>\<close>

definition guard_transition ::
  "LifecycleState \<Rightarrow> LifecycleState \<Rightarrow> response + update \<Rightarrow> response + update" where
  "guard_transition current next k =
     (case snd (Transition current next) of Some e \<Rightarrow> Inl (not_allowed e) | None \<Rightarrow> k)"

section \<open>Creating and reading a deposit\<close>

definition CreateDeposit_check :: "Deposit \<Rightarrow> response option" where
  "CreateDeposit_check d =
     (if Tenant_FirstName (Deposit_Tenant d) = [] \<or> Tenant_LastName (Deposit_Tenant d) = []
         \<or> Tenant_Email (Deposit_Tenant d) = []
      then Some (invalid ''tenant first_name, last_name and email are required'')
      else if Landlord_Name (Deposit_Landlord d) = []
      then Some (invalid ''landlord name is required'')
      else if f_le (DepositData_Amount (Deposit_Deposit d)) f_zero \<or> DepositData_Type (Deposit_Deposit d) = []
      then Some (invalid ''deposit amount and type are required'')
      else None)"

definition CreateDeposit_defaults :: "Deposit \<Rightarrow> Deposit" where
  "CreateDeposit_defaults d = d\<lparr>
     Deposit_Meta := (if Meta_Version (Deposit_Meta d) = []
       then (Deposit_Meta d)\<lparr>Meta_Version := ''2.0.0''\<rparr> else Deposit_Meta d),
     Deposit_Deposit := (if DepositData_Currency (Deposit_Deposit d) = []
       then (Deposit_Deposit d)\<lparr>DepositData_Currency := ''EUR''\<rparr> else Deposit_Deposit d)\<rparr>"

definition CreateDeposit :: "Env \<Rightarrow> Deposit option \<Rightarrow> Database \<Rightarrow> result" where
  "CreateDeposit env body db =
     (case body of
        None \<Rightarrow> (bad_json, [], db)
      | Some d \<Rightarrow> (case CreateDeposit_check d of
          Some r \<Rightarrow> (r, [], db)
        | None \<Rightarrow>
            (case PostgresRepo_Create (env_update env) (env_uuid env 0) (env_repo_now env)
                    (CreateDeposit_defaults d) db of
               (Inl _, db') \<Rightarrow> (writeError 500 ''failed to create deposit'' ''INTERNAL_ERROR'', [], db')
             | (Inr created, db') \<Rightarrow> (writeJSON 201 (JSON_Deposit created), [], db'))))"

definition GetDeposit :: "Env \<Rightarrow> string \<Rightarrow> Database \<Rightarrow> response" where
  "GetDeposit env did db =
     (case fetch_deposit env did db of Inl r \<Rightarrow> r | Inr d \<Rightarrow> writeJSON 200 (JSON_Deposit d))"

section \<open>Identity, pledge, release, claim\<close>

definition UpdateIdentity_check :: "IdentityUpdateRequest option \<Rightarrow> response option" where
  "UpdateIdentity_check body =
     (case body of
        None \<Rightarrow> Some bad_json
      | Some req \<Rightarrow> if IdentityUpdateRequest_EIDStatus req = [] then Some (invalid ''eid_status is required'') else None)"

definition UpdateIdentity_patch :: "IdentityUpdateRequest \<Rightarrow> patch" where
  "UpdateIdentity_patch req d = Some (d\<lparr>Deposit_Tenant := (Deposit_Tenant d)\<lparr>
     Tenant_EIDStatus := IdentityUpdateRequest_EIDStatus req,
     Tenant_WalletMetadata := (if IdentityUpdateRequest_WalletMetadata req \<noteq> None
       then IdentityUpdateRequest_WalletMetadata req else Tenant_WalletMetadata (Deposit_Tenant d))\<rparr>\<rparr>)"

definition UpdateIdentity_plan :: "IdentityUpdateRequest \<Rightarrow> Deposit \<Rightarrow> response + update" where
  "UpdateIdentity_plan req current =
     (case StateForIdentityUpdate (IdentityUpdateRequest_EIDStatus req) of (nextState, transitions) \<Rightarrow>
        if \<not> transitions then Inl (writeJSON 200 (JSON_Deposit current))
        else guard_transition (lifecycle current) nextState
          (Inr (nextState, entry nextState ''IDENTITY_PROVIDER'' [], UpdateIdentity_patch req)))"

definition UpdateIdentity ::
  "Server \<Rightarrow> Env \<Rightarrow> IdentityUpdateRequest option \<Rightarrow> string \<Rightarrow> Database \<Rightarrow> result" where
  "UpdateIdentity s env body did db =
     handle_action s env (UpdateIdentity_check body) (UpdateIdentity_plan (the body)) False no_mail did db"

definition Pledge_check :: "PledgeRequest option \<Rightarrow> response option" where
  "Pledge_check body =
     (case body of
        None \<Rightarrow> Some bad_json
      | Some req \<Rightarrow>
          if PledgeRequest_PledgeDate req = [] \<or> \<not> PledgeRequest_IsConfirmedByBank req
          then Some (invalid ''pledge_date and is_confirmed_by_bank=true are required'') else None)"

definition Pledge_patch :: "PledgeRequest \<Rightarrow> patch" where
  "Pledge_patch req d = Some (d\<lparr>Deposit_Pledge := Some \<lparr>
     Pledge_PledgeDate = PledgeRequest_PledgeDate req, Pledge_StatutoryBasis = BGB_551,
     Pledge_IsConfirmedByBank = True\<rparr>\<rparr>)"

definition Pledge_plan :: "PledgeRequest \<Rightarrow> Deposit \<Rightarrow> response + update" where
  "Pledge_plan req current = guard_transition (lifecycle current) StatePledged
     (Inr (StatePledged, entry StatePledged ''BANK'' [], Pledge_patch req))"

definition Pledge_handler :: "Server \<Rightarrow> Env \<Rightarrow> PledgeRequest option \<Rightarrow> string \<Rightarrow> Database \<Rightarrow> result" where
  "Pledge_handler s env body did db =
     handle_action s env (Pledge_check body) (Pledge_plan (the body)) False (sendReceiptEmail s env) did db"

text \<open>The body of a release is optional and never read.\<close>

definition Release_plan :: "Deposit \<Rightarrow> response + update" where
  "Release_plan current = guard_transition (lifecycle current) StateReleased
     (Inr (StateReleased, entry StateReleased ''LANDLORD'' [], no_patch))"

definition Release :: "Server \<Rightarrow> Env \<Rightarrow> string \<Rightarrow> Database \<Rightarrow> result" where
  "Release s env did db = handle_action s env None Release_plan True (sendReleaseReceiptEmail s env) did db"

definition Claim_check :: "ClaimRequest option \<Rightarrow> response option" where
  "Claim_check body =
     (case body of
        None \<Rightarrow> Some bad_json
      | Some req \<Rightarrow>
          if f_le (ClaimRequest_ClaimAmount req) f_zero \<or> ClaimRequest_Reason req = []
          then Some (invalid ''claim_amount and reason are required'') else None)"

definition Claim_plan :: "ClaimRequest \<Rightarrow> Deposit \<Rightarrow> response + update" where
  "Claim_plan req current = guard_transition (lifecycle current) StateClaimed
     (Inr (StateClaimed, entry StateClaimed ''LANDLORD'' (ClaimRequest_Reason req), no_patch))"

definition Claim :: "Server \<Rightarrow> Env \<Rightarrow> ClaimRequest option \<Rightarrow> string \<Rightarrow> Database \<Rightarrow> result" where
  "Claim s env body did db =
     handle_action s env (Claim_check body) (Claim_plan (the body)) False no_mail did db"

section \<open>Receipts\<close>

definition receipt_available :: "LifecycleState \<Rightarrow> bool" where
  "receipt_available st \<longleftrightarrow> st = StatePledged \<or> st = StateReleased \<or> st = StateClaimed
     \<or> st = StatePartiallyReleased \<or> st = StateSettleProposed \<or> st = StateDisputed \<or> st = StateClosed"

definition GetReceipt :: "Server \<Rightarrow> Env \<Rightarrow> string \<Rightarrow> Database \<Rightarrow> response" where
  "GetReceipt s env did db =
     (case fetch_deposit env did db of
        Inl r \<Rightarrow> r
      | Inr d \<Rightarrow>
          if \<not> receipt_available (lifecycle d)
          then writeError 409 (''receipt not available in state '' @ state_string (lifecycle d) @ '' '' @ em_dash
                 @ '' deposit must be PLEDGED first'') ''RECEIPT_NOT_AVAILABLE''
          else case Generate (Server_pdf s) (env_pdf_now env) (env_pdf_done env) d of
            None \<Rightarrow> writeError 500 ''failed to generate receipt'' ''INTERNAL_ERROR''
          | Some pdf \<Rightarrow> Respond 200 (PDF (''receipt-'' @ did @ ''.pdf'') pdf))"

definition release_receipt_available :: "LifecycleState \<Rightarrow> bool" where
  "release_receipt_available st \<longleftrightarrow> st = StateReleased \<or> st = StateClosed"

definition GetReleaseReceipt :: "Server \<Rightarrow> Env \<Rightarrow> string \<Rightarrow> Database \<Rightarrow> response" where
  "GetReleaseReceipt s env did db =
     (case fetch_deposit env did db of
        Inl r \<Rightarrow> r
      | Inr d \<Rightarrow>
          if \<not> release_receipt_available (lifecycle d)
          then writeError 409 (''release receipt not available in state '' @ state_string (lifecycle d) @ '' '' @ em_dash
                 @ '' deposit must be RELEASED first'') ''RELEASE_RECEIPT_NOT_AVAILABLE''
          else case GenerateReleaseReceipt (Server_pdf s) (env_pdf_now env) (env_pdf_done env) d of
            None \<Rightarrow> writeError 500 ''failed to generate release receipt'' ''INTERNAL_ERROR''
          | Some pdf \<Rightarrow> Respond 200 (PDF (''release-receipt-'' @ did @ ''.pdf'') pdf))"

section \<open>The invariant of a stored deposit\<close>

text \<open>
  One entry of the history to the next: a transition of the table, or a repeated
  entry in place (a counter-proposal, a wallet presentation).
\<close>

definition legal_step :: "LifecycleState \<Rightarrow> LifecycleState \<Rightarrow> bool" where
  "legal_step a b \<longleftrightarrow> CanTransition a b \<or> (a = b \<and> (a = StateSettleProposed \<or> a = StatePledged))"

definition history_states :: "Deposit \<Rightarrow> LifecycleState list" where
  "history_states d = map HistoryEntry_State (history d)"

definition history_ok :: "Deposit \<Rightarrow> bool" where
  "history_ok d \<longleftrightarrow> history d \<noteq> [] \<and> hd (history_states d) = StateRequested
     \<and> last (history_states d) = lifecycle d \<and> chain legal_step (history_states d)
     \<and> StateFunded \<notin> set (history_states d)"

text \<open>What the document of a deposit in state \<open>st\<close> contains.\<close>

definition deposit_facts :: "LifecycleState \<Rightarrow> Deposit \<Rightarrow> bool" where
  "deposit_facts st d \<longleftrightarrow>
     (st \<noteq> StateRequested \<longrightarrow> Tenant_EIDStatus (Deposit_Tenant d) = EIDVerified)
   \<and> (st \<noteq> StateRequested \<and> st \<noteq> StateIdentified \<longrightarrow>
        (case Deposit_Pledge d of None \<Rightarrow> False | Some p \<Rightarrow> Pledge_IsConfirmedByBank p))
   \<and> (st = StateSettleProposed \<or> st = StateDisputed \<longrightarrow> Deposit_Settlement d \<noteq> None)
   \<and> (st = StatePartiallyReleased \<longrightarrow>
        (case Deposit_UtilityReservation d of
           None \<Rightarrow> False | Some ur \<Rightarrow> \<not> f_le (UtilityReservation_ReservedAmount ur) f_zero))"

definition deposit_inv :: "Deposit \<Rightarrow> bool" where
  "deposit_inv d \<longleftrightarrow> Deposit_wf d \<and> history_ok d \<and> deposit_facts (lifecycle d) d"

definition server_inv :: "Database \<Rightarrow> bool" where
  "server_inv db \<longleftrightarrow> repo_inv db \<and> sessions_inv db
     \<and> (\<forall>r \<in> set (deposits db). pred_option deposit_inv (dec_Deposit (DepositRow_data r)))"

lemma legal_step_known: "legal_step a b \<Longrightarrow> b \<in> set known_states"
  by (auto simp: legal_step_def known_states_def dest: CanTransition_known)

lemma history_states_enter [simp]:
  "history_states (enter_state now st e d) = history_states d @ [HistoryEntry_State e]"
  by (simp add: history_states_def)

text \<open>
  No handler enters FUNDED. On the transitions that remain a sharper rank counts
  the steps a deposit can still take.
\<close>

definition api_transition :: "LifecycleState \<Rightarrow> LifecycleState \<Rightarrow> bool" where
  "api_transition a b \<longleftrightarrow> CanTransition a b \<and> a \<noteq> StateFunded \<and> b \<noteq> StateFunded"

definition api_rank :: "LifecycleState \<Rightarrow> nat" where
  "api_rank st = (if st = StateRequested \<or> st = StateIdentified then lifecycle_rank st - 1 else lifecycle_rank st)"

interpretation am: ranked_machine api_transition api_rank
proof unfold_locales
  fix a b
  show "api_transition a b \<Longrightarrow> api_rank b < api_rank a"
    by (cases a) (auto simp: api_transition_def api_rank_def)
qed

lemma chain_legal_remdups:
  "chain legal_step xs \<Longrightarrow> StateFunded \<notin> set xs \<Longrightarrow> chain api_transition (remdups_adj xs)"
proof (induction xs rule: remdups_adj.induct)
  case (3 x y xs)
  show ?case
  proof (cases "x = y")
    case False
    obtain zs where zs: "remdups_adj (y # xs) = y # zs"
      using hd_remdups_adj [of "y # xs"] by (cases "remdups_adj (y # xs)") auto
    have "api_transition x y" using 3(3,4) False by (auto simp: legal_step_def api_transition_def)
    with 3(2) [OF False] 3(3,4) False zs show ?thesis by simp
  qed (use 3 in simp)
qed simp_all

lemma history_ok_bounded:
  assumes "history_ok d"
  shows "distinct (remdups_adj (history_states d))" "length (remdups_adj (history_states d)) \<le> 7"
proof -
  have c: "chain api_transition (remdups_adj (history_states d))"
    using assms by (simp add: history_ok_def chain_legal_remdups)
  then show "distinct (remdups_adj (history_states d))" by (rule am.chain_distinct)
  have ne: "history_states d \<noteq> []" using assms by (auto simp: history_ok_def history_states_def)
  then have "hd (remdups_adj (history_states d)) = StateRequested"
    using assms by (simp add: history_ok_def)
  then obtain zs where "remdups_adj (history_states d) = StateRequested # zs"
    using ne by (cases "remdups_adj (history_states d)") auto
  with c am.chain_bounded [of StateRequested zs] show "length (remdups_adj (history_states d)) \<le> 7"
    by (simp add: api_rank_def)
qed

text \<open>Entering a state by a legal step keeps the invariant.\<close>

lemma deposit_inv_enter:
  assumes "deposit_inv d" "legal_step (lifecycle d) st" "st \<noteq> StateFunded" "HistoryEntry_State e = st"
    and "Deposit_wf d1" "history d1 = history d" "deposit_facts st d1"
  shows "deposit_inv (enter_state now st e d1)"
proof -
  have h: "history_ok d" using assms(1) by (simp add: deposit_inv_def)
  have hs: "history_states d1 = history_states d" by (simp add: history_states_def assms(6))
  have ne: "history_states d \<noteq> []" using h by (simp add: history_ok_def history_states_def)
  have "history_ok (enter_state now st e d1)"
    using h assms(2-4) ne by (simp add: history_ok_def hs chain_snoc)
  moreover have "deposit_facts st (enter_state now st e d1)"
    using assms(7) by (simp add: deposit_facts_def)
  moreover have "Deposit_wf (enter_state now st e d1)"
    using assms(2,4,5) by (auto intro: enter_state_wf known_state_wf legal_step_known)
  ultimately show ?thesis by (simp add: deposit_inv_def)
qed

text \<open>The invariant in terms of the repository's view.\<close>

lemma server_inv_view:
  "server_inv db \<longleftrightarrow> repo_inv db \<and> sessions_inv db \<and> (\<forall>did d. repo_view db did = Some d \<longrightarrow> deposit_inv d)"
proof -
  have "(\<forall>r \<in> set (deposits db). pred_option deposit_inv (dec_Deposit (DepositRow_data r))) \<longleftrightarrow>
      (\<forall>did d. repo_view db did = Some d \<longrightarrow> deposit_inv d)" if "repo_inv db"
  proof
    assume "\<forall>r \<in> set (deposits db). pred_option deposit_inv (dec_Deposit (DepositRow_data r))"
    then show "\<forall>did d. repo_view db did = Some d \<longrightarrow> deposit_inv d"
      by (auto dest!: repo_view_Some_row deposit_row_SomeD)
  next
    assume v: "\<forall>did d. repo_view db did = Some d \<longrightarrow> deposit_inv d"
    show "\<forall>r \<in> set (deposits db). pred_option deposit_inv (dec_Deposit (DepositRow_data r))"
    proof
      fix r assume r: "r \<in> set (deposits db)"
      have "deposit_row db (DepositRow_id r) = Some r"
        unfolding deposit_row_def using that r
        by (intro row_where_unique) (auto simp: repo_inv_def dest: distinct_map_eqD)
      then have "repo_view db (DepositRow_id r) = dec_Deposit (DepositRow_data r)"
        by (simp add: repo_view_def)
      with v show "pred_option deposit_inv (dec_Deposit (DepositRow_data r))"
        by (cases "dec_Deposit (DepositRow_data r)") auto
    qed
  qed
  then show ?thesis by (auto simp: server_inv_def)
qed

section \<open>The contract of the handlers\<close>

lemma fetch_deposit_Inl:
  "fetch_deposit env did db = Inl r \<Longrightarrow>
     r = writeError 404 ''deposit not found'' ''NOT_FOUND'' \<or>
     r = writeError 500 ''failed to fetch deposit'' ''INTERNAL_ERROR''"
  by (auto simp: fetch_deposit_def split: sum.splits repo_error.splits)

text \<open>The two ways a handler can end.\<close>

text \<open>The mails of an action change neither its response nor what it stores.\<close>

lemma handle_action_mail:
  "fst (handle_action s env bad plan revokes mail did db) = fst (handle_action s env bad plan revokes no_mail did db)"
  "snd (snd (handle_action s env bad plan revokes mail did db)) =
     snd (snd (handle_action s env bad plan revokes no_mail did db))"
  by (simp_all add: handle_action_def commit_update_def split: option.split sum.split prod.split repo_error.split)

lemma handle_action_cases:
  assumes "handle_action s env bad plan revokes mail did db = (r, es, db')"
  obtains (rejected) "db' = db" "es = []" "\<And>d. r = Respond 200 (JSON_Deposit d) \<Longrightarrow>
      bad = Some r \<or> (\<exists>cur. fetch_deposit env did db = Inr cur \<and> plan cur = Inl r)"
  | (committed) cur st e p d' db1 where "bad = None" "fetch_deposit env did db = Inr cur"
      "plan cur = Inr (st, e, p)"
      "PostgresRepo_UpdateState (env_update env) (env_repo_now env) did st e p db = (Inr d', db1)"
      "r = Respond 200 (JSON_Deposit d')" "es = fireWebhook s env d' @ mail d'"
      "db' = (if revokes then PostgresSessionStore_RevokeByDepositID (env_revoke env) did db1 else db1)"
proof (cases "\<exists>cur u. bad = None \<and> fetch_deposit env did db = Inr cur \<and> plan cur = Inr u")
  case False
  then show ?thesis
    using assms rejected
    by (auto simp: handle_action_def writeError_def writeJSON_def dest: fetch_deposit_Inl
        split: option.splits sum.splits)
next
  case True
  then obtain cur st e p where c: "bad = None" "fetch_deposit env did db = Inr cur"
    "plan cur = Inr (st, e, p)" by (metis prod_cases3)
  obtain res db1 where u: "PostgresRepo_UpdateState (env_update env) (env_repo_now env) did st e p db = (res, db1)"
    by fastforce
  have run: "commit_update s env revokes mail did (st, e, p) db = (r, es, db')"
    using assms c by (simp add: handle_action_def)
  show ?thesis
  proof (cases res)
    case (Inl err)
    with u have "db1 = db" by (simp add: pg.update_Inl)
    with run u Inl rejected show ?thesis
      by (cases err) (auto simp: commit_update_def writeError_def writeJSON_def)
  next
    case (Inr d')
    with run u committed [OF c] show ?thesis by (simp add: commit_update_def writeJSON_def)
  qed
qed

lemma fetch_deposit_Inr:
  "server_inv db \<Longrightarrow> fetch_deposit env did db = Inr d \<Longrightarrow> repo_view db did = Some d \<and> deposit_inv d"
  by (auto simp: fetch_deposit_def server_inv_view dest: pg.get_Inr split: sum.splits repo_error.splits)

lemma UpdateState_sessions:
  "PostgresRepo_UpdateState f now did st e p db = (Inr d', db') \<Longrightarrow>
     issuance_sessions db' = issuance_sessions db"
  by (erule PostgresRepo_UpdateState_InrE) simp

lemma RevokeByDepositID_deposits [simp]:
  "deposits (PostgresSessionStore_RevokeByDepositID f did db) = deposits db"
  by (simp add: PostgresSessionStore_RevokeByDepositID_def)

lemma repo_view_cong: "deposits db = deposits db' \<Longrightarrow> repo_view db = repo_view db'"
  by (simp add: repo_view_def deposit_row_def fun_eq_iff)

lemma repo_inv_cong: "deposits db = deposits db' \<Longrightarrow> repo_inv db = repo_inv db'"
  by (simp add: repo_inv_def)

lemma sessions_inv_cong: "issuance_sessions db = issuance_sessions db' \<Longrightarrow> sessions_inv db = sessions_inv db'"
  by (simp add: sessions_inv_def)

text \<open>
  How one request may change the stored deposit of an id: not at all, by creating
  it, or by one legal step that appends one entry to its history.
\<close>

definition deposit_evolves :: "Deposit option \<Rightarrow> Deposit option \<Rightarrow> bool" where
  "deposit_evolves old new \<longleftrightarrow> old = new
   \<or> (\<exists>d. old = None \<and> new = Some d \<and> history_states d = [StateRequested] \<and> lifecycle d = StateRequested)
   \<or> (\<exists>cur d' e. old = Some cur \<and> new = Some d' \<and> legal_step (lifecycle cur) (lifecycle d') \<and>
        history d' = history cur @ [e] \<and> HistoryEntry_State e = lifecycle d')"

text \<open>
  What every handler promises, for the result \<open>bad\<close> of its check and its plan, of a
  deposit that satisfies the invariant: a legal step, recorded as such; a mutation
  that keeps id, state and history, does not panic, and leaves what the new state
  requires.
\<close>

locale lifecycle_action =
  fixes bad :: "response option" and plan :: "Deposit \<Rightarrow> response + update"
  assumes check_no_panic: "bad \<noteq> Some Panicked"
    and plan_step: "plan d = Inr (st, e, p) \<Longrightarrow>
      legal_step (lifecycle d) st \<and> st \<noteq> StateFunded \<and> HistoryEntry_State e = st"
    and plan_patch: "plan d = Inr (st, e, p) \<Longrightarrow> patch_ok p"
    and plan_facts: "bad = None \<Longrightarrow> deposit_inv d \<Longrightarrow> plan d = Inr (st, e, p) \<Longrightarrow>
      \<exists>d1. p d = Some d1 \<and> deposit_facts st d1"
    and plan_no_panic: "deposit_inv d \<Longrightarrow> plan d \<noteq> Inl Panicked"
begin

lemma commit_deposit:
  assumes "server_inv db" "bad = None" "fetch_deposit env did db = Inr cur" "plan cur = Inr (st, e, p)"
    and "PostgresRepo_UpdateState f now did st e p db = (Inr d', db1)"
  obtains d1 where "repo_view db did = Some cur" "deposit_inv cur" "p cur = Some d1"
    "d' = enter_state now st e d1" "deposit_inv d'"
    "repo_view db1 = (repo_view db)(did \<mapsto> d')" "server_inv db1"
proof -
  have inv: "repo_inv db" "sessions_inv db" using assms(1) by (simp_all add: server_inv_view)
  have cur: "repo_view db did = Some cur" "deposit_inv cur" using fetch_deposit_Inr [OF assms(1,3)] by auto
  note step = plan_step [OF assms(4)] and ok = plan_patch [OF assms(4)]
  have wf: "state_wf st" "state_wf (HistoryEntry_State e)"
    using step by (auto intro: known_state_wf legal_step_known)
  obtain d1 where d1: "p cur = Some d1" "deposit_facts st d1" using plan_facts [OF assms(2) cur(2) assms(4)] by blast
  have d': "d' = enter_state now st e d1" using pg.update_Inr [OF inv(1) assms(5)] cur(1) d1(1) by auto
  have "deposit_inv d'"
    unfolding d' using step ok cur(2) d1
    by (intro deposit_inv_enter [OF cur(2)]) (auto simp: patch_ok_def deposit_inv_def)
  moreover have v: "repo_view db1 = (repo_view db)(did \<mapsto> d')" "repo_inv db1"
    using pg.update_view [OF inv(1) assms(5) ok wf] by simp_all
  moreover have "sessions_inv db1"
    using inv(2) sessions_inv_cong [OF UpdateState_sessions [OF assms(5)]] by simp
  ultimately show ?thesis
    using that [OF cur d1(1) d'] assms(1) by (simp add: server_inv_view)
qed

lemma action_inv:
  assumes "server_inv db" "handle_action s env bad plan revokes mail did db = (r, es, db')"
  shows "server_inv db'"
  using assms(2)
proof (cases rule: handle_action_cases)
  case rejected
  with assms(1) show ?thesis by simp
next
  case (committed cur st e p d' db1)
  obtain d1 where "server_inv db1" using commit_deposit [OF assms(1) committed(1-4)] by blast
  then show ?thesis
    using committed(7) repo_view_cong [of db' db1] repo_inv_cong [of db' db1]
    by (auto simp: server_inv_view pg_revoke_inv split: if_splits)
qed

text \<open>A handler answers without a panic, even when statements of the database fail.\<close>

lemma action_no_panic:
  assumes "server_inv db"
  shows "fst (handle_action s env bad plan revokes mail did db) \<noteq> Panicked"
proof -
  have "PostgresRepo_UpdateState f now did st e p db \<noteq> (Inl ErrPanic, db')"
    if "fetch_deposit env did db = Inr cur" "plan cur = Inr (st, e, p)" "bad = None" for f now st e p db' cur
  proof -
    have cur: "repo_view db did = Some cur" "deposit_inv cur" using fetch_deposit_Inr [OF assms that(1)] by auto
    then obtain r where "deposit_row db did = Some r" "dec_Deposit (DepositRow_data r) = Some cur"
      using repo_view_Some_row by blast
    with plan_facts [OF that(3) cur(2) that(2)] show ?thesis
      by (auto simp: PostgresRepo_UpdateState_def Let_def split: if_splits option.splits)
  qed
  then show ?thesis
    using check_no_panic plan_no_panic fetch_deposit_Inr [OF assms]
    by (force simp: handle_action_def commit_update_def writeError_def writeJSON_def
        dest: fetch_deposit_Inl split: option.splits sum.splits repo_error.splits prod.splits)
qed

text \<open>The effect on the stored deposits: none, or one legal step of the addressed deposit.\<close>

lemma action_effect:
  assumes "server_inv db" "handle_action s env bad plan revokes mail did db = (r, es, db')"
  obtains (unchanged) "db' = db" "es = []"
  | (stepped) cur d' e where "repo_view db did = Some cur" "repo_view db' = (repo_view db)(did \<mapsto> d')"
      "r = Respond 200 (JSON_Deposit d')" "es = fireWebhook s env d' @ mail d'"
      "legal_step (lifecycle cur) (lifecycle d')" "history d' = history cur @ [e]"
      "HistoryEntry_State e = lifecycle d'" "HistoryEntry_Timestamp e = env_repo_now env" "deposit_inv d'"
  using assms(2)
proof (cases rule: handle_action_cases)
  case rejected
  then show ?thesis by (intro unchanged)
next
  case (committed cur st e p d' db1)
  obtain d1 where c: "repo_view db did = Some cur" "p cur = Some d1"
    "d' = enter_state (env_repo_now env) st e d1" "deposit_inv d'" "deposit_inv cur"
    "repo_view db1 = (repo_view db)(did \<mapsto> d')"
    using commit_deposit [OF assms(1) committed(1-4)] by blast
  have "history d1 = history cur"
    using plan_patch [OF committed(3)] c(2,5) by (auto simp: patch_ok_def deposit_inv_def)
  moreover have "repo_view db' = (repo_view db)(did \<mapsto> d')"
    using committed(7) c(6) repo_view_cong [of db' db1] by (simp split: if_splits)
  ultimately show ?thesis
    using plan_step [OF committed(3)] c committed(5,6)
    by (intro stepped [of cur d' "e\<lparr>HistoryEntry_Timestamp := env_repo_now env\<rparr>"]) auto
qed

lemma action_evolves:
  assumes "server_inv db" "handle_action s env bad plan revokes mail did db = (r, es, db')"
  shows "deposit_evolves (repo_view db k) (repo_view db' k)"
  by (cases rule: action_effect [OF assms]) (auto simp: deposit_evolves_def)

text \<open>Other deposits are never touched, and a closed deposit stays as it is.\<close>

lemma action_frame:
  assumes "server_inv db" "handle_action s env bad plan revokes mail did db = (r, es, db')" "did' \<noteq> did"
  shows "repo_view db' did' = repo_view db did'"
  using assms by (cases rule: action_effect [OF assms(1,2)]) simp_all

lemma action_closed:
  assumes "server_inv db" "repo_view db did = Some cur" "lifecycle cur = StateClosed"
    and "handle_action s env bad plan revokes mail did db = (r, es, db')"
  shows "db' = db" "es = []"
  by (cases rule: action_effect [OF assms(1,4)]; use assms(2,3) in \<open>simp add: legal_step_def\<close>)+

text \<open>With a working database an accepted request is carried out.\<close>

lemma action_total:
  assumes "server_inv db" "bad = None" "repo_view db did = Some cur" "plan cur = Inr (st, e, p)"
    and "\<not> env_get env 0" "\<forall>n. \<not> env_update env n"
    and "\<And>d1. p cur = Some d1 \<Longrightarrow> enc_Deposit (enter_state (env_repo_now env) st e d1) \<noteq> None"
  obtains d1 db' where "p cur = Some d1"
    "handle_action s env bad plan revokes mail did db =
       (Respond 200 (JSON_Deposit (enter_state (env_repo_now env) st e d1)),
        fireWebhook s env (enter_state (env_repo_now env) st e d1) @
          mail (enter_state (env_repo_now env) st e d1), db')"
proof -
  have inv: "repo_inv db" "deposit_inv cur" using assms(1,3) by (auto simp: server_inv_view)
  obtain d1 where d1: "p cur = Some d1" using plan_facts [OF assms(2) inv(2) assms(4)] by blast
  have f: "fetch_deposit env did db = Inr cur"
    using assms(3,5) by (simp add: fetch_deposit_def pg.get_view [OF inv(1)])
  from pg.update_total [of db did cur p d1 "env_update env" "env_repo_now env" st e]
    inv(1) assms(3) d1 assms(6) assms(7) [OF d1]
  obtain db1 where "PostgresRepo_UpdateState (env_update env) (env_repo_now env) did st e p db =
      (Inr (enter_state (env_repo_now env) st e d1), db1)" by blast
  with that [OF d1] f assms(2,4) show ?thesis
    by (simp add: handle_action_def commit_update_def writeJSON_def)
qed

lemma action_committed:
  assumes "server_inv db" "handle_action s env bad plan revokes mail did db = (Respond 200 (JSON_Deposit d'), es, db')"
    and "bad \<noteq> Some (Respond 200 (JSON_Deposit d'))" "\<And>cur. plan cur \<noteq> Inl (Respond 200 (JSON_Deposit d'))"
  obtains cur st e p d1 where "bad = None" "repo_view db did = Some cur" "deposit_inv cur" "plan cur = Inr (st, e, p)"
    "p cur = Some d1" "d' = enter_state (env_repo_now env) st e d1" "repo_view db' did = Some d'"
    "es = fireWebhook s env d' @ mail d'"
  using assms(2)
proof (cases rule: handle_action_cases)
  case rejected
  then show ?thesis using assms(3,4) by blast
next
  case (committed cur st e p d2 db1)
  then have d2: "d2 = d'" by simp
  obtain d1 where c: "repo_view db did = Some cur" "deposit_inv cur" "p cur = Some d1"
    "d2 = enter_state (env_repo_now env) st e d1" "repo_view db1 = (repo_view db)(did \<mapsto> d2)"
    using commit_deposit [OF assms(1) committed(1-4)] by blast
  have "repo_view db' = repo_view db1" using committed(7) by (intro repo_view_cong) simp
  with that [OF committed(1) c(1,2) committed(3) c(3)] c(4,5) d2 committed(6) show ?thesis by simp
qed

text \<open>With a working database the new state is the one planned.\<close>

lemma action_progress:
  assumes "server_inv db" "bad = None" "repo_view db did = Some cur" "plan cur = Inr (st, e, p)"
    and "\<not> env_get env 0" "\<forall>n. \<not> env_update env n"
    and "\<And>d1. p cur = Some d1 \<Longrightarrow> enc_Deposit (enter_state (env_repo_now env) st e d1) \<noteq> None"
  shows "case handle_action s env bad plan revokes mail did db of (r, es, db') \<Rightarrow>
    server_inv db' \<and> (\<exists>d'. r = Respond 200 (JSON_Deposit d') \<and> repo_view db' did = Some d' \<and> lifecycle d' = st)"
proof -
  obtain d1 db' where h: "p cur = Some d1" "handle_action s env bad plan revokes mail did db =
       (Respond 200 (JSON_Deposit (enter_state (env_repo_now env) st e d1)),
        fireWebhook s env (enter_state (env_repo_now env) st e d1) @
          mail (enter_state (env_repo_now env) st e d1), db')"
    by (rule action_total [OF assms])
  have f: "fetch_deposit env did db = Inr cur"
    using assms(1,3,5) by (simp add: fetch_deposit_def server_inv_def pg.get_view)
  from h(2) have "repo_view db' did = Some (enter_state (env_repo_now env) st e d1)"
  proof (cases rule: handle_action_cases)
    case rejected
    then show ?thesis using f assms(2,4) by simp
  next
    case (committed cur st e p d2 db1)
    have "repo_view db' = repo_view db1" using committed(7) by (intro repo_view_cong) simp
    moreover have "repo_view db1 did = Some d2" by (rule commit_deposit [OF assms(1) committed(1-4)]) simp
    ultimately show ?thesis using committed(5) by simp
  qed
  with h(2) action_inv [OF assms(1) h(2)] show ?thesis by simp
qed

end

section \<open>The handlers satisfy the contract\<close>

lemma guard_transition_Inr:
  "guard_transition a b (Inr u) = Inr v \<longleftrightarrow> CanTransition a b \<and> u = v"
  by (auto simp: guard_transition_def split: option.splits dest: Transition_err)

lemma guard_transition_Inl:
  "guard_transition a b (Inr u) = Inl r \<Longrightarrow> \<exists>e. r = not_allowed e \<and> \<not> CanTransition a b"
  by (auto simp: guard_transition_def split: option.splits dest: Transition_err)

lemma guard_transition_no_panic [simp]: "guard_transition a b (Inr u) \<noteq> Inl Panicked"
  by (auto simp: guard_transition_def not_allowed_def writeError_def writeJSON_def split: option.splits)

lemma entry_simps [simp]:
  "HistoryEntry_State (entry st a c) = st" "HistoryEntry_Actor (entry st a c) = a"
  "HistoryEntry_Comment (entry st a c) = c"
  by (simp_all add: entry_def)

lemma patch_okI:
  assumes "\<And>d d'. p d = Some d' \<Longrightarrow> Deposit_Deposit d' = Deposit_Deposit d \<and> Deposit_ID d' = Deposit_ID d"
  shows "patch_ok p"
  using assms by (fastforce simp: patch_ok_def Deposit_wf_def)

lemma no_patch_ok [simp]: "patch_ok no_patch"
  by (rule patch_okI) (simp add: no_patch_def)

text \<open>A plan that consists of one guarded transition.\<close>

lemma guarded_plan:
  assumes "\<And>d. plan d = guard_transition (lifecycle d) st (Inr (st, entry st (a d) (c d), p))"
    and "st \<noteq> StateFunded" "patch_ok p"
    and "\<And>d. deposit_inv d \<Longrightarrow> CanTransition (lifecycle d) st \<Longrightarrow> bad = None \<Longrightarrow>
      \<exists>d1. p d = Some d1 \<and> deposit_facts st d1"
    and "bad \<noteq> Some Panicked"
  shows "lifecycle_action bad plan"
  by unfold_locales
    (use assms in \<open>auto simp: guard_transition_Inr legal_step_def\<close>)

lemma deposit_inv_facts: "deposit_inv d \<Longrightarrow> deposit_facts (lifecycle d) d"
  by (simp add: deposit_inv_def)

lemmas response_defs = bad_json_def invalid_def writeError_def writeJSON_def

lemma checks_no_panic [simp]:
  "Pledge_check b1 \<noteq> Some Panicked" "Claim_check b2 \<noteq> Some Panicked" "UpdateIdentity_check b3 \<noteq> Some Panicked"
  by (auto simp: Pledge_check_def Claim_check_def UpdateIdentity_check_def response_defs split: option.splits)

interpretation release: lifecycle_action None Release_plan
proof (rule guarded_plan [OF Release_plan_def])
  fix d assume "deposit_inv d" "CanTransition (lifecycle d) StateReleased"
  then show "\<exists>d1. no_patch d = Some d1 \<and> deposit_facts StateReleased d1"
    by (auto simp: no_patch_def CanTransition_to deposit_facts_def dest!: deposit_inv_facts)
qed simp_all

interpretation pledge: lifecycle_action "Pledge_check body" "Pledge_plan (the body)" for body
proof (rule guarded_plan [OF Pledge_plan_def])
  show "patch_ok (Pledge_patch (the body))" by (rule patch_okI) (auto simp: Pledge_patch_def)
  fix d assume "deposit_inv d" "CanTransition (lifecycle d) StatePledged"
  then show "\<exists>d1. Pledge_patch (the body) d = Some d1 \<and> deposit_facts StatePledged d1"
    by (auto simp: Pledge_patch_def CanTransition_to deposit_facts_def dest!: deposit_inv_facts)
qed simp_all

interpretation claim: lifecycle_action "Claim_check body" "Claim_plan (the body)" for body
proof (rule guarded_plan [OF Claim_plan_def])
  fix d assume "deposit_inv d" "CanTransition (lifecycle d) StateClaimed"
  then show "\<exists>d1. no_patch d = Some d1 \<and> deposit_facts StateClaimed d1"
    by (auto simp: no_patch_def CanTransition_to deposit_facts_def dest!: deposit_inv_facts)
qed simp_all

interpretation identity: lifecycle_action "UpdateIdentity_check body" "UpdateIdentity_plan (the body)" for body
proof unfold_locales
  fix d st e p
  assume p: "UpdateIdentity_plan (the body) d = Inr (st, e, p)"
  then have *: "st = StateIdentified" "e = entry StateIdentified ''IDENTITY_PROVIDER'' []"
    "p = UpdateIdentity_patch (the body)" "CanTransition (lifecycle d) StateIdentified"
    "IdentityUpdateRequest_EIDStatus (the body) = EIDVerified"
    by (auto simp: UpdateIdentity_plan_def StateForIdentityUpdate_def guard_transition_Inr split: if_splits)
  then show "legal_step (lifecycle d) st \<and> st \<noteq> StateFunded \<and> HistoryEntry_State e = st"
    by (simp add: legal_step_def)
  show "patch_ok p" unfolding * by (rule patch_okI) (auto simp: UpdateIdentity_patch_def)
  show "\<exists>d1. p d = Some d1 \<and> deposit_facts st d1"
    using *(5) by (simp add: * UpdateIdentity_patch_def deposit_facts_def)
next
  fix d
  show "UpdateIdentity_plan (the body) d \<noteq> Inl Panicked"
    by (auto simp: UpdateIdentity_plan_def writeJSON_def split: prod.splits)
qed simp

section \<open>Creation\<close>

lemma CreateDeposit_cases:
  assumes "CreateDeposit env body db = (r, es, db')"
  obtains "db' = db" | d where "body = Some d"
    "inserted (env_uuid env 0) (init_deposit (env_uuid env 0) (env_repo_now env) (CreateDeposit_defaults d)) db db'"
proof (cases "db' = db")
  case False
  then obtain d res where body: "body = Some d"
    and c: "PostgresRepo_Create (env_update env) (env_uuid env 0) (env_repo_now env)
        (CreateDeposit_defaults d) db = (res, db')"
    using assms by (auto simp: CreateDeposit_def split: option.splits prod.splits sum.splits)
  have "inserted (env_uuid env 0) (init_deposit (env_uuid env 0) (env_repo_now env) (CreateDeposit_defaults d)) db db'"
    using PostgresRepo_Create_Inr PostgresRepo_Create_Inl c False by (cases res) blast+
  with body that(2) show ?thesis by blast
qed (use that(1) in simp)

lemma created_wf:
  "pred_option InstallmentPlan_wf (DepositData_InstallmentPlan (Deposit_Deposit d)) \<Longrightarrow>
     Deposit_wf (init_deposit u now (CreateDeposit_defaults d))"
  by (simp add: Deposit_wf_def DepositData_wf_def HistoryEntry_wf_def init_deposit_def
      CreateDeposit_defaults_def known_state_wf known_states_def)

lemma CreateDeposit_inv:
  assumes "server_inv db" "CreateDeposit env body db = (r, es, db')"
    and "\<And>d. body = Some d \<Longrightarrow> pred_option InstallmentPlan_wf (DepositData_InstallmentPlan (Deposit_Deposit d))"
  shows "server_inv db'" and "deposit_evolves (repo_view db k) (repo_view db' k)"
proof -
  consider "db' = db" | d where "body = Some d"
    "inserted (env_uuid env 0) (init_deposit (env_uuid env 0) (env_repo_now env) (CreateDeposit_defaults d)) db db'"
    using CreateDeposit_cases [OF assms(2)] by blast
  then have "server_inv db' \<and> deposit_evolves (repo_view db k) (repo_view db' k)"
  proof cases
    case (2 d)
    let ?d = "init_deposit (env_uuid env 0) (env_repo_now env) (CreateDeposit_defaults d)"
    have wf: "Deposit_wf ?d" by (rule created_wf [OF assms(3) [OF 2(1)]])
    have hs: "history_states ?d = [StateRequested]" by (simp add: history_states_def)
    have "history ?d \<noteq> []" by (simp add: init_deposit_def)
    with hs have "history_ok ?d" by (simp add: history_ok_def)
    then have "deposit_inv ?d" using wf by (simp add: deposit_inv_def deposit_facts_def)
    moreover have ri: "repo_inv db" using assms(1) by (simp add: server_inv_def)
    ultimately show ?thesis
      using inserted_view [OF ri 2(2) wf] 2(2) assms(1) sessions_inv_cong [of db' db] hs
      by (auto simp: server_inv_view inserted_def deposit_evolves_def)
  qed (simp add: assms(1) deposit_evolves_def)
  then show "server_inv db'" "deposit_evolves (repo_view db k) (repo_view db' k)" by simp_all
qed

section \<open>Who gets a receipt\<close>

lemma fetch_deposit_status: "fetch_deposit env did db \<noteq> Inl (Respond 200 b)"
  using fetch_deposit_Inl [of env did db "Respond 200 b"] by (auto simp: writeError_def writeJSON_def)

lemma GetReceipt_200:
  assumes "GetReceipt s env did db = Respond 200 b"
  obtains d pdf where "fetch_deposit env did db = Inr d" "receipt_available (lifecycle d)"
    "Generate (Server_pdf s) (env_pdf_now env) (env_pdf_done env) d = Some pdf" "b = PDF (''receipt-'' @ did @ ''.pdf'') pdf"
proof (cases "fetch_deposit env did db")
  case (Inl r)
  then show ?thesis using assms fetch_deposit_status [of env did db b] by (simp add: GetReceipt_def)
next
  case (Inr d)
  with assms that show ?thesis
    by (cases "Generate (Server_pdf s) (env_pdf_now env) (env_pdf_done env) d") (simp_all add: GetReceipt_def writeError_def writeJSON_def split: if_splits)
qed

lemma GetReleaseReceipt_200:
  assumes "GetReleaseReceipt s env did db = Respond 200 b"
  obtains d pdf where "fetch_deposit env did db = Inr d" "release_receipt_available (lifecycle d)"
    "GenerateReleaseReceipt (Server_pdf s) (env_pdf_now env) (env_pdf_done env) d = Some pdf" "b = PDF (''release-receipt-'' @ did @ ''.pdf'') pdf"
proof (cases "fetch_deposit env did db")
  case (Inl r)
  then show ?thesis using assms fetch_deposit_status [of env did db b] by (simp add: GetReleaseReceipt_def)
next
  case (Inr d)
  with assms that show ?thesis
    by (cases "GenerateReleaseReceipt (Server_pdf s) (env_pdf_now env) (env_pdf_done env) d") (simp_all add: GetReleaseReceipt_def writeError_def writeJSON_def split: if_splits)
qed

section \<open>A committed action that revokes\<close>

lemma pg_cred_cong: "issuance_sessions db = issuance_sessions db' \<Longrightarrow> pg_cred db = pg_cred db'"
  by (simp add: pg_cred_def fun_eq_iff)

lemma committed_revocation:
  assumes "server_inv db"
    and "handle_action s env bad plan True mail did db = (r, es, db')" "db' \<noteq> db"
    and "env_revoke env = no_fault" "pg_cred db cid = Some x" "Session_DepositID x = did"
  shows "PostgresSessionStore_CredentialStatus no_fault cid db' = (''revoked'', True)"
    and "Session_StatusListIndex x \<in> set (projr (PostgresSessionStore_RevokedStatusListIndices no_fault db'))"
proof -
  obtain st e p d' db1 where u: "PostgresRepo_UpdateState (env_update env) (env_repo_now env) did st e p db = (Inr d', db1)"
    and db': "db' = PostgresSessionStore_RevokeByDepositID no_fault did db1"
    using assms(2) by (cases rule: handle_action_cases) (use assms(3,4) in auto)
  have s: "issuance_sessions db1 = issuance_sessions db" by (rule UpdateState_sessions [OF u])
  have i: "sessions_inv db1" using assms(1) sessions_inv_cong [OF s] by (simp add: server_inv_def)
  have c: "pg_cred db1 cid = Some x" using pg_cred_cong [OF s] assms(5) by simp
  have "pgs.is_revoked cid (Session_StatusListIndex x) db'"
    unfolding db' by (rule pgs.revoke_revokes [OF i c assms(6)])
  from pgs.is_revoked_observed [OF _ this] pgs.revoke_inv [OF i]
  show "PostgresSessionStore_CredentialStatus no_fault cid db' = (''revoked'', True)"
    and "Session_StatusListIndex x \<in> set (projr (PostgresSessionStore_RevokedStatusListIndices no_fault db'))"
    by (simp_all add: db')
qed

section \<open>Pending sessions survive a revocation\<close>

lemma revoke_keeps_pending:
  assumes "sessions_inv db" "pg_tok db t = Some x" "Session_State x = SessionStatePending" "pg_cred db cid = None"
  shows "pg_tok (PostgresSessionStore_RevokeByDepositID f did db) t = Some x
    \<and> pg_cred (PostgresSessionStore_RevokeByDepositID f did db) cid = None"
proof -
  let ?db = "PostgresSessionStore_RevokeByDepositID f did db"
  obtain r where r: "r \<in> set (issuance_sessions db)" "SessionRow_access_token r = Some t" "x = session_of_row r"
    using pg_tokD [OF assms(1)] assms(2) by blast
  then have "r \<in> set (issuance_sessions ?db)"
    using assms(3) by (force simp: PostgresSessionStore_RevokeByDepositID_def set_update_where)
  then have "pg_tok ?db t = Some x" using pg_tokD [OF pg_revoke_inv [OF assms(1)]] r(2,3) by blast
  moreover have "pg_cred ?db cid = None"
    using assms(4) by (auto simp: pg_cred_def row_where_None_iff PostgresSessionStore_RevokeByDepositID_def set_update_where)
  ultimately show ?thesis ..
qed

end
