(* ===== verification/SettlementFlow.thy ===== *)
theory SettlementFlow
  imports Server
begin

text \<open>
  The settlement, dispute and utility reservation endpoints
  (\<open>server/internal/api/handlers.go\<close>), in the form of the theory Server: a check
  of the request body, a plan from the fetched deposit, the composed handler.
  Amounts are \<open>float64\<close> values with Go's rounding (theory GoFloat).
\<close>

section \<open>Settlement proposals\<close>

definition is_party :: "string \<Rightarrow> bool" where
  "is_party p \<longleftrightarrow> p = ''LANDLORD'' \<or> p = ''TENANT''"

text \<open>The loop over the claim items of the request.\<close>

fun bad_item :: "ClaimItemInput list \<Rightarrow> bool" where
  "bad_item [] = False"
| "bad_item (item # rest) =
     (if f_le (ClaimItemInput_AmountClaimed item) f_zero \<or> ClaimItemInput_Description item = []
      then True else bad_item rest)"

definition Settle_check :: "SettleRequest option \<Rightarrow> response option" where
  "Settle_check body =
     (case body of
        None \<Rightarrow> Some bad_json
      | Some req \<Rightarrow>
          if SettleRequest_InitiatedBy req \<noteq> ''LANDLORD'' \<and> SettleRequest_InitiatedBy req \<noteq> ''TENANT''
          then Some (invalid ''initiated_by must be LANDLORD or TENANT'')
          else if SettleRequest_ClaimItems req = []
          then Some (invalid ''claim_items must not be empty'')
          else if bad_item (SettleRequest_ClaimItems req)
          then Some (invalid ''each claim item requires description and amount_claimed > 0'')
          else None)"

text \<open>The loop that sums the claims and numbers the items, from index \<open>i\<close>.\<close>

fun settle_items :: "int \<Rightarrow> float64 \<Rightarrow> ClaimItemInput list \<Rightarrow> float64 \<times> ClaimItem list" where
  "settle_items i totalClaimed [] = (totalClaimed, [])"
| "settle_items i totalClaimed (inp # rest) =
     (case settle_items (i + 1) (f_add totalClaimed (ClaimItemInput_AmountClaimed inp)) rest of
        (amount, items) \<Rightarrow> (amount, \<lparr>
          ClaimItem_ID = ''item-'' @ show_int (i + 1), ClaimItem_Category = ClaimItemInput_Category inp,
          ClaimItem_Description = ClaimItemInput_Description inp,
          ClaimItem_AmountClaimed = ClaimItemInput_AmountClaimed inp,
          ClaimItem_EvidenceRefs = ClaimItemInput_EvidenceRefs inp,
          ClaimItem_RoomOrArea = ClaimItemInput_RoomOrArea inp\<rparr> # items))"

definition settle_proposal :: "time \<Rightarrow> SettleRequest \<Rightarrow> string \<Rightarrow> time \<Rightarrow> Settlement" where
  "settle_proposal now req initiatedBy initiatedAt =
     (case settle_items 0 f_zero (SettleRequest_ClaimItems req) of (totalClaimed, items) \<Rightarrow>
        zero_Settlement\<lparr>
          Settlement_InitiatedBy := initiatedBy,
          Settlement_InitiatedAt := initiatedAt,
          Settlement_LastProposedBy := SettleRequest_InitiatedBy req,
          Settlement_LastProposedAt := now,
          Settlement_TenancyEndDate := SettleRequest_TenancyEndDate req,
          Settlement_HandoverDate := SettleRequest_HandoverDate req,
          Settlement_HandoverProtocolRef := SettleRequest_HandoverProtocolRef req,
          Settlement_ClaimItems := items,
          Settlement_TotalClaimed := totalClaimed,
          Settlement_ProposedTenantRefund := SettleRequest_ProposedTenantRefund req,
          Settlement_ProposedLandlordRetention := SettleRequest_ProposedLandlordRetention req,
          Settlement_ResponseDeadline := FormatDate (AddDate now 0 0 14)\<rparr>)"

definition set_settlement :: "Settlement \<Rightarrow> patch" where
  "set_settlement settlement d = Some (d\<lparr>Deposit_Settlement := Some settlement\<rparr>)"

definition Settle_plan :: "time \<Rightarrow> SettleRequest \<Rightarrow> Deposit \<Rightarrow> response + update" where
  "Settle_plan now req current =
     (let state = lifecycle current; party = SettleRequest_InitiatedBy req;
          isFirstProposal = (state = StatePledged \<or> state = StateFunded);
          isCounter = (state = StateSettleProposed)
      in if \<not> isFirstProposal \<and> \<not> isCounter
         then Inl (writeError 409 (''cannot propose settlement in state '' @ state_string state) ''INVALID_TRANSITION'')
         else if isCounter \<and> (case Deposit_Settlement current of
                   None \<Rightarrow> False | Some st \<Rightarrow> Settlement_LastProposedBy st = party)
         then Inl (writeError 409 (''cannot counter your own proposal '' @ em_dash
                @ '' wait for the other party to respond'') ''CONFLICT'')
         else if isFirstProposal
         then guard_transition state StateSettleProposed
                (Inr (StateSettleProposed, entry StateSettleProposed party [],
                      set_settlement (settle_proposal now req party now)))
         else case Deposit_Settlement current of
                None \<Rightarrow> Inl Panicked
              | Some st \<Rightarrow>
                  Inr (StateSettleProposed, entry StateSettleProposed party ''counter-proposal'',
                       set_settlement (settle_proposal now req (Settlement_InitiatedBy st) (Settlement_InitiatedAt st))))"

definition Settle :: "Server \<Rightarrow> Env \<Rightarrow> SettleRequest option \<Rightarrow> string \<Rightarrow> Database \<Rightarrow> result" where
  "Settle s env body did db =
     handle_action s env (Settle_check body) (Settle_plan (env_now env) (the body)) False no_mail did db"

definition SettleAccept_check :: "SettleAcceptRequest option \<Rightarrow> response option" where
  "SettleAccept_check body =
     (case body of
        None \<Rightarrow> Some bad_json
      | Some req \<Rightarrow>
          if SettleAcceptRequest_AcceptedBy req \<noteq> ''LANDLORD'' \<and> SettleAcceptRequest_AcceptedBy req \<noteq> ''TENANT''
          then Some (invalid ''accepted_by must be LANDLORD or TENANT'') else None)"

text \<open>The mutation dereferences the settlement of the deposit it is applied to.\<close>

definition SettleAccept_patch :: patch where
  "SettleAccept_patch d =
     (case Deposit_Settlement d of
        None \<Rightarrow> None
      | Some st \<Rightarrow> Some (d\<lparr>Deposit_Settlement := Some (st\<lparr>
          Settlement_AgreedTenantRefund := Settlement_ProposedTenantRefund st,
          Settlement_AgreedLandlordRetention := Settlement_ProposedLandlordRetention st\<rparr>)\<rparr>))"

definition SettleAccept_plan :: "SettleAcceptRequest \<Rightarrow> Deposit \<Rightarrow> response + update" where
  "SettleAccept_plan req current =
     (if lifecycle current \<noteq> StateSettleProposed
      then Inl (writeError 409 (''cannot accept settlement in state '' @ state_string (lifecycle current)) ''INVALID_TRANSITION'')
      else case Deposit_Settlement current of
        None \<Rightarrow> Inl (writeError 409 ''no active settlement proposal'' ''CONFLICT'')
      | Some st \<Rightarrow>
          if Settlement_LastProposedBy st = SettleAcceptRequest_AcceptedBy req
          then Inl (writeError 409 ''cannot accept your own proposal'' ''CONFLICT'')
          else guard_transition StateSettleProposed StateClosed
                 (Inr (StateClosed, entry StateClosed (SettleAcceptRequest_AcceptedBy req) ''settlement accepted'',
                       SettleAccept_patch)))"

definition SettleAccept ::
  "Server \<Rightarrow> Env \<Rightarrow> SettleAcceptRequest option \<Rightarrow> string \<Rightarrow> Database \<Rightarrow> result" where
  "SettleAccept s env body did db =
     handle_action s env (SettleAccept_check body) (SettleAccept_plan (the body)) True no_mail did db"

section \<open>Disputes\<close>

definition Dispute_check :: "DisputeRequest option \<Rightarrow> response option" where
  "Dispute_check body =
     (case body of
        None \<Rightarrow> Some bad_json
      | Some req \<Rightarrow>
          if DisputeRequest_EscalatedBy req \<noteq> ''LANDLORD'' \<and> DisputeRequest_EscalatedBy req \<noteq> ''TENANT''
          then Some (invalid ''escalated_by must be LANDLORD or TENANT'')
          else if \<not> (DisputeRequest_EscalationType req
                 \<in> set [''PLATFORM_MEDIATION'', ''SCHLICHTUNGSBEHOERDE'', ''AMTSGERICHT''])
          then Some (invalid ''escalation_type must be PLATFORM_MEDIATION, SCHLICHTUNGSBEHOERDE, or AMTSGERICHT'')
          else None)"

text \<open>\<open>if d.Settlement == nil { d.Settlement = &models.Settlement{} }\<close>\<close>

definition settlement_or_zero :: "Deposit \<Rightarrow> Settlement" where
  "settlement_or_zero d = case_option zero_Settlement (\<lambda>st. st) (Deposit_Settlement d)"

definition Dispute_patch :: "DisputeRequest \<Rightarrow> patch" where
  "Dispute_patch req d = Some (d\<lparr>Deposit_Settlement := Some ((settlement_or_zero d)\<lparr>
     Settlement_EscalationType := DisputeRequest_EscalationType req,
     Settlement_ExternalAuthority := DisputeRequest_EscalationType req,
     Settlement_ExternalReference := DisputeRequest_ExternalReference req\<rparr>)\<rparr>)"

definition Dispute_plan :: "DisputeRequest \<Rightarrow> Deposit \<Rightarrow> response + update" where
  "Dispute_plan req current = guard_transition (lifecycle current) StateDisputed
     (Inr (StateDisputed, entry StateDisputed (DisputeRequest_EscalatedBy req) (DisputeRequest_EscalationType req),
           Dispute_patch req))"

definition Dispute :: "Server \<Rightarrow> Env \<Rightarrow> DisputeRequest option \<Rightarrow> string \<Rightarrow> Database \<Rightarrow> result" where
  "Dispute s env body did db =
     handle_action s env (Dispute_check body) (Dispute_plan (the body)) False no_mail did db"

definition DisputeResolve_check :: "DisputeResolveRequest option \<Rightarrow> response option" where
  "DisputeResolve_check body =
     (case body of
        None \<Rightarrow> Some bad_json
      | Some req \<Rightarrow>
          if f_lt (DisputeResolveRequest_AgreedTenantRefund req) f_zero
             \<or> f_lt (DisputeResolveRequest_AgreedLandlordRetention req) f_zero
          then Some (invalid ''agreed amounts must be non-negative'') else None)"

definition DisputeResolve_patch :: "DisputeResolveRequest \<Rightarrow> patch" where
  "DisputeResolve_patch req d = Some (d\<lparr>Deposit_Settlement := Some ((settlement_or_zero d)\<lparr>
     Settlement_AgreedTenantRefund := DisputeResolveRequest_AgreedTenantRefund req,
     Settlement_AgreedLandlordRetention := DisputeResolveRequest_AgreedLandlordRetention req,
     Settlement_ExternalReference := DisputeResolveRequest_ResolutionReference req\<rparr>)\<rparr>)"

definition DisputeResolve_plan :: "DisputeResolveRequest \<Rightarrow> Deposit \<Rightarrow> response + update" where
  "DisputeResolve_plan req current = guard_transition (lifecycle current) StateClosed
     (Inr (StateClosed, entry StateClosed ''EXTERNAL'' (DisputeResolveRequest_ResolutionReference req),
           DisputeResolve_patch req))"

definition DisputeResolve ::
  "Server \<Rightarrow> Env \<Rightarrow> DisputeResolveRequest option \<Rightarrow> string \<Rightarrow> Database \<Rightarrow> result" where
  "DisputeResolve s env body did db =
     handle_action s env (DisputeResolve_check body) (DisputeResolve_plan (the body)) True no_mail did db"

section \<open>Partial release and utility settlement\<close>

definition PartialRelease_check :: "PartialReleaseRequest option \<Rightarrow> response option" where
  "PartialRelease_check body =
     (case body of
        None \<Rightarrow> Some bad_json
      | Some req \<Rightarrow>
          if f_lt (PartialReleaseRequest_ReleasedAmount req) f_zero
             \<or> f_le (PartialReleaseRequest_ReservedAmount req) f_zero
          then Some (invalid (''released_amount must be '' @ ge_sign @ '' 0 and reserved_amount must be > 0''))
          else if PartialReleaseRequest_BillingPeriodEnd req = []
          then Some (invalid ''billing_period_end is required'')
          else if ParseDate (PartialReleaseRequest_BillingPeriodEnd req) = None
          then Some (invalid ''billing_period_end must be ISO 8601 date (YYYY-MM-DD)'')
          else None)"

definition reservation_of :: "PartialReleaseRequest \<Rightarrow> UtilityReservation" where
  "reservation_of req = \<lparr>
     UtilityReservation_ReleasedAmount = PartialReleaseRequest_ReleasedAmount req,
     UtilityReservation_ReservedAmount = PartialReleaseRequest_ReservedAmount req,
     UtilityReservation_MonthlyAdvance = PartialReleaseRequest_MonthlyAdvance req,
     UtilityReservation_BillingPeriodEnd = PartialReleaseRequest_BillingPeriodEnd req,
     UtilityReservation_ResolutionDeadline =
       (case ParseDate (PartialReleaseRequest_BillingPeriodEnd req) of
          None \<Rightarrow> [] | Some billingEnd \<Rightarrow> FormatDate (AddDate billingEnd 1 0 0)),
     UtilityReservation_SettlementRef = [], UtilityReservation_ActualCost = f_zero,
     UtilityReservation_TotalAdvancePaid = f_zero, UtilityReservation_ResolvedAt = []\<rparr>"

definition PartialRelease_patch :: "PartialReleaseRequest \<Rightarrow> patch" where
  "PartialRelease_patch req d = Some (d\<lparr>Deposit_UtilityReservation := Some (reservation_of req)\<rparr>)"

definition PartialRelease_plan :: "PartialReleaseRequest \<Rightarrow> Deposit \<Rightarrow> response + update" where
  "PartialRelease_plan req current = guard_transition (lifecycle current) StatePartiallyReleased
     (Inr (StatePartiallyReleased, entry StatePartiallyReleased ''LANDLORD'' [], PartialRelease_patch req))"

definition PartialRelease ::
  "Server \<Rightarrow> Env \<Rightarrow> PartialReleaseRequest option \<Rightarrow> string \<Rightarrow> Database \<Rightarrow> result" where
  "PartialRelease s env body did db =
     handle_action s env (PartialRelease_check body) (PartialRelease_plan (the body)) False no_mail did db"

definition UtilitySettle_check :: "UtilitySettleRequest option \<Rightarrow> response option" where
  "UtilitySettle_check body =
     (case body of
        None \<Rightarrow> Some bad_json
      | Some req \<Rightarrow>
          if f_lt (UtilitySettleRequest_ActualCost req) f_zero
             \<or> f_lt (UtilitySettleRequest_TotalAdvancePaid req) f_zero
          then Some (invalid ''actual_cost and total_advance_paid must be non-negative'') else None)"

definition shortfall :: "UtilitySettleRequest \<Rightarrow> float64" where
  "shortfall req = f_sub (UtilitySettleRequest_ActualCost req) (UtilitySettleRequest_TotalAdvancePaid req)"

definition retention :: "UtilitySettleRequest \<Rightarrow> float64 \<Rightarrow> float64" where
  "retention req reserved = (if f_lt reserved (shortfall req) then reserved else shortfall req)"

definition utility_refund :: "UtilitySettleRequest \<Rightarrow> float64 \<Rightarrow> float64" where
  "utility_refund req reserved = f_sub reserved (retention req reserved)"

definition resolve_reservation :: "time \<Rightarrow> UtilitySettleRequest \<Rightarrow> UtilityReservation \<Rightarrow> UtilityReservation" where
  "resolve_reservation now req ur = ur\<lparr>
     UtilityReservation_SettlementRef := UtilitySettleRequest_SettlementRef req,
     UtilityReservation_ActualCost := UtilitySettleRequest_ActualCost req,
     UtilityReservation_TotalAdvancePaid := UtilitySettleRequest_TotalAdvancePaid req,
     UtilityReservation_ResolvedAt := FormatDate now\<rparr>"

definition utility_settlement :: "time \<Rightarrow> UtilitySettleRequest \<Rightarrow> float64 \<Rightarrow> Settlement" where
  "utility_settlement now req reserved = zero_Settlement\<lparr>
     Settlement_InitiatedBy := ''LANDLORD'', Settlement_InitiatedAt := now,
     Settlement_LastProposedBy := ''LANDLORD'', Settlement_LastProposedAt := now,
     Settlement_ClaimItems := [\<lparr>
       ClaimItem_ID = ''item-1'', ClaimItem_Category = ClaimCategoryUtilityArrears,
       ClaimItem_Description = ''Utility shortfall: actual cost '' @ fmt_2f (UtilitySettleRequest_ActualCost req)
         @ '', advances paid '' @ fmt_2f (UtilitySettleRequest_TotalAdvancePaid req),
       ClaimItem_AmountClaimed = shortfall req,
       ClaimItem_EvidenceRefs = (if UtilitySettleRequest_SettlementRef req = [] then []
         else [UtilitySettleRequest_SettlementRef req]),
       ClaimItem_RoomOrArea = []\<rparr>],
     Settlement_TotalClaimed := shortfall req,
     Settlement_ProposedTenantRefund := utility_refund req reserved,
     Settlement_ProposedLandlordRetention := retention req reserved,
     Settlement_ResponseDeadline := FormatDate (AddDate now 0 0 14)\<rparr>"

text \<open>Both mutations dereference the reservation of the deposit they are applied to.\<close>

definition UtilitySettle_patch :: "time \<Rightarrow> UtilitySettleRequest \<Rightarrow> Settlement option \<Rightarrow> patch" where
  "UtilitySettle_patch now req settlement d =
     (case Deposit_UtilityReservation d of
        None \<Rightarrow> None
      | Some ur \<Rightarrow> Some (d\<lparr>
          Deposit_UtilityReservation := Some (resolve_reservation now req ur),
          Deposit_Settlement := (case settlement of None \<Rightarrow> Deposit_Settlement d | Some st \<Rightarrow> Some st)\<rparr>))"

definition UtilitySettle_plan :: "time \<Rightarrow> UtilitySettleRequest \<Rightarrow> Deposit \<Rightarrow> response + update" where
  "UtilitySettle_plan now req current =
     (if lifecycle current \<noteq> StatePartiallyReleased
      then Inl (writeError 409 (''utility-settle requires state PARTIALLY_RELEASED, current state is ''
             @ state_string (lifecycle current)) ''INVALID_TRANSITION'')
      else case Deposit_UtilityReservation current of
        None \<Rightarrow> Inl (writeError 409 ''no utility reservation on this deposit'' ''CONFLICT'')
      | Some ur \<Rightarrow>
          let reserved = UtilityReservation_ReservedAmount ur in
          if f_le (shortfall req) f_zero
          then guard_transition StatePartiallyReleased StateClosed
                 (Inr (StateClosed, entry StateClosed ''LANDLORD''
                         (''utility reconciliation '' @ em_dash @ '' no shortfall''),
                       UtilitySettle_patch now req None))
          else guard_transition StatePartiallyReleased StateSettleProposed
                 (Inr (StateSettleProposed, entry StateSettleProposed ''LANDLORD'' ''utility reconciliation shortfall'',
                       UtilitySettle_patch now req (Some (utility_settlement now req reserved)))))"

definition UtilitySettle ::
  "Server \<Rightarrow> Env \<Rightarrow> UtilitySettleRequest option \<Rightarrow> string \<Rightarrow> Database \<Rightarrow> result" where
  "UtilitySettle s env body did db =
     handle_action s env (UtilitySettle_check body) (UtilitySettle_plan (env_now env) (the body)) False no_mail did db"

section \<open>The handlers satisfy the contract\<close>

lemma settlement_checks_no_panic [simp]:
  "Settle_check b1 \<noteq> Some Panicked" "SettleAccept_check b2 \<noteq> Some Panicked"
  "Dispute_check b3 \<noteq> Some Panicked" "DisputeResolve_check b4 \<noteq> Some Panicked"
  "PartialRelease_check b5 \<noteq> Some Panicked" "UtilitySettle_check b6 \<noteq> Some Panicked"
  by (auto simp: Settle_check_def SettleAccept_check_def Dispute_check_def DisputeResolve_check_def
      PartialRelease_check_def UtilitySettle_check_def response_defs split: option.splits)

text \<open>The mutations touch neither the id nor the lifecycle data.\<close>

lemma settlement_patches_ok [simp]:
  "patch_ok (set_settlement st)" "patch_ok SettleAccept_patch" "patch_ok (Dispute_patch dr)"
  "patch_ok (DisputeResolve_patch rr)" "patch_ok (PartialRelease_patch pr)"
  "patch_ok (UtilitySettle_patch now ur sn)"
  by (rule patch_okI, auto simp: set_settlement_def SettleAccept_patch_def Dispute_patch_def
      DisputeResolve_patch_def PartialRelease_patch_def UtilitySettle_patch_def split: option.splits)+

lemma Settle_plan_Inr:
  assumes "Settle_plan now req d = Inr (st, e, p)"
  obtains c i t where "st = StateSettleProposed" "e = entry StateSettleProposed (SettleRequest_InitiatedBy req) c"
    "p = set_settlement (settle_proposal now req i t)"
    "lifecycle d = StatePledged \<or> lifecycle d = StateFunded \<or> lifecycle d = StateSettleProposed"
  using assms that
  by (auto simp: Settle_plan_def Let_def guard_transition_Inr split: if_splits option.splits)

interpretation settle: lifecycle_action "Settle_check body" "Settle_plan now (the body)" for body now
proof unfold_locales
  fix d st e p
  assume "Settle_plan now (the body) d = Inr (st, e, p)"
  then show "legal_step (lifecycle d) st \<and> st \<noteq> StateFunded \<and> HistoryEntry_State e = st"
    by (rule Settle_plan_Inr) (auto simp: legal_step_def)
next
  fix d st e p
  assume "Settle_plan now (the body) d = Inr (st, e, p)"
  then show "patch_ok p" by (rule Settle_plan_Inr) simp
next
  fix d st e p
  assume "deposit_inv d" "Settle_plan now (the body) d = Inr (st, e, p)"
  then show "\<exists>d1. p d = Some d1 \<and> deposit_facts st d1"
    by (auto elim!: Settle_plan_Inr simp: set_settlement_def deposit_facts_def dest!: deposit_inv_facts)
next
  fix d
  assume "deposit_inv d"
  then show "Settle_plan now (the body) d \<noteq> Inl Panicked"
    by (auto simp: Settle_plan_def Let_def response_defs deposit_facts_def split: if_splits option.splits
        dest!: deposit_inv_facts)
qed simp

lemma SettleAccept_plan_Inr:
  assumes "SettleAccept_plan req d = Inr (st, e, p)"
  shows "lifecycle d = StateSettleProposed" "st = StateClosed" "p = SettleAccept_patch"
    "e = entry StateClosed (SettleAcceptRequest_AcceptedBy req) ''settlement accepted''"
    "\<exists>s. Deposit_Settlement d = Some s \<and> Settlement_LastProposedBy s \<noteq> SettleAcceptRequest_AcceptedBy req"
  using assms by (auto simp: SettleAccept_plan_def guard_transition_Inr split: if_splits option.splits)

interpretation accept: lifecycle_action "SettleAccept_check body" "SettleAccept_plan (the body)" for body
proof unfold_locales
  fix d st e p
  assume *: "SettleAccept_plan (the body) d = Inr (st, e, p)"
  show "legal_step (lifecycle d) st \<and> st \<noteq> StateFunded \<and> HistoryEntry_State e = st"
    by (simp add: SettleAccept_plan_Inr [OF *] legal_step_def)
  show "patch_ok p" by (simp add: SettleAccept_plan_Inr [OF *])
  assume "deposit_inv d"
  with SettleAccept_plan_Inr [OF *] show "\<exists>d1. p d = Some d1 \<and> deposit_facts st d1"
    by (auto simp: SettleAccept_patch_def deposit_facts_def dest!: deposit_inv_facts)
next
  fix d
  show "SettleAccept_plan (the body) d \<noteq> Inl Panicked"
    by (auto simp: SettleAccept_plan_def response_defs split: option.splits)
qed simp

interpretation dispute: lifecycle_action "Dispute_check body" "Dispute_plan (the body)" for body
proof (rule guarded_plan [OF Dispute_plan_def])
  fix d assume "deposit_inv d" "CanTransition (lifecycle d) StateDisputed"
  then show "\<exists>d1. Dispute_patch (the body) d = Some d1 \<and> deposit_facts StateDisputed d1"
    by (auto simp: Dispute_patch_def CanTransition_to deposit_facts_def dest!: deposit_inv_facts)
qed simp_all

interpretation resolve: lifecycle_action "DisputeResolve_check body" "DisputeResolve_plan (the body)" for body
proof (rule guarded_plan [OF DisputeResolve_plan_def])
  fix d assume "deposit_inv d" "CanTransition (lifecycle d) StateClosed"
  then show "\<exists>d1. DisputeResolve_patch (the body) d = Some d1 \<and> deposit_facts StateClosed d1"
    by (auto simp: DisputeResolve_patch_def CanTransition_to deposit_facts_def dest!: deposit_inv_facts)
qed simp_all

interpretation partial: lifecycle_action "PartialRelease_check body" "PartialRelease_plan (the body)" for body
proof (rule guarded_plan [OF PartialRelease_plan_def])
  fix d assume "deposit_inv d" "CanTransition (lifecycle d) StatePartiallyReleased"
    "PartialRelease_check body = None"
  then show "\<exists>d1. PartialRelease_patch (the body) d = Some d1 \<and> deposit_facts StatePartiallyReleased d1"
    by (auto simp: PartialRelease_patch_def CanTransition_to deposit_facts_def reservation_of_def
        PartialRelease_check_def response_defs split: option.splits if_splits dest!: deposit_inv_facts)
qed simp_all

lemma UtilitySettle_plan_Inr:
  assumes "UtilitySettle_plan now req d = Inr (st, e, p)"
  obtains ur where "lifecycle d = StatePartiallyReleased" "Deposit_UtilityReservation d = Some ur"
    "HistoryEntry_State e = st"
    "f_le (shortfall req) f_zero \<and> st = StateClosed \<and> p = UtilitySettle_patch now req None \<or>
     \<not> f_le (shortfall req) f_zero \<and> st = StateSettleProposed \<and> p = UtilitySettle_patch now req
       (Some (utility_settlement now req (UtilityReservation_ReservedAmount ur)))"
  using assms that
  by (auto simp: UtilitySettle_plan_def Let_def guard_transition_Inr split: if_splits option.splits)

interpretation utility: lifecycle_action "UtilitySettle_check body" "UtilitySettle_plan now (the body)" for body now
proof unfold_locales
  fix d st e p
  assume "UtilitySettle_plan now (the body) d = Inr (st, e, p)"
  then show "legal_step (lifecycle d) st \<and> st \<noteq> StateFunded \<and> HistoryEntry_State e = st"
    by (rule UtilitySettle_plan_Inr) (auto simp: legal_step_def)
next
  fix d st e p
  assume "UtilitySettle_plan now (the body) d = Inr (st, e, p)"
  then show "patch_ok p" by (rule UtilitySettle_plan_Inr) auto
next
  fix d st e p
  assume "deposit_inv d" "UtilitySettle_plan now (the body) d = Inr (st, e, p)"
  then show "\<exists>d1. p d = Some d1 \<and> deposit_facts st d1"
    by (auto elim!: UtilitySettle_plan_Inr simp: UtilitySettle_patch_def deposit_facts_def dest!: deposit_inv_facts)
next
  fix d
  show "UtilitySettle_plan now (the body) d \<noteq> Inl Panicked"
    by (auto simp: UtilitySettle_plan_def Let_def response_defs split: option.splits)
qed simp

section \<open>Amounts of the utility settlement\<close>

lemma shortfall_sign:
  assumes "UtilitySettleRequest_ActualCost req = Fin a" "UtilitySettleRequest_TotalAdvancePaid req = Fin b"
    and "f_wf (Fin a)" "f_wf (Fin b)"
  shows "f_le (shortfall req) f_zero \<longleftrightarrow> a \<le> b"
  using f_sub_nonpos_iff [OF assms(3,4)] assms(1,2) by (simp add: shortfall_def)

lemma utility_amounts:
  assumes "UtilitySettleRequest_ActualCost req = Fin a" "UtilitySettleRequest_TotalAdvancePaid req = Fin b"
    and "f_wf (Fin a)" "f_wf (Fin b)" "0 \<le> b" "b < a" "f_wf (Fin reserved)" "0 < reserved"
  obtains t r where "retention req (Fin reserved) = Fin t" "utility_refund req (Fin reserved) = Fin r"
    "0 < t" "t \<le> reserved" "0 \<le> r" "r \<le> reserved" "f_lt (Fin reserved) (shortfall req) \<Longrightarrow> t = reserved \<and> r = 0"
proof -
  obtain s where s: "shortfall req = Fin s" "0 < s" "f_wf (Fin s)"
  proof -
    obtain s where s: "shortfall req = Fin s"
      using f_sub_between [OF assms(3-5)] assms(1,2,6) by (auto simp: shortfall_def)
    then have "f_wf (Fin s)" using f_wf_rnd [of "a - b"] assms(1,2) by (simp add: shortfall_def f_sub_def)
    moreover have "0 < s" using f_sub_pos_iff [OF assms(3,4)] s assms(1,2,6) by (simp add: shortfall_def)
    ultimately show ?thesis using that s by blast
  qed
  define t where "t = (if reserved < s then reserved else s)"
  have t: "retention req (Fin reserved) = Fin t" by (simp add: retention_def s t_def)
  have tb: "0 < t" "t \<le> reserved" "f_wf (Fin t)" using s assms(7,8) by (auto simp: t_def)
  then obtain r where r: "f_sub (Fin reserved) (Fin t) = Fin r" "0 \<le> r" "r \<le> reserved"
    using f_sub_between [OF assms(7) tb(3)] by auto
  have "r = 0" if "reserved < s" using r(1) that f_sub_self [of reserved] by (simp add: t_def)
  then show ?thesis
    using that [OF t] r tb s by (simp add: utility_refund_def t t_def split: if_splits)
qed

lemma utility_whole_amounts:
  assumes "UtilitySettleRequest_ActualCost req = Fin (of_int a)"
    "UtilitySettleRequest_TotalAdvancePaid req = Fin (of_int b)"
    and "0 \<le> b" "b < a" "a < 2 ^ 53" "0 < n" "n < 2 ^ 53"
  shows "retention req (Fin (of_int n)) = Fin (of_int (min (a - b) n))"
    and "utility_refund req (Fin (of_int n)) = Fin (of_int (n - min (a - b) n))"
proof -
  have s: "shortfall req = Fin (of_int (a - b))"
    using f_sub_of_int [of a b] assms by (simp add: shortfall_def)
  then show r: "retention req (Fin (of_int n)) = Fin (of_int (min (a - b) n))"
    by (simp add: retention_def min_def)
  show "utility_refund req (Fin (of_int n)) = Fin (of_int (n - min (a - b) n))"
    unfolding utility_refund_def r using assms by (intro f_sub_of_int) (simp add: min_def abs_less_iff)
qed

section \<open>The items of a proposal\<close>

lemma settle_items_claims:
  "snd (settle_items i t inps) = map2 (\<lambda>n inp. \<lparr>
     ClaimItem_ID = ''item-'' @ show_int (i + int n + 1), ClaimItem_Category = ClaimItemInput_Category inp,
     ClaimItem_Description = ClaimItemInput_Description inp,
     ClaimItem_AmountClaimed = ClaimItemInput_AmountClaimed inp,
     ClaimItem_EvidenceRefs = ClaimItemInput_EvidenceRefs inp,
     ClaimItem_RoomOrArea = ClaimItemInput_RoomOrArea inp\<rparr>) [0..<length inps] inps"
proof (induction inps arbitrary: i t)
  case (Cons inp inps)
  have "[0..<length (inp # inps)] = 0 # map Suc [0..<length inps]"
    by (simp add: upt_conv_Cons map_Suc_upt del: upt_Suc)
  then show ?case
    using Cons.IH [of "i + 1" "f_add t (ClaimItemInput_AmountClaimed inp)"]
    by (simp add: zip_map1 case_prod_unfold split: prod.split)
qed simp

lemma settle_items_total:
  "fst (settle_items i t inps) = foldl f_add t (map ClaimItemInput_AmountClaimed inps)"
  by (induction inps arbitrary: i t) (simp_all split: prod.split, metis fst_conv)

lemma settle_items_ids:
  "map ClaimItem_ID (snd (settle_items i t inps)) = map (\<lambda>n. ''item-'' @ show_int (i + int n + 1)) [0..<length inps]"
  by (rule nth_equalityI) (simp_all add: settle_items_claims)

lemma whole_total:
  assumes "\<forall>n \<in> set ns. 0 \<le> n" "0 \<le> acc" "acc + sum_list ns < 2 ^ 53"
  shows "foldl f_add (Fin (of_int acc)) (map (\<lambda>n. Fin (of_int n)) ns) = Fin (of_int (acc + sum_list ns))"
  using assms
proof (induction ns arbitrary: acc)
  case (Cons n ns)
  have "0 \<le> sum_list ns" using Cons.prems(1) by (intro sum_list_nonneg) simp
  then have "\<bar>acc + n\<bar> < 2 ^ 53" using Cons.prems by simp
  then have "f_add (Fin (of_int acc)) (Fin (of_int n)) = Fin (of_int (acc + n))" by (rule f_add_of_int)
  then show ?case using Cons.IH [of "acc + n"] Cons.prems by (simp add: add.assoc)
qed simp

lemma plan_not_200 [simp]:
  "Settle_check b1 \<noteq> Some (Respond 200 b)" "Settle_plan now r1 d \<noteq> Inl (Respond 200 b)"
  "SettleAccept_check b2 \<noteq> Some (Respond 200 b)" "SettleAccept_plan r2 d \<noteq> Inl (Respond 200 b)"
  "PartialRelease_check b3 \<noteq> Some (Respond 200 b)" "PartialRelease_plan r3 d \<noteq> Inl (Respond 200 b)"
  "UtilitySettle_check b4 \<noteq> Some (Respond 200 b)" "UtilitySettle_plan now r4 d \<noteq> Inl (Respond 200 b)"
  by (auto simp: Settle_check_def Settle_plan_def SettleAccept_check_def SettleAccept_plan_def PartialRelease_check_def
      PartialRelease_plan_def UtilitySettle_check_def UtilitySettle_plan_def Let_def response_defs not_allowed_def
      guard_transition_def split: option.splits)

lemma settle_proposal_simps [simp]:
  "Settlement_InitiatedBy (settle_proposal now req i t) = i" "Settlement_InitiatedAt (settle_proposal now req i t) = t"
  "Settlement_LastProposedBy (settle_proposal now req i t) = SettleRequest_InitiatedBy req"
  "Settlement_LastProposedAt (settle_proposal now req i t) = now"
  "Settlement_ClaimItems (settle_proposal now req i t) = snd (settle_items 0 f_zero (SettleRequest_ClaimItems req))"
  "Settlement_TotalClaimed (settle_proposal now req i t) = fst (settle_items 0 f_zero (SettleRequest_ClaimItems req))"
  "Settlement_ProposedTenantRefund (settle_proposal now req i t) = SettleRequest_ProposedTenantRefund req"
  "Settlement_ProposedLandlordRetention (settle_proposal now req i t) = SettleRequest_ProposedLandlordRetention req"
  "Settlement_ResponseDeadline (settle_proposal now req i t) = FormatDate (now + 14 * Day)"
  by (simp_all add: settle_proposal_def AddDate_days split: prod.split)

lemma settle_items_amounts:
  "map ClaimItem_AmountClaimed (snd (settle_items i t inps)) = map ClaimItemInput_AmountClaimed inps"
  by (rule nth_equalityI) (simp_all add: settle_items_claims)

lemma Settle_plan_cases:
  assumes "Settle_plan now req d = Inr (st, e, p)"
  obtains (first) "lifecycle d = StatePledged \<or> lifecycle d = StateFunded" "st = StateSettleProposed"
      "p = set_settlement (settle_proposal now req (SettleRequest_InitiatedBy req) now)"
  | (counter) s0 where "lifecycle d = StateSettleProposed" "Deposit_Settlement d = Some s0" "st = StateSettleProposed"
      "Settlement_LastProposedBy s0 \<noteq> SettleRequest_InitiatedBy req"
      "p = set_settlement (settle_proposal now req (Settlement_InitiatedBy s0) (Settlement_InitiatedAt s0))"
  using assms that by (auto simp: Settle_plan_def Let_def guard_transition_Inr split: if_splits option.splits)

end
