(* ===== verification/Credential.thy ===== *)
theory Credential
  imports Server
begin

text \<open>
  The SD-JWT credential \<open>DepositPledgeAttestation\<close>
  (\<open>server/internal/issuance/credential.go\<close>): disclosures, claims and the token.

  What the code takes from elsewhere is collected in \<open>Lib\<close>: SHA-256, the text form
  of a JSON value, Unicode lower case, and the signing functions of golang-jwt (with
  the server's key). Random bytes are arguments; \<open>None\<close> is a failed read.
\<close>

record credentialStatus =
  credentialStatus_ID :: string
  credentialStatus_Type :: string
  credentialStatus_StatusPurpose :: string
  credentialStatus_StatusListIndex :: string
  credentialStatus_StatusListCredential :: string

record sdJWTClaims =
  sdJWTClaims_RegisteredClaims :: RegisteredClaims
  sdJWTClaims_VCT :: string
  sdJWTClaims_SDAlg :: string
  sdJWTClaims_SD :: "string list"
  sdJWTClaims_DepositID :: string
  sdJWTClaims_PledgeDate :: string
  sdJWTClaims_StatutoryBasis :: string
  sdJWTClaims_IssuingBank :: string
  sdJWTClaims_IssuingBankID :: string
  sdJWTClaims_PropertyID :: string
  sdJWTClaims_CredentialStatus :: "credentialStatus option"

record Lib =
  lib_sha256 :: "byte list \<Rightarrow> byte list"
  lib_marshal :: "json \<Rightarrow> string option"
  lib_lower :: "string \<Rightarrow> string"
  lib_keyID :: string
  lib_sign :: "jwt_header \<Rightarrow> sdJWTClaims \<Rightarrow> string option"
  lib_sign_list :: "jwt_header \<Rightarrow> statusListVCClaims \<Rightarrow> string option"
  lib_gzip :: "byte list \<Rightarrow> byte list option"

section \<open>Disclosures\<close>

definition disclosure_hash :: "Lib \<Rightarrow> string \<Rightarrow> string" where
  "disclosure_hash L enc = RawURLEncode (lib_sha256 L (bytes_of enc))"

definition newSDDisclosure :: "Lib \<Rightarrow> byte list option \<Rightarrow> string \<Rightarrow> json \<Rightarrow> (string \<times> string) option" where
  "newSDDisclosure L saltBytes name value =
     (case saltBytes of
        None \<Rightarrow> None
      | Some salt \<Rightarrow> (case lib_marshal L (JArr [JStr (RawURLEncode salt), JStr name, value]) of
          None \<Rightarrow> None
        | Some b \<Rightarrow> let enc = RawURLEncode (bytes_of b) in Some (enc, disclosure_hash L enc)))"

text \<open>The loop over the specifications; the \<open>i\<close>-th disclosure reads the \<open>i\<close>-th salt.\<close>

fun build_disclosures ::
  "Lib \<Rightarrow> (nat \<Rightarrow> byte list option) \<Rightarrow> nat \<Rightarrow> (string \<times> json) list \<Rightarrow> (string list \<times> string list) option" where
  "build_disclosures L salt i [] = Some ([], [])"
| "build_disclosures L salt i ((name, value) # rest) =
     (case newSDDisclosure L (salt i) name value of
        None \<Rightarrow> None
      | Some (enc, hash) \<Rightarrow> (case build_disclosures L salt (Suc i) rest of
          None \<Rightarrow> None
        | Some (encs, hashes) \<Rightarrow> Some (enc # encs, hash # hashes)))"

section \<open>The credential\<close>

definition property_address :: "Deposit \<Rightarrow> string" where
  "property_address d =
     (let p = Property_Address (Deposit_Property d)
      in if Address_Street p = [] then []
         else Address_Street p @ '', '' @ Address_ZIP p @ '' '' @ Address_City p @ '', '' @ Address_Country p)"

definition credential_expiry :: "time \<Rightarrow> string \<Rightarrow> time" where
  "credential_expiry now validUntil =
     (if validUntil = [] then AddDate now 1 0 0
      else case ParseDate validUntil of
        None \<Rightarrow> AddDate now 1 0 0
      | Some t \<Rightarrow> t + 30 * 24 * Hour)"

definition pledged_until :: "time \<Rightarrow> string \<Rightarrow> string" where
  "pledged_until now validUntil =
     (if validUntil = [] then FormatDate (AddDate now 1 0 0) else validUntil)"

definition pledge_date :: "time \<Rightarrow> Deposit \<Rightarrow> string" where
  "pledge_date now d =
     (case Deposit_Pledge d of
        None \<Rightarrow> FormatDate now
      | Some p \<Rightarrow> if Pledge_PledgeDate p = [] then FormatDate now else Pledge_PledgeDate p)"

definition bank_name :: "Deposit \<Rightarrow> string" where
  "bank_name d = (case Deposit_Provider d of None \<Rightarrow> [] | Some p \<Rightarrow> Provider_ExecutingEntity p)"

definition bank_id :: "Lib \<Rightarrow> Deposit \<Rightarrow> string" where
  "bank_id L d =
     (if bank_name d = [] then []
      else ''https://'' @ lib_lower L (ReplaceChar (bank_name d) (CHR '' '') ''.''))"

definition sd_specs :: "time \<Rightarrow> Deposit \<Rightarrow> string \<Rightarrow> (string \<times> json) list" where
  "sd_specs now d validUntil = [
     (''deposit_amount'', JNum (DepositData_Amount (Deposit_Deposit d))),
     (''currency'', JStr (DepositData_Currency (Deposit_Deposit d))),
     (''property_address'', JStr (property_address d)),
     (''tenant_first_name'', JStr (Tenant_FirstName (Deposit_Tenant d))),
     (''tenant_last_name'', JStr (Tenant_LastName (Deposit_Tenant d))),
     (''pledged_until'', JStr (pledged_until now validUntil))]"

definition credential_claims ::
  "Lib \<Rightarrow> string \<Rightarrow> string \<Rightarrow> time \<Rightarrow> Deposit \<Rightarrow> string \<Rightarrow> int \<Rightarrow> string list \<Rightarrow> sdJWTClaims" where
  "credential_claims L issuerURL credentialID now d validUntil statusListIndex sdHashes = \<lparr>
     sdJWTClaims_RegisteredClaims = \<lparr>
       RegisteredClaims_Issuer = issuerURL, RegisteredClaims_Subject = Tenant_Email (Deposit_Tenant d),
       RegisteredClaims_ID = credentialID, RegisteredClaims_IssuedAt = NumericDate now,
       RegisteredClaims_ExpiresAt = NumericDate (credential_expiry now validUntil)\<rparr>,
     sdJWTClaims_VCT = ''DepositPledgeAttestation'', sdJWTClaims_SDAlg = ''sha-256'',
     sdJWTClaims_SD = sdHashes, sdJWTClaims_DepositID = Deposit_ID d,
     sdJWTClaims_PledgeDate = pledge_date now d, sdJWTClaims_StatutoryBasis = BGB_551,
     sdJWTClaims_IssuingBank = bank_name d, sdJWTClaims_IssuingBankID = bank_id L d,
     sdJWTClaims_PropertyID = Property_UnitID (Deposit_Property d),
     sdJWTClaims_CredentialStatus = Some \<lparr>
       credentialStatus_ID = status_list_url issuerURL @ ''#'' @ show_int statusListIndex,
       credentialStatus_Type = ''BitstringStatusListEntry'',
       credentialStatus_StatusPurpose = ''revocation'',
       credentialStatus_StatusListIndex = show_int statusListIndex,
       credentialStatus_StatusListCredential = status_list_url issuerURL\<rparr>\<rparr>"

definition sd_jwt :: "string \<Rightarrow> string list \<Rightarrow> string" where
  "sd_jwt jws disclosures = jws @ ''~'' @ Join disclosures ''~'' @ ''~''"

text \<open>The token and the credential id; \<open>uuid\<close> is the identifier drawn.\<close>

definition BuildSDJWT ::
  "Lib \<Rightarrow> (nat \<Rightarrow> byte list option) \<Rightarrow> string \<Rightarrow> time \<Rightarrow> string \<Rightarrow> Deposit \<Rightarrow> string \<Rightarrow> int \<Rightarrow>
     (string \<times> string) option" where
  "BuildSDJWT L salt uuid now issuerURL d validUntil statusListIndex =
     (let credentialID = ''urn:xmiete:credential:'' @ uuid in
      case build_disclosures L salt 0 (sd_specs now d validUntil) of
        None \<Rightarrow> None
      | Some (encs, hashes) \<Rightarrow>
          (case lib_sign L \<lparr>jwt_typ = ''vc+sd-jwt'', jwt_kid = lib_keyID L\<rparr>
                  (credential_claims L issuerURL credentialID now d validUntil statusListIndex hashes) of
             None \<Rightarrow> None
           | Some jws \<Rightarrow> Some (sd_jwt jws encs, credentialID)))"

section \<open>Facts\<close>

definition discloses :: "Lib \<Rightarrow> string \<Rightarrow> string \<times> json \<Rightarrow> bool" where
  "discloses L enc spec \<longleftrightarrow> (\<exists>s b. lib_marshal L (JArr [JStr s, JStr (fst spec), snd spec]) = Some b
     \<and> enc = RawURLEncode (bytes_of b))"

lemma newSDDisclosure_Some:
  "newSDDisclosure L salt name value = Some (enc, hash) \<Longrightarrow>
     discloses L enc (name, value) \<and> hash = disclosure_hash L enc"
  unfolding newSDDisclosure_def discloses_def by (auto simp: Let_def split: option.splits)

lemma build_disclosures_Some:
  "build_disclosures L salt i specs = Some (encs, hashes) \<Longrightarrow>
     list_all2 (discloses L) encs specs \<and> hashes = map (disclosure_hash L) encs"
  by (induction specs arbitrary: i encs hashes)
    (auto split: option.splits prod.splits dest!: newSDDisclosure_Some)

lemma BuildSDJWT_SomeE:
  assumes "BuildSDJWT L salt uuid now issuerURL d validUntil idx = Some (token, cid)"
  obtains encs jws where "list_all2 (discloses L) encs (sd_specs now d validUntil)"
    "lib_sign L \<lparr>jwt_typ = ''vc+sd-jwt'', jwt_kid = lib_keyID L\<rparr>
       (credential_claims L issuerURL cid now d validUntil idx (map (disclosure_hash L) encs)) = Some jws"
    "token = sd_jwt jws encs" "cid = ''urn:xmiete:credential:'' @ uuid"
proof -
  obtain encs hashes jws where b: "build_disclosures L salt 0 (sd_specs now d validUntil) = Some (encs, hashes)"
    and j: "lib_sign L \<lparr>jwt_typ = ''vc+sd-jwt'', jwt_kid = lib_keyID L\<rparr>
       (credential_claims L issuerURL cid now d validUntil idx hashes) = Some jws"
    and t: "token = sd_jwt jws encs" "cid = ''urn:xmiete:credential:'' @ uuid"
    using assms by (auto simp: BuildSDJWT_def Let_def split: option.splits prod.splits)
  from build_disclosures_Some [OF b] j t show ?thesis by (intro that) auto
qed

end
