(* ===== verification/Verification.thy ===== *)
theory Verification
  imports Credential
begin

text \<open>
  Presentations (\<open>server/internal/verification/vp.go\<close>): the store of presentation
  sessions, the presentation request, and \<open>VerifyVpToken\<close> with its five steps.

  golang-jwt's parsers are parameters (\<open>VpLib\<close>): \<open>vp_parse_issuer now t\<close> checks the
  issuer's signature with the server's public key and the registered claims at
  time \<open>now\<close>, \<open>vp_parse_kb\<close> reads a token without checking its signature. An error is
  the text of the library's error. \<open>vp_quote\<close> is the \<open>%q\<close> verb of \<open>fmt\<close>,
  \<open>vp_b64_error\<close> the text of the base64 decoder's error.
\<close>

section \<open>Presentation sessions\<close>

record VpSession =
  VpSession_ID :: string
  VpSession_DepositID :: string
  VpSession_Nonce :: string
  VpSession_ResponseURI :: string
  VpSession_CreatedAt :: time
  VpSession_ExpiresAt :: time

type_synonym VpStore = "string \<rightharpoonup> VpSession"

definition VpStore_new :: VpStore where
  "VpStore_new = Map.empty"

text \<open>\<open>u\<close> gives the two identifiers drawn, \<open>t\<close> the two clock readings.\<close>

definition VpStore_Create ::
  "(nat \<Rightarrow> string) \<Rightarrow> (nat \<Rightarrow> time) \<Rightarrow> string \<Rightarrow> string \<Rightarrow> VpStore \<Rightarrow> VpSession \<times> VpStore" where
  "VpStore_Create u t depositID responseURI s =
     (let sess = \<lparr>VpSession_ID = u 0, VpSession_DepositID = depositID, VpSession_Nonce = u 1,
                  VpSession_ResponseURI = responseURI, VpSession_CreatedAt = t 0,
                  VpSession_ExpiresAt = t 1 + 10 * Minute\<rparr>
      in (sess, s(VpSession_ID sess \<mapsto> sess)))"

definition VpStore_GetByID :: "VpStore \<Rightarrow> string \<rightharpoonup> VpSession" where
  "VpStore_GetByID s sid = s sid"

definition VpStore_Delete :: "string \<Rightarrow> VpStore \<Rightarrow> VpStore" where
  "VpStore_Delete sid s = s(sid := None)"

section \<open>The presentation request\<close>

record FieldFilter =
  FieldFilter_Type :: string
  FieldFilter_Const :: string

record Field =
  Field_Path :: "string list"
  Field_Filter :: "FieldFilter option"
  Field_Optional :: bool

record Constraints =
  Constraints_Fields :: "Field list"
  Constraints_LimitDisclosure :: string

record InputDescriptor =
  InputDescriptor_ID :: string
  InputDescriptor_Format :: "(string \<times> string list) list"
  InputDescriptor_Constraints :: Constraints

record PresentationDefinition =
  PresentationDefinition_ID :: string
  PresentationDefinition_InputDescriptors :: "InputDescriptor list"

record VpRequest =
  VpRequest_ClientID :: string
  VpRequest_ResponseType :: string
  VpRequest_ResponseMode :: string
  VpRequest_ResponseURI :: string
  VpRequest_Nonce :: string
  VpRequest_State :: string
  VpRequest_PresentationDefinition :: PresentationDefinition

definition plain_field :: "string \<Rightarrow> Field" where
  "plain_field p = \<lparr>Field_Path = [p], Field_Filter = None, Field_Optional = False\<rparr>"

definition BuildVpRequest :: "string \<Rightarrow> string \<Rightarrow> string \<Rightarrow> string \<Rightarrow> VpRequest" where
  "BuildVpRequest clientID responseURI nonce state = \<lparr>
     VpRequest_ClientID = clientID, VpRequest_ResponseType = ''vp_token'',
     VpRequest_ResponseMode = ''direct_post'', VpRequest_ResponseURI = responseURI,
     VpRequest_Nonce = nonce, VpRequest_State = state,
     VpRequest_PresentationDefinition = \<lparr>
       PresentationDefinition_ID = ''deposit-pledge-attestation-pd'',
       PresentationDefinition_InputDescriptors = [\<lparr>
         InputDescriptor_ID = ''deposit-pledge-attestation'',
         InputDescriptor_Format = [(''vc+sd-jwt'', [''ES256''])],
         InputDescriptor_Constraints = \<lparr>
           Constraints_Fields = [
             \<lparr>Field_Path = [''$.vct''],
              Field_Filter = Some \<lparr>FieldFilter_Type = ''string'', FieldFilter_Const = ''DepositPledgeAttestation''\<rparr>,
              Field_Optional = False\<rparr>,
             plain_field ''$.deposit_id'', plain_field ''$.pledge_date'', plain_field ''$.statutory_basis'',
             plain_field ''$.issuing_bank'', plain_field ''$.deposit_amount'',
             (plain_field ''$.pledged_until'')\<lparr>Field_Optional := True\<rparr>],
           Constraints_LimitDisclosure = ''required''\<rparr>\<rparr>]\<rparr>\<rparr>"

section \<open>Claims\<close>

text \<open>The registered claims as read back: a missing numeric date is \<open>None\<close>.\<close>

record issuerJWTClaims =
  issuerJWTClaims_Issuer :: string
  issuerJWTClaims_Subject :: string
  issuerJWTClaims_ID :: string
  issuerJWTClaims_IssuedAt :: "int option"
  issuerJWTClaims_ExpiresAt :: "int option"
  issuerJWTClaims_VCT :: string
  issuerJWTClaims_SDAlg :: string
  issuerJWTClaims_SD :: "string list"
  issuerJWTClaims_DepositID :: string
  issuerJWTClaims_PledgeDate :: string
  issuerJWTClaims_StatutoryBasis :: string
  issuerJWTClaims_IssuingBank :: string
  issuerJWTClaims_IssuingBankID :: string
  issuerJWTClaims_PropertyID :: string

record kbJWTClaims =
  kbJWTClaims_Audience :: "string + string list"
  kbJWTClaims_IssuedAt :: "int option"
  kbJWTClaims_Nonce :: string
  kbJWTClaims_SDHash :: string

record VerifiedClaims =
  VerifiedClaims_CredentialID :: string
  VerifiedClaims_DepositID :: string
  VerifiedClaims_PledgeDate :: string
  VerifiedClaims_StatutoryBasis :: string
  VerifiedClaims_IssuingBank :: string
  VerifiedClaims_DepositAmount :: float64
  VerifiedClaims_Currency :: string
  VerifiedClaims_PropertyAddress :: string
  VerifiedClaims_TenantFirstName :: string
  VerifiedClaims_TenantLastName :: string
  VerifiedClaims_PledgedUntil :: string
  VerifiedClaims_VerifiedAt :: time

record VpLib =
  vp_parse_issuer :: "time \<Rightarrow> string \<Rightarrow> string + issuerJWTClaims"
  vp_parse_kb :: "string \<Rightarrow> string + (string option \<times> kbJWTClaims)"
  vp_unmarshal :: "string \<Rightarrow> json option"
  vp_quote :: "string \<Rightarrow> string"
  vp_b64_error :: "string \<Rightarrow> string"
  vp_sha256 :: "byte list \<Rightarrow> byte list"

section \<open>Verification\<close>

text \<open>The loop that separates the key-binding token from the disclosures.\<close>

fun split_parts :: "string list \<Rightarrow> string \<Rightarrow> string list \<Rightarrow> string \<times> string list" where
  "split_parts [] kbJWTRaw disclosures = (kbJWTRaw, disclosures)"
| "split_parts (p # ps) kbJWTRaw disclosures =
     (if p = [] then split_parts ps kbJWTRaw disclosures
      else if Contains p ''.'' then split_parts ps p disclosures
      else split_parts ps kbJWTRaw (disclosures @ [p]))"

definition vp_hash :: "VpLib \<Rightarrow> string \<Rightarrow> string" where
  "vp_hash V s = RawURLEncode (vp_sha256 V (bytes_of s))"

definition computeSDHash :: "VpLib \<Rightarrow> string \<Rightarrow> string list \<Rightarrow> string" where
  "computeSDHash V issuerJWT disclosures =
     vp_hash V (issuerJWT @ ''~'' @ concat (map (\<lambda>d. d @ ''~'') disclosures))"

text \<open>Step 4: the loop over the disclosures, with the map read so far.\<close>

fun verify_disclosures ::
  "VpLib \<Rightarrow> string list \<Rightarrow> string list \<Rightarrow> (string \<rightharpoonup> json) \<Rightarrow> string + (string \<rightharpoonup> json)" where
  "verify_disclosures V sd [] disclosed = Inr disclosed"
| "verify_disclosures V sd (enc # rest) disclosed =
     (if vp_hash V enc \<notin> set sd
      then Inl (''verification: disclosure hash '' @ vp_quote V (vp_hash V enc) @ '' not found in _sd'')
      else case RawURLDecode enc of
        None \<Rightarrow> Inl (''verification: disclosure base64 decode: '' @ vp_b64_error V enc)
      | Some raw \<Rightarrow> (case vp_unmarshal V (string_of raw) of
          Some (JArr [salt, name, value]) \<Rightarrow> (case name of
            JStr n \<Rightarrow> verify_disclosures V sd rest (disclosed(n \<mapsto> value))
          | _ \<Rightarrow> Inl ''verification: disclosure name is not a string'')
        | _ \<Rightarrow> Inl ''verification: disclosure must be [salt, name, value]''))"

text \<open>Step 5, for a token that is present.\<close>

definition verify_kb :: "VpLib \<Rightarrow> time \<Rightarrow> string \<Rightarrow> string list \<Rightarrow> string \<Rightarrow> string \<Rightarrow> string \<Rightarrow> string option" where
  "verify_kb V now issuerJWT disclosures kbJWTRaw expectedNonce responseURI =
     (case vp_parse_kb V kbJWTRaw of
        Inl err \<Rightarrow> Some (''verification: KB-JWT parse: '' @ err)
      | Inr (typ, kb) \<Rightarrow>
          let t = case_option [] (\<lambda>x. x) typ in
          if t \<noteq> ''kb+jwt''
          then Some (''verification: KB-JWT typ must be kb+jwt, got '' @ vp_quote V t)
          else if kbJWTClaims_Nonce kb \<noteq> expectedNonce
          then Some ''verification: KB-JWT nonce mismatch''
          else if (case kbJWTClaims_Audience kb of
                     Inl err \<Rightarrow> True | Inr [] \<Rightarrow> True | Inr (a # as) \<Rightarrow> a \<noteq> responseURI)
          then Some ''verification: KB-JWT aud does not match response_uri''
          else if kbJWTClaims_SDHash kb \<noteq> computeSDHash V issuerJWT disclosures
          then Some ''verification: KB-JWT sd_hash mismatch''
          else if (case kbJWTClaims_IssuedAt kb of None \<Rightarrow> True | Some iat \<Rightarrow> now - iat * Second > 5 * Minute)
          then Some ''verification: KB-JWT iat too old or missing''
          else None)"

definition str_claim :: "(string \<rightharpoonup> json) \<Rightarrow> string \<Rightarrow> string" where
  "str_claim disclosed k = (case disclosed k of Some (JStr s) \<Rightarrow> s | _ \<Rightarrow> [])"

definition num_claim :: "(string \<rightharpoonup> json) \<Rightarrow> string \<Rightarrow> float64" where
  "num_claim disclosed k = (case disclosed k of Some (JNum x) \<Rightarrow> x | _ \<Rightarrow> f_zero)"

definition assemble_claims :: "time \<Rightarrow> issuerJWTClaims \<Rightarrow> (string \<rightharpoonup> json) \<Rightarrow> VerifiedClaims" where
  "assemble_claims now claims disclosed = \<lparr>
     VerifiedClaims_CredentialID = issuerJWTClaims_ID claims,
     VerifiedClaims_DepositID = issuerJWTClaims_DepositID claims,
     VerifiedClaims_PledgeDate = issuerJWTClaims_PledgeDate claims,
     VerifiedClaims_StatutoryBasis = issuerJWTClaims_StatutoryBasis claims,
     VerifiedClaims_IssuingBank = issuerJWTClaims_IssuingBank claims,
     VerifiedClaims_DepositAmount = num_claim disclosed ''deposit_amount'',
     VerifiedClaims_Currency = str_claim disclosed ''currency'',
     VerifiedClaims_PropertyAddress = str_claim disclosed ''property_address'',
     VerifiedClaims_TenantFirstName = str_claim disclosed ''tenant_first_name'',
     VerifiedClaims_TenantLastName = str_claim disclosed ''tenant_last_name'',
     VerifiedClaims_PledgedUntil = str_claim disclosed ''pledged_until'',
     VerifiedClaims_VerifiedAt = now\<rparr>"

definition VerifyVpToken :: "VpLib \<Rightarrow> time \<Rightarrow> string \<Rightarrow> string \<Rightarrow> string \<Rightarrow> string + VerifiedClaims" where
  "VerifyVpToken V now vpToken expectedNonce responseURI =
     (let parts = SplitChar vpToken (CHR ''~''); issuerJWT = hd parts in
      if issuerJWT = [] then Inl ''verification: malformed vp_token: missing issuer JWT''
      else case split_parts (tl parts) [] [] of (kbJWTRaw, disclosures) \<Rightarrow>
        (case vp_parse_issuer V now issuerJWT of
           Inl err \<Rightarrow> Inl (''verification: issuer JWT invalid: '' @ err)
         | Inr claims \<Rightarrow>
             if issuerJWTClaims_VCT claims \<noteq> ''DepositPledgeAttestation''
             then Inl (''verification: unexpected vct '' @ vp_quote V (issuerJWTClaims_VCT claims))
             else if (case issuerJWTClaims_ExpiresAt claims of None \<Rightarrow> False | Some t \<Rightarrow> After now (t * Second))
             then Inl ''verification: credential has expired''
             else case verify_disclosures V (issuerJWTClaims_SD claims) disclosures Map.empty of
               Inl err \<Rightarrow> Inl err
             | Inr disclosed \<Rightarrow>
                 (case (if kbJWTRaw = [] then None
                        else verify_kb V now issuerJWT disclosures kbJWTRaw expectedNonce responseURI) of
                    Some err \<Rightarrow> Inl err
                  | None \<Rightarrow> Inr (assemble_claims now claims disclosed))))"

section \<open>Soundness: what an accepted token guarantees\<close>

lemma split_parts_app:
  "split_parts ps kb ds = (kb', ds') \<Longrightarrow>
     ds' = ds @ filter (\<lambda>p. p \<noteq> [] \<and> \<not> Contains p ''.'') ps"
proof (induction ps arbitrary: kb ds)
  case (Cons p ps)
  then show ?case using Cons.IH [of kb "ds @ [p]"] by (auto split: if_splits)
qed simp

lemma verify_disclosures_hashes:
  "verify_disclosures V sd encs m = Inr m' \<Longrightarrow> list_all (\<lambda>enc. vp_hash V enc \<in> set sd) encs"
  by (induction encs arbitrary: m) (auto split: if_splits option.splits json.splits list.splits)

text \<open>Every value read comes from a disclosure whose hash the issuer signed.\<close>

lemma verify_disclosures_origin:
  assumes "verify_disclosures V sd encs m = Inr m'" "m' n = Some v"
  shows "m n = Some v \<or> (\<exists>enc raw s. enc \<in> set encs \<and> vp_hash V enc \<in> set sd \<and>
     RawURLDecode enc = Some raw \<and> vp_unmarshal V (string_of raw) = Some (JArr [s, JStr n, v]))"
  using assms
proof (induction encs arbitrary: m)
  case (Cons enc encs)
  then obtain raw s n' v' where e: "vp_hash V enc \<in> set sd" "RawURLDecode enc = Some raw"
    "vp_unmarshal V (string_of raw) = Some (JArr [s, JStr n', v'])"
    "verify_disclosures V sd encs (m(n' \<mapsto> v')) = Inr m'"
    by (auto split: if_splits option.splits json.splits list.splits)
  from Cons.IH [OF e(4) Cons.prems(2)] e(1-3) show ?case by (auto split: if_splits)
qed simp

section \<open>Completeness: an issued credential verifies\<close>

text \<open>The claims of an issued credential as the verifier's struct reads them.\<close>

definition issuer_view :: "sdJWTClaims \<Rightarrow> issuerJWTClaims" where
  "issuer_view c =
     (let r = sdJWTClaims_RegisteredClaims c in \<lparr>
     issuerJWTClaims_Issuer = RegisteredClaims_Issuer r, issuerJWTClaims_Subject = RegisteredClaims_Subject r,
     issuerJWTClaims_ID = RegisteredClaims_ID r, issuerJWTClaims_IssuedAt = Some (RegisteredClaims_IssuedAt r),
     issuerJWTClaims_ExpiresAt = Some (RegisteredClaims_ExpiresAt r),
     issuerJWTClaims_VCT = sdJWTClaims_VCT c, issuerJWTClaims_SDAlg = sdJWTClaims_SDAlg c,
     issuerJWTClaims_SD = sdJWTClaims_SD c, issuerJWTClaims_DepositID = sdJWTClaims_DepositID c,
     issuerJWTClaims_PledgeDate = sdJWTClaims_PledgeDate c,
     issuerJWTClaims_StatutoryBasis = sdJWTClaims_StatutoryBasis c,
     issuerJWTClaims_IssuingBank = sdJWTClaims_IssuingBank c,
     issuerJWTClaims_IssuingBankID = sdJWTClaims_IssuingBankID c,
     issuerJWTClaims_PropertyID = sdJWTClaims_PropertyID c\<rparr>)"

text \<open>
  What is used of the libraries: both sides hash alike; a JSON value reads back
  from its text; a token the server signed is a non-empty dotted string without
  the separator, and parses to its claims before it expires.
\<close>

definition libs_agree :: "Lib \<Rightarrow> VpLib \<Rightarrow> bool" where
  "libs_agree L V \<longleftrightarrow> vp_sha256 V = lib_sha256 L
     \<and> (\<forall>j b. lib_marshal L j = Some b \<longrightarrow> b \<noteq> [] \<and> vp_unmarshal V b = Some j)
     \<and> (\<forall>h c t. lib_sign L h c = Some t \<longrightarrow> t \<noteq> [] \<and> CHR ''~'' \<notin> set t \<and>
          (\<forall>now. now < RegisteredClaims_ExpiresAt (sdJWTClaims_RegisteredClaims c) * Second \<longrightarrow>
             vp_parse_issuer V now t = Inr (issuer_view c)))"

lemma libs_agreeD:
  assumes "libs_agree L V"
  shows "vp_hash V enc = disclosure_hash L enc"
    and "lib_marshal L j = Some b \<Longrightarrow> b \<noteq> []" "lib_marshal L j = Some b \<Longrightarrow> vp_unmarshal V b = Some j"
    and "lib_sign L h c = Some t \<Longrightarrow> t \<noteq> [] \<and> CHR ''~'' \<notin> set t"
    and "lib_sign L h c = Some t \<Longrightarrow> now < RegisteredClaims_ExpiresAt (sdJWTClaims_RegisteredClaims c) * Second \<Longrightarrow>
      vp_parse_issuer V now t = Inr (issuer_view c)"
  using assms unfolding libs_agree_def vp_hash_def disclosure_hash_def by simp_all

lemma RawURLEncode_Nil_iff: "RawURLEncode bs = [] \<longleftrightarrow> bs = []"
  by (cases bs rule: b64_sextets.cases) (simp_all add: RawURLEncode_def Let_def)

lemma discloses_chars:
  assumes "libs_agree L V" "discloses L enc spec"
  shows "enc \<noteq> []" "CHR ''~'' \<notin> set enc" "\<not> Contains enc ''.''"
proof -
  obtain s b where b: "lib_marshal L (JArr [JStr s, JStr (fst spec), snd spec]) = Some b"
    and e: "enc = RawURLEncode (bytes_of b)" using assms(2) by (auto simp: discloses_def)
  show "enc \<noteq> []" using libs_agreeD(2) [OF assms(1) b] by (simp add: e RawURLEncode_Nil_iff bytes_of_def)
  show "CHR ''~'' \<notin> set enc" by (simp add: e RawURLEncode_chars)
  show "\<not> Contains enc ''.''" using RawURLEncode_chars(2) [of "bytes_of b"] by (auto simp: e Contains_iff)
qed

lemma verify_disclosures_complete:
  assumes "libs_agree L V" "list_all2 (discloses L) encs specs"
    and "\<forall>enc \<in> set encs. disclosure_hash L enc \<in> set sd"
  shows "verify_disclosures V sd encs m = Inr (m ++ map_of (rev specs))"
  using assms(2,3)
proof (induction encs specs arbitrary: m rule: list_all2_induct)
  case (Cons enc encs spec specs)
  obtain s b where b: "lib_marshal L (JArr [JStr s, JStr (fst spec), snd spec]) = Some b"
    and e: "enc = RawURLEncode (bytes_of b)" using Cons.hyps(1) by (auto simp: discloses_def)
  have "verify_disclosures V sd (enc # encs) m =
      verify_disclosures V sd encs (m(fst spec \<mapsto> snd spec))"
    using Cons.prems libs_agreeD(1) [OF assms(1)] libs_agreeD(3) [OF assms(1) b]
    by (simp add: e RawURLDecode_Encode)
  also have "\<dots> = Inr (m ++ map_of (rev (spec # specs)))"
    using Cons.IH Cons.prems by (simp add: map_add_def fun_eq_iff split: option.splits prod.splits)
  finally show ?case .
qed simp

lemma SplitChar_presentation:
  assumes "CHR ''~'' \<notin> set jws" "\<forall>p \<in> set ds. CHR ''~'' \<notin> set p"
  shows "\<exists>es. SplitChar (sd_jwt jws ds) (CHR ''~'') = jws # ds @ es \<and> set es \<subseteq> {[]}"
proof -
  have *: "\<exists>es. SplitChar (Join ds ''~'' @ ''~'') (CHR ''~'') = ds @ es \<and> set es \<subseteq> {[]}"
    using assms(2)
  proof (induction ds rule: induct_list012)
    case (2 d)
    then have "SplitChar (Join [d] ''~'' @ ''~'') (CHR ''~'') = [d] @ [[]]"
      using SplitChar_append [of "CHR ''~''" d "[]"] by simp
    then show ?case by force
  next
    case (3 d d' ds)
    then obtain es where "SplitChar (Join (d' # ds) ''~'' @ ''~'') (CHR ''~'') = (d' # ds) @ es" "set es \<subseteq> {[]}"
      by auto
    moreover have "SplitChar (Join (d # d' # ds) ''~'' @ ''~'') (CHR ''~'') =
        d # SplitChar (Join (d' # ds) ''~'' @ ''~'') (CHR ''~'')"
      using 3(3) SplitChar_append [of "CHR ''~''" d "Join (d' # ds) ''~'' @ ''~''"] by simp
    ultimately show ?case by auto
  qed (auto intro!: exI [of _ "[[], []]"])
  then show ?thesis using SplitChar_append [OF assms(1)] by (simp add: sd_jwt_def)
qed

lemma split_parts_presentation:
  assumes "\<forall>p \<in> set ds. p \<noteq> [] \<and> \<not> Contains p ''.''" "set es \<subseteq> {[]}"
  shows "split_parts (ds @ es) [] acc = ([], acc @ ds)"
  using assms(1)
proof (induction ds arbitrary: acc)
  case Nil
  from assms(2) show ?case by (induction es arbitrary: acc) auto
qed simp

text \<open>
  The holder presents the disclosures whose claim names satisfy \<open>P\<close>, without a
  key-binding token.
\<close>

definition presented :: "(string \<Rightarrow> bool) \<Rightarrow> string list \<Rightarrow> (string \<times> json) list \<Rightarrow> string list" where
  "presented P encs specs = map fst (filter (\<lambda>(enc, spec). P (fst spec)) (zip encs specs))"

lemma presented_discloses:
  "list_all2 R encs specs \<Longrightarrow>
     list_all2 R (presented P encs specs) (filter (\<lambda>spec. P (fst spec)) specs)"
  by (induction rule: list_all2_induct) (simp_all add: presented_def)

lemma list_all2_left: "list_all2 R xs ys \<Longrightarrow> x \<in> set xs \<Longrightarrow> \<exists>y. R x y"
  by (induction rule: list_all2_induct) auto

lemma presented_subset: "set (presented P encs specs) \<subseteq> set encs"
  by (auto simp: presented_def dest: set_zip_leftD)

lemma presented_all: "length encs = length specs \<Longrightarrow> presented (\<lambda>_. True) encs specs = encs"
  by (induction encs specs rule: list_induct2) (simp_all add: presented_def)

lemma VerifyVpToken_presented:
  assumes "libs_agree L V" "list_all2 (discloses L) encs specs" "distinct (map fst specs)"
    and "lib_sign L h c = Some jws" "sdJWTClaims_SD c = map (disclosure_hash L) encs"
    and "sdJWTClaims_VCT c = ''DepositPledgeAttestation''"
    and "now < RegisteredClaims_ExpiresAt (sdJWTClaims_RegisteredClaims c) * Second"
  shows "VerifyVpToken V now (sd_jwt jws (presented P encs specs)) nonce uri =
    Inr (assemble_claims now (issuer_view c) (map_of (filter (\<lambda>spec. P (fst spec)) specs)))"
proof -
  let ?ds = "presented P encs specs" and ?specs = "filter (\<lambda>spec. P (fst spec)) specs"
  have ds: "list_all2 (discloses L) ?ds ?specs" by (rule presented_discloses [OF assms(2)])
  then have chars: "\<forall>p \<in> set ?ds. p \<noteq> [] \<and> CHR ''~'' \<notin> set p \<and> \<not> Contains p ''.''"
    using discloses_chars [OF assms(1)] list_all2_left [OF ds] by blast
  have jws: "jws \<noteq> []" "CHR ''~'' \<notin> set jws" using libs_agreeD(4) [OF assms(1,4)] by auto
  obtain es where es: "SplitChar (sd_jwt jws ?ds) (CHR ''~'') = jws # ?ds @ es" "set es \<subseteq> {[]}"
    using SplitChar_presentation [OF jws(2)] chars by blast
  have sp: "split_parts (?ds @ es) [] [] = ([], ?ds)"
    using split_parts_presentation [OF _ es(2), of ?ds "[]"] chars by simp
  have sd: "verify_disclosures V (issuerJWTClaims_SD (issuer_view c)) ?ds Map.empty = Inr (map_of (rev ?specs))"
    using verify_disclosures_complete [OF assms(1) ds, of "map (disclosure_hash L) encs" Map.empty]
      presented_subset [of P encs specs] assms(5) by (auto simp: issuer_view_def Let_def)
  have "distinct (map fst ?specs)" using assms(3) by (rule distinct_map_filter)
  then have rev: "map_of (rev ?specs) = map_of ?specs" by (rule map_of_rev_distinct)
  have v: "issuerJWTClaims_VCT (issuer_view c) = ''DepositPledgeAttestation''"
    "issuerJWTClaims_ExpiresAt (issuer_view c) = Some (RegisteredClaims_ExpiresAt (sdJWTClaims_RegisteredClaims c))"
    by (simp_all add: issuer_view_def Let_def assms(6))
  show ?thesis
    using libs_agreeD(5) [OF assms(1,4,7)] jws(1) assms(7) sd sp rev v
    by (simp add: VerifyVpToken_def Let_def es(1) After_def)
qed

lemma credential_claims_simps [simp]:
  "sdJWTClaims_SD (credential_claims L iss cid now d vu idx hs) = hs"
  "sdJWTClaims_VCT (credential_claims L iss cid now d vu idx hs) = ''DepositPledgeAttestation''"
  "RegisteredClaims_ExpiresAt (sdJWTClaims_RegisteredClaims (credential_claims L iss cid now d vu idx hs)) =
     NumericDate (credential_expiry now vu)"
  by (simp_all add: credential_claims_def)

lemma sd_specs_distinct: "distinct (map fst (sd_specs now d vu))"
  by (simp add: sd_specs_def)

section \<open>What an accepted presentation contains\<close>

definition signed_disclosure :: "VpLib \<Rightarrow> string \<Rightarrow> issuerJWTClaims \<Rightarrow> string \<Rightarrow> json \<Rightarrow> bool" where
  "signed_disclosure V token claims name v \<longleftrightarrow>
     (\<exists>enc raw s. enc \<in> set (SplitChar token (CHR ''~'')) \<and> vp_hash V enc \<in> set (issuerJWTClaims_SD claims)
        \<and> RawURLDecode enc = Some raw \<and> vp_unmarshal V (string_of raw) = Some (JArr [s, JStr name, v]))"

lemma VerifyVpToken_Inr:
  assumes "VerifyVpToken V now token nonce uri = Inr vc"
  obtains claims disclosed where "vp_parse_issuer V now (hd (SplitChar token (CHR ''~''))) = Inr claims"
    "issuerJWTClaims_VCT claims = ''DepositPledgeAttestation''"
    "\<And>t. issuerJWTClaims_ExpiresAt claims = Some t \<Longrightarrow> now \<le> t * Second"
    "vc = assemble_claims now claims disclosed"
    "\<And>n v. disclosed n = Some v \<Longrightarrow> signed_disclosure V token claims n v"
proof -
  let ?parts = "SplitChar token (CHR ''~'')"
  obtain kb ds where sp: "split_parts (tl ?parts) [] [] = (kb, ds)" by fastforce
  have ds: "set ds \<subseteq> set ?parts"
    using split_parts_app [OF sp] by (cases ?parts) (auto simp: SplitChar_nonempty)
  obtain claims disclosed where c: "vp_parse_issuer V now (hd ?parts) = Inr claims"
    "issuerJWTClaims_VCT claims = ''DepositPledgeAttestation''"
    "\<not> (case issuerJWTClaims_ExpiresAt claims of None \<Rightarrow> False | Some t \<Rightarrow> After now (t * Second))"
    "verify_disclosures V (issuerJWTClaims_SD claims) ds Map.empty = Inr disclosed"
    "vc = assemble_claims now claims disclosed"
    using assms sp by (auto simp: VerifyVpToken_def Let_def split: if_splits sum.splits option.splits)
  show ?thesis
  proof (rule that [OF c(1,2) _ c(5)])
    fix t assume "issuerJWTClaims_ExpiresAt claims = Some t"
    with c(3) show "now \<le> t * Second" by (simp add: After_def)
  next
    fix n v assume "disclosed n = Some v"
    from verify_disclosures_origin [OF c(4) this] ds show "signed_disclosure V token claims n v"
      by (auto simp: signed_disclosure_def)
  qed
qed

lemma claim_disclosed:
  "str_claim m k \<noteq> [] \<Longrightarrow> m k = Some (JStr (str_claim m k))"
  "num_claim m k \<noteq> f_zero \<Longrightarrow> m k = Some (JNum (num_claim m k))"
  by (auto simp: str_claim_def num_claim_def split: option.splits json.splits)

section \<open>The claims of a selection\<close>

lemma sd_specs_lookup:
  "map_of (sd_specs now d vu) ''deposit_amount'' = Some (JNum (DepositData_Amount (Deposit_Deposit d)))"
  "map_of (sd_specs now d vu) ''currency'' = Some (JStr (DepositData_Currency (Deposit_Deposit d)))"
  "map_of (sd_specs now d vu) ''property_address'' = Some (JStr (property_address d))"
  "map_of (sd_specs now d vu) ''tenant_first_name'' = Some (JStr (Tenant_FirstName (Deposit_Tenant d)))"
  "map_of (sd_specs now d vu) ''tenant_last_name'' = Some (JStr (Tenant_LastName (Deposit_Tenant d)))"
  "map_of (sd_specs now d vu) ''pledged_until'' = Some (JStr (pledged_until now vu))"
  by (simp_all add: sd_specs_def)

text \<open>The claims a verifier assembles from the disclosures selected by \<open>P\<close>.\<close>

definition selected_claims :: "time \<Rightarrow> sdJWTClaims \<Rightarrow> (string \<Rightarrow> bool) \<Rightarrow> (string \<times> json) list \<Rightarrow> VerifiedClaims" where
  "selected_claims now c P specs =
     assemble_claims now (issuer_view c) (map_of (filter (\<lambda>spec. P (fst spec)) specs))"

lemma selected_claims_fields:
  fixes now' now d vu L iss cid idx hs
  defines "vc P \<equiv> selected_claims now' (credential_claims L iss cid now d vu idx hs) P (sd_specs now d vu)"
  shows "VerifiedClaims_CredentialID (vc P) = cid" "VerifiedClaims_DepositID (vc P) = Deposit_ID d"
    "VerifiedClaims_PledgeDate (vc P) = pledge_date now d" "VerifiedClaims_IssuingBank (vc P) = bank_name d"
    "VerifiedClaims_DepositAmount (vc P) =
       (if P ''deposit_amount'' then DepositData_Amount (Deposit_Deposit d) else f_zero)"
    "VerifiedClaims_Currency (vc P) = (if P ''currency'' then DepositData_Currency (Deposit_Deposit d) else [])"
    "VerifiedClaims_PropertyAddress (vc P) = (if P ''property_address'' then property_address d else [])"
    "VerifiedClaims_TenantFirstName (vc P) =
       (if P ''tenant_first_name'' then Tenant_FirstName (Deposit_Tenant d) else [])"
    "VerifiedClaims_TenantLastName (vc P) =
       (if P ''tenant_last_name'' then Tenant_LastName (Deposit_Tenant d) else [])"
    "VerifiedClaims_PledgedUntil (vc P) = (if P ''pledged_until'' then pledged_until now vu else [])"
  unfolding vc_def selected_claims_def assemble_claims_def str_claim_def num_claim_def map_of_filter_key sd_specs_lookup
  by (simp_all add: issuer_view_def Let_def credential_claims_def)

text \<open>Every presentation of an issued credential verifies before it expires.\<close>

lemma issued_presentation:
  assumes "libs_agree L V" "BuildSDJWT L salt uuid now iss d vu idx = Some (token, cid)"
    and "now' < NumericDate (credential_expiry now vu) * Second"
  obtains jws encs hs where "token = sd_jwt jws encs" "presented (\<lambda>_. True) encs (sd_specs now d vu) = encs"
    "\<And>P nonce uri. VerifyVpToken V now' (sd_jwt jws (presented P encs (sd_specs now d vu))) nonce uri =
      Inr (selected_claims now' (credential_claims L iss cid now d vu idx hs) P (sd_specs now d vu))"
proof -
  obtain encs jws where e: "list_all2 (discloses L) encs (sd_specs now d vu)"
    "lib_sign L \<lparr>jwt_typ = ''vc+sd-jwt'', jwt_kid = lib_keyID L\<rparr>
       (credential_claims L iss cid now d vu idx (map (disclosure_hash L) encs)) = Some jws"
    "token = sd_jwt jws encs"
    using BuildSDJWT_SomeE [OF assms(2)] by blast
  let ?c = "credential_claims L iss cid now d vu idx (map (disclosure_hash L) encs)"
  have v: "VerifyVpToken V now' (sd_jwt jws (presented P encs (sd_specs now d vu))) nonce uri =
      Inr (selected_claims now' ?c P (sd_specs now d vu))" for P nonce uri
    unfolding selected_claims_def
    by (rule VerifyVpToken_presented [OF assms(1) e(1) sd_specs_distinct e(2)]) (use assms(3) in simp_all)
  have "length encs = length (sd_specs now d vu)" using e(1) by (rule list_all2_lengthD)
  then have "presented (\<lambda>_. True) encs (sd_specs now d vu) = encs" by (rule presented_all)
  then show ?thesis using that e(3) v by blast
qed

end
