(* ===== verification/IssuerHandlers.thy ===== *)
theory IssuerHandlers
  imports Verification
begin

text \<open>
  The OpenID4VCI endpoints of the server (\<open>server/internal/api/issuer_handlers.go\<close>)
  over the database-backed session store. As in the theory Server, clock
  readings, identifiers and failing statements come from an environment record and
  the body arrives decoded.
\<close>

record IssuerEnv =
  ie_now :: time
  ie_now2 :: time
  ie_uuid :: "nat \<Rightarrow> string"
  ie_salt :: "nat \<Rightarrow> byte list option"
  ie_get :: faults
  ie_alloc :: faults
  ie_sess :: faults
  ie_consume :: faults

text \<open>The fetch block, with the faults of this environment.\<close>

definition issuer_fetch :: "IssuerEnv \<Rightarrow> string \<Rightarrow> Database \<Rightarrow> response + Deposit" where
  "issuer_fetch env did db =
     (case PostgresRepo_GetByID (ie_get env) did db of
        Inr d \<Rightarrow> Inr d
      | Inl ErrNotFound \<Rightarrow> Inl (writeError 404 ''deposit not found'' ''NOT_FOUND'')
      | Inl _ \<Rightarrow> Inl (writeError 500 ''failed to fetch deposit'' ''INTERNAL_ERROR''))"

section \<open>Bank trigger\<close>

definition issue_response :: "string \<Rightarrow> Session \<Rightarrow> response" where
  "issue_response issuerURL sess =
     (let offerURI = issuerURL @ ''/v1/credential-offers/'' @ Session_ID sess;
          offerURL = ''openid-credential-offer://?credential_offer_uri='' @ offerURI
      in writeJSON 201 (JSON_Value (JObj [
           (''session_id'', JStr (Session_ID sess)), (''credential_offer_url'', JStr offerURL),
           (''qr_code_payload'', JStr offerURL), (''expires_at'', JTime (Session_ExpiresAt sess))])))"

text \<open>\<open>validUntil\<close> is empty when the body is missing or cannot be decoded.\<close>

definition IssueCredential :: "Server \<Rightarrow> IssuerEnv \<Rightarrow> string \<Rightarrow> string \<Rightarrow> Database \<Rightarrow> response \<times> Database" where
  "IssueCredential s env validUntil did db =
     (case issuer_fetch env did db of
        Inl r \<Rightarrow> (r, db)
      | Inr d \<Rightarrow>
          if state_string (lifecycle d) \<noteq> ''PLEDGED''
          then (writeError 409 ''credential issuance requires deposit in PLEDGED state'' ''INVALID_STATE'', db)
          else (case PostgresIndexAllocator_AllocateIndex (ie_alloc env) db of
            (Inl _, db1) \<Rightarrow>
              (writeError 500 ''failed to allocate status list index'' ''INTERNAL_ERROR'', db1)
          | (Inr idx, db1) \<Rightarrow>
              (case PostgresSessionStore_Create (ie_sess env) (ie_uuid env) (ie_now env) did validUntil idx db1 of
                 (Inl _, db2) \<Rightarrow>
                   (writeError 500 ''failed to create issuance session'' ''INTERNAL_ERROR'', db2)
               | (Inr sess, db2) \<Rightarrow> (issue_response (Server_issuerURL s) sess, db2))))"

section \<open>OID4VCI endpoints\<close>

definition GetCredentialOffer :: "Server \<Rightarrow> IssuerEnv \<Rightarrow> string \<Rightarrow> Database \<Rightarrow> response" where
  "GetCredentialOffer s env sessionID db =
     (case PostgresSessionStore_GetByID (ie_sess env) db sessionID of
        None \<Rightarrow> writeError 404 ''offer not found or expired'' ''NOT_FOUND''
      | Some sess \<Rightarrow>
          if After (ie_now env) (Session_ExpiresAt sess)
          then writeError 410 ''offer has expired'' ''OFFER_EXPIRED''
          else writeJSON 200 (JSON_Value (JObj [
            (''credential_issuer'', JStr (Server_issuerURL s)),
            (''credential_configuration_ids'', JArr [JStr ''DepositPledgeAttestation'']),
            (''grants'', JObj [(''urn:ietf:params:oauth:grant-type:pre-authorized_code'',
               JObj [(''pre-authorized_code'', JStr (Session_PreAuthorizedCode sess))])])])))"

definition preAuthGrant :: string where
  "preAuthGrant = ''urn:ietf:params:oauth:grant-type:pre-authorized_code''"

text \<open>The form values \<open>grant_type\<close> and \<open>pre-authorized_code\<close>; \<open>None\<close> when parsing fails.\<close>

definition Token :: "IssuerEnv \<Rightarrow> (string \<times> string) option \<Rightarrow> Database \<Rightarrow> response \<times> Database" where
  "Token env form db =
     (case form of
        None \<Rightarrow> (writeError 400 ''invalid form body'' ''BAD_REQUEST'', db)
      | Some (grantType, code) \<Rightarrow>
          if grantType \<noteq> preAuthGrant
          then (writeError 400 ''unsupported grant_type; only pre-authorized_code is supported''
                  ''UNSUPPORTED_GRANT_TYPE'', db)
          else if code = [] then (writeError 400 ''pre-authorized_code is required'' ''INVALID_REQUEST'', db)
          else (case PostgresSessionStore_ExchangeCodeForToken (ie_sess env) (ie_uuid env) (ie_now env) code db of
            (None, db') \<Rightarrow>
              (writeError 400 ''invalid, expired, or already-used pre-authorized_code'' ''INVALID_GRANT'', db')
          | (Some (accessToken, nonce), db') \<Rightarrow>
              (writeJSON 200 (JSON_Value (JObj [
                 (''access_token'', JStr accessToken), (''token_type'', JStr ''Bearer''),
                 (''expires_in'', JInt 300), (''c_nonce'', JStr nonce), (''c_nonce_expires_in'', JInt 300)])), db')))"

text \<open>
  The credential endpoint: the \<open>Authorization\<close> header and the decoded format and
  type of the body.
\<close>

definition Credential_endpoint ::
  "Server \<Rightarrow> Lib \<Rightarrow> IssuerEnv \<Rightarrow> string \<Rightarrow> (string \<times> string) option \<Rightarrow> Database \<Rightarrow> response \<times> Database" where
  "Credential_endpoint s L env authHeader body db =
     (if \<not> HasPrefix authHeader ''Bearer '' then (writeError 401 ''Bearer token required'' ''UNAUTHORIZED'', db)
      else let token = TrimPrefix authHeader ''Bearer '' in
      (case PostgresSessionStore_GetByToken (ie_sess env) db token of
         None \<Rightarrow> (writeError 401 ''invalid or expired access token'' ''INVALID_TOKEN'', db)
       | Some sess \<Rightarrow>
           if After (ie_now env) (Session_ExpiresAt sess)
           then (writeError 401 ''invalid or expired access token'' ''INVALID_TOKEN'', db)
           else (case body of
             None \<Rightarrow> (bad_json, db)
           | Some (format, vct) \<Rightarrow>
               if format \<noteq> ''vc+sd-jwt'' \<or> vct \<noteq> ''DepositPledgeAttestation''
               then (writeError 400 ''unsupported credential format or type; use format=vc+sd-jwt vct=DepositPledgeAttestation''
                       ''UNSUPPORTED_CREDENTIAL_TYPE'', db)
               else (case PostgresRepo_GetByID (ie_get env) (Session_DepositID sess) db of
                 Inl _ \<Rightarrow> (writeError 500 ''failed to load deposit'' ''INTERNAL_ERROR'', db)
               | Inr d \<Rightarrow>
                   (case BuildSDJWT L (ie_salt env) (ie_uuid env 0) (ie_now env) (Server_issuerURL s) d
                           (Session_ValidUntil sess) (Session_StatusListIndex sess) of
                      None \<Rightarrow> (writeError 500 ''credential signing failed'' ''SIGNING_ERROR'', db)
                    | Some (sdJWT, credentialID) \<Rightarrow>
                        (case PostgresSessionStore_ConsumeByToken (ie_consume env) (ie_now2 env) token credentialID db of
                           (None, db') \<Rightarrow> (writeError 409 ''session already consumed'' ''SESSION_CONSUMED'', db')
                         | (Some _, db') \<Rightarrow>
                             (writeJSON 200 (JSON_Value (JObj [(''credential'', JStr sdJWT)])), db')))))))"

section \<open>Status and revocation\<close>

definition CredentialStatus :: "IssuerEnv \<Rightarrow> string \<Rightarrow> Database \<Rightarrow> response" where
  "CredentialStatus env credID db =
     (case PostgresSessionStore_CredentialStatus (ie_sess env) credID db of (status, found) \<Rightarrow>
        if \<not> found then writeError 404 ''credential not found'' ''NOT_FOUND''
        else writeJSON 200 (JSON_Value (JObj [
          (''credential_id'', JStr credID), (''status'', JStr status),
          (''checked_at'', JStr (FormatRFC3339 (ie_now env)))])))"

definition StatusList :: "Server \<Rightarrow> Lib \<Rightarrow> IssuerEnv \<Rightarrow> Database \<Rightarrow> response" where
  "StatusList s L env db =
     (case PostgresSessionStore_RevokedStatusListIndices (ie_sess env) db of
        Inl _ \<Rightarrow> writeError 500 ''failed to build status list'' ''INTERNAL_ERROR''
      | Inr indices \<Rightarrow>
          (case BuildStatusListJWT (lib_gzip L) (lib_sign_list L) (lib_keyID L) (ie_now env)
                  (Server_issuerURL s) indices of
             None \<Rightarrow> writeError 500 ''failed to sign status list'' ''INTERNAL_ERROR''
           | Some jws \<Rightarrow> writeJSON 200 (JSON_Value (JObj [
               (''id'', JStr (status_list_url (Server_issuerURL s))),
               (''type'', JStr ''BitstringStatusListCredential''), (''credential'', JStr jws)]))))"

section \<open>Invariants of the database\<close>

lemma Allocate_frame:
  assumes "PostgresIndexAllocator_AllocateIndex f db = (r, db')"
  shows "deposits db' = deposits db" "issuance_sessions db' = issuance_sessions db"
  using assms by (auto simp: PostgresIndexAllocator_AllocateIndex_def Let_def split: if_splits)

lemma server_inv_sessions:
  "server_inv db \<Longrightarrow> deposits db' = deposits db \<Longrightarrow> sessions_inv db' \<Longrightarrow> server_inv db'"
  by (simp add: server_inv_def repo_inv_cong [of db' db])

lemma session_ops_deposits:
  "PostgresIndexAllocator_AllocateIndex f db = (r1, db') \<Longrightarrow> deposits db' = deposits db"
  "PostgresSessionStore_Create f u now did vu idx db = (r2, db') \<Longrightarrow> deposits db' = deposits db"
  "PostgresSessionStore_ExchangeCodeForToken f u now code db = (r3, db') \<Longrightarrow> deposits db' = deposits db"
  "PostgresSessionStore_ConsumeByToken f now t cid db = (r4, db') \<Longrightarrow> deposits db' = deposits db"
  by (auto simp: PostgresIndexAllocator_AllocateIndex_def PostgresSessionStore_Create_def
      PostgresSessionStore_ExchangeCodeForToken_def PostgresSessionStore_ConsumeByToken_def Let_def
      split: if_splits option.splits)

lemma session_ops_inv:
  assumes "server_inv db"
  shows "PostgresIndexAllocator_AllocateIndex f db = (r1, db') \<Longrightarrow> server_inv db'"
    and "PostgresSessionStore_Create f u now did vu idx db = (r2, db') \<Longrightarrow> server_inv db'"
    and "PostgresSessionStore_ExchangeCodeForToken f u now code db = (r3, db') \<Longrightarrow> server_inv db'"
    and "PostgresSessionStore_ConsumeByToken f now t cid db = (r4, db') \<Longrightarrow> server_inv db'"
proof -
  have si: "sessions_inv db" using assms by (simp add: server_inv_def)
  show "server_inv db'" if "PostgresIndexAllocator_AllocateIndex f db = (r1, db')"
    using Allocate_frame [OF that] server_inv_sessions [OF assms] si sessions_inv_cong [of db' db] by simp
  show "server_inv db'" if c: "PostgresSessionStore_Create f u now did vu idx db = (r2, db')"
  proof (rule server_inv_sessions [OF assms])
    show "deposits db' = deposits db" by (rule session_ops_deposits(2) [OF c])
    show "sessions_inv db'" using pg_create_inv [OF si, of f u now did vu idx] c by simp
  qed
  show "server_inv db'" if c: "PostgresSessionStore_ExchangeCodeForToken f u now code db = (r3, db')"
  proof (rule server_inv_sessions [OF assms])
    show "deposits db' = deposits db" by (rule session_ops_deposits(3) [OF c])
    show "sessions_inv db'" using pg_exchange_inv [OF si c] .
  qed
  show "server_inv db'" if c: "PostgresSessionStore_ConsumeByToken f now t cid db = (r4, db')"
  proof (rule server_inv_sessions [OF assms])
    show "deposits db' = deposits db" by (rule session_ops_deposits(4) [OF c])
    show "sessions_inv db'"
      using pg_consume_inv [OF si] pg_consume_None [of f now t cid db db'] c si by (cases r4) auto
  qed
qed

lemma IssueCredential_inv: "server_inv db \<Longrightarrow> server_inv (snd (IssueCredential s env vu did db))"
  unfolding IssueCredential_def by (auto split: sum.splits prod.splits dest: session_ops_inv(1,2))

lemma Token_inv: "server_inv db \<Longrightarrow> server_inv (snd (Token env form db))"
  unfolding Token_def by (auto split: option.splits prod.splits dest: session_ops_inv(3))

lemma Credential_endpoint_inv: "server_inv db \<Longrightarrow> server_inv (snd (Credential_endpoint s L env auth body db))"
  unfolding Credential_endpoint_def Let_def
  by (auto split: option.splits sum.splits prod.splits dest: session_ops_inv(4))

text \<open>None of the three touches a deposit.\<close>

lemma issuer_deposits:
  "deposits (snd (IssueCredential s env vu did db)) = deposits db"
  "deposits (snd (Token env form db)) = deposits db"
  "deposits (snd (Credential_endpoint s L env auth body db)) = deposits db"
proof -
  note d = session_ops_deposits
  show "deposits (snd (IssueCredential s env vu did db)) = deposits db"
    unfolding IssueCredential_def by (auto split: sum.splits prod.splits dest!: d(1,2))
  show "deposits (snd (Token env form db)) = deposits db"
    unfolding Token_def by (auto split: option.splits prod.splits dest!: d(3))
  show "deposits (snd (Credential_endpoint s L env auth body db)) = deposits db"
    unfolding Credential_endpoint_def Let_def
    by (auto split: option.splits sum.splits prod.splits dest!: d(4))
qed

end
