(* ===== verification/VerifierHandlers.thy ===== *)
theory VerifierHandlers
  imports IssuerHandlers
begin

text \<open>
  The OpenID4VP endpoints of the server (\<open>server/internal/api/verifier_handlers.go\<close>):
  opening a presentation session and receiving the wallet's response. Besides the
  database they read and write the in-memory store of presentation sessions.
\<close>

section \<open>The request\<close>

text \<open>\<open>url.QueryEscape\<close>\<close>

definition hex_digit :: "nat \<Rightarrow> char" where
  "hex_digit n = ''0123456789ABCDEF'' ! n"

definition unreserved :: "char \<Rightarrow> bool" where
  "unreserved c \<longleftrightarrow>
     c \<in> set ''abcdefghijklmnopqrstuvwxyzABCDEFGHIJKLMNOPQRSTUVWXYZ0123456789-_.~''"

fun QueryEscape :: "string \<Rightarrow> string" where
  "QueryEscape [] = []"
| "QueryEscape (c # s) =
     (if unreserved c then c # QueryEscape s
      else if c = CHR '' '' then CHR ''+'' # QueryEscape s
      else let n = of_char c :: nat
           in CHR ''%'' # hex_digit (n div 16) # hex_digit (n mod 16) # QueryEscape s)"

definition enc_FieldFilter :: "FieldFilter \<Rightarrow> json" where
  "enc_FieldFilter f = JObj ((''type'', JStr (FieldFilter_Type f)) #
     (if FieldFilter_Const f = [] then [] else [(''const'', JStr (FieldFilter_Const f))]))"

definition enc_Field :: "Field \<Rightarrow> json" where
  "enc_Field f = JObj ((''path'', JArr (map JStr (Field_Path f))) #
     (case Field_Filter f of None \<Rightarrow> [] | Some x \<Rightarrow> [(''filter'', enc_FieldFilter x)]) @
     (if Field_Optional f then [(''optional'', JBool True)] else []))"

definition enc_InputDescriptor :: "InputDescriptor \<Rightarrow> json" where
  "enc_InputDescriptor i = JObj [
     (''id'', JStr (InputDescriptor_ID i)),
     (''format'', JObj (map (\<lambda>(k, alg). (k, JObj [(''alg'', JArr (map JStr alg))])) (InputDescriptor_Format i))),
     (''constraints'', JObj [
        (''fields'', JArr (map enc_Field (Constraints_Fields (InputDescriptor_Constraints i)))),
        (''limit_disclosure'', JStr (Constraints_LimitDisclosure (InputDescriptor_Constraints i)))])]"

definition enc_VpRequest :: "VpRequest \<Rightarrow> json" where
  "enc_VpRequest r = JObj [
     (''client_id'', JStr (VpRequest_ClientID r)), (''response_type'', JStr (VpRequest_ResponseType r)),
     (''response_mode'', JStr (VpRequest_ResponseMode r)), (''response_uri'', JStr (VpRequest_ResponseURI r)),
     (''nonce'', JStr (VpRequest_Nonce r)), (''state'', JStr (VpRequest_State r)),
     (''presentation_definition'', JObj [
        (''id'', JStr (PresentationDefinition_ID (VpRequest_PresentationDefinition r))),
        (''input_descriptors'', JArr (map enc_InputDescriptor
           (PresentationDefinition_InputDescriptors (VpRequest_PresentationDefinition r))))])]"

record VpEnv =
  ve_now :: time
  ve_verify_now :: time
  ve_record_now :: time
  ve_create_now :: "nat \<Rightarrow> time"
  ve_uuid :: "nat \<Rightarrow> string"

definition response_uri :: "Server \<Rightarrow> string \<Rightarrow> string" where
  "response_uri s did = Server_issuerURL s @ ''/v1/deposits/'' @ did @ ''/vp-response''"

definition CreateVpRequest ::
  "Server \<Rightarrow> Lib \<Rightarrow> Env \<Rightarrow> VpEnv \<Rightarrow> string \<Rightarrow> Database \<Rightarrow> VpStore \<Rightarrow> response \<times> VpStore" where
  "CreateVpRequest s L env ve did db vps =
     (case fetch_deposit env did db of
        Inl r \<Rightarrow> (r, vps)
      | Inr _ \<Rightarrow>
          (case VpStore_Create (ve_uuid ve) (ve_create_now ve) did (response_uri s did) vps of (sess, vps') \<Rightarrow>
             let vpReq = BuildVpRequest (Server_issuerURL s) (response_uri s did) (VpSession_Nonce sess) (VpSession_ID sess)
             in case lib_marshal L (enc_VpRequest vpReq) of
                  None \<Rightarrow> (writeError 500 ''failed to build vp_request'' ''INTERNAL_ERROR'', vps')
                | Some requestJSON \<Rightarrow>
                    (writeJSON 201 (JSON_Value (JObj [
                       (''session_id'', JStr (VpSession_ID sess)),
                       (''vp_request'', enc_VpRequest vpReq),
                       (''deep_link'', JStr (''openid4vp://?client_id='' @ QueryEscape (Server_issuerURL s)
                          @ ''&request='' @ QueryEscape requestJSON)),
                       (''expires_at'', JTime (VpSession_ExpiresAt sess))])), vps')))"

section \<open>The response\<close>

definition omit_str :: "string \<Rightarrow> string \<Rightarrow> (string \<times> json) list" where
  "omit_str k s = (if s = [] then [] else [(k, JStr s)])"

definition enc_VerifiedClaims :: "VerifiedClaims \<Rightarrow> json" where
  "enc_VerifiedClaims c = JObj ([
     (''credential_id'', JStr (VerifiedClaims_CredentialID c)),
     (''deposit_id'', JStr (VerifiedClaims_DepositID c)),
     (''pledge_date'', JStr (VerifiedClaims_PledgeDate c)),
     (''statutory_basis'', JStr (VerifiedClaims_StatutoryBasis c)),
     (''issuing_bank'', JStr (VerifiedClaims_IssuingBank c))] @
     (if VerifiedClaims_DepositAmount c = f_zero then []
      else [(''deposit_amount'', JNum (VerifiedClaims_DepositAmount c))]) @
     omit_str ''currency'' (VerifiedClaims_Currency c) @
     omit_str ''property_address'' (VerifiedClaims_PropertyAddress c) @
     omit_str ''tenant_first_name'' (VerifiedClaims_TenantFirstName c) @
     omit_str ''tenant_last_name'' (VerifiedClaims_TenantLastName c) @
     omit_str ''pledged_until'' (VerifiedClaims_PledgedUntil c) @
     [(''verified_at'', JTime (VerifiedClaims_VerifiedAt c))])"

record VpResponseBody =
  VpResponseBody_VpToken :: string
  VpResponseBody_State :: string

definition vp_check :: "VpEnv \<Rightarrow> VpStore \<Rightarrow> VpResponseBody option \<Rightarrow> response + VpSession" where
  "vp_check ve vps body =
     (case body of
        None \<Rightarrow> Inl bad_json
      | Some b \<Rightarrow>
          if VpResponseBody_VpToken b = [] then Inl (invalid ''vp_token is required'')
          else if VpResponseBody_State b = [] then Inl (invalid ''state is required'')
          else (case VpStore_GetByID vps (VpResponseBody_State b) of
            None \<Rightarrow> Inl (writeError 404 ''vp session not found or already consumed'' ''NOT_FOUND'')
          | Some sess \<Rightarrow>
              if After (ve_now ve) (VpSession_ExpiresAt sess)
              then Inl (writeError 410 ''vp session has expired'' ''SESSION_EXPIRED'')
              else Inr sess))"

definition wallet_patch :: "VerifiedClaims \<Rightarrow> time \<Rightarrow> patch" where
  "wallet_patch claims now d = Some (d\<lparr>Deposit_Tenant := (Deposit_Tenant d)\<lparr>Tenant_WalletMetadata := Some \<lparr>
     WalletMetadata_Issuer = [], WalletMetadata_IssuerID = [], WalletMetadata_WalletProvider = [],
     WalletMetadata_CredentialType = [], WalletMetadata_CredentialFormat = ''vc+sd-jwt'',
     WalletMetadata_AssuranceLevel = ''high'',
     WalletMetadata_PresentationID = VerifiedClaims_CredentialID claims,
     WalletMetadata_IssuingCountry = [], WalletMetadata_VerifiedAt = FormatRFC3339 now,
     WalletMetadata_ExpiresAt = []\<rparr>\<rparr>\<rparr>)"

text \<open>From the fetched deposit: the checks, then the claims and the update to make.\<close>

definition vp_accept ::
  "VpLib \<Rightarrow> VpEnv \<Rightarrow> VpSession \<Rightarrow> VpResponseBody \<Rightarrow> string \<Rightarrow> Deposit \<Rightarrow> response + VerifiedClaims" where
  "vp_accept V ve sess body did d =
     (if lifecycle d \<noteq> StatePledged
      then Inl (writeError 409 ''vp presentation requires deposit in PLEDGED state'' ''INVALID_STATE'')
      else case VerifyVpToken V (ve_verify_now ve) (VpResponseBody_VpToken body) (VpSession_Nonce sess)
                  (VpSession_ResponseURI sess) of
        Inl err \<Rightarrow> Inl (writeError 422 err ''VP_VERIFICATION_FAILED'')
      | Inr claims \<Rightarrow>
          if VerifiedClaims_DepositID claims \<noteq> did
          then Inl (writeError 409 ''credential deposit_id does not match requested deposit'' ''DEPOSIT_MISMATCH'')
          else Inr claims)"

definition vp_plan ::
  "VpLib \<Rightarrow> VpEnv \<Rightarrow> VpSession \<Rightarrow> VpResponseBody \<Rightarrow> string \<Rightarrow> Deposit \<Rightarrow> response + update" where
  "vp_plan V ve sess body did d =
     (case vp_accept V ve sess body did d of
        Inl r \<Rightarrow> Inl r
      | Inr claims \<Rightarrow>
          Inr (lifecycle d, entry (lifecycle d) ''WALLET'' [], wallet_patch claims (ve_record_now ve)))"

definition ReceiveVpResponse ::
  "Server \<Rightarrow> VpLib \<Rightarrow> Env \<Rightarrow> VpEnv \<Rightarrow> VpResponseBody option \<Rightarrow> string \<Rightarrow> Database \<Rightarrow> VpStore \<Rightarrow>
     (response \<times> effect list \<times> Database) \<times> VpStore" where
  "ReceiveVpResponse s V env ve body did db vps =
     (case vp_check ve vps body of
        Inl r \<Rightarrow> ((r, [], db), vps)
      | Inr sess \<Rightarrow>
          (case fetch_deposit env did db of
             Inl r \<Rightarrow> ((r, [], db), vps)
           | Inr d \<Rightarrow> (case vp_accept V ve sess (the body) did d of
               Inl r \<Rightarrow> ((r, [], db), vps)
             | Inr claims \<Rightarrow>
                 (case PostgresRepo_UpdateState (env_update env) (env_repo_now env) did (lifecycle d)
                         (entry (lifecycle d) ''WALLET'' []) (wallet_patch claims (ve_record_now ve)) db of
                    (Inl _, db') \<Rightarrow> ((writeError 500 ''failed to update deposit'' ''INTERNAL_ERROR'', [], db'), vps)
                  | (Inr updated, db') \<Rightarrow>
                      ((writeJSON 200 (JSON_Value (JObj [(''verified_claims'', enc_VerifiedClaims claims)])),
                        fireWebhook s env updated, db'),
                       VpStore_Delete (VpSession_ID sess) vps)))))"

section \<open>The handler satisfies the contract of the lifecycle actions\<close>

interpretation wallet: lifecycle_action None "vp_plan V ve sess body did" for V ve sess body did
proof unfold_locales
  fix d st e p
  assume "vp_plan V ve sess body did d = Inr (st, e, p)"
  then obtain claims where *: "st = StatePledged" "e = entry StatePledged ''WALLET'' []"
    "p = wallet_patch claims (ve_record_now ve)" "lifecycle d = StatePledged"
    by (auto simp: vp_plan_def vp_accept_def split: if_splits sum.splits)
  then show "legal_step (lifecycle d) st \<and> st \<noteq> StateFunded \<and> HistoryEntry_State e = st"
    by (simp add: legal_step_def)
  show "patch_ok p" unfolding * by (rule patch_okI) (auto simp: wallet_patch_def)
  assume "deposit_inv d"
  with * show "\<exists>d1. p d = Some d1 \<and> deposit_facts st d1"
    by (auto simp: wallet_patch_def deposit_facts_def dest!: deposit_inv_facts)
next
  fix d
  show "vp_plan V ve sess body did d \<noteq> Inl Panicked"
    by (auto simp: vp_plan_def vp_accept_def response_defs split: sum.splits)
qed simp

text \<open>Its database is that of the action without mails and revocation.\<close>

lemma ReceiveVpResponse_db:
  "vp_check ve vps body = Inr sess \<Longrightarrow>
   snd (snd (fst (ReceiveVpResponse s V env ve body did db vps))) =
   snd (snd (handle_action s env None (vp_plan V ve sess (the body) did) False no_mail did db))"
  by (auto simp: ReceiveVpResponse_def handle_action_def commit_update_def vp_plan_def
      split: sum.splits prod.splits repo_error.splits)

lemma ReceiveVpResponse_inv:
  assumes "server_inv db" "ReceiveVpResponse s V env ve body did db vps = ((r, es, db'), vps')"
  shows "server_inv db'" and "deposit_evolves (repo_view db k) (repo_view db' k)"
proof -
  have "server_inv db' \<and> deposit_evolves (repo_view db k) (repo_view db' k)"
  proof (cases "vp_check ve vps body")
    case (Inl r)
    with assms show ?thesis by (simp add: ReceiveVpResponse_def deposit_evolves_def)
  next
    case (Inr sess)
    obtain r2 es2 db2 where h: "handle_action s env None (vp_plan V ve sess (the body) did) False no_mail did db =
        (r2, es2, db2)" by (metis prod_cases3)
    with ReceiveVpResponse_db [OF Inr, of s V env did db] assms(2) have "db' = db2" by simp
    then show ?thesis using wallet.action_inv [OF assms(1) h] wallet.action_evolves [OF assms(1) h] by simp
  qed
  then show "server_inv db'" "deposit_evolves (repo_view db k) (repo_view db' k)" by simp_all
qed

end
