(* ===== verification/Api.thy ===== *)
theory Api
  imports SettlementFlow VerifierHandlers
begin

text \<open>
  The server as a whole: every endpoint of \<open>server/internal/api/router.go\<close> that
  changes state, the step it takes on the database and the presentation sessions,
  and the states reachable by any sequence of requests. The invariant of the
  theory Server holds in all of them.
\<close>

section \<open>Requests and steps\<close>

datatype request =
    ReqCreate "Deposit option"
  | ReqIdentity "IdentityUpdateRequest option" string
  | ReqPledge "PledgeRequest option" string
  | ReqRelease string
  | ReqClaim "ClaimRequest option" string
  | ReqSettle "SettleRequest option" string
  | ReqSettleAccept "SettleAcceptRequest option" string
  | ReqDispute "DisputeRequest option" string
  | ReqDisputeResolve "DisputeResolveRequest option" string
  | ReqPartialRelease "PartialReleaseRequest option" string
  | ReqUtilitySettle "UtilitySettleRequest option" string
  | ReqIssueCredential string string
  | ReqToken "(string \<times> string) option"
  | ReqCredential string "(string \<times> string) option"
  | ReqVpRequest string
  | ReqVpResponse "VpResponseBody option" string

record World =
  world_db :: Database
  world_vp :: VpStore

definition initial_world :: World where
  "initial_world = \<lparr>world_db = empty_db, world_vp = VpStore_new\<rparr>"

text \<open>Configuration and libraries, and what the services answer during one request.\<close>

record Config =
  cfg_server :: Server
  cfg_lib :: Lib
  cfg_vp :: VpLib

record Services =
  srv_env :: Env
  srv_issuer :: IssuerEnv
  srv_vp :: VpEnv

definition with_db :: "result \<Rightarrow> World \<Rightarrow> response \<times> effect list \<times> World" where
  "with_db res w = (case res of (r, es, db') \<Rightarrow> (r, es, w\<lparr>world_db := db'\<rparr>))"

fun serve :: "Config \<Rightarrow> Services \<Rightarrow> request \<Rightarrow> World \<Rightarrow> response \<times> effect list \<times> World" where
  "serve c x (ReqCreate b) w = with_db (CreateDeposit (srv_env x) b (world_db w)) w"
| "serve c x (ReqIdentity b i) w = with_db (UpdateIdentity (cfg_server c) (srv_env x) b i (world_db w)) w"
| "serve c x (ReqPledge b i) w = with_db (Pledge_handler (cfg_server c) (srv_env x) b i (world_db w)) w"
| "serve c x (ReqRelease i) w = with_db (Release (cfg_server c) (srv_env x) i (world_db w)) w"
| "serve c x (ReqClaim b i) w = with_db (Claim (cfg_server c) (srv_env x) b i (world_db w)) w"
| "serve c x (ReqSettle b i) w = with_db (Settle (cfg_server c) (srv_env x) b i (world_db w)) w"
| "serve c x (ReqSettleAccept b i) w = with_db (SettleAccept (cfg_server c) (srv_env x) b i (world_db w)) w"
| "serve c x (ReqDispute b i) w = with_db (Dispute (cfg_server c) (srv_env x) b i (world_db w)) w"
| "serve c x (ReqDisputeResolve b i) w = with_db (DisputeResolve (cfg_server c) (srv_env x) b i (world_db w)) w"
| "serve c x (ReqPartialRelease b i) w = with_db (PartialRelease (cfg_server c) (srv_env x) b i (world_db w)) w"
| "serve c x (ReqUtilitySettle b i) w = with_db (UtilitySettle (cfg_server c) (srv_env x) b i (world_db w)) w"
| "serve c x (ReqIssueCredential vu i) w =
     (case IssueCredential (cfg_server c) (srv_issuer x) vu i (world_db w) of (r, db') \<Rightarrow> with_db (r, [], db') w)"
| "serve c x (ReqToken form) w =
     (case Token (srv_issuer x) form (world_db w) of (r, db') \<Rightarrow> with_db (r, [], db') w)"
| "serve c x (ReqCredential auth b) w =
     (case Credential_endpoint (cfg_server c) (cfg_lib c) (srv_issuer x) auth b (world_db w) of
        (r, db') \<Rightarrow> with_db (r, [], db') w)"
| "serve c x (ReqVpRequest i) w =
     (case CreateVpRequest (cfg_server c) (cfg_lib c) (srv_env x) (srv_vp x) i (world_db w) (world_vp w) of
        (r, vps') \<Rightarrow> (r, [], w\<lparr>world_vp := vps'\<rparr>))"
| "serve c x (ReqVpResponse b i) w =
     (case ReceiveVpResponse (cfg_server c) (cfg_vp c) (srv_env x) (srv_vp x) b i (world_db w) (world_vp w) of
        ((r, es, db'), vps') \<Rightarrow> (r, es, \<lparr>world_db = db', world_vp = vps'\<rparr>))"

text \<open>A decoded body holds machine integers.\<close>

fun request_ok :: "request \<Rightarrow> bool" where
  "request_ok (ReqCreate (Some d)) \<longleftrightarrow>
     pred_option InstallmentPlan_wf (DepositData_InstallmentPlan (Deposit_Deposit d))"
| "request_ok _ \<longleftrightarrow> True"

inductive api_step :: "Config \<Rightarrow> World \<Rightarrow> World \<Rightarrow> bool" for c where
  "request_ok req \<Longrightarrow> serve c x req w = (r, es, w') \<Longrightarrow> api_step c w w'"

inductive reachable :: "Config \<Rightarrow> World \<Rightarrow> bool" for c where
  start: "reachable c initial_world"
| step: "reachable c w \<Longrightarrow> api_step c w w' \<Longrightarrow> reachable c w'"

inductive_cases api_stepE: "api_step c w w'"

section \<open>The invariant\<close>

definition world_inv :: "World \<Rightarrow> bool" where
  "world_inv w \<longleftrightarrow> server_inv (world_db w)"

lemma initial_world_inv: "world_inv initial_world"
  by (simp add: world_inv_def initial_world_def server_inv_def empty_db_def repo_inv_def sessions_inv_def
      unique_column_def)

lemmas lifecycle_handlers =
  UpdateIdentity_def Pledge_handler_def Release_def Claim_def Settle_def SettleAccept_def Dispute_def
  DisputeResolve_def PartialRelease_def UtilitySettle_def

lemmas lifecycle_inv =
  identity.action_inv pledge.action_inv release.action_inv claim.action_inv settle.action_inv
  accept.action_inv dispute.action_inv resolve.action_inv partial.action_inv utility.action_inv

lemma serve_inv:
  assumes "world_inv w" "request_ok req" "serve c x req w = (r, es, w')"
  shows "world_inv w'"
proof -
  have inv: "server_inv (world_db w)" using assms(1) by (simp add: world_inv_def)
  note db = inv [THEN IssueCredential_inv] inv [THEN Token_inv] inv [THEN Credential_endpoint_inv]
  show ?thesis
    using assms(2,3)
    by (cases req)
      (auto simp: world_inv_def with_db_def lifecycle_handlers split: prod.splits
        dest: lifecycle_inv [OF inv] CreateDeposit_inv(1) [OF inv] ReceiveVpResponse_inv(1) [OF inv]
        intro: inv, insert db, (metis snd_conv)+)
qed

lemma reachable_inv: "reachable c w \<Longrightarrow> world_inv w"
  by (induction rule: reachable.induct)
    (auto simp: initial_world_inv elim!: api_stepE intro: serve_inv)

section \<open>How a deposit evolves\<close>

lemmas lifecycle_evolves =
  identity.action_evolves pledge.action_evolves release.action_evolves claim.action_evolves
  settle.action_evolves accept.action_evolves dispute.action_evolves resolve.action_evolves
  partial.action_evolves utility.action_evolves

abbreviation stored :: "World \<Rightarrow> string \<rightharpoonup> Deposit" where
  "stored w \<equiv> repo_view (world_db w)"

lemma deposit_evolves_refl [simp]: "deposit_evolves x x"
  by (simp add: deposit_evolves_def)

lemma serve_evolves:
  assumes "world_inv w" "request_ok req" "serve c x req w = (r, es, w')"
  shows "deposit_evolves (stored w k) (stored w' k)"
proof -
  have inv: "server_inv (world_db w)" using assms(1) by (simp add: world_inv_def)
  have same: "deposit_evolves (stored w k) (repo_view db' k)" if "deposits db' = deposits (world_db w)" for db'
    using repo_view_cong [OF that] by simp
  have issuer: "IssueCredential s e vu did (world_db w) = (r1, db') \<Longrightarrow> deposit_evolves (stored w k) (repo_view db' k)"
    "Token e form (world_db w) = (r1, db') \<Longrightarrow> deposit_evolves (stored w k) (repo_view db' k)"
    "Credential_endpoint s L e auth b (world_db w) = (r1, db') \<Longrightarrow> deposit_evolves (stored w k) (repo_view db' k)"
    for s e vu did L auth b form r1 db'
    using issuer_deposits(1) [of s e vu did "world_db w"] issuer_deposits(2) [of e form "world_db w"]
      issuer_deposits(3) [of s L e auth b "world_db w"] by (auto intro: same)
  show ?thesis
    using assms(2,3)
    by (cases req)
      (auto simp: with_db_def lifecycle_handlers split: prod.splits
        dest: lifecycle_evolves [OF inv] CreateDeposit_inv(2) [OF inv] ReceiveVpResponse_inv(2) [OF inv] issuer)
qed

text \<open>Along any sequence of requests.\<close>

lemma requests_inv: "(api_step c)\<^sup>*\<^sup>* w w' \<Longrightarrow> world_inv w \<Longrightarrow> world_inv w'"
  by (induction rule: rtranclp_induct) (auto elim!: api_stepE intro: serve_inv)

lemma run_history:
  assumes "(api_step c)\<^sup>*\<^sup>* w w'" "world_inv w" "stored w k = Some d"
  shows "\<exists>d' es. stored w' k = Some d' \<and> history d' = history d @ es"
  using assms(1)
proof (induction rule: rtranclp_induct)
  case base
  show ?case using assms(3) by simp
next
  case (step w1 w2)
  then obtain d1 es where d1: "stored w1 k = Some d1" "history d1 = history d @ es" by blast
  have "world_inv w1" by (rule requests_inv [OF step(1) assms(2)])
  then have "deposit_evolves (stored w1 k) (stored w2 k)"
    using step(2) by (auto elim!: api_stepE intro: serve_evolves)
  with d1 show ?case unfolding deposit_evolves_def by (metis append_assoc option.distinct(1) option.inject)
qed

lemma run_closed:
  assumes "(api_step c)\<^sup>*\<^sup>* w w'" "world_inv w" "stored w k = Some d" "lifecycle d = StateClosed"
  shows "stored w' k = Some d"
  using assms(1)
proof (induction rule: rtranclp_induct)
  case (step w1 w2)
  have "world_inv w1" by (rule requests_inv [OF step(1) assms(2)])
  then have "deposit_evolves (stored w1 k) (stored w2 k)"
    using step(2) by (auto elim!: api_stepE intro: serve_evolves)
  with step.IH assms(4) show ?case by (auto simp: deposit_evolves_def legal_step_def)
qed (rule assms(3))

text \<open>No request ends in a panic.\<close>

lemmas lifecycle_no_panic =
  identity.action_no_panic pledge.action_no_panic release.action_no_panic claim.action_no_panic
  settle.action_no_panic accept.action_no_panic dispute.action_no_panic resolve.action_no_panic
  partial.action_no_panic utility.action_no_panic

lemma issuer_no_panic:
  "fst (IssueCredential s env vu did db) \<noteq> Panicked" "fst (Token env form db) \<noteq> Panicked"
  "fst (Credential_endpoint s L env auth body db) \<noteq> Panicked"
  "fst (CreateVpRequest s L env2 ve did db vps) \<noteq> Panicked"
  "fst (CreateDeposit env2 b db) \<noteq> Panicked"
  "fst (fst (ReceiveVpResponse s V env2 ve vb did db vps)) \<noteq> Panicked"
proof -
  show "fst (IssueCredential s env vu did db) \<noteq> Panicked"
    by (auto simp: IssueCredential_def issuer_fetch_def issue_response_def response_defs Let_def
        split: sum.splits prod.splits repo_error.splits)
  show "fst (Token env form db) \<noteq> Panicked"
    by (auto simp: Token_def response_defs split: option.splits prod.splits)
  show "fst (Credential_endpoint s L env auth body db) \<noteq> Panicked"
    by (auto simp: Credential_endpoint_def response_defs Let_def split: option.splits sum.splits prod.splits)
  show "fst (CreateVpRequest s L env2 ve did db vps) \<noteq> Panicked"
    by (auto simp: CreateVpRequest_def response_defs Let_def split: option.splits sum.splits prod.splits
        dest: fetch_deposit_Inl)
  show "fst (CreateDeposit env2 b db) \<noteq> Panicked"
    by (auto simp: CreateDeposit_def CreateDeposit_check_def response_defs split: option.splits sum.splits prod.splits if_splits)
  show "fst (fst (ReceiveVpResponse s V env2 ve vb did db vps)) \<noteq> Panicked"
    by (auto simp: ReceiveVpResponse_def vp_check_def vp_accept_def response_defs
        split: option.splits sum.splits prod.splits if_splits dest: fetch_deposit_Inl)
qed

lemma serve_no_panic:
  assumes "world_inv w"
  shows "fst (serve c x req w) \<noteq> Panicked"
proof -
  have inv: "server_inv (world_db w)" using assms by (simp add: world_inv_def)
  have w: "fst (with_db res v) = fst res" for res v by (simp add: with_db_def split: prod.splits)
  show ?thesis
    using lifecycle_no_panic [OF inv] issuer_no_panic
    by (cases req) (simp_all add: w lifecycle_handlers split: prod.splits, (metis fst_conv)+)
qed

text \<open>
  A lifecycle request that is not answered with 200 changes nothing and notifies
  nobody.
\<close>

lemma handle_action_error:
  assumes "handle_action s env bad plan revokes mail did db = (r, es, db')" "\<And>d. r \<noteq> Respond 200 (JSON_Deposit d)"
  shows "db' = db \<and> es = []"
  using assms(1) by (cases rule: handle_action_cases) (use assms(2) in auto)

section \<open>Status list indices are unique\<close>

definition index_view :: "Database \<Rightarrow> int option list \<times> int" where
  "index_view db = (map SessionRow_status_list_index (issuance_sessions db), status_list_counter db)"

definition indices_ok :: "int option list \<times> int \<Rightarrow> bool" where
  "indices_ok v \<longleftrightarrow> (case v of (xs, n) \<Rightarrow> 0 \<le> n \<and> distinct xs \<and>
     list_all (\<lambda>x. case x of None \<Rightarrow> False | Some i \<Rightarrow> 0 \<le> i \<and> i < n) xs)"

lemma indices_okD: "indices_ok (xs, n) \<Longrightarrow> x \<in> set xs \<Longrightarrow> \<exists>i. x = Some i \<and> 0 \<le> i \<and> i < n"
  by (auto simp: indices_ok_def list_all_iff split: option.splits)

lemma indices_ok_next:
  assumes "indices_ok (xs, n)"
  shows "indices_ok (xs, n + 1)" "indices_ok (xs @ [Some n], n + 1)"
proof -
  have "Some n \<notin> set xs" using indices_okD [OF assms] by fastforce
  moreover have "\<forall>x \<in> set xs. case x of None \<Rightarrow> False | Some i \<Rightarrow> 0 \<le> i \<and> i < n + 1"
    using indices_okD [OF assms] by fastforce
  ultimately show "indices_ok (xs, n + 1)" "indices_ok (xs @ [Some n], n + 1)"
    using assms by (auto simp: indices_ok_def list_all_iff)
qed

lemma index_view_ops:
  "PostgresSessionStore_ExchangeCodeForToken f u now code db = (r1, db') \<Longrightarrow> index_view db' = index_view db"
  "PostgresSessionStore_ConsumeByToken f now t cid db = (r2, db') \<Longrightarrow> index_view db' = index_view db"
  "PostgresRepo_Create f uu now d db = (r3, db') \<Longrightarrow> index_view db' = index_view db"
  by (auto simp: index_view_def map_update_where PostgresSessionStore_ExchangeCodeForToken_def
      PostgresSessionStore_ConsumeByToken_def PostgresRepo_Create_def Let_def split: option.splits if_splits)

lemma index_view_revoke [simp]:
  "index_view (PostgresSessionStore_RevokeByDepositID f did db) = index_view db"
  by (simp add: index_view_def PostgresSessionStore_RevokeByDepositID_def map_update_where)

lemma index_view_update:
  "PostgresRepo_UpdateState f now did st e p db = (Inr d', db') \<Longrightarrow> index_view db' = index_view db"
  by (erule PostgresRepo_UpdateState_InrE) (simp add: index_view_def)

lemma index_view_action:
  "handle_action s env bad plan revokes mail did db = (r, es, db') \<Longrightarrow> index_view db' = index_view db"
  by (erule handle_action_cases) (auto dest: index_view_update)

lemma index_view_create: "CreateDeposit env b db = (r, es, db') \<Longrightarrow> index_view db' = index_view db"
  by (auto simp: CreateDeposit_def split: option.splits prod.splits sum.splits dest: index_view_ops(3))

lemma index_view_issuer:
  "Token ie form db = (r1, db') \<Longrightarrow> index_view db' = index_view db"
  "Credential_endpoint s L ie auth body db = (r2, db') \<Longrightarrow> index_view db' = index_view db"
  unfolding Token_def Credential_endpoint_def Let_def
  by (auto split: option.splits sum.splits prod.splits if_splits dest: index_view_ops(1,2))

lemma index_view_vp:
  assumes "ReceiveVpResponse s V env ve body did db vps = ((r, es, db'), vps')"
  shows "index_view db' = index_view db"
proof (cases "vp_check ve vps body")
  case (Inl r)
  with assms show ?thesis by (simp add: ReceiveVpResponse_def)
next
  case (Inr sess)
  obtain r2 es2 db2 where h: "handle_action s env None (vp_plan V ve sess (the body) did) False no_mail did db =
      (r2, es2, db2)" by (metis prod_cases3)
  with ReceiveVpResponse_db [OF Inr, of s V env did db] assms have "db' = db2" by simp
  then show ?thesis using index_view_action [OF h] by simp
qed

lemma indices_ok_issue:
  assumes "indices_ok (index_view db)"
  shows "indices_ok (index_view (snd (IssueCredential s env vu did db)))"
proof -
  obtain xs n where v: "index_view db = (xs, n)" by fastforce
  have alloc: "(db1 = db \<and> isl r) \<or> (index_view db1 = (xs, n + 1) \<and> r = Inr n)"
    if "PostgresIndexAllocator_AllocateIndex f db = (r, db1)" for f r db1
    using that v by (auto simp: PostgresIndexAllocator_AllocateIndex_def Let_def index_view_def split: if_splits)
  have create: "index_view db2 = index_view db1 \<or>
      index_view db2 = (fst (index_view db1) @ [Some i], snd (index_view db1))"
    if "PostgresSessionStore_Create f u now did vu i db1 = (r, db2)" for f u now i db1 r db2
    using that by (auto simp: PostgresSessionStore_Create_def Let_def index_view_def new_session_def split: if_splits)
  obtain r1 db1 where a: "PostgresIndexAllocator_AllocateIndex (ie_alloc env) db = (r1, db1)" by fastforce
  have "snd (IssueCredential s env vu did db) = db \<or>
      (\<exists>d. issuer_fetch env did db = Inr d \<and> state_string (lifecycle d) = ''PLEDGED'')"
    by (auto simp: IssueCredential_def split: sum.splits if_splits)
  then consider "snd (IssueCredential s env vu did db) = db"
    | d where "issuer_fetch env did db = Inr d" "state_string (lifecycle d) = ''PLEDGED''"
    by blast
  then show ?thesis
  proof cases
    case (2 d)
    show ?thesis
    proof (cases r1)
      case (Inl e)
      then have "snd (IssueCredential s env vu did db) = db1" using 2 a by (simp add: IssueCredential_def)
      then show ?thesis using alloc [OF a] assms indices_ok_next(1) v by auto
    next
      case (Inr i)
      obtain r2 db2 where c: "PostgresSessionStore_Create (ie_sess env) (ie_uuid env) (ie_now env) did vu i db1 = (r2, db2)"
        by fastforce
      have "snd (IssueCredential s env vu did db) = db2"
        using 2 a Inr c by (auto simp: IssueCredential_def split: sum.splits)
      moreover have "index_view db1 = (xs, n + 1)" "i = n" using alloc [OF a] Inr by auto
      ultimately show ?thesis using create [OF c] indices_ok_next assms v by auto
    qed
  qed (use assms in simp)
qed

lemma serve_indices:
  assumes "serve c x req w = (r, es, w')" "indices_ok (index_view (world_db w))"
  shows "indices_ok (index_view (world_db w'))"
proof (cases "\<exists>vu i. req = ReqIssueCredential vu i")
  case True
  then show ?thesis
    using assms indices_ok_issue [OF assms(2)] by (auto simp: with_db_def split: prod.splits) (metis snd_conv)
next
  case False
  have "index_view (world_db w') = index_view (world_db w)"
    using assms(1) False
    by (cases req)
      (auto simp: with_db_def lifecycle_handlers split: prod.splits
        dest: index_view_action index_view_create index_view_issuer index_view_vp)
  with assms(2) show ?thesis by simp
qed

lemma reachable_indices: "reachable c w \<Longrightarrow> indices_ok (index_view (world_db w))"
  by (induction rule: reachable.induct)
    (auto simp: initial_world_def empty_db_def index_view_def indices_ok_def elim!: api_stepE
      dest: serve_indices [unfolded indices_ok_def])

section \<open>Presentation sessions are used once\<close>

definition vp_inv :: "VpStore \<Rightarrow> bool" where
  "vp_inv vps \<longleftrightarrow> (\<forall>k sess. vps k = Some sess \<longrightarrow> VpSession_ID sess = k)"

lemma serve_vp_inv:
  assumes "serve c x req w = (r, es, w')" "vp_inv (world_vp w)"
  shows "vp_inv (world_vp w')"
proof -
  have create: "vp_inv vps'" if "CreateVpRequest s L env ve did db vps = (r, vps')" "vp_inv vps"
    for s L env ve did db vps r vps'
    using that by (auto simp: CreateVpRequest_def VpStore_Create_def vp_inv_def Let_def
        split: sum.splits option.splits if_splits)
  have respond: "vp_inv vps'" if "ReceiveVpResponse s V env ve b did db vps = (res, vps')" "vp_inv vps"
    for s V env ve b did db vps res vps'
    using that by (auto simp: ReceiveVpResponse_def VpStore_Delete_def vp_inv_def
        split: sum.splits prod.splits if_splits)
  show ?thesis
    using assms by (cases req) (auto simp: with_db_def split: prod.splits dest: create respond)
qed

lemma reachable_vp_inv: "reachable c w \<Longrightarrow> vp_inv (world_vp w)"
  by (induction rule: reachable.induct)
    (auto simp: initial_world_def VpStore_new_def vp_inv_def elim!: api_stepE dest: serve_vp_inv [unfolded vp_inv_def])

lemma ReceiveVpResponse_200:
  assumes "ReceiveVpResponse s V env ve body did db vps = ((Respond 200 b, es, db'), vps')"
  obtains sess d claims vb where "body = Some vb" "vps (VpResponseBody_State vb) = Some sess"
    "\<not> After (ve_now ve) (VpSession_ExpiresAt sess)" "fetch_deposit env did db = Inr d"
    "vp_accept V ve sess vb did d = Inr claims" "vps' = VpStore_Delete (VpSession_ID sess) vps"
proof -
  obtain sess where sess: "vp_check ve vps body = Inr sess"
    using assms by (cases "vp_check ve vps body")
      (auto simp: ReceiveVpResponse_def vp_check_def response_defs split: option.splits if_splits)
  then obtain vb where vb: "body = Some vb" "vps (VpResponseBody_State vb) = Some sess"
    "\<not> After (ve_now ve) (VpSession_ExpiresAt sess)"
    by (auto simp: vp_check_def VpStore_GetByID_def split: option.splits if_splits)
  obtain d where d: "fetch_deposit env did db = Inr d"
    using assms sess fetch_deposit_status [of env did db b]
    by (cases "fetch_deposit env did db") (auto simp: ReceiveVpResponse_def)
  obtain claims where claims: "vp_accept V ve sess vb did d = Inr claims"
    using assms sess d vb(1)
    by (cases "vp_accept V ve sess vb did d")
      (auto simp: ReceiveVpResponse_def vp_accept_def response_defs split: if_splits sum.splits)
  have "vps' = VpStore_Delete (VpSession_ID sess) vps"
    using assms sess d vb(1) claims
    by (auto simp: ReceiveVpResponse_def response_defs split: prod.splits sum.splits)
  with that vb d claims show ?thesis by blast
qed

section \<open>Spent access tokens\<close>

definition token_spent :: "string \<Rightarrow> Database \<Rightarrow> bool" where
  "token_spent t db \<longleftrightarrow> (\<forall>r \<in> set (issuance_sessions db).
     SessionRow_access_token r = Some t \<longrightarrow> SessionRow_state r \<noteq> SessionStatePending)"

lemma token_spent_cong: "issuance_sessions db' = issuance_sessions db \<Longrightarrow> token_spent t db' = token_spent t db"
  by (simp add: token_spent_def)

lemma token_spent_ops:
  assumes "token_spent t db"
  shows "PostgresSessionStore_ExchangeCodeForToken f u now code db = (r1, db') \<Longrightarrow> u 0 \<noteq> t \<Longrightarrow> token_spent t db'"
    and "PostgresSessionStore_ConsumeByToken f now t' cid db = (r2, db') \<Longrightarrow> token_spent t db'"
    and "PostgresSessionStore_Create f u now did vu idx db = (r3, db') \<Longrightarrow> token_spent t db'"
    and "token_spent t (PostgresSessionStore_RevokeByDepositID f did db)"
  using assms
  by (auto simp: token_spent_def set_update_where PostgresSessionStore_ExchangeCodeForToken_def
      PostgresSessionStore_ConsumeByToken_def PostgresSessionStore_Create_def
      PostgresSessionStore_RevokeByDepositID_def Let_def split: option.splits if_splits)

lemma token_spent_action:
  assumes "handle_action s env bad plan revokes mail did db = (r, es, db')" "token_spent t db"
  shows "token_spent t db'"
  using assms(1)
proof (cases rule: handle_action_cases)
  case (committed cur st e p d' db1)
  then show ?thesis
    using token_spent_cong [OF UpdateState_sessions [OF committed(4)]] assms(2) token_spent_ops(4) by auto
qed (use assms(2) in simp)

lemma token_spent_create:
  "CreateDeposit env b db = (r, es, db') \<Longrightarrow> token_spent t db \<Longrightarrow> token_spent t db'"
  by (erule CreateDeposit_cases) (auto simp: inserted_def token_spent_def)

lemma token_spent_issuer:
  assumes "token_spent t db"
  shows "IssueCredential s ie vu did db = (r1, db') \<Longrightarrow> token_spent t db'"
    and "Token ie form db = (r2, db') \<Longrightarrow> ie_uuid ie 0 \<noteq> t \<Longrightarrow> token_spent t db'"
    and "Credential_endpoint s L ie auth body db = (r3, db') \<Longrightarrow> token_spent t db'"
proof -
  have alloc: "token_spent t db1" if "PostgresIndexAllocator_AllocateIndex f db = (r, db1)" for f r db1
    using token_spent_cong [OF Allocate_frame(2) [OF that]] assms by simp
  show "token_spent t db'" if "IssueCredential s ie vu did db = (r1, db')"
    using that alloc assms
    by (auto simp: IssueCredential_def split: sum.splits prod.splits if_splits dest: alloc token_spent_ops(3) [OF alloc])
  show "token_spent t db'" if "Token ie form db = (r2, db')" "ie_uuid ie 0 \<noteq> t"
    using that assms by (auto simp: Token_def split: option.splits prod.splits if_splits dest: token_spent_ops(1))
  show "token_spent t db'" if "Credential_endpoint s L ie auth body db = (r3, db')"
    using that assms
    by (auto simp: Credential_endpoint_def Let_def split: option.splits sum.splits prod.splits if_splits dest: token_spent_ops(2))
qed

lemma token_spent_vp:
  assumes "ReceiveVpResponse s V env ve body did db vps = ((r, es, db'), vps')" "token_spent t db"
  shows "token_spent t db'"
proof (cases "vp_check ve vps body")
  case (Inl r)
  with assms show ?thesis by (simp add: ReceiveVpResponse_def)
next
  case (Inr sess)
  obtain r2 es2 db2 where h: "handle_action s env None (vp_plan V ve sess (the body) did) False no_mail did db =
      (r2, es2, db2)" by (metis prod_cases3)
  with ReceiveVpResponse_db [OF Inr, of s V env did db] assms(1) have "db' = db2" by simp
  then show ?thesis using token_spent_action [OF h assms(2)] by simp
qed

lemma serve_token_spent:
  assumes "serve c x req w = (r, es, w')" "token_spent t (world_db w)" "ie_uuid (srv_issuer x) 0 \<noteq> t"
  shows "token_spent t (world_db w')"
  using assms
  by (cases req)
    (auto simp: with_db_def lifecycle_handlers split: prod.splits
      dest: token_spent_action token_spent_create token_spent_issuer token_spent_vp)

fun run_requests :: "Config \<Rightarrow> (Services \<times> request) list \<Rightarrow> World \<Rightarrow> World" where
  "run_requests c [] w = w"
| "run_requests c ((x, req) # rest) w = run_requests c rest (snd (snd (serve c x req w)))"

lemma run_token_spent:
  "token_spent t (world_db w) \<Longrightarrow> list_all (\<lambda>(x, req). ie_uuid (srv_issuer x) 0 \<noteq> t) reqs \<Longrightarrow>
     token_spent t (world_db (run_requests c reqs w))"
proof (induction reqs arbitrary: w)
  case (Cons xr reqs)
  obtain x req where xr: "xr = (x, req)" by fastforce
  obtain r es w' where s: "serve c x req w = (r, es, w')" by (metis prod_cases3)
  have "token_spent t (world_db w')" using serve_token_spent [OF s Cons.prems(1)] Cons.prems(2) by (simp add: xr)
  with Cons.IH [of w'] Cons.prems(2) show ?case by (simp add: xr s)
qed simp

text \<open>The bearer token of an \<open>Authorization\<close> header.\<close>

abbreviation bearer :: "string \<Rightarrow> string" where
  "bearer auth \<equiv> TrimPrefix auth ''Bearer ''"

lemma Credential_endpoint_200:
  assumes "Credential_endpoint s L ie auth body db = (Respond 200 b, db')"
  obtains sess d sdJWT cid y where "HasPrefix auth ''Bearer ''"
    "PostgresSessionStore_GetByToken (ie_sess ie) db (bearer auth) = Some sess"
    "PostgresRepo_GetByID (ie_get ie) (Session_DepositID sess) db = Inr d"
    "BuildSDJWT L (ie_salt ie) (ie_uuid ie 0) (ie_now ie) (Server_issuerURL s) d
       (Session_ValidUntil sess) (Session_StatusListIndex sess) = Some (sdJWT, cid)"
    "PostgresSessionStore_ConsumeByToken (ie_consume ie) (ie_now2 ie) (bearer auth) cid db = (Some y, db')"
    "b = JSON_Value (JObj [(''credential'', JStr sdJWT)])"
  using assms that
  by (auto simp: Credential_endpoint_def Let_def response_defs
      split: if_splits option.splits sum.splits prod.splits)

lemma consume_spent: "token_spent t db \<Longrightarrow> fst (PostgresSessionStore_ConsumeByToken f now t cid db) = None"
  by (auto simp: PostgresSessionStore_ConsumeByToken_def token_spent_def split: option.splits dest!: row_where_SomeD)

lemma consume_spends_token:
  assumes "sessions_inv db" "PostgresSessionStore_ConsumeByToken f now t cid db = (Some y, db')"
  shows "token_spent t db'"
proof -
  have y: "pg_tok db' t = Some y" "Session_State y \<noteq> SessionStatePending"
    using pg_consume_law(1,3) [OF assms] by auto
  have "SessionRow_state r = Session_State y" if "r \<in> set (issuance_sessions db')" "SessionRow_access_token r = Some t" for r
    using pg_tokD [OF pg_consume_inv [OF assms], of t "session_of_row r"] that y(1)
      session_of_row_simps(1) [of r] by (metis option.inject)
  then show ?thesis using y(2) by (auto simp: token_spent_def)
qed

section \<open>A request touches one deposit\<close>

fun request_deposit :: "request \<Rightarrow> string option" where
  "request_deposit (ReqIdentity b i) = Some i"
| "request_deposit (ReqPledge b i) = Some i"
| "request_deposit (ReqRelease i) = Some i"
| "request_deposit (ReqClaim b i) = Some i"
| "request_deposit (ReqSettle b i) = Some i"
| "request_deposit (ReqSettleAccept b i) = Some i"
| "request_deposit (ReqDispute b i) = Some i"
| "request_deposit (ReqDisputeResolve b i) = Some i"
| "request_deposit (ReqPartialRelease b i) = Some i"
| "request_deposit (ReqUtilitySettle b i) = Some i"
| "request_deposit (ReqVpResponse b i) = Some i"
| "request_deposit _ = None"

lemmas lifecycle_frame =
  identity.action_frame pledge.action_frame release.action_frame claim.action_frame settle.action_frame
  accept.action_frame dispute.action_frame resolve.action_frame partial.action_frame utility.action_frame

lemma ReceiveVpResponse_frame:
  assumes "server_inv db" "ReceiveVpResponse s V env ve body did db vps = ((r, es, db'), vps')" "k \<noteq> did"
  shows "repo_view db' k = repo_view db k"
proof (cases "vp_check ve vps body")
  case (Inl r)
  with assms show ?thesis by (simp add: ReceiveVpResponse_def)
next
  case (Inr sess)
  obtain r2 es2 db2 where h: "handle_action s env None (vp_plan V ve sess (the body) did) False no_mail did db =
      (r2, es2, db2)" by (metis prod_cases3)
  with ReceiveVpResponse_db [OF Inr, of s V env did db] assms(2) have "db' = db2" by simp
  then show ?thesis using wallet.action_frame [OF assms(1) h assms(3)] by simp
qed

lemma serve_frame:
  assumes "world_inv w" "serve c x req w = (r, es, w')" "request_deposit req = Some did" "k \<noteq> did"
  shows "stored w' k = stored w k"
proof -
  have inv: "server_inv (world_db w)" using assms(1) by (simp add: world_inv_def)
  show ?thesis
    using assms(2-4)
    by (cases req)
      (auto simp: with_db_def lifecycle_handlers split: prod.splits
        dest: lifecycle_frame [OF inv] ReceiveVpResponse_frame [OF inv])
qed

section \<open>Presentation sessions stay used\<close>

lemma serve_vp_gone:
  assumes "serve c x req w = (r, es, w')" "world_vp w sid = None" "ve_uuid (srv_vp x) 0 \<noteq> sid"
  shows "world_vp w' sid = None"
proof -
  have create: "vps' sid = None" if "CreateVpRequest s L env (srv_vp x) did db (world_vp w) = (r', vps')"
    for s L env did db r' vps'
    using that assms(2,3) by (auto simp: CreateVpRequest_def VpStore_Create_def Let_def split: sum.splits option.splits)
  have respond: "vps' sid = None" if "ReceiveVpResponse s V env ve b did db (world_vp w) = (res, vps')"
    for s V env ve b did db res vps'
    using that assms(2) by (auto simp: ReceiveVpResponse_def VpStore_Delete_def split: sum.splits prod.splits)
  show ?thesis
    using assms(1,2) by (cases req) (auto simp: with_db_def split: prod.splits dest: create respond)
qed

lemma run_vp_gone:
  "world_vp w sid = None \<Longrightarrow> list_all (\<lambda>(x, req). ve_uuid (srv_vp x) 0 \<noteq> sid) reqs \<Longrightarrow>
     world_vp (run_requests c reqs w) sid = None"
proof (induction reqs arbitrary: w)
  case (Cons xr reqs)
  obtain x req where xr: "xr = (x, req)" by fastforce
  obtain r es w' where s: "serve c x req w = (r, es, w')" by (metis prod_cases3)
  have "world_vp w' sid = None" using serve_vp_gone [OF s Cons.prems(1)] Cons.prems(2) by (simp add: xr)
  with Cons.IH [of w'] Cons.prems(2) show ?case by (simp add: xr s)
qed simp

lemma ReceiveVpResponse_gone:
  assumes "body = Some vb" "VpResponseBody_VpToken vb \<noteq> []" "VpResponseBody_State vb \<noteq> []"
    and "vps (VpResponseBody_State vb) = None"
  shows "ReceiveVpResponse s V env ve body did db vps =
    ((writeError 404 ''vp session not found or already consumed'' ''NOT_FOUND'', [], db), vps)"
  using assms by (simp add: ReceiveVpResponse_def vp_check_def VpStore_GetByID_def)

lemma vp_check_Inr:
  "vp_check ve vps body = Inr sess \<Longrightarrow> \<exists>vb. body = Some vb \<and> VpResponseBody_VpToken vb \<noteq> [] \<and>
     VpResponseBody_State vb \<noteq> [] \<and> vps (VpResponseBody_State vb) = Some sess \<and> \<not> After (ve_now ve) (VpSession_ExpiresAt sess)"
  by (auto simp: vp_check_def VpStore_GetByID_def split: option.splits if_splits)

lemma reachable_server_inv: "reachable c w \<Longrightarrow> server_inv (world_db w)"
  using reachable_inv by (simp add: world_inv_def)

end
