(* ===== verification/Concurrency.thy ===== *)
theory Concurrency
  imports Api
begin

text \<open>
  Requests served at the same time. A handler reads the deposit with \<open>GetByID\<close> and
  writes it with \<open>UpdateState\<close>, two database calls between which other requests may
  commit; \<open>UpdateState\<close> locks the row and applies the mutation to the deposit it
  then finds. The step relation \<open>interleave\<close> has a step for each of the two calls:
  the state is the database and the updates in flight.

  What survives every interleaving is proved here (well-formed rows, histories
  that only grow, no nil dereference in a mutation); what does not, the transition
  table, is shown by a concrete run in the root theory.
\<close>

section \<open>Mutations keep what other mutations need\<close>

definition keeps_parts :: "Deposit \<Rightarrow> Deposit \<Rightarrow> bool" where
  "keeps_parts d d' \<longleftrightarrow> (Deposit_Settlement d \<noteq> None \<longrightarrow> Deposit_Settlement d' \<noteq> None)
     \<and> (Deposit_UtilityReservation d \<noteq> None \<longrightarrow> Deposit_UtilityReservation d' \<noteq> None)"

lemma keeps_parts_refl [simp]: "keeps_parts d d"
  by (simp add: keeps_parts_def)

text \<open>An update in flight for the deposit \<open>did\<close>.\<close>

type_synonym flight = "string \<times> update"

definition flight_ok :: "Database \<Rightarrow> flight \<Rightarrow> bool" where
  "flight_ok db fl \<longleftrightarrow> (case fl of (did, st, e, p) \<Rightarrow>
     patch_ok p \<and> st \<in> set known_states \<and> HistoryEntry_State e = st \<and>
     (\<forall>d0 d1. p d0 = Some d1 \<longrightarrow> keeps_parts d0 d1) \<and>
     (\<forall>d0 d1. p d0 \<noteq> None \<longrightarrow> keeps_parts d0 d1 \<longrightarrow> p d1 \<noteq> None) \<and>
     (\<exists>d. repo_view db did = Some d \<and> p d \<noteq> None))"

locale concurrent_action = lifecycle_action +
  assumes patch_keeps: "plan d = Inr (st, e, p) \<Longrightarrow> p d0 = Some d1 \<Longrightarrow> keeps_parts d0 d1"
    and patch_robust: "plan d = Inr (st, e, p) \<Longrightarrow> p d0 \<noteq> None \<Longrightarrow> keeps_parts d0 d1 \<Longrightarrow> p d1 \<noteq> None"
    and patch_defined: "plan d = Inr (st, e, p) \<Longrightarrow> p d \<noteq> None"
begin

lemma plan_flight_ok:
  assumes "repo_view db did = Some d" "plan d = Inr (st, e, p)"
  shows "flight_ok db (did, st, e, p)"
  unfolding flight_ok_def prod.case
  using assms plan_patch [OF assms(2)] plan_step [OF assms(2)] legal_step_known [of "lifecycle d" st]
    patch_keeps [OF assms(2)] patch_robust [OF assms(2)] patch_defined [OF assms(2)] by blast

end

text \<open>A mutation that always succeeds and keeps both parts.\<close>

definition total_patch :: "patch \<Rightarrow> bool" where
  "total_patch p \<longleftrightarrow> (\<forall>d. \<exists>d'. p d = Some d' \<and> keeps_parts d d')"

lemma total_patches [simp]:
  "total_patch no_patch" "total_patch (Pledge_patch pr)" "total_patch (UpdateIdentity_patch ir)"
  "total_patch (set_settlement sn)" "total_patch (Dispute_patch dr)" "total_patch (DisputeResolve_patch rr)"
  "total_patch (PartialRelease_patch rq)" "total_patch (wallet_patch cl t)"
  by (simp_all add: total_patch_def keeps_parts_def no_patch_def Pledge_patch_def UpdateIdentity_patch_def
      set_settlement_def Dispute_patch_def DisputeResolve_patch_def PartialRelease_patch_def wallet_patch_def)

lemma total_patch_action:
  assumes "lifecycle_action bad plan" "\<And>d st e p. plan d = Inr (st, e, p) \<Longrightarrow> total_patch p"
  shows "concurrent_action bad plan"
proof -
  have "concurrent_action_axioms plan"
  proof
    fix d st e p d0 d1
    assume "plan d = Inr (st, e, p)"
    from assms(2) [OF this] have t: "\<exists>d'. p x = Some d' \<and> keeps_parts x d'" for x by (simp add: total_patch_def)
    show "p d0 = Some d1 \<Longrightarrow> keeps_parts d0 d1" using t [of d0] by auto
    show "p d1 \<noteq> None" "p d \<noteq> None" using t [of d1] t [of d] by auto
  qed
  with assms(1) show ?thesis by (simp add: concurrent_action_def)
qed

lemma guarded_patch:
  "guard_transition a b (Inr (st', e', p')) = Inr (st, e, p) \<Longrightarrow> p = p'"
  by (simp add: guard_transition_Inr)

interpretation ci: concurrent_action "UpdateIdentity_check body" "UpdateIdentity_plan (the body)" for body
  by (rule total_patch_action [OF identity.lifecycle_action_axioms])
    (auto simp: UpdateIdentity_plan_def split: prod.splits if_splits dest: guarded_patch)

interpretation cp: concurrent_action "Pledge_check body" "Pledge_plan (the body)" for body
  by (rule total_patch_action [OF pledge.lifecycle_action_axioms]) (auto simp: Pledge_plan_def dest: guarded_patch)

interpretation cr: concurrent_action None Release_plan
  by (rule total_patch_action [OF release.lifecycle_action_axioms]) (auto simp: Release_plan_def dest: guarded_patch)

interpretation cc: concurrent_action "Claim_check body" "Claim_plan (the body)" for body
  by (rule total_patch_action [OF claim.lifecycle_action_axioms]) (auto simp: Claim_plan_def dest: guarded_patch)

interpretation cs: concurrent_action "Settle_check body" "Settle_plan now (the body)" for body now
  by (rule total_patch_action [OF settle.lifecycle_action_axioms]) (auto elim: Settle_plan_Inr)

interpretation cd: concurrent_action "Dispute_check body" "Dispute_plan (the body)" for body
  by (rule total_patch_action [OF dispute.lifecycle_action_axioms]) (auto simp: Dispute_plan_def dest: guarded_patch)

interpretation cv: concurrent_action "DisputeResolve_check body" "DisputeResolve_plan (the body)" for body
  by (rule total_patch_action [OF resolve.lifecycle_action_axioms]) (auto simp: DisputeResolve_plan_def dest: guarded_patch)

interpretation cq: concurrent_action "PartialRelease_check body" "PartialRelease_plan (the body)" for body
  by (rule total_patch_action [OF partial.lifecycle_action_axioms]) (auto simp: PartialRelease_plan_def dest: guarded_patch)

interpretation cw: concurrent_action None "vp_plan V ve sess body did" for V ve sess body did
  by (rule total_patch_action [OF wallet.lifecycle_action_axioms]) (auto simp: vp_plan_def split: sum.splits)

interpretation ca: concurrent_action "SettleAccept_check body" "SettleAccept_plan (the body)" for body
proof
  fix d st e p d0 d1
  assume *: "SettleAccept_plan (the body) d = Inr (st, e, p)"
  show "p d0 = Some d1 \<Longrightarrow> keeps_parts d0 d1"
    by (auto simp: SettleAccept_plan_Inr(3) [OF *] SettleAccept_patch_def keeps_parts_def split: option.splits)
  show "p d0 \<noteq> None \<Longrightarrow> keeps_parts d0 d1 \<Longrightarrow> p d1 \<noteq> None"
    by (auto simp: SettleAccept_plan_Inr(3) [OF *] SettleAccept_patch_def keeps_parts_def split: option.splits)
  show "p d \<noteq> None"
    using SettleAccept_plan_Inr(3,5) [OF *] by (auto simp: SettleAccept_patch_def)
qed

interpretation cu: concurrent_action "UtilitySettle_check body" "UtilitySettle_plan now (the body)" for body now
proof
  fix d st e p d0 d1
  assume "UtilitySettle_plan now (the body) d = Inr (st, e, p)"
  then obtain sn ur where p: "p = UtilitySettle_patch now (the body) sn" and ur: "Deposit_UtilityReservation d = Some ur"
    by (auto elim!: UtilitySettle_plan_Inr)
  show "p d0 = Some d1 \<Longrightarrow> keeps_parts d0 d1"
    by (auto simp: p UtilitySettle_patch_def keeps_parts_def split: option.splits)
  show "p d0 \<noteq> None \<Longrightarrow> keeps_parts d0 d1 \<Longrightarrow> p d1 \<noteq> None"
    by (auto simp: p UtilitySettle_patch_def keeps_parts_def split: option.splits)
  show "p d \<noteq> None" by (simp add: p UtilitySettle_patch_def ur)
qed

section \<open>Interleaved requests\<close>

text \<open>The plans of the requests, at the clock readings of the handlers.\<close>

fun request_plan :: "Env \<Rightarrow> request \<Rightarrow> (response option \<times> (Deposit \<Rightarrow> response + update) \<times> string) option" where
  "request_plan env (ReqIdentity b i) = Some (UpdateIdentity_check b, UpdateIdentity_plan (the b), i)"
| "request_plan env (ReqPledge b i) = Some (Pledge_check b, Pledge_plan (the b), i)"
| "request_plan env (ReqRelease i) = Some (None, Release_plan, i)"
| "request_plan env (ReqClaim b i) = Some (Claim_check b, Claim_plan (the b), i)"
| "request_plan env (ReqSettle b i) = Some (Settle_check b, Settle_plan (env_now env) (the b), i)"
| "request_plan env (ReqSettleAccept b i) = Some (SettleAccept_check b, SettleAccept_plan (the b), i)"
| "request_plan env (ReqDispute b i) = Some (Dispute_check b, Dispute_plan (the b), i)"
| "request_plan env (ReqDisputeResolve b i) = Some (DisputeResolve_check b, DisputeResolve_plan (the b), i)"
| "request_plan env (ReqPartialRelease b i) = Some (PartialRelease_check b, PartialRelease_plan (the b), i)"
| "request_plan env (ReqUtilitySettle b i) = Some (UtilitySettle_check b, UtilitySettle_plan (env_now env) (the b), i)"
| "request_plan env _ = None"

lemma request_plan_flight_ok:
  assumes "request_plan env req = Some (None, plan, did)" "repo_view db did = Some d" "plan d = Inr (st, e, p)"
  shows "flight_ok db (did, st, e, p)"
  using assms
  by (cases req)
    (auto intro: ci.plan_flight_ok cp.plan_flight_ok cr.plan_flight_ok cc.plan_flight_ok cs.plan_flight_ok
      ca.plan_flight_ok cd.plan_flight_ok cv.plan_flight_ok cq.plan_flight_ok cu.plan_flight_ok)

inductive interleave :: "Database \<times> flight list \<Rightarrow> Database \<times> flight list \<Rightarrow> bool" where
  begin_request: "request_plan env req = Some (None, plan, did) \<Longrightarrow> PostgresRepo_GetByID f did db = Inr d \<Longrightarrow>
     plan d = Inr u \<Longrightarrow> interleave (db, fls) (db, fls @ [(did, u)])"
| begin_wallet: "PostgresRepo_GetByID f did db = Inr d \<Longrightarrow> vp_plan V ve sess body did d = Inr u \<Longrightarrow>
     interleave (db, fls) (db, fls @ [(did, u)])"
| commit: "PostgresRepo_UpdateState f now did st e p db = (res, db') \<Longrightarrow>
     interleave (db, fls @ (did, st, e, p) # fls') (db', fls @ fls')"

definition interleave_inv :: "Database \<times> flight list \<Rightarrow> bool" where
  "interleave_inv s \<longleftrightarrow> repo_inv (fst s) \<and> (\<forall>fl \<in> set (snd s). flight_ok (fst s) fl)"

lemma commit_outcome:
  assumes "repo_inv db" "flight_ok db (did, st, e, p)"
    and "PostgresRepo_UpdateState f now did st e p db = (res, db')"
  shows "res \<noteq> Inl ErrPanic"
    and "db' = db \<or> (\<exists>d d1. repo_view db did = Some d \<and> p d = Some d1 \<and> repo_inv db' \<and>
      repo_view db' = (repo_view db)(did \<mapsto> enter_state now st e d1) \<and> keeps_parts d d1 \<and> history d1 = history d)"
proof -
  obtain d where d: "repo_view db did = Some d" "p d \<noteq> None" using assms(2) by (auto simp: flight_ok_def)
  then obtain r where "deposit_row db did = Some r" "dec_Deposit (DepositRow_data r) = Some d"
    using repo_view_Some_row by blast
  with d(2) assms(3) show "res \<noteq> Inl ErrPanic"
    by (auto simp: PostgresRepo_UpdateState_def Let_def split: if_splits option.splits)
  show "db' = db \<or> (\<exists>d d1. repo_view db did = Some d \<and> p d = Some d1 \<and> repo_inv db' \<and>
      repo_view db' = (repo_view db)(did \<mapsto> enter_state now st e d1) \<and> keeps_parts d d1 \<and> history d1 = history d)"
  proof (cases res)
    case (Inl err)
    then show ?thesis using pg.update_Inl assms(3) by blast
  next
    case (Inr d')
    note u = assms(3) [unfolded Inr]
    have ok: "patch_ok p" "state_wf st" "state_wf (HistoryEntry_State e)"
      using assms(2) by (auto simp: flight_ok_def known_state_wf)
    obtain d1 where d1: "p d = Some d1" "d' = enter_state now st e d1"
      using pg.update_Inr [OF assms(1) u] d(1) by auto
    have "keeps_parts d d1" using assms(2) d1(1) by (auto simp: flight_ok_def)
    moreover have "history d1 = history d"
      using ok(1) d1(1) pg.view_wf [OF assms(1) d(1)] by (simp add: patch_ok_def)
    ultimately show ?thesis using pg.update_view [OF assms(1) u ok] d(1) d1 by blast
  qed
qed

lemma flight_ok_step:
  assumes "flight_ok db fl" "repo_view db did = Some d" "keeps_parts d d'"
    and "repo_view db' = (repo_view db)(did \<mapsto> d')"
  shows "flight_ok db' fl"
proof -
  obtain k st e p where fl: "fl = (k, st, e, p)" by (metis prod_cases4)
  show ?thesis
    using assms unfolding fl flight_ok_def prod.case
    by (cases "k = did") (auto simp del: not_None_eq)
qed

lemma interleave_preserves:
  assumes "interleave s s'" "interleave_inv s"
  shows "interleave_inv s'"
  using assms
proof (cases rule: interleave.cases)
  case (begin_request env req plan did f db d u fls)
  have "repo_view db did = Some d" using begin_request(4) assms(2) begin_request(1) by (auto simp: interleave_inv_def dest: pg.get_Inr)
  with begin_request assms(2) request_plan_flight_ok show ?thesis
    by (cases u) (auto simp: interleave_inv_def)
next
  case (begin_wallet f did db d V ve sess body u fls)
  have "repo_view db did = Some d" using begin_wallet assms(2) by (auto simp: interleave_inv_def dest: pg.get_Inr)
  with begin_wallet assms(2) cw.plan_flight_ok show ?thesis
    by (cases u) (auto simp: interleave_inv_def)
next
  case (commit f now did st e p db res db' fls fls')
  have inv: "repo_inv db" "flight_ok db (did, st, e, p)" "\<forall>fl \<in> set (fls @ fls'). flight_ok db fl"
    using assms(2) commit(1) by (auto simp: interleave_inv_def)
  from commit_outcome(2) [OF inv(1,2) commit(3)]
  consider "db' = db" | d d1 where "repo_view db did = Some d" "repo_inv db'" "keeps_parts d d1"
    "repo_view db' = (repo_view db)(did \<mapsto> enter_state now st e d1)" by blast
  then show ?thesis
  proof cases
    case 1
    with inv commit(2) show ?thesis by (simp add: interleave_inv_def)
  next
    case (2 d d1)
    have "keeps_parts d (enter_state now st e d1)" using 2(3) by (simp add: keeps_parts_def)
    with 2 inv commit(2) flight_ok_step show ?thesis by (simp add: interleave_inv_def) blast
  qed
qed

section \<open>Runs of interleaved requests\<close>

lemma interleave_run_inv: "interleave\<^sup>*\<^sup>* s s' \<Longrightarrow> interleave_inv s \<Longrightarrow> interleave_inv s'"
  by (induction rule: rtranclp_induct) (auto intro: interleave_preserves)

lemma interleave_history:
  assumes "interleave s s'" "interleave_inv s" "repo_view (fst s) k = Some d"
  shows "\<exists>d' es. repo_view (fst s') k = Some d' \<and> history d' = history d @ es"
  using assms(1)
proof (cases rule: interleave.cases)
  case (commit f now did st e p db res db' fls fls')
  have inv: "repo_inv db" "flight_ok db (did, st, e, p)" using assms(2) commit(1) by (auto simp: interleave_inv_def)
  from commit_outcome(2) [OF inv commit(3)] show ?thesis using assms(3) commit(1,2) by (cases "k = did") auto
qed (use assms(3) in auto)

lemma interleave_run_history:
  assumes "interleave\<^sup>*\<^sup>* s s'" "interleave_inv s" "repo_view (fst s) k = Some d"
  shows "\<exists>d' es. repo_view (fst s') k = Some d' \<and> history d' = history d @ es"
  using assms(1)
proof (induction rule: rtranclp_induct)
  case base
  show ?case using assms(3) by simp
next
  case (step s1 s2)
  then obtain d1 es where d1: "repo_view (fst s1) k = Some d1" "history d1 = history d @ es" by blast
  from interleave_history [OF step(2) interleave_run_inv [OF step(1) assms(2)] d1(1)] d1(2) show ?case by auto
qed

lemma interleave_inv_start: "repo_inv db \<Longrightarrow> interleave_inv (db, [])"
  by (simp add: interleave_inv_def)

end
