(* ===== verification/Mailer.thy ===== *)
theory Mailer
  imports Api
begin

text \<open>
  The mails to the tenant (\<open>server/internal/mailer\<close>): the interface \<open>Mailer\<close> with its two implementations, the
  messages of \<open>smtp.go\<close> and the two body templates. A message is what is handed to the mail library; whether
  its dialer delivers it is the argument \<open>dial\<close>. The templates are translated action by action;
  \<open>TrimLeft\<close> is the effect of a closing \<open>-}}\<close> on the text after it, which also removes the blank
  line there.

  The locale \<open>mail_service\<close> is the contract of a mailer's methods; \<open>pledge_messages\<close> and \<open>release_sends\<close> say which
  requests lead to a message.
\<close>

section \<open>Messages\<close>

record Message =
  Message_From :: string
  Message_To :: string
  Message_Subject :: string
  Message_ContentType :: string
  Message_Body :: string
  Message_Attachment :: "string \<times> byte list"

record SMTPMailer =
  SMTPMailer_host :: string
  SMTPMailer_port :: int
  SMTPMailer_username :: string
  SMTPMailer_password :: string
  SMTPMailer_from :: string

datatype Mailer = NoOp | SMTP SMTPMailer

section \<open>The bodies\<close>

definition newline :: string where
  "newline = [CHR 0x0A]"

text \<open>\<open>-}}\<close>: spaces, tabs, carriage returns and newlines at the beginning of the next text are removed.\<close>

definition TrimLeft :: "string \<Rightarrow> string" where
  "TrimLeft s = dropWhile (\<lambda>c. c \<in> set [CHR 0x20, CHR 0x09, CHR 0x0D, CHR 0x0A]) s"

definition greeting :: "Deposit \<Rightarrow> string" where
  "greeting d = ''Dear '' @ Tenant_FirstName (Deposit_Tenant d) @ '' '' @ Tenant_LastName (Deposit_Tenant d) @ '',''"

definition place_of :: "Deposit \<Rightarrow> string" where
  "place_of d = (let a = Property_Address (Deposit_Property d)
              in Address_Street a @ '', '' @ Address_ZIP a @ '' '' @ Address_City a)"

definition amount_line :: "Deposit \<Rightarrow> string" where
  "amount_line d = ''Deposit amount:  '' @ fmt_2f (DepositData_Amount (Deposit_Deposit d)) @ '' ''
     @ DepositData_Currency (Deposit_Deposit d)"

definition renderBody :: "Deposit \<Rightarrow> string" where
  "renderBody d =
     greeting d @ newline @ newline
   @ ''Please find attached the receipt for your rental deposit at '' @ place_of d @ ''.'' @ newline @ newline
   @ amount_line d @ newline
   @ (case Deposit_Pledge d of
        None \<Rightarrow> []
      | Some p \<Rightarrow> TrimLeft (newline @ ''Pledge date:     '') @ Pledge_PledgeDate p @ newline
          @ ''Statutory basis: '' @ Pledge_StatutoryBasis p @ newline)
   @ TrimLeft (newline @ newline
       @ ''This receipt confirms that your deposit has been received and secured by your bank.'' @ newline)
   @ (case Tenant_WalletMetadata (Deposit_Tenant d) of
        Some wm \<Rightarrow> TrimLeft (newline
          @ ''Your EUDI Wallet has also received a Qualified Electronic Attestation of Attributes (QEAA) for this deposit.''
          @ newline)
      | None \<Rightarrow> TrimLeft (newline
          @ ''Once EUDI Wallet support is widely available, you will also receive a Qualified Electronic Attestation ''
          @ ''of Attributes (QEAA) as a tamper-evident digital credential.'' @ newline))
   @ TrimLeft (newline @ newline @ ''Best regards,'' @ newline @ ''XMiete'' @ newline)"

definition renderReleaseBody :: "Deposit \<Rightarrow> string" where
  "renderReleaseBody d =
     greeting d @ newline @ newline
   @ ''Your rental deposit for '' @ place_of d @ '' has been released by your landlord.'' @ newline @ newline
   @ amount_line d @ newline
   @ (case Deposit_Pledge d of
        None \<Rightarrow> []
      | Some p \<Rightarrow> TrimLeft (newline @ ''Originally pledged: '') @ Pledge_PledgeDate p @ newline)
   @ TrimLeft (newline @ newline
       @ ''Please find the release confirmation attached. The funds will be returned to you according to your bank''
       @ [CHR 0x27] @ ''s processing times.'' @ newline @ newline @ ''Best regards,'' @ newline @ ''XMiete'' @ newline)"

section \<open>Sending\<close>

definition street_city :: "Deposit \<Rightarrow> string" where
  "street_city d = (let a = Property_Address (Deposit_Property d) in Address_Street a @ '' '' @ Address_City a)"

definition receipt_message :: "SMTPMailer \<Rightarrow> Deposit \<Rightarrow> byte list \<Rightarrow> Message" where
  "receipt_message m d pdf = \<lparr>Message_From = SMTPMailer_from m, Message_To = Tenant_Email (Deposit_Tenant d),
     Message_Subject = ''Your rental deposit receipt '' @ em_dash @ '' '' @ street_city d,
     Message_ContentType = ''text/plain'', Message_Body = renderBody d,
     Message_Attachment = (''receipt-'' @ Deposit_ID d @ ''.pdf'', pdf)\<rparr>"

definition release_message :: "SMTPMailer \<Rightarrow> Deposit \<Rightarrow> byte list \<Rightarrow> Message" where
  "release_message m d pdf = \<lparr>Message_From = SMTPMailer_from m, Message_To = Tenant_Email (Deposit_Tenant d),
     Message_Subject = ''Your rental deposit has been released '' @ em_dash @ '' '' @ street_city d,
     Message_ContentType = ''text/plain'', Message_Body = renderReleaseBody d,
     Message_Attachment = (''release-receipt-'' @ Deposit_ID d @ ''.pdf'', pdf)\<rparr>"

text \<open>The error of a call and the messages given to the dialer; rendering a body cannot fail.\<close>

fun SendReceipt :: "(SMTPMailer \<Rightarrow> Message \<Rightarrow> string option) \<Rightarrow> Mailer \<Rightarrow> Deposit \<Rightarrow> byte list \<Rightarrow> string option \<times> Message list" where
  "SendReceipt dial NoOp d pdf = (None, [])"
| "SendReceipt dial (SMTP m) d pdf = (let msg = receipt_message m d pdf in (dial m msg, [msg]))"

fun SendReleaseReceipt ::
  "(SMTPMailer \<Rightarrow> Message \<Rightarrow> string option) \<Rightarrow> Mailer \<Rightarrow> Deposit \<Rightarrow> byte list \<Rightarrow> string option \<times> Message list" where
  "SendReleaseReceipt dial NoOp d pdf = (None, [])"
| "SendReleaseReceipt dial (SMTP m) d pdf = (let msg = release_message m d pdf in (dial m msg, [msg]))"

text \<open>The messages that the asynchronous effects of a request lead to\<close>

fun deliver :: "(SMTPMailer \<Rightarrow> Message \<Rightarrow> string option) \<Rightarrow> Mailer \<Rightarrow> effect \<Rightarrow> Message list" where
  "deliver dial m (MailReceipt d pdf) = snd (SendReceipt dial m d pdf)"
| "deliver dial m (MailReleaseReceipt d pdf) = snd (SendReleaseReceipt dial m d pdf)"
| "deliver dial m (Webhook url event) = []"

definition messages :: "(SMTPMailer \<Rightarrow> Message \<Rightarrow> string option) \<Rightarrow> Mailer \<Rightarrow> effect list \<Rightarrow> Message list" where
  "messages dial m es = concat (map (deliver dial m) es)"

section \<open>What is sent\<close>

lemma messages_append [simp]: "messages dial m (es @ es') = messages dial m es @ messages dial m es'"
  by (simp add: messages_def)

lemma messages_webhook [simp]: "messages dial m (fireWebhook s env d) = []"
  by (simp add: messages_def fireWebhook_def)

lemma messages_no_mail [simp]: "messages dial m (no_mail d) = []"
  by (simp add: messages_def no_mail_def)

lemma TrimLeft_nonspace: "s = [] \<or> hd s \<notin> set [CHR 0x20, CHR 0x09, CHR 0x0D, CHR 0x0A] \<Longrightarrow> TrimLeft s = s"
  by (cases s) (auto simp: TrimLeft_def)

text \<open>Both bodies without their markup\<close>

lemma renderReleaseBody_text:
  "renderReleaseBody d = greeting d @ newline @ newline
   @ ''Your rental deposit for '' @ place_of d @ '' has been released by your landlord.'' @ newline @ newline
   @ amount_line d @ newline
   @ (case Deposit_Pledge d of None \<Rightarrow> [] | Some p \<Rightarrow> ''Originally pledged: '' @ Pledge_PledgeDate p @ newline)
   @ ''Please find the release confirmation attached. The funds will be returned to you according to your bank''
   @ [CHR 0x27] @ ''s processing times.'' @ newline @ newline @ ''Best regards,'' @ newline @ ''XMiete'' @ newline"
  by (simp add: renderReleaseBody_def TrimLeft_def newline_def split: option.split)

lemma renderBody_text:
  "renderBody d = greeting d @ newline @ newline
   @ ''Please find attached the receipt for your rental deposit at '' @ place_of d @ ''.'' @ newline @ newline
   @ amount_line d @ newline
   @ (case Deposit_Pledge d of None \<Rightarrow> []
      | Some p \<Rightarrow> ''Pledge date:     '' @ Pledge_PledgeDate p @ newline
          @ ''Statutory basis: '' @ Pledge_StatutoryBasis p @ newline)
   @ ''This receipt confirms that your deposit has been received and secured by your bank.'' @ newline
   @ (if Tenant_WalletMetadata (Deposit_Tenant d) = None
      then ''Once EUDI Wallet support is widely available, you will also receive a Qualified Electronic Attestation ''
        @ ''of Attributes (QEAA) as a tamper-evident digital credential.''
      else ''Your EUDI Wallet has also received a Qualified Electronic Attestation of Attributes (QEAA) for this deposit.'')
   @ newline @ ''Best regards,'' @ newline @ ''XMiete'' @ newline"
  by (simp add: renderBody_def TrimLeft_def newline_def split: option.split)

section \<open>Which requests send mail\<close>

lemma action_messages:
  assumes "handle_action s env bad plan revokes mail did db = (r, es, db')" "msg \<in> set (messages dial m es)"
  obtains d' where "r = Respond 200 (JSON_Deposit d')" "msg \<in> set (messages dial m (mail d'))"
  using assms(1)
proof (cases rule: handle_action_cases)
  case rejected
  then show ?thesis using assms(2) by (simp add: messages_def)
next
  case (committed cur st e p d' db1)
  then show ?thesis using assms(2) that by simp
qed

lemma messages_Nil [simp]: "messages dial m [] = []"
  by (simp add: messages_def)

lemma no_mail_action:
  assumes "handle_action s env bad plan revokes no_mail did db = (r, es, db')"
  shows "messages dial m es = []"
proof (rule ccontr)
  assume "messages dial m es \<noteq> []"
  then have "hd (messages dial m es) \<in> set (messages dial m es)" by simp
  from action_messages [OF assms this] show False by simp
qed

text \<open>
  What each method of a mailer promises: a message goes to the tenant, has the document attached under a
  name with the deposit's id, and there is at most one. \<open>rendered\<close> is the use the server makes of it: a
  document that cannot be rendered is not sent.
\<close>

locale mail_service =
  fixes send :: "Deposit \<Rightarrow> byte list \<Rightarrow> Message list" and kind :: string
  assumes to_tenant: "msg \<in> set (send d pdf) \<Longrightarrow> Message_To msg = Tenant_Email (Deposit_Tenant d)"
    and attached: "msg \<in> set (send d pdf) \<Longrightarrow> Message_Attachment msg = (kind @ Deposit_ID d @ ''.pdf'', pdf)"
    and at_most_one: "length (send d pdf) \<le> 1"
begin

definition rendered :: "byte list option \<Rightarrow> Deposit \<Rightarrow> Message list" where
  "rendered doc d = (case doc of None \<Rightarrow> [] | Some pdf \<Rightarrow> send d pdf)"

lemma rendered_message:
  assumes "msg \<in> set (rendered doc d)"
  obtains pdf where "doc = Some pdf" "Message_To msg = Tenant_Email (Deposit_Tenant d)"
    "Message_Attachment msg = (kind @ Deposit_ID d @ ''.pdf'', pdf)"
  using assms to_tenant attached by (cases doc) (auto simp: rendered_def)

lemma rendered_at_most_one: "length (rendered doc d) \<le> 1"
  using at_most_one by (simp add: rendered_def split: option.split)

end

interpretation receipt_mail: mail_service "\<lambda>d pdf. snd (SendReceipt dial m d pdf)" "''receipt-''" for dial m
  by unfold_locales (cases m; simp add: receipt_message_def Let_def)+

interpretation release_mail: mail_service "\<lambda>d pdf. snd (SendReleaseReceipt dial m d pdf)" "''release-receipt-''" for dial m
  by unfold_locales (cases m; simp add: release_message_def Let_def)+

lemma receipt_messages:
  "messages dial m (sendReceiptEmail s env d) =
     receipt_mail.rendered dial m (Generate (Server_pdf s) (env_pdf_now env) (env_pdf_done env) d) d"
  by (simp add: messages_def sendReceiptEmail_def receipt_mail.rendered_def split: option.split)

lemma release_messages:
  "messages dial m (sendReleaseReceiptEmail s env d) =
     release_mail.rendered dial m (GenerateReleaseReceipt (Server_pdf s) (env_pdf_now env) (env_pdf_done env) d) d"
  by (simp add: messages_def sendReleaseReceiptEmail_def release_mail.rendered_def split: option.split)

lemma create_messages: "CreateDeposit env b db = (r, es, db') \<Longrightarrow> messages dial m es = []"
  by (auto simp: CreateDeposit_def split: option.splits sum.splits prod.splits)

lemma vp_messages: "ReceiveVpResponse s V env ve vb did db vps = ((r, es, db'), vps') \<Longrightarrow> messages dial m es = []"
  by (auto simp: ReceiveVpResponse_def split: option.splits sum.splits prod.splits)

lemma serve_messages:
  assumes "serve c x req w = (r, es, w')" "msg \<in> set (messages dial m es)"
  obtains (pledge) b did where "req = ReqPledge b did" | (release) did where "req = ReqRelease did"
proof (cases req)
  case (ReqCreate b)
  then show ?thesis using assms create_messages [where dial = dial and m = m] by (auto simp: with_db_def split: prod.splits)
next
  case (ReqVpResponse b did)
  then show ?thesis using assms vp_messages [where dial = dial and m = m] by (auto split: prod.splits)
qed (use assms pledge release no_mail_action [where dial = dial and m = m] in
      \<open>auto simp: with_db_def lifecycle_handlers split: prod.splits\<close>)

lemma stored_id: "server_inv db \<Longrightarrow> repo_view db did = Some d \<Longrightarrow> Deposit_ID d = did"
  by (auto simp: server_inv_def dest!: repo_view_Some_row elim: repo_inv_row)

text \<open>A pledge or release that sends mail has been carried out.\<close>

lemma Pledge_rejects:
  "Pledge_check b \<noteq> Some (Respond 200 (JSON_Deposit d))"
  "Pledge_plan req cur \<noteq> Inl (Respond 200 (JSON_Deposit d))"
  by (auto simp: Pledge_check_def Pledge_plan_def not_allowed_def response_defs split: option.splits
      dest!: guard_transition_Inl)

lemma pledge_messages:
  assumes "server_inv db" "Pledge_handler s env b did db = (r, es, db')" "msg \<in> set (messages dial m es)"
  obtains d where "r = Respond 200 (JSON_Deposit d)" "repo_view db' did = Some d" "lifecycle d = StatePledged"
    "msg \<in> set (messages dial m (sendReceiptEmail s env d))"
proof -
  have h: "handle_action s env (Pledge_check b) (Pledge_plan (the b)) False (sendReceiptEmail s env) did db = (r, es, db')"
    using assms(2) by (simp add: Pledge_handler_def)
  obtain d where d: "r = Respond 200 (JSON_Deposit d)" "msg \<in> set (messages dial m (sendReceiptEmail s env d))"
    by (rule action_messages [OF h assms(3)])
  from Pledge_rejects obtain cur st e p d1 where c: "Pledge_plan (the b) cur = Inr (st, e, p)"
    "d = enter_state (env_repo_now env) st e d1" "repo_view db' did = Some d"
    using pledge.action_committed [OF assms(1) h [unfolded d(1)]] by metis
  then have "lifecycle d = StatePledged" by (simp add: Pledge_plan_def guard_transition_Inr)
  with that d c show thesis by blast
qed

lemma release_sends:
  assumes "server_inv db" "Release s env did db = (r, es, db')" "msg \<in> set (messages dial m es)"
  obtains d where "r = Respond 200 (JSON_Deposit d)" "repo_view db' did = Some d" "lifecycle d = StateReleased"
    "msg \<in> set (messages dial m (sendReleaseReceiptEmail s env d))"
proof -
  have h: "handle_action s env None Release_plan True (sendReleaseReceiptEmail s env) did db = (r, es, db')"
    using assms(2) by (simp add: Release_def)
  obtain d where d: "r = Respond 200 (JSON_Deposit d)" "msg \<in> set (messages dial m (sendReleaseReceiptEmail s env d))"
    by (rule action_messages [OF h assms(3)])
  have "Release_plan cur \<noteq> Inl (Respond 200 (JSON_Deposit d))" for cur
    by (auto simp: Release_plan_def not_allowed_def response_defs dest!: guard_transition_Inl)
  then obtain cur st e p d1 where c: "Release_plan cur = Inr (st, e, p)"
    "d = enter_state (env_repo_now env) st e d1" "repo_view db' did = Some d"
    using release.action_committed [OF assms(1) h [unfolded d(1)]] by (metis option.distinct(1))
  then have "lifecycle d = StateReleased" by (simp add: Release_plan_def guard_transition_Inr)
  with that d c show thesis by blast
qed

end
