(* ===== verification/GoFmt.thy ===== *)
theory GoFmt
  imports GoFloat
begin

text \<open>
  The verbs of Go's \<open>fmt\<close> that the report texts use beyond \<open>%s\<close> and \<open>%.2f\<close>: \<open>%q\<close>
  (\<open>strconv.Quote\<close>) on UTF-8 strings, whose characters are bytes here, and \<open>%.2g\<close>. Which runes
  above ASCII are printable is a table of the Unicode version, the argument \<open>printable\<close> of
  \<open>Quote\<close>. \<open>Quote_ascii\<close>: on printable ASCII without quotes and backslashes, \<open>Quote\<close> only adds the
  quotes.
\<close>

section \<open>UTF-8\<close>

definition char_code :: "char \<Rightarrow> nat" where
  "char_code c = of_char c"

definition in_range :: "nat \<Rightarrow> nat \<Rightarrow> char \<Rightarrow> bool" where
  "in_range lo hi c \<longleftrightarrow> lo \<le> char_code c \<and> char_code c \<le> hi"

definition RuneError :: nat where
  "RuneError = 0xFFFD"

text \<open>
  \<open>utf8.DecodeRuneInString\<close> on a non-empty string: the rune and its width. An invalid encoding has
  width 1 and the rune \<open>RuneError\<close>.
\<close>

definition decode_rune :: "string \<Rightarrow> nat \<times> nat" where
  "decode_rune s = (case s of
     [] \<Rightarrow> (RuneError, 0)
   | c0 # s0 \<Rightarrow>
       if char_code c0 < 0x80 then (char_code c0, 1)
       else if in_range 0xC2 0xDF c0 then (case s0 of
           c1 # _ \<Rightarrow> if in_range 0x80 0xBF c1 then (char_code c0 mod 32 * 64 + char_code c1 mod 64, 2) else (RuneError, 1)
         | [] \<Rightarrow> (RuneError, 1))
       else if in_range 0xE0 0xEF c0 then (case s0 of
           c1 # c2 # _ \<Rightarrow>
             if in_range (if char_code c0 = 0xE0 then 0xA0 else 0x80) (if char_code c0 = 0xED then 0x9F else 0xBF) c1
                \<and> in_range 0x80 0xBF c2
             then (char_code c0 mod 16 * 4096 + char_code c1 mod 64 * 64 + char_code c2 mod 64, 3) else (RuneError, 1)
         | _ \<Rightarrow> (RuneError, 1))
       else if in_range 0xF0 0xF4 c0 then (case s0 of
           c1 # c2 # c3 # _ \<Rightarrow>
             if in_range (if char_code c0 = 0xF0 then 0x90 else 0x80) (if char_code c0 = 0xF4 then 0x8F else 0xBF) c1
                \<and> in_range 0x80 0xBF c2 \<and> in_range 0x80 0xBF c3
             then (char_code c0 mod 8 * 262144 + char_code c1 mod 64 * 4096 + char_code c2 mod 64 * 64 + char_code c3 mod 64, 4)
             else (RuneError, 1)
         | _ \<Rightarrow> (RuneError, 1))
       else (RuneError, 1))"

section \<open>Quoting\<close>

definition hex_digit :: "nat \<Rightarrow> char" where
  "hex_digit n = ''0123456789abcdef'' ! (n mod 16)"

text \<open>The last \<open>w\<close> hexadecimal digits of \<open>n\<close>.\<close>

fun hex_digits :: "nat \<Rightarrow> nat \<Rightarrow> string" where
  "hex_digits 0 n = []"
| "hex_digits (Suc w) n = hex_digits w (n div 16) @ [hex_digit n]"

definition is_print :: "(nat \<Rightarrow> bool) \<Rightarrow> nat \<Rightarrow> bool" where
  "is_print printable r = (if r < 0x80 then 0x20 \<le> r \<and> r < 0x7F else printable r)"

text \<open>\<open>appendEscapedRune\<close>; \<open>bytes\<close> is the encoding of the rune \<open>r\<close>.\<close>

definition escape_rune :: "(nat \<Rightarrow> bool) \<Rightarrow> nat \<Rightarrow> string \<Rightarrow> string" where
  "escape_rune printable r bytes =
     (if r = 0x22 \<or> r = 0x5C then CHR 0x5C # bytes
      else if is_print printable r then bytes
      else if r = 0x07 then [CHR 0x5C, CHR ''a'']
      else if r = 0x08 then [CHR 0x5C, CHR ''b'']
      else if r = 0x0C then [CHR 0x5C, CHR ''f'']
      else if r = 0x0A then [CHR 0x5C, CHR ''n'']
      else if r = 0x0D then [CHR 0x5C, CHR ''r'']
      else if r = 0x09 then [CHR 0x5C, CHR ''t'']
      else if r = 0x0B then [CHR 0x5C, CHR ''v'']
      else if r < 0x20 \<or> r = 0x7F then [CHR 0x5C, CHR ''x''] @ hex_digits 2 r
      else if r < 0x10000 then [CHR 0x5C, CHR ''u''] @ hex_digits 4 r
      else [CHR 0x5C, CHR ''U''] @ hex_digits 8 r)"

fun quote_body :: "(nat \<Rightarrow> bool) \<Rightarrow> string \<Rightarrow> string" where
  "quote_body printable [] = []"
| "quote_body printable (c # cs) =
     (case decode_rune (c # cs) of (r, width) \<Rightarrow>
        if width = 1 \<and> r = RuneError
        then [CHR 0x5C, CHR ''x''] @ hex_digits 2 (char_code c) @ quote_body printable cs
        else escape_rune printable r (take width (c # cs)) @ quote_body printable (drop (width - 1) cs))"

definition Quote :: "(nat \<Rightarrow> bool) \<Rightarrow> string \<Rightarrow> string" where
  "Quote printable s = [CHR 0x22] @ quote_body printable s @ [CHR 0x22]"

text \<open>
  \<open>fmt.Sprintf("%.2g", x)\<close> for a value from 1 to 10, the range of the months it is applied to: two
  significant digits, ties to even, without a trailing zero after the point.
\<close>

definition fmt_2g :: "float64 \<Rightarrow> string" where
  "fmt_2g x =
     (let n = rhe (f_val x * 10)
      in show_int (n div 10) @ (if n mod 10 = 0 then [] else ''.'' @ show_int (n mod 10)))"

section \<open>Plain text\<close>

definition plain_char :: "char \<Rightarrow> bool" where
  "plain_char c \<longleftrightarrow> 0x20 \<le> char_code c \<and> char_code c < 0x7F \<and> char_code c \<noteq> 0x22 \<and> char_code c \<noteq> 0x5C"

lemma quote_body_plain:
  "list_all plain_char s \<Longrightarrow> quote_body printable s = s"
  by (induction s) (auto simp: decode_rune_def plain_char_def escape_rune_def is_print_def RuneError_def)

lemma Quote_ascii: "list_all plain_char s \<Longrightarrow> Quote printable s = [CHR 0x22] @ s @ [CHR 0x22]"
  by (simp add: Quote_def quote_body_plain)

end
