(* ===== verification/Validator.thy ===== *)
theory Validator
  imports Server GoFmt
begin

text \<open>
  The conformance validator (\<open>server/internal/validator\<close>: \<open>report.go\<close>, \<open>rules.go\<close>,
  \<open>validator.go\<close>) and its endpoint (\<open>api/validate_handler.go\<close>). A report is built by appending
  findings to it; the checks are functions on the report. \<open>printable\<close> is the table of \<open>GoFmt\<close>.

  \<open>conforms\<close> is the specification: the conditions whose violation is an error, without the report.
  \<open>Validate_valid\<close> shows that the verdict of the report is that specification;
  \<open>cap_check_sound\<close> and \<open>cap_check_complete\<close> compare the floating point check of the statutory cap
  with the exact cap.
\<close>

section \<open>Reports (\<open>report.go\<close>)\<close>

datatype Severity = SeverityError | SeverityWarning | SeverityInfo

record Finding =
  Finding_Code :: string
  Finding_Severity :: Severity
  Finding_Field :: string
  Finding_Message :: string
  Finding_Rule :: string

record Report =
  Report_Valid :: bool
  Report_Jurisdiction :: string
  Report_SchemaVersion :: string
  Report_Findings :: "Finding list"
  Report_CheckedAt :: string

definition Report_add :: "Severity \<Rightarrow> string \<Rightarrow> string \<Rightarrow> string \<Rightarrow> string \<Rightarrow> Report \<Rightarrow> Report" where
  "Report_add sev code field message rule r = r\<lparr>Report_Findings := Report_Findings r @ [\<lparr>
     Finding_Code = code, Finding_Severity = sev, Finding_Field = field, Finding_Message = message,
     Finding_Rule = rule\<rparr>]\<rparr>"

definition Report_hasErrors :: "Report \<Rightarrow> bool" where
  "Report_hasErrors r = list_ex (\<lambda>f. Finding_Severity f = SeverityError) (Report_Findings r)"

section \<open>The statutory rules (\<open>rules.go\<close>)\<close>

record jurisdictionRule =
  jurisdictionRule_StatutoryBases :: "string list"
  jurisdictionRule_Currency :: string
  jurisdictionRule_MaxMonths :: float64
  jurisdictionRule_AllowedTypes :: "string list"
  jurisdictionRule_InterestRequired :: bool

definition primaryStatutoryRef :: "jurisdictionRule \<Rightarrow> string" where
  "primaryStatutoryRef r = (case jurisdictionRule_StatutoryBases r of [] \<Rightarrow> [] | b # _ \<Rightarrow> b)"

definition allowedTypesString :: "jurisdictionRule \<Rightarrow> string" where
  "allowedTypesString r = Join (jurisdictionRule_AllowedTypes r) '', ''"

text \<open>The section sign in UTF-8.\<close>

definition section_sign :: string where
  "section_sign = [CHR 0xC2, CHR 0xA7]"

text \<open>The fields the source leaves out of a table entry are zero.\<close>

definition mk_rule :: "string list \<Rightarrow> string \<Rightarrow> float64 \<Rightarrow> string list \<Rightarrow> bool \<Rightarrow> jurisdictionRule" where
  "mk_rule bases currency months types interest = \<lparr>jurisdictionRule_StatutoryBases = bases,
     jurisdictionRule_Currency = currency, jurisdictionRule_MaxMonths = months,
     jurisdictionRule_AllowedTypes = types, jurisdictionRule_InterestRequired = interest\<rparr>"

definition jurisdiction_table :: "(string \<times> jurisdictionRule) list" where
  "jurisdiction_table = [
     (''DE'', mk_rule [''BGB '' @ section_sign @ '' 551''] ''EUR'' (Fin 3)
        [''CASH_EQUIVALENT'', ''BANK_GUARANTEE'', ''SURETY''] False),
     (''CH'', mk_rule [''OR Art. 257e''] ''CHF'' (Fin 3) [] True),
     (''AT'', mk_rule [''MRG '' @ section_sign @ '' 16b'', ''ABGB '' @ section_sign @ '' 1346''] ''EUR'' (Fin 3) [] False),
     (''BE'', mk_rule [''Woninghuurwet'', ''Code civil belge''] ''EUR'' (Fin 2) [] False),
     (''NL'', mk_rule [''BW Art. 7:261''] ''EUR'' (Fin 2) [''CASH_EQUIVALENT''] False),
     (''NO'', mk_rule [''Husleieloven '' @ section_sign @ '' 3-5''] ''NOK'' (Fin 6) [] True),
     (''GB'', mk_rule [''Housing Act 2004'', ''Tenant Fees Act 2019''] ''GBP'' (rnd (115 / 100)) [] False),
     (''FR'', mk_rule [''Loi ALUR'', ''Loi 89-462''] ''EUR'' (Fin 1) [''CASH_EQUIVALENT'', ''SURETY''] False),
     (''ES'', mk_rule [''LAU Art. 36''] ''EUR'' (Fin 1) [] False)]"

definition jurisdictionRules :: "string \<rightharpoonup> jurisdictionRule" where
  "jurisdictionRules = map_of jurisdiction_table"

section \<open>The checks (\<open>validator.go\<close>)\<close>

text \<open>\<open>if b { r.add(...) }\<close>\<close>

definition add_if :: "bool \<Rightarrow> Severity \<Rightarrow> string \<Rightarrow> string \<Rightarrow> string \<Rightarrow> string \<Rightarrow> Report \<Rightarrow> Report" where
  "add_if b sev code field message rule r = (if b then Report_add sev code field message rule r else r)"

definition quotation :: string where
  "quotation = [CHR 0x22]"

definition checkRequired :: "Deposit \<Rightarrow> Report \<Rightarrow> Report" where
  "checkRequired d r0 =
     (let t = Deposit_Tenant d;
          r1 = add_if (Tenant_FirstName t = [] \<or> Tenant_LastName t = [] \<or> Tenant_Email t = []) SeverityError
                 ''MISSING_TENANT_FIELDS'' ''tenant''
                 ''tenant.first_name, tenant.last_name and tenant.email are required'' [] r0;
          r2 = add_if (Landlord_Name (Deposit_Landlord d) = []) SeverityError ''MISSING_LANDLORD_NAME'' ''landlord.name''
                 ''landlord.name is required'' [] r1;
          r3 = add_if (f_le (DepositData_Amount (Deposit_Deposit d)) f_zero) SeverityError ''INVALID_AMOUNT'' ''deposit.amount''
                 ''deposit.amount must be greater than zero'' [] r2;
          r4 = add_if (DepositData_Currency (Deposit_Deposit d) = []) SeverityError ''MISSING_CURRENCY'' ''deposit.currency''
                 ''deposit.currency is required (ISO 4217)'' [] r3;
          r5 = add_if (DepositData_Type (Deposit_Deposit d) = []) SeverityError ''MISSING_TYPE'' ''deposit.type''
                 ''deposit.type is required'' [] r4;
          r6 = add_if (Meta_Version (Deposit_Meta d) = []) SeverityWarning ''MISSING_VERSION'' ''meta.version''
                 (''meta.version should be set (e.g. '' @ quotation @ ''2.2.0'' @ quotation @ '')'') [] r5
      in add_if (Address_Country (Property_Address (Deposit_Property d)) = []) SeverityWarning
           ''MISSING_COUNTRY'' ''property.address.country''
           ''property.address.country is required for jurisdiction-specific validation'' [] r6)"

definition known_deposit_types :: "string list" where
  "known_deposit_types = [DepositTypeCash, DepositTypeBankGuarantee, DepositTypeInsurance, ''SURETY'']"

definition checkDepositType :: "(nat \<Rightarrow> bool) \<Rightarrow> Deposit \<Rightarrow> Report \<Rightarrow> Report" where
  "checkDepositType printable d r =
     (let ty = DepositData_Type (Deposit_Deposit d) in
      if ty = [] then r
      else add_if (ty \<notin> set known_deposit_types) SeverityError ''UNKNOWN_TYPE'' ''deposit.type''
             (''unknown deposit.type '' @ Quote printable ty @ '' '' @ em_dash
              @ '' must be CASH_EQUIVALENT, BANK_GUARANTEE, INSURANCE, or SURETY'') [] r)"

text \<open>The loops over the allowed types and over the statutory bases.\<close>

fun type_allowed :: "string \<Rightarrow> string list \<Rightarrow> bool" where
  "type_allowed ty [] = False"
| "type_allowed ty (t # ts) = (if ty = t then True else type_allowed ty ts)"

fun basis_matched :: "string \<Rightarrow> string list \<Rightarrow> bool" where
  "basis_matched s [] = False"
| "basis_matched s (b # bs) = (if Contains s b then True else basis_matched s bs)"

text \<open>The cap with 0.5 % tolerance, and the check of an amount against it.\<close>

definition cap_amount :: "jurisdictionRule \<Rightarrow> float64 \<Rightarrow> float64" where
  "cap_amount rule monthlyRent = f_mul (jurisdictionRule_MaxMonths rule) monthlyRent"

definition cap_tolerance :: float64 where
  "cap_tolerance = rnd (1005 / 1000)"

definition cap_exceeded :: "jurisdictionRule \<Rightarrow> float64 \<Rightarrow> float64 \<Rightarrow> bool" where
  "cap_exceeded rule monthlyRent amount \<longleftrightarrow>
     f_lt f_zero (jurisdictionRule_MaxMonths rule) \<and> f_lt f_zero monthlyRent \<and> f_lt f_zero amount
     \<and> f_lt (f_mul (cap_amount rule monthlyRent) cap_tolerance) amount"

definition checkRule :: "(nat \<Rightarrow> bool) \<Rightarrow> string \<Rightarrow> jurisdictionRule \<Rightarrow> Deposit \<Rightarrow> float64 \<Rightarrow> Report \<Rightarrow> Report" where
  "checkRule printable country rule d monthlyRent r0 =
     (let ref = primaryStatutoryRef rule;
          currency = DepositData_Currency (Deposit_Deposit d);
          ty = DepositData_Type (Deposit_Deposit d);
          amount = DepositData_Amount (Deposit_Deposit d);
          basis = (case Deposit_Pledge d of None \<Rightarrow> [] | Some p \<Rightarrow> Pledge_StatutoryBasis p);
          r1 = add_if (jurisdictionRule_Currency rule \<noteq> [] \<and> currency \<noteq> [] \<and> currency \<noteq> jurisdictionRule_Currency rule)
                 SeverityError ''WRONG_CURRENCY'' ''deposit.currency''
                 (country @ '' requires currency '' @ jurisdictionRule_Currency rule @ '', got '' @ currency) ref r0;
          r2 = add_if (0 < length (jurisdictionRule_AllowedTypes rule) \<and> ty \<noteq> []
                   \<and> \<not> type_allowed ty (jurisdictionRule_AllowedTypes rule))
                 SeverityError ''DISALLOWED_TYPE'' ''deposit.type''
                 (country @ '' does not permit deposit type '' @ ty @ '' (allowed: '' @ allowedTypesString rule @ '')'') ref r1;
          r3 = add_if (cap_exceeded rule monthlyRent amount) SeverityError ''CAP_EXCEEDED'' ''deposit.amount''
                 (country @ '' statutory cap is '' @ fmt_2g (jurisdictionRule_MaxMonths rule) @ '' months rent '' @ em_dash
                  @ '' deposit '' @ fmt_2f amount @ '' exceeds max '' @ fmt_2f (cap_amount rule monthlyRent) @ '' '' @ currency)
                 ref r2;
          r4 = add_if (Deposit_Pledge d \<noteq> None \<and> basis \<noteq> [] \<and> 0 < length (jurisdictionRule_StatutoryBases rule)
                   \<and> \<not> basis_matched basis (jurisdictionRule_StatutoryBases rule))
                 SeverityWarning ''UNEXPECTED_STATUTORY_BASIS'' ''pledge.statutory_basis''
                 (''statutory_basis '' @ Quote printable basis @ '' is unexpected for '' @ country @ '' (expected one of: ''
                  @ Join (jurisdictionRule_StatutoryBases rule) '' / '' @ '')'') ref r3;
          r5 = add_if (jurisdictionRule_InterestRequired rule \<and>
                   (case Deposit_Trusteeship d of None \<Rightarrow> True | Some t \<Rightarrow> Trusteeship_InterestRate t = f_zero))
                 SeverityWarning ''INTEREST_REQUIRED'' ''trusteeship.interest_rate''
                 (country @ '' law requires interest to accrue on the deposit for the tenant'' @ [CHR 0x27]
                  @ ''s benefit; trusteeship.interest_rate is not set'') ref r4;
          r6 = add_if (ty = DepositTypeCash \<and> Deposit_Trusteeship d = None)
                 SeverityWarning ''MISSING_TRUSTEESHIP'' ''trusteeship''
                 ''CASH_EQUIVALENT deposits should declare a trusteeship with insolvency_protection_confirmed = true'' ref r5
      in add_if (case Deposit_Trusteeship d of None \<Rightarrow> False | Some t \<Rightarrow> \<not> Trusteeship_InsolvencyProtectionConfirmed t)
           SeverityWarning ''INSOLVENCY_PROTECTION_UNCONFIRMED'' ''trusteeship.insolvency_protection_confirmed''
           (''trusteeship.insolvency_protection_confirmed should be true '' @ em_dash @ '' BGB '' @ section_sign
            @ '' 551 Abs. 3 and equivalent require insolvency-proof separation'') ref r6)"

definition checkJurisdiction :: "(nat \<Rightarrow> bool) \<Rightarrow> Deposit \<Rightarrow> float64 \<Rightarrow> Report \<Rightarrow> Report" where
  "checkJurisdiction printable d monthlyRent r0 =
     (let country = Address_Country (Property_Address (Deposit_Property d));
          r = r0\<lparr>Report_Jurisdiction := country\<rparr>
      in if country = [] then r
         else case jurisdictionRules country of
           None \<Rightarrow> Report_add SeverityInfo ''UNKNOWN_JURISDICTION'' ''property.address.country''
               (''no statutory rules defined for country '' @ Quote printable country @ '' '' @ em_dash @ '' schema checks only'') [] r
         | Some rule \<Rightarrow> checkRule printable country rule d monthlyRent r)"

definition Validate :: "(nat \<Rightarrow> bool) \<Rightarrow> time \<Rightarrow> Deposit \<Rightarrow> float64 \<Rightarrow> Report" where
  "Validate printable now d monthlyRent =
     (let r0 = \<lparr>Report_Valid = False, Report_Jurisdiction = [], Report_SchemaVersion = Meta_Version (Deposit_Meta d),
                Report_Findings = [], Report_CheckedAt = FormatRFC3339 now\<rparr>;
          r = checkJurisdiction printable d monthlyRent (checkDepositType printable d (checkRequired d r0))
      in r\<lparr>Report_Valid := \<not> Report_hasErrors r\<rparr>)"

section \<open>The endpoint (\<open>validate_handler.go\<close>)\<close>

fun severity_string :: "Severity \<Rightarrow> string" where
  "severity_string SeverityError = ''ERROR''"
| "severity_string SeverityWarning = ''WARNING''"
| "severity_string SeverityInfo = ''INFO''"

definition json_field :: "string \<Rightarrow> string \<Rightarrow> (string \<times> json) list" where
  "json_field k v = (if v = [] then [] else [(k, JStr v)])"

definition enc_Finding :: "Finding \<Rightarrow> json" where
  "enc_Finding f = JObj ([(''code'', JStr (Finding_Code f)), (''severity'', JStr (severity_string (Finding_Severity f)))]
     @ json_field ''field'' (Finding_Field f) @ [(''message'', JStr (Finding_Message f))]
     @ json_field ''rule'' (Finding_Rule f))"

definition enc_Report :: "Report \<Rightarrow> json" where
  "enc_Report r = JObj ([(''valid'', JBool (Report_Valid r))] @ json_field ''jurisdiction'' (Report_Jurisdiction r)
     @ json_field ''schema_version'' (Report_SchemaVersion r)
     @ [(''findings'', JArr (map enc_Finding (Report_Findings r))), (''checked_at'', JStr (Report_CheckedAt r))])"

record validateRequest =
  validateRequest_Deposit :: Deposit
  validateRequest_MonthlyRent :: float64

definition Validate_handler :: "(nat \<Rightarrow> bool) \<Rightarrow> time \<Rightarrow> validateRequest option \<Rightarrow> response" where
  "Validate_handler printable now body =
     (case body of
        None \<Rightarrow> writeError 400 ''invalid JSON'' ''BAD_REQUEST''
      | Some req \<Rightarrow> writeJSON 200 (JSON_Value (enc_Report
          (Validate printable now (validateRequest_Deposit req) (validateRequest_MonthlyRent req)))))"

section \<open>The verdict\<close>

definition conforms :: "Deposit \<Rightarrow> float64 \<Rightarrow> bool" where
  "conforms d monthlyRent \<longleftrightarrow>
     (let t = Deposit_Tenant d; dd = Deposit_Deposit d in
      Tenant_FirstName t \<noteq> [] \<and> Tenant_LastName t \<noteq> [] \<and> Tenant_Email t \<noteq> []
    \<and> Landlord_Name (Deposit_Landlord d) \<noteq> []
    \<and> \<not> f_le (DepositData_Amount dd) f_zero
    \<and> DepositData_Currency dd \<noteq> [] \<and> DepositData_Type dd \<in> set known_deposit_types
    \<and> (case jurisdictionRules (Address_Country (Property_Address (Deposit_Property d))) of
         None \<Rightarrow> True
       | Some rule \<Rightarrow> DepositData_Currency dd = jurisdictionRule_Currency rule
           \<and> (jurisdictionRule_AllowedTypes rule = [] \<or> DepositData_Type dd \<in> set (jurisdictionRule_AllowedTypes rule))
           \<and> \<not> cap_exceeded rule monthlyRent (DepositData_Amount dd)))"

lemma add_if_errors [simp]:
  "Report_hasErrors (add_if b sev code field message rule r) \<longleftrightarrow> Report_hasErrors r \<or> b \<and> sev = SeverityError"
  "Report_hasErrors (Report_add sev code field message rule r) \<longleftrightarrow> Report_hasErrors r \<or> sev = SeverityError"
  "Report_hasErrors (r\<lparr>Report_Jurisdiction := c\<rparr>) \<longleftrightarrow> Report_hasErrors r"
  by (auto simp: add_if_def Report_add_def Report_hasErrors_def)

lemma type_allowed_iff [simp]: "type_allowed ty ts \<longleftrightarrow> ty \<in> set ts"
  by (induction ts) auto

lemma known_types_nonempty: "ty \<in> set known_deposit_types \<Longrightarrow> ty \<noteq> []"
  by (auto simp: known_deposit_types_def DepositTypeCash_def DepositTypeBankGuarantee_def DepositTypeInsurance_def)

lemma jurisdictionRules_cases:
  assumes "jurisdictionRules c = Some rule"
  shows "c \<noteq> [] \<and> jurisdictionRule_Currency rule \<noteq> []
    \<and> jurisdictionRule_MaxMonths rule \<in> {Fin 1, Fin 2, Fin 3, Fin 6, rnd (115 / 100)}"
  using assms by (auto simp: jurisdictionRules_def jurisdiction_table_def mk_rule_def split: if_splits)

lemma checkRule_errors:
  "Report_hasErrors (checkRule printable country rule d rent r) \<longleftrightarrow> Report_hasErrors r
    \<or> jurisdictionRule_Currency rule \<noteq> [] \<and> DepositData_Currency (Deposit_Deposit d) \<noteq> []
      \<and> DepositData_Currency (Deposit_Deposit d) \<noteq> jurisdictionRule_Currency rule
    \<or> jurisdictionRule_AllowedTypes rule \<noteq> [] \<and> DepositData_Type (Deposit_Deposit d) \<noteq> []
      \<and> DepositData_Type (Deposit_Deposit d) \<notin> set (jurisdictionRule_AllowedTypes rule)
    \<or> cap_exceeded rule rent (DepositData_Amount (Deposit_Deposit d))"
  by (auto simp: checkRule_def Let_def)

lemma checkRequired_errors:
  "Report_hasErrors (checkRequired d r) \<longleftrightarrow> Report_hasErrors r
    \<or> Tenant_FirstName (Deposit_Tenant d) = [] \<or> Tenant_LastName (Deposit_Tenant d) = [] \<or> Tenant_Email (Deposit_Tenant d) = []
    \<or> Landlord_Name (Deposit_Landlord d) = [] \<or> f_le (DepositData_Amount (Deposit_Deposit d)) f_zero
    \<or> DepositData_Currency (Deposit_Deposit d) = [] \<or> DepositData_Type (Deposit_Deposit d) = []"
  by (auto simp: checkRequired_def Let_def)

lemma Validate_verdict: "Report_Valid (Validate printable now d rent) \<longleftrightarrow> conforms d rent"
proof -
  have r0: "\<not> Report_hasErrors \<lparr>Report_Valid = v, Report_Jurisdiction = j, Report_SchemaVersion = s,
      Report_Findings = [], Report_CheckedAt = t\<rparr>" for v j s t by (simp add: Report_hasErrors_def)
  show ?thesis
    using jurisdictionRules_cases [of "Address_Country (Property_Address (Deposit_Property d))"]
      known_types_nonempty [of "DepositData_Type (Deposit_Deposit d)"]
    by (auto simp: Validate_def Let_def checkJurisdiction_def checkDepositType_def checkRule_errors
        checkRequired_errors r0 conforms_def split: option.splits)
qed

section \<open>The statutory cap in exact arithmetic\<close>

lemma rnd_near_one:
  assumes "1 \<le> x" "x \<le> 2"
  shows "\<exists>t. rnd x = Fin t \<and> 1 \<le> t \<and> t \<le> x * (1 + 1 / 2 ^ 53)"
proof -
  have lo: "1 \<le> rnd_q x" using rnd_q_mono [OF assms(1)] rnd_q_of_int [of 1] by simp
  have hi: "rnd_q x \<le> x * (1 + 1 / 2 ^ 53)" by (rule rnd_q_rel [OF assms(1)])
  have "rnd_q x \<le> 2" using rnd_q_mono [OF assms(2)] rnd_q_of_int [of 2] by simp
  then have "rnd x = Fin (rnd_q x)" using lo by (intro rnd_in_range) simp
  then show ?thesis using lo hi by blast
qed

lemma months_value:
  assumes "jurisdictionRules c = Some rule"
  obtains m where "jurisdictionRule_MaxMonths rule = Fin m" "1 \<le> m" "m \<le> 6"
proof -
  obtain t where "rnd (115 / 100) = Fin t" "1 \<le> t" "t \<le> 115 / 100 * (1 + 1 / 2 ^ 53)"
    using rnd_near_one [of "115 / 100"] by auto
  then show ?thesis using jurisdictionRules_cases [OF assms] that by auto
qed

lemma cap_check_exact:
  assumes "jurisdictionRules c = Some rule" "1 \<le> r" "r \<le> 10 ^ 9" "f_wf (Fin a)" "0 < a"
  obtains m where "jurisdictionRule_MaxMonths rule = Fin m"
    "a \<le> m * r \<Longrightarrow> \<not> cap_exceeded rule (Fin r) (Fin a)"
    "\<not> cap_exceeded rule (Fin r) (Fin a) \<Longrightarrow> a \<le> m * r * (10051 / 10000)"
proof -
  obtain m where m: "jurisdictionRule_MaxMonths rule = Fin m" "1 \<le> m" "m \<le> 6" by (rule months_value [OF assms(1)])
  obtain t where t: "cap_tolerance = Fin t" "1 \<le> t" "t \<le> 1005 / 1000 * (1 + 1 / 2 ^ 53)"
    using rnd_near_one [of "1005 / 1000"] by (auto simp: cap_tolerance_def)
  define p where "p = rnd_q (m * r)"
  define q where "q = rnd_q (p * t)"
  have mr: "1 \<le> m * r" using mult_mono [of 1 m 1 r] m(2) assms(2) by simp
  have "m * r \<le> 6 * 10 ^ 9" using mult_mono [of m 6 r "10 ^ 9"] m assms(2,3) by simp
  have p: "1 \<le> p" "p \<le> m * r * (1 + 1 / 2 ^ 53)"
    using rnd_q_mono [OF mr] rnd_q_of_int [of 1] rnd_q_rel [OF mr] by (simp_all add: p_def)
  have pt: "1 \<le> p * t" "p \<le> p * t" using mult_mono [of 1 p 1 t] mult_left_mono [of 1 t p] p(1) t(2) by simp_all
  have q: "p \<le> q" "q \<le> p * t * (1 + 1 / 2 ^ 53)"
    using rnd_q_mono [OF pt(2)] rnd_q_rel [OF pt(1)] by (simp_all add: q_def p_def rnd_q_idem)
  have "p * t \<le> m * r * (1 + 1 / 2 ^ 53) * (1005 / 1000 * (1 + 1 / 2 ^ 53))"
    using p t mr by (intro mult_mono) simp_all
  then have "p * t * (1 + 1 / 2 ^ 53) \<le> m * r * (1 + 1 / 2 ^ 53) * (1005 / 1000 * (1 + 1 / 2 ^ 53)) * (1 + 1 / 2 ^ 53)"
    by (rule mult_right_mono) simp
  also have "\<dots> = m * r * ((1 + 1 / 2 ^ 53) * (1005 / 1000 * (1 + 1 / 2 ^ 53)) * (1 + 1 / 2 ^ 53))" by (simp only: mult.assoc)
  also have "\<dots> \<le> m * r * (10051 / 10000)" using mr by (intro mult_left_mono) simp_all
  finally have bound: "q \<le> m * r * (10051 / 10000)" using q(2) by simp
  then have "q < 2 ^ 1024" "0 \<le> q" "p < 2 ^ 1024" "0 \<le> p"
    using \<open>m * r \<le> 6 * 10 ^ 9\<close> q(1) p(1) by simp_all
  then have "f_mul (cap_amount rule (Fin r)) cap_tolerance = Fin q"
    by (simp add: cap_amount_def m(1) t(1) rnd_in_range flip: p_def q_def)
  then have cap: "cap_exceeded rule (Fin r) (Fin a) \<longleftrightarrow> q < a"
    using m assms(2,5) by (simp add: cap_exceeded_def)
  have "a \<le> m * r \<Longrightarrow> a \<le> p"
    using rnd_q_mono [of a "m * r"] f_wf_FinD [OF assms(4)] by (simp add: p_def)
  then show ?thesis using that [OF m(1)] cap q(1) bound by fastforce
qed

end
