(* ===== verification/Auth.thy ===== *)
theory Auth
  imports Server GoBase64 GoFmt
begin

text \<open>
  Bearer token authentication (\<open>server/internal/api/middleware/auth.go\<close>): the two middlewares,
  the cache of a remote key set, and the decoding of the keys in it.

  The JWT library is a parameter (\<open>JwtParse\<close>). \<open>jwt.Parse\<close> calls the key function back, so a
  parser answers a token text either at once (\<open>Decided\<close>) or by asking for the key of the parsed
  token and then deciding on the answer (\<open>Asks\<close>); a result \<open>Some claims\<close> is a token without an
  error and with \<open>Valid\<close> set. \<open>jwt_contract\<close> is what is documented of it: no token is valid
  without a key, an error of the key function is an error of \<open>Parse\<close>, only methods of
  \<open>WithValidMethods\<close> are accepted, and \<open>WithIssuer\<close> fixes the claim \<open>iss\<close>.

  A request sees the cache as other requests left it; what a request does with it is one step.
\<close>

section \<open>Tokens and the library\<close>

datatype PublicKey = RsaKey int int | EcKey string int int

datatype jwt_key = HmacSecret string | Public PublicKey

record JwtToken =
  JwtToken_Alg :: string
  JwtToken_IsHMAC :: bool
  JwtToken_Kid :: "string option"

type_synonym MapClaims = "string \<rightharpoonup> json"

datatype parse =
    Decided "MapClaims option"
  | Asks JwtToken "string + jwt_key \<Rightarrow> MapClaims option"

record ParserOptions =
  ParserOptions_Issuer :: "string option"
  ParserOptions_ValidMethods :: "string list option"

type_synonym JwtParse = "ParserOptions \<Rightarrow> time \<Rightarrow> string \<Rightarrow> parse"

definition jwt_contract :: "JwtParse \<Rightarrow> bool" where
  "jwt_contract J \<longleftrightarrow> (\<forall>opts now tok. case J opts now tok of
     Decided r \<Rightarrow> r = None
   | Asks t answer \<Rightarrow> (\<forall>err. answer (Inl err) = None)
       \<and> (\<forall>ms. ParserOptions_ValidMethods opts = Some ms \<longrightarrow> JwtToken_Alg t \<in> set ms)
       \<and> (\<forall>iss key claims. ParserOptions_Issuer opts = Some iss \<longrightarrow> answer (Inr key) = Some claims \<longrightarrow>
            claims ''iss'' = Some (JStr iss)))"

section \<open>Keys of a key set\<close>

record jwkKey =
  jwkKey_Kty :: string
  jwkKey_Kid :: string
  jwkKey_Alg :: string
  jwkKey_N :: string
  jwkKey_E :: string
  jwkKey_Crv :: string
  jwkKey_X :: string
  jwkKey_Y :: string

text \<open>\<open>new(big.Int).SetBytes(bs)\<close> and \<open>int(x.Int64())\<close>\<close>

definition SetBytes :: "byte list \<Rightarrow> int" where
  "SetBytes bs = foldl (\<lambda>n b. n * 256 + uint b) 0 bs"

definition to_int64 :: "int \<Rightarrow> int" where
  "to_int64 n = sint (word_of_int n :: 64 word)"

definition rsaPublicKey :: "jwkKey \<Rightarrow> string + PublicKey" where
  "rsaPublicKey k =
     (case RawURLDecode (jwkKey_N k) of
        None \<Rightarrow> Inl ''jwks: invalid RSA n''
      | Some nBytes \<Rightarrow> (case RawURLDecode (jwkKey_E k) of
          None \<Rightarrow> Inl ''jwks: invalid RSA e''
        | Some eBytes \<Rightarrow> Inr (RsaKey (SetBytes nBytes) (to_int64 (SetBytes eBytes)))))"

definition ecPublicKey :: "jwkKey \<Rightarrow> string + PublicKey" where
  "ecPublicKey k =
     (case RawURLDecode (jwkKey_X k) of
        None \<Rightarrow> Inl ''jwks: invalid EC x''
      | Some xBytes \<Rightarrow> (case RawURLDecode (jwkKey_Y k) of
          None \<Rightarrow> Inl ''jwks: invalid EC y''
        | Some yBytes \<Rightarrow>
            if jwkKey_Crv k \<in> set [''P-256'', ''P-384'', ''P-521'']
            then Inr (EcKey (jwkKey_Crv k) (SetBytes xBytes) (SetBytes yBytes))
            else Inl (''jwks: unsupported curve '' @ jwkKey_Crv k)))"

definition publicKey :: "jwkKey \<Rightarrow> string + PublicKey" where
  "publicKey k =
     (if jwkKey_Kty k = ''RSA'' then rsaPublicKey k
      else if jwkKey_Kty k = ''EC'' then ecPublicKey k
      else Inl (''unsupported kty: '' @ jwkKey_Kty k))"

section \<open>The key cache\<close>

text \<open>\<open>jwksCache_keys\<close> is \<open>None\<close> while the map is nil, before the first fetch.\<close>

record jwksCache =
  jwksCache_keys :: "(string \<rightharpoonup> PublicKey) option"
  jwksCache_fetchedAt :: time

definition new_jwksCache :: jwksCache where
  "new_jwksCache = \<lparr>jwksCache_keys = None, jwksCache_fetchedAt = zero_time\<rparr>"

text \<open>What the endpoint answers: a transport error, or a status and the decoded body.\<close>

datatype http_get = GetFailed string | GetReturned int "string + jwkKey list"

text \<open>The loop of \<open>refresh\<close>: keys of an unsupported kind are skipped, a later key replaces an
  earlier one with the same id.\<close>

fun collect_keys :: "jwkKey list \<Rightarrow> (string \<rightharpoonup> PublicKey) \<Rightarrow> (string \<rightharpoonup> PublicKey)" where
  "collect_keys [] keys = keys"
| "collect_keys (k # ks) keys =
     (case publicKey k of
        Inl _ \<Rightarrow> collect_keys ks keys
      | Inr pub \<Rightarrow> collect_keys ks (keys(jwkKey_Kid k \<mapsto> pub)))"

definition refresh :: "http_get \<Rightarrow> time \<Rightarrow> jwksCache \<Rightarrow> string option \<times> jwksCache" where
  "refresh resp now c =
     (case resp of
        GetFailed err \<Rightarrow> (Some err, c)
      | GetReturned status body \<Rightarrow>
          if status \<noteq> 200 then (Some (''JWKS endpoint returned HTTP '' @ show_int status), c)
          else (case body of
            Inl err \<Rightarrow> (Some (''decode JWKS: '' @ err), c)
          | Inr ks \<Rightarrow> (None, c\<lparr>jwksCache_keys := Some (collect_keys ks Map.empty), jwksCache_fetchedAt := now\<rparr>)))"

text \<open>What one request sees: the clock before and after the fetch, and the answer to it.\<close>

record JwksEnv =
  je_now :: time
  je_fetch :: http_get
  je_fetched_now :: time

definition lookup_key :: "jwksCache \<Rightarrow> string \<Rightarrow> PublicKey option" where
  "lookup_key c kid = (case jwksCache_keys c of None \<Rightarrow> None | Some keys \<Rightarrow> keys kid)"

definition fresh :: "time \<Rightarrow> jwksCache \<Rightarrow> bool" where
  "fresh now c \<longleftrightarrow> now - jwksCache_fetchedAt c < 5 * Minute \<and> jwksCache_keys c \<noteq> None"

definition keyFunc :: "(nat \<Rightarrow> bool) \<Rightarrow> JwksEnv \<Rightarrow> JwtToken \<Rightarrow> jwksCache \<Rightarrow> (string + jwt_key) \<times> jwksCache" where
  "keyFunc printable env t c =
     (let kid = case_option [] (\<lambda>k. k) (JwtToken_Kid t) in
      case (if fresh (je_now env) c then lookup_key c kid else None) of
        Some key \<Rightarrow> (Inr (Public key), c)
      | None \<Rightarrow> (case refresh (je_fetch env) (je_fetched_now env) c of
          (Some err, c') \<Rightarrow> (Inl (''jwks: refresh failed: '' @ err), c')
        | (None, c') \<Rightarrow> (case lookup_key c' kid of
            None \<Rightarrow> (Inl (''jwks: no key found for kid '' @ Quote printable kid), c')
          | Some key \<Rightarrow> (Inr (Public key), c'))))"

section \<open>The middlewares\<close>

definition extractBearer :: "string \<Rightarrow> string option" where
  "extractBearer h = (if \<not> HasPrefix h ''Bearer '' then None else Some (TrimPrefix h ''Bearer ''))"

definition writeAuthError :: "string \<Rightarrow> response" where
  "writeAuthError msg = Respond 401 (JSON_Value (JObj [(''error'', JStr msg)]))"

text \<open>Either the response of the middleware, or the claims put into the context of the next handler.\<close>

definition JWTMiddleware :: "JwtParse \<Rightarrow> string \<Rightarrow> time \<Rightarrow> string \<Rightarrow> response + MapClaims" where
  "JWTMiddleware J secret now header =
     (case extractBearer header of
        None \<Rightarrow> Inl (writeAuthError ''missing authorization header'')
      | Some tokenStr \<Rightarrow>
          (case (case J \<lparr>ParserOptions_Issuer = None, ParserOptions_ValidMethods = None\<rparr> now tokenStr of
                   Decided r \<Rightarrow> r
                 | Asks t answer \<Rightarrow>
                     answer (if \<not> JwtToken_IsHMAC t then Inl ''signature is invalid'' else Inr (HmacSecret secret))) of
             None \<Rightarrow> Inl (writeAuthError ''invalid token'')
           | Some claims \<Rightarrow> Inr claims))"

definition jwks_methods :: "string list" where
  "jwks_methods = [''RS256'', ''RS384'', ''RS512'', ''ES256'', ''ES384'', ''ES512'']"

definition JWKSMiddleware ::
  "JwtParse \<Rightarrow> (nat \<Rightarrow> bool) \<Rightarrow> string \<Rightarrow> JwksEnv \<Rightarrow> string \<Rightarrow> jwksCache \<Rightarrow> (response + MapClaims) \<times> jwksCache" where
  "JWKSMiddleware J printable expectedIssuer env header c =
     (case extractBearer header of
        None \<Rightarrow> (Inl (writeAuthError ''missing authorization header''), c)
      | Some tokenStr \<Rightarrow>
          (case (case J \<lparr>ParserOptions_Issuer = Some expectedIssuer, ParserOptions_ValidMethods = Some jwks_methods\<rparr>
                        (je_now env) tokenStr of
                   Decided r \<Rightarrow> (r, c)
                 | Asks t answer \<Rightarrow> (case keyFunc printable env t c of (key, c') \<Rightarrow> (answer key, c'))) of
             (None, c') \<Rightarrow> (Inl (writeAuthError ''invalid token''), c')
           | (Some claims, c') \<Rightarrow> (Inr claims, c')))"

section \<open>What an accepted request guarantees\<close>

lemma extractBearer_Some: "extractBearer h = Some tok \<Longrightarrow> h = ''Bearer '' @ tok"
proof -
  assume a: "extractBearer h = Some tok"
  then obtain t where t: "h = ''Bearer '' @ t" unfolding extractBearer_def HasPrefix_iff by (metis option.distinct(1))
  then have "extractBearer h = Some t" unfolding extractBearer_def using HasPrefix_append TrimPrefix_append by metis
  with a t show ?thesis by simp
qed

lemma refresh_ok:
  "refresh resp now c = (None, c') \<Longrightarrow> \<exists>ks. resp = GetReturned 200 (Inr ks)
     \<and> c' = c\<lparr>jwksCache_keys := Some (collect_keys ks Map.empty), jwksCache_fetchedAt := now\<rparr>"
  by (auto simp: refresh_def split: http_get.splits sum.splits if_splits)

lemma refresh_failed: "refresh resp now c = (Some err, c') \<Longrightarrow> c' = c"
  by (auto simp: refresh_def split: http_get.splits sum.splits if_splits)

text \<open>Where the key that a token is verified with comes from.\<close>

lemma keyFunc_Inr:
  assumes "keyFunc printable env t c = (Inr k, c')"
  obtains (cached) key where "k = Public key" "c' = c" "fresh (je_now env) c"
      "lookup_key c (case_option [] (\<lambda>k. k) (JwtToken_Kid t)) = Some key"
  | (fetched) key ks where "k = Public key" "je_fetch env = GetReturned 200 (Inr ks)"
      "collect_keys ks Map.empty (case_option [] (\<lambda>k. k) (JwtToken_Kid t)) = Some key"
  using assms
  by (auto simp: keyFunc_def Let_def lookup_key_def dest!: refresh_ok split: option.splits prod.splits if_splits)

text \<open>The cache as a sequence of requests leaves it holds a key set the endpoint has served.\<close>

fun jwks_requests ::
  "JwtParse \<Rightarrow> (nat \<Rightarrow> bool) \<Rightarrow> string \<Rightarrow> (JwksEnv \<times> string) list \<Rightarrow> jwksCache \<Rightarrow> jwksCache" where
  "jwks_requests J printable iss [] c = c"
| "jwks_requests J printable iss ((env, header) # rest) c =
     jwks_requests J printable iss rest (snd (JWKSMiddleware J printable iss env header c))"

definition served :: "JwksEnv set \<Rightarrow> jwksCache \<Rightarrow> bool" where
  "served es c \<longleftrightarrow> (case jwksCache_keys c of None \<Rightarrow> True
     | Some keys \<Rightarrow> \<exists>e \<in> es. \<exists>ks. je_fetch e = GetReturned 200 (Inr ks) \<and> keys = collect_keys ks Map.empty
         \<and> jwksCache_fetchedAt c = je_fetched_now e)"

lemma keyFunc_cache:
  assumes "keyFunc printable env t c = (k, c')"
  shows "c' = c \<or> (\<exists>ks. je_fetch env = GetReturned 200 (Inr ks)
    \<and> c' = c\<lparr>jwksCache_keys := Some (collect_keys ks Map.empty), jwksCache_fetchedAt := je_fetched_now env\<rparr>)"
  using assms
  by (auto simp: keyFunc_def Let_def dest!: refresh_ok refresh_failed split: option.splits prod.splits if_splits)

lemma served_insert: "served es c \<Longrightarrow> served (insert env es) c"
  by (auto simp: served_def split: option.splits)

lemma keyFunc_served:
  assumes "served es c" "keyFunc printable env t c = (k, c')"
  shows "served (insert env es) c'"
  using keyFunc_cache [OF assms(2)] served_insert [OF assms(1)] by (auto simp: served_def)

lemma JWKSMiddleware_served:
  "served es c \<Longrightarrow> served (insert env es) (snd (JWKSMiddleware J printable iss env header c))"
proof -
  assume s: "served es c"
  then show ?thesis
    using keyFunc_served [OF s] served_insert [OF s] by (auto simp: JWKSMiddleware_def split: option.splits parse.splits prod.splits)
qed

lemma jwks_requests_served:
  "served es c \<Longrightarrow> served (es \<union> fst ` set reqs) (jwks_requests J printable iss reqs c)"
proof (induction reqs arbitrary: es c)
  case (Cons r reqs)
  then show ?case
    using Cons.IH [OF JWKSMiddleware_served [OF Cons.prems]] by (cases r) (simp add: insert_commute)
qed simp

lemma JWKSMiddleware_Inr:
  assumes "jwt_contract J" "JWKSMiddleware J printable iss env header c = (Inr claims, c')"
  obtains tok t answer key where "header = ''Bearer '' @ tok"
    "J \<lparr>ParserOptions_Issuer = Some iss, ParserOptions_ValidMethods = Some jwks_methods\<rparr> (je_now env) tok = Asks t answer"
    "JwtToken_Alg t \<in> set jwks_methods" "claims ''iss'' = Some (JStr iss)"
    "keyFunc printable env t c = (Inr key, c')" "answer (Inr key) = Some claims"
proof -
  let ?opts = "\<lparr>ParserOptions_Issuer = Some iss, ParserOptions_ValidMethods = Some jwks_methods\<rparr>"
  obtain tok where tok: "extractBearer header = Some tok"
    using assms(2) by (auto simp: JWKSMiddleware_def split: option.splits)
  have J: "case J ?opts (je_now env) tok of Decided r \<Rightarrow> r = None
    | Asks t answer \<Rightarrow> (\<forall>err. answer (Inl err) = None) \<and> JwtToken_Alg t \<in> set jwks_methods
       \<and> (\<forall>key claims. answer (Inr key) = Some claims \<longrightarrow> claims ''iss'' = Some (JStr iss))"
    using assms(1) [unfolded jwt_contract_def, rule_format, of ?opts "je_now env" tok] by (simp split: parse.splits)
  then obtain t answer where a: "J ?opts (je_now env) tok = Asks t answer"
    using assms(2) tok by (cases "J ?opts (je_now env) tok") (simp_all add: JWKSMiddleware_def)
  obtain k where k: "keyFunc printable env t c = (k, c')" "answer k = Some claims"
    using assms(2) tok a by (auto simp: JWKSMiddleware_def split: option.splits prod.splits)
  then obtain key where "k = Inr key" using J a by (cases k) auto
  then show ?thesis using that [OF extractBearer_Some [OF tok] a] J a k by auto
qed

end
