(* ===== verification/Discovery.thy ===== *)
theory Discovery
  imports IssuerHandlers Auth
begin

text \<open>
  The public documents of the issuer (\<open>server/internal/api/issuer_handlers.go\<close>): the key set and
  the metadata a wallet reads. The two coordinates of the signing key come from Go's elliptic curve
  library and are arguments. \<open>JWKS_readable\<close>: the key in the published set is the signing key, as the key
  decoder of the authentication middleware reads it. \<open>metadata_matches_credential\<close>: what the metadata
  calls selectively disclosable is what the credential discloses selectively.
\<close>

section \<open>The key set\<close>

text \<open>\<open>b.Bytes()\<close>: big-endian, without leading zeros.\<close>

fun big_bytes :: "nat \<Rightarrow> byte list" where
  "big_bytes n = (if n = 0 then [] else big_bytes (n div 256) @ [of_nat n])"

declare big_bytes.simps [simp del]

text \<open>The curve P-256 has 256 bits; a coordinate that does not fit makes the copy panic.\<close>

definition encodeCoord :: "nat \<Rightarrow> string option" where
  "encodeCoord b =
     (let bs = big_bytes b; size = (256 + 7) div 8
      in if size < length bs then None else Some (RawURLEncode (replicate (size - length bs) 0 @ bs)))"

definition jwk_of :: "string \<Rightarrow> string \<Rightarrow> string \<Rightarrow> jwkKey" where
  "jwk_of keyID x y = \<lparr>jwkKey_Kty = ''EC'', jwkKey_Kid = keyID, jwkKey_Alg = ''ES256'', jwkKey_N = [], jwkKey_E = [],
     jwkKey_Crv = ''P-256'', jwkKey_X = x, jwkKey_Y = y\<rparr>"

definition enc_jwk :: "jwkKey \<Rightarrow> json" where
  "enc_jwk k = JObj [(''kty'', JStr (jwkKey_Kty k)), (''crv'', JStr (jwkKey_Crv k)), (''kid'', JStr (jwkKey_Kid k)),
     (''use'', JStr ''sig''), (''alg'', JStr (jwkKey_Alg k)), (''x'', JStr (jwkKey_X k)), (''y'', JStr (jwkKey_Y k))]"

definition JWKS :: "string \<Rightarrow> nat \<Rightarrow> nat \<Rightarrow> response" where
  "JWKS keyID x y =
     (case (encodeCoord x, encodeCoord y) of
        (Some ex, Some ey) \<Rightarrow> writeJSON 200 (JSON_Value (JObj [(''keys'', JArr [enc_jwk (jwk_of keyID ex ey)])]))
      | _ \<Rightarrow> Panicked)"

text \<open>How the struct \<open>jwkKey\<close> of the middleware reads an entry of the published set.\<close>

definition dec_jwk :: "json \<Rightarrow> jwkKey option" where
  "dec_jwk j = do {
     kv \<leftarrow> obj_of j;
     kty \<leftarrow> g_str (kv ''kty''); kid \<leftarrow> g_str (kv ''kid''); alg \<leftarrow> g_str (kv ''alg'');
     n \<leftarrow> g_str (kv ''n''); e \<leftarrow> g_str (kv ''e'');
     crv \<leftarrow> g_str (kv ''crv''); x \<leftarrow> g_str (kv ''x''); y \<leftarrow> g_str (kv ''y'');
     Some \<lparr>jwkKey_Kty = kty, jwkKey_Kid = kid, jwkKey_Alg = alg, jwkKey_N = n, jwkKey_E = e, jwkKey_Crv = crv,
       jwkKey_X = x, jwkKey_Y = y\<rparr> }"

definition dec_jwks :: "json \<Rightarrow> jwkKey list option" where
  "dec_jwks j = do { kv \<leftarrow> obj_of j; g_list dec_jwk (kv ''keys'') }"

section \<open>The metadata\<close>

definition a_umlaut :: string where
  "a_umlaut = [CHR 0xC3, CHR 0xA4]"

definition meta_display :: "string \<Rightarrow> string \<Rightarrow> string \<Rightarrow> json" where
  "meta_display name locale description = JObj ([(''name'', JStr name), (''locale'', JStr locale)]
     @ (if description = [] then [] else [(''description'', JStr description)]))"

text \<open>An entry of the claims: its label, whether it is mandatory, whether it is selectively disclosable.\<close>

definition claim_table :: "(string \<times> string \<times> bool \<times> bool) list" where
  "claim_table = [
     (''currency'', ''W'' @ a_umlaut @ ''hrung'', True, True),
     (''deposit_amount'', ''Kautionsbetrag'', True, True),
     (''issuing_bank'', ''Ausstellende Bank'', True, False),
     (''pledge_date'', ''Verpf'' @ a_umlaut @ ''ndungsdatum'', True, False),
     (''pledged_until'', ''Verpf'' @ a_umlaut @ ''ndet bis'', False, True),
     (''property_address'', ''Mietobjekt-Adresse'', False, True),
     (''statutory_basis'', ''Rechtsgrundlage'', True, False),
     (''tenant_first_name'', ''Vorname Mieter'', False, True),
     (''tenant_last_name'', ''Nachname Mieter'', False, True)]"

definition claimMeta :: "string \<times> string \<times> bool \<times> bool \<Rightarrow> string \<times> json" where
  "claimMeta c = (case c of (k, name, mandatory, sd) \<Rightarrow>
     (k, JObj [(''display'', JArr [meta_display name ''de-DE'' []]), (''mandatory'', JBool mandatory), (''sd'', JBool sd)]))"

definition credConfig :: json where
  "credConfig = JObj [
     (''format'', JStr ''vc+sd-jwt''), (''vct'', JStr ''DepositPledgeAttestation''),
     (''scope'', JStr ''DepositPledgeAttestation''),
     (''cryptographic_binding_methods_supported'', JArr [JStr ''did:key'', JStr ''jwk'']),
     (''credential_signing_alg_values_supported'', JArr [JStr ''ES256'']),
     (''proof_types_supported'', JObj [(''jwt'',
        JObj [(''proof_signing_alg_values_supported'', JArr [JStr ''ES256'', JStr ''RS256''])])]),
     (''display'', JArr [
        meta_display ''Deposit Pledge Attestation'' ''de-DE''
          (''Best'' @ a_umlaut @ ''tigung einer rechtssicheren Mietkautionsverpf'' @ a_umlaut @ ''ndung nach '' @ BGB_551),
        meta_display ''Deposit Pledge Attestation'' ''en-US''
          (''Confirmation of a legally binding rental deposit pledge under '' @ BGB_551)]),
     (''claims'', JObj (map claimMeta claim_table))]"

definition IssuerMetadata :: "Server \<Rightarrow> response" where
  "IssuerMetadata s =
     (let base = Server_issuerURL s in writeJSON 200 (JSON_Value (JObj [
        (''credential_issuer'', JStr base), (''credential_endpoint'', JStr (base @ ''/v1/credential'')),
        (''token_endpoint'', JStr (base @ ''/v1/token'')), (''jwks_uri'', JStr (base @ ''/.well-known/jwks.json'')),
        (''credential_configurations_supported'', JObj [(''DepositPledgeAttestation'', credConfig)])])))"

section \<open>The published key is the signing key\<close>

lemma SetBytes_append: "SetBytes (xs @ ys) = SetBytes xs * 256 ^ length ys + SetBytes ys"
proof -
  have "foldl (\<lambda>n b. n * 256 + uint b) k ys = k * 256 ^ length ys + foldl (\<lambda>n b. n * 256 + uint b) 0 ys"
    for k and ys :: "byte list"
  proof (induction ys arbitrary: k)
    case (Cons b ys)
    show ?case using Cons.IH [of "k * 256 + uint b"] Cons.IH [of "uint b"] by (simp add: distrib_right)
  qed simp
  from this [of "foldl (\<lambda>n b. n * 256 + uint b) 0 xs" ys] show ?thesis by (simp add: SetBytes_def)
qed

lemma SetBytes_simps [simp]: "SetBytes [] = 0" "SetBytes (b # bs) = uint b * 256 ^ length bs + SetBytes bs"
  using SetBytes_append [of "[b]" bs] by (simp_all add: SetBytes_def)

lemma SetBytes_zeros [simp]: "SetBytes (replicate k 0) = 0"
  by (induction k) simp_all

lemma SetBytes_big_bytes: "SetBytes (big_bytes n) = int n"
proof (induction n rule: big_bytes.induct)
  case (1 n)
  show ?case
  proof (cases "n = 0")
    case False
    then have "SetBytes (big_bytes (n div 256)) = int (n div 256)" by (rule 1)
    moreover have "uint (of_nat n :: byte) = int n mod 256" by (simp add: uint_nat unat_of_nat zmod_int)
    ultimately show ?thesis
      using False by (subst big_bytes.simps) (simp add: SetBytes_append zdiv_int)
  qed (simp add: big_bytes.simps)
qed

lemma length_big_bytes: "n < 256 ^ k \<Longrightarrow> length (big_bytes n) \<le> k"
proof (induction k arbitrary: n)
  case (Suc k)
  have "n div 256 < 256 ^ k" using Suc.prems by (simp add: less_mult_imp_div_less mult.commute)
  then show ?case using Suc.IH [of "n div 256"] by (subst big_bytes.simps) simp
qed (simp add: big_bytes.simps)

lemma encodeCoord_decode:
  assumes "n < 2 ^ 256"
  obtains e bs where "encodeCoord n = Some e" "RawURLDecode e = Some bs" "SetBytes bs = int n"
proof -
  have "length (big_bytes n) \<le> 32" using assms by (intro length_big_bytes) (simp add: power_mult [of 2 8, simplified])
  then show ?thesis
    using that by (simp add: encodeCoord_def Let_def RawURLDecode_Encode SetBytes_append SetBytes_big_bytes)
qed

lemma JWKS_readable:
  assumes "x < 2 ^ 256" "y < 2 ^ 256"
  obtains j ks where "JWKS keyID x y = Respond 200 (JSON_Value j)" "dec_jwks j = Some ks"
    "collect_keys ks Map.empty = [keyID \<mapsto> EcKey ''P-256'' (int x) (int y)]"
proof -
  obtain ex bx ey by' where e: "encodeCoord x = Some ex" "RawURLDecode ex = Some bx" "SetBytes bx = int x"
    "encodeCoord y = Some ey" "RawURLDecode ey = Some by'" "SetBytes by' = int y"
    using encodeCoord_decode assms by metis
  have "dec_jwk (enc_jwk (jwk_of keyID ex ey)) = Some (jwk_of keyID ex ey)"
    by (simp add: dec_jwk_def enc_jwk_def jwk_of_def)
  then have "dec_jwks (JObj [(''keys'', JArr [enc_jwk (jwk_of keyID ex ey)])]) = Some [jwk_of keyID ex ey]"
    by (simp add: dec_jwks_def)
  moreover have "publicKey (jwk_of keyID ex ey) = Inr (EcKey ''P-256'' (int x) (int y))"
    using e by (simp add: publicKey_def ecPublicKey_def jwk_of_def)
  ultimately show ?thesis using that e by (simp add: JWKS_def writeJSON_def jwk_of_def)
qed

section \<open>The metadata is true of the credential\<close>

lemma metadata_matches_credential:
  "fst ` set (filter (\<lambda>(k, name, mandatory, sd). sd) claim_table) = fst ` set (sd_specs now d vu)"
  by (simp add: claim_table_def sd_specs_def insert_commute)

end
