(* ===== verification/Router.thy ===== *)
theory Router
  imports Api Validator Discovery
begin

text \<open>
  The router (\<open>server/internal/api/router.go\<close>): every route of \<open>NewRouter\<close> with its handler, and
  the group of routes behind the JWT middleware. Matching a path against the patterns is the router
  library's; a request is given as the route it matches with its path parameters and decoded body.

  \<open>unauthenticated_effect\<close> is the result: a request without a valid token changes no deposit's
  lifecycle, and is answered 401 without any effect on the routes of the group.
\<close>

section \<open>Routes\<close>

datatype route =
    GetHealthz
  | PostValidate "validateRequest option"
  | GetIssuerMetadata
  | GetJWKS
  | GetOffer string
  | GetCredentialStatus string
  | GetStatusList
  | ReadDeposit string
  | ReadReceipt string
  | ReadReleaseReceipt string
  | Change request

text \<open>The configuration of the process: the server, the JWT library and secret, the signing key.\<close>

record RouterConfig =
  rc_config :: Config
  rc_jwt :: JwtParse
  rc_secret :: string
  rc_printable :: "nat \<Rightarrow> bool"
  rc_key :: "nat \<times> nat"

fun dispatch :: "RouterConfig \<Rightarrow> Services \<Rightarrow> route \<Rightarrow> World \<Rightarrow> response \<times> effect list \<times> World" where
  "dispatch rc x GetHealthz w = (Respond 200 (JSON_Value (JObj [(''status'', JStr ''ok'')])), [], w)"
| "dispatch rc x (PostValidate body) w = (Validate_handler (rc_printable rc) (env_now (srv_env x)) body, [], w)"
| "dispatch rc x GetIssuerMetadata w = (IssuerMetadata (cfg_server (rc_config rc)), [], w)"
| "dispatch rc x GetJWKS w = (JWKS (lib_keyID (cfg_lib (rc_config rc))) (fst (rc_key rc)) (snd (rc_key rc)), [], w)"
| "dispatch rc x (GetOffer sid) w =
     (GetCredentialOffer (cfg_server (rc_config rc)) (srv_issuer x) sid (world_db w), [], w)"
| "dispatch rc x (GetCredentialStatus cid) w = (CredentialStatus (srv_issuer x) cid (world_db w), [], w)"
| "dispatch rc x GetStatusList w =
     (StatusList (cfg_server (rc_config rc)) (cfg_lib (rc_config rc)) (srv_issuer x) (world_db w), [], w)"
| "dispatch rc x (ReadDeposit did) w = (GetDeposit (srv_env x) did (world_db w), [], w)"
| "dispatch rc x (ReadReceipt did) w = (GetReceipt (cfg_server (rc_config rc)) (srv_env x) did (world_db w), [], w)"
| "dispatch rc x (ReadReleaseReceipt did) w =
     (GetReleaseReceipt (cfg_server (rc_config rc)) (srv_env x) did (world_db w), [], w)"
| "dispatch rc x (Change req) w = serve (rc_config rc) x req w"

text \<open>The routes of the group that uses the middleware.\<close>

fun jwt_protected :: "route \<Rightarrow> bool" where
  "jwt_protected (ReadDeposit did) = True"
| "jwt_protected (ReadReceipt did) = True"
| "jwt_protected (ReadReleaseReceipt did) = True"
| "jwt_protected (Change (ReqToken form)) = False"
| "jwt_protected (Change (ReqCredential auth body)) = False"
| "jwt_protected (Change (ReqVpResponse body did)) = False"
| "jwt_protected (Change req) = True"
| "jwt_protected _ = False"

definition NewRouter ::
  "RouterConfig \<Rightarrow> Services \<Rightarrow> time \<Rightarrow> string \<Rightarrow> route \<Rightarrow> World \<Rightarrow> response \<times> effect list \<times> World" where
  "NewRouter rc x now header req w =
     (if jwt_protected req
      then (case JWTMiddleware (rc_jwt rc) (rc_secret rc) now header of
              Inl r \<Rightarrow> (r, [], w)
            | Inr claims \<Rightarrow> dispatch rc x req w)
      else dispatch rc x req w)"

section \<open>Requests without a valid token\<close>

text \<open>A header that carries a token which the library accepts as signed with the secret.\<close>

definition valid_bearer :: "JwtParse \<Rightarrow> string \<Rightarrow> time \<Rightarrow> string \<Rightarrow> bool" where
  "valid_bearer J secret now header \<longleftrightarrow> (\<exists>tok t answer claims. header = ''Bearer '' @ tok
     \<and> J \<lparr>ParserOptions_Issuer = None, ParserOptions_ValidMethods = None\<rparr> now tok = Asks t answer
     \<and> JwtToken_IsHMAC t \<and> answer (Inr (HmacSecret secret)) = Some claims)"

lemma JWTMiddleware_Inr:
  assumes "jwt_contract J" "JWTMiddleware J secret now header = Inr claims"
  shows "valid_bearer J secret now header"
proof -
  let ?opts = "\<lparr>ParserOptions_Issuer = None, ParserOptions_ValidMethods = None\<rparr>"
  obtain tok where tok: "extractBearer header = Some tok"
    using assms(2) by (auto simp: JWTMiddleware_def split: option.splits)
  then have h: "header = ''Bearer '' @ tok"
    by (rule extractBearer_Some)
  show ?thesis
  proof (cases "J ?opts now tok")
    case (Decided r)
    then have "r = None" using assms(1) [unfolded jwt_contract_def, rule_format, of ?opts now tok] by simp
    then show ?thesis using assms(2) tok Decided by (simp add: JWTMiddleware_def)
  next
    case (Asks t answer)
    then have "answer (Inl err) = None" for err
      using assms(1) [unfolded jwt_contract_def, rule_format, of ?opts now tok] by simp
    then show ?thesis
      using assms(2) tok Asks h by (auto simp: JWTMiddleware_def valid_bearer_def split: option.splits if_splits)
  qed
qed

lemma JWTMiddleware_Inl: "JWTMiddleware J secret now header = Inl r \<Longrightarrow> \<exists>m. r = writeAuthError m"
  by (auto simp: JWTMiddleware_def split: option.splits)

lemma serve_public_lifecycle:
  assumes "world_inv w" "\<not> jwt_protected (Change req)" "serve c x req w = (r, es, w')"
  shows "map_option lifecycle (stored w' k) = map_option lifecycle (stored w k)"
proof -
  have inv: "server_inv (world_db w)" using assms(1) by (simp add: world_inv_def)
  consider form where "req = ReqToken form" | auth body where "req = ReqCredential auth body"
    | body did where "req = ReqVpResponse body did"
    using assms(2) by (cases req) auto
  then show ?thesis
  proof cases
    case 1
    then have "world_db w' = snd (Token (srv_issuer x) form (world_db w))"
      using assms(3) by (auto simp: with_db_def split: prod.splits)
    then show ?thesis using repo_view_cong [OF issuer_deposits(2)] by metis
  next
    case 2
    then have "world_db w' = snd (Credential_endpoint (cfg_server c) (cfg_lib c) (srv_issuer x) auth body (world_db w))"
      using assms(3) by (auto simp: with_db_def split: prod.splits)
    then show ?thesis using repo_view_cong [OF issuer_deposits(3)] by metis
  next
    case 3
    let ?h = "\<lambda>sess. handle_action (cfg_server c) (srv_env x) None (vp_plan (cfg_vp c) (srv_vp x) sess (the body) did)
      False no_mail did (world_db w)"
    show ?thesis
    proof (cases "vp_check (srv_vp x) (world_vp w) body")
      case (Inl e)
      then show ?thesis using assms(3) 3 by (auto simp: ReceiveVpResponse_def)
    next
      case (Inr sess)
      have db': "world_db w' = snd (snd (?h sess))"
        using assms(3) 3 ReceiveVpResponse_db [OF Inr, of "cfg_server c" "cfg_vp c" "srv_env x" did "world_db w"]
        by (auto split: prod.splits)
      obtain r2 es2 where h: "?h sess = (r2, es2, world_db w')" using db' by (metis prod.collapse)
      from h show ?thesis
      proof (cases rule: handle_action_cases)
        case rejected
        then show ?thesis by simp
      next
        case (committed cur st e p d' db1)
        from wallet.commit_deposit [OF inv committed(1-4)]
        obtain d1 where "repo_view (world_db w) did = Some cur" "d' = enter_state (env_repo_now (srv_env x)) st e d1"
          "repo_view db1 = (repo_view (world_db w))(did \<mapsto> d')" by blast
        moreover have "st = lifecycle cur" using committed(3) by (auto simp: vp_plan_def split: sum.splits)
        ultimately show ?thesis using committed(7) by auto
      qed
    qed
  qed
qed

lemma unauthenticated_effect:
  assumes "jwt_contract (rc_jwt rc)" "world_inv w" "\<not> valid_bearer (rc_jwt rc) (rc_secret rc) now header"
    and "NewRouter rc x now header req w = (r, es, w')"
  shows "map_option lifecycle (stored w' k) = map_option lifecycle (stored w k)
    \<and> (jwt_protected req \<longrightarrow> w' = w \<and> es = [] \<and> (\<exists>m. r = writeAuthError m))"
proof (cases "jwt_protected req")
  case True
  then obtain r0 where "JWTMiddleware (rc_jwt rc) (rc_secret rc) now header = Inl r0"
    using JWTMiddleware_Inr [OF assms(1)] assms(3)
    by (cases "JWTMiddleware (rc_jwt rc) (rc_secret rc) now header") auto
  then show ?thesis using True assms(4) JWTMiddleware_Inl by (auto simp: NewRouter_def)
next
  case False
  then have d: "dispatch rc x req w = (r, es, w')" using assms(4) by (simp add: NewRouter_def)
  show ?thesis
  proof (cases req)
    case (Change q)
    then show ?thesis using d False serve_public_lifecycle [OF assms(2), of q] by (auto simp del: jwt_protected.simps)
  qed (use d False in auto)
qed

end
