(* ===== verification/Startup.thy ===== *)
theory Startup
  imports Mailer Router
begin

text \<open>
  The process (\<open>server/cmd/server/main.go\<close>): the environment variables, their defaults, the connection to
  the database, the choice of the mailer, the composition of the server and its life until it ends. The
  environment is a function that is empty where a variable is not set, as \<open>os.Getenv\<close> is. The connection pool
  and \<open>ListenAndServe\<close> are arguments that give the error or none. A run is the list of what the process does, in order;
  \<open>log.Fatalf\<close> ends it with \<open>Exit\<close> and skips the deferred calls.
\<close>

section \<open>The environment\<close>

type_synonym environment = "string \<Rightarrow> string"

definition mustEnv :: "environment \<Rightarrow> string \<Rightarrow> string + string" where
  "mustEnv getenv key =
     (if getenv key = [] then Inl (''required env var '' @ key @ '' is not set'') else Inr (getenv key))"

definition envOrDefault :: "environment \<Rightarrow> string \<Rightarrow> string \<Rightarrow> string" where
  "envOrDefault getenv key def = (if getenv key \<noteq> [] then getenv key else def)"

text \<open>\<open>strconv.Atoi\<close>: an optional sign, then at least one decimal digit, within the range of \<open>int\<close>\<close>

definition Atoi :: "string \<Rightarrow> int option" where
  "Atoi s =
     (let neg = (s \<noteq> [] \<and> hd s = CHR ''-'');
          digits = (if s \<noteq> [] \<and> (hd s = CHR ''-'' \<or> hd s = CHR ''+'') then tl s else s);
          n = (if neg then - int (parse_digits digits) else int (parse_digits digits))
      in if digits = [] \<or> \<not> list_all is_digit digits \<or> \<not> is_int64 n then None else Some n)"

section \<open>Composition\<close>

definition buildMailer :: "environment \<Rightarrow> Mailer" where
  "buildMailer getenv =
     (if getenv ''SMTP_HOST'' = [] then NoOp
      else SMTP \<lparr>SMTPMailer_host = getenv ''SMTP_HOST'',
             SMTPMailer_port =
               (if getenv ''SMTP_PORT'' \<noteq> [] then (case Atoi (getenv ''SMTP_PORT'') of Some n \<Rightarrow> n | None \<Rightarrow> 587) else 587),
             SMTPMailer_username = getenv ''SMTP_USERNAME'', SMTPMailer_password = getenv ''SMTP_PASSWORD'',
             SMTPMailer_from = envOrDefault getenv ''SMTP_FROM'' ''noreply@xmiete.org''\<rparr>)"

text \<open>The connection pool: the errors of opening it and of the ping\<close>

record Pgx =
  pgx_New :: "string \<Rightarrow> string option"
  pgx_Ping :: "string \<Rightarrow> string option"

definition NewPostgresRepo :: "Pgx \<Rightarrow> string \<Rightarrow> string option" where
  "NewPostgresRepo pgx dsn =
     (case pgx_New pgx dsn of
        Some err \<Rightarrow> Some (''pgxpool.New: '' @ err)
      | None \<Rightarrow> (case pgx_Ping pgx dsn of
          Some err \<Rightarrow> Some (''db ping: '' @ err)
        | None \<Rightarrow> None))"

text \<open>What the process serves: the router's configuration, the mailer, the database\<close>

record Process =
  Process_dsn :: string
  Process_router :: RouterConfig
  Process_mailer :: Mailer

record HttpServer =
  HttpServer_Addr :: string
  HttpServer_Handler :: Process
  HttpServer_ReadTimeout :: time
  HttpServer_WriteTimeout :: time
  HttpServer_IdleTimeout :: time

text \<open>The libraries the composed server calls\<close>

record Libraries =
  libs_pdf :: Fpdf
  libs_credential :: Lib
  libs_vp :: VpLib
  libs_jwt :: JwtParse
  libs_printable :: "nat \<Rightarrow> bool"
  libs_key :: "nat \<times> nat"

definition compose :: "Libraries \<Rightarrow> environment \<Rightarrow> Process" where
  "compose L getenv = \<lparr>
     Process_dsn = getenv ''DATABASE_URL'',
     Process_router = \<lparr>
       rc_config = \<lparr>cfg_server = \<lparr>Server_webhookURL = getenv ''WEBHOOK_URL'',
                        Server_issuerURL = envOrDefault getenv ''ISSUER_URL'' ''https://api.xmiete.org'',
                        Server_pdf = libs_pdf L\<rparr>,
                      cfg_lib = libs_credential L, cfg_vp = libs_vp L\<rparr>,
       rc_jwt = libs_jwt L, rc_secret = getenv ''JWT_SECRET'', rc_printable = libs_printable L, rc_key = libs_key L\<rparr>,
     Process_mailer = buildMailer getenv\<rparr>"

definition httpServer :: "Libraries \<Rightarrow> environment \<Rightarrow> HttpServer" where
  "httpServer L getenv = \<lparr>
     HttpServer_Addr = '':'' @ envOrDefault getenv ''PORT'' ''8080'', HttpServer_Handler = compose L getenv,
     HttpServer_ReadTimeout = 15 * Second, HttpServer_WriteTimeout = 15 * Second, HttpServer_IdleTimeout = 60 * Second\<rparr>"

datatype process_step = OpenPool string | MailDisabled | Listening string | Serve HttpServer | ClosePool | Exit string

definition main :: "Libraries \<Rightarrow> Pgx \<Rightarrow> (HttpServer \<Rightarrow> string option) \<Rightarrow> environment \<Rightarrow> process_step list" where
  "main L pgx ListenAndServe getenv =
     (case mustEnv getenv ''DATABASE_URL'' of
        Inl msg \<Rightarrow> [Exit msg]
      | Inr dsn \<Rightarrow> (case mustEnv getenv ''JWT_SECRET'' of
          Inl msg \<Rightarrow> [Exit msg]
        | Inr jwtSecret \<Rightarrow> (case NewPostgresRepo pgx dsn of
            Some err \<Rightarrow> [OpenPool dsn, Exit (''db connect: '' @ err)]
          | None \<Rightarrow>
              (let srv = httpServer L getenv in
               [OpenPool dsn] @ (if Process_mailer (HttpServer_Handler srv) = NoOp then [MailDisabled] else [])
               @ [Listening (HttpServer_Addr srv), Serve srv]
               @ (case ListenAndServe srv of Some err \<Rightarrow> [Exit (''server: '' @ err)] | None \<Rightarrow> [ClosePool])))))"

section \<open>Facts about the composition\<close>

lemma Atoi_show_nat:
  assumes "int n < 2 ^ 63"
  shows "Atoi (show_nat n) = Some (int n)"
proof -
  have d: "list_all is_digit (show_nat n)" using show_nat_digits by (auto simp: list_all_iff)
  moreover have "show_nat n \<noteq> []" by (rule show_nat_nonempty)
  ultimately have "is_digit (hd (show_nat n))" by (cases "show_nat n") simp_all
  then have "hd (show_nat n) \<noteq> CHR ''-''" "hd (show_nat n) \<noteq> CHR ''+''" by (auto simp: is_digit_def)
  with d \<open>show_nat n \<noteq> []\<close> assms show ?thesis
    by (simp add: Atoi_def Let_def parse_digits_show_nat is_int64_def)
qed

text \<open>The port of the mail server is the number in the variable, and 587 when it is missing or is no number.\<close>

lemma buildMailer_port:
  assumes "getenv ''SMTP_HOST'' \<noteq> []"
  obtains m where "buildMailer getenv = SMTP m" "SMTPMailer_host m = getenv ''SMTP_HOST''" "SMTPMailer_from m \<noteq> []"
    "\<And>n. getenv ''SMTP_PORT'' = show_nat n \<Longrightarrow> int n < 2 ^ 63 \<Longrightarrow> SMTPMailer_port m = int n"
    "Atoi (getenv ''SMTP_PORT'') = None \<Longrightarrow> SMTPMailer_port m = 587"
proof
  let ?m = "\<lparr>SMTPMailer_host = getenv ''SMTP_HOST'',
     SMTPMailer_port = (if getenv ''SMTP_PORT'' \<noteq> [] then (case Atoi (getenv ''SMTP_PORT'') of Some n \<Rightarrow> n | None \<Rightarrow> 587) else 587),
     SMTPMailer_username = getenv ''SMTP_USERNAME'', SMTPMailer_password = getenv ''SMTP_PASSWORD'',
     SMTPMailer_from = envOrDefault getenv ''SMTP_FROM'' ''noreply@xmiete.org''\<rparr>"
  show "buildMailer getenv = SMTP ?m" using assms by (simp add: buildMailer_def)
  show "SMTPMailer_port ?m = int n" if "getenv ''SMTP_PORT'' = show_nat n" "int n < 2 ^ 63" for n
    using that show_nat_nonempty [of n] by (simp add: Atoi_show_nat)
qed (simp_all add: envOrDefault_def)

text \<open>
  The process serves at most once, and only with both variables set and the database reached; what it serves then
  carries the secret of the environment.
\<close>

lemma main_Serve:
  "Serve srv \<in> set (main L pgx ListenAndServe getenv) \<longleftrightarrow>
     srv = httpServer L getenv \<and> getenv ''DATABASE_URL'' \<noteq> [] \<and> getenv ''JWT_SECRET'' \<noteq> []
     \<and> NewPostgresRepo pgx (getenv ''DATABASE_URL'') = None"
  by (auto simp: main_def mustEnv_def Let_def split: option.splits)

lemma httpServer_secret:
  "rc_secret (Process_router (HttpServer_Handler (httpServer L getenv))) = getenv ''JWT_SECRET''"
  "Server_issuerURL (cfg_server (rc_config (Process_router (HttpServer_Handler (httpServer L getenv))))) \<noteq> []"
  by (simp_all add: httpServer_def compose_def envOrDefault_def)

lemma NewPostgresRepo_None: "NewPostgresRepo pgx dsn = None \<longleftrightarrow> pgx_New pgx dsn = None \<and> pgx_Ping pgx dsn = None"
  by (auto simp: NewPostgresRepo_def split: option.splits)

text \<open>\<open>ListenAndServe\<close> always returns an error, so that every run ends in \<open>Exit\<close> and the deferred \<open>Close\<close> never runs.\<close>

lemma main_exits:
  assumes "\<And>srv. ListenAndServe srv \<noteq> None"
  shows "\<exists>msg. last (main L pgx ListenAndServe getenv) = Exit msg" "ClosePool \<notin> set (main L pgx ListenAndServe getenv)"
  using assms [of "httpServer L getenv"] by (auto simp: main_def Let_def split: option.splits sum.splits)

text \<open>The process opens the pool before it listens, and does nothing after it has exited.\<close>

lemma main_order:
  "main L pgx ListenAndServe getenv = xs @ Serve srv # ys \<Longrightarrow> OpenPool (getenv ''DATABASE_URL'') \<in> set xs \<and> length ys = 1"
  "main L pgx ListenAndServe getenv = xs @ Exit msg # ys \<Longrightarrow> ys = []"
  by (auto simp: main_def mustEnv_def Let_def Cons_eq_append_conv append_eq_Cons_conv split: option.splits if_splits)

end
