(* ===== verification/Liveness.thy ===== *)
theory Liveness
  imports Api
begin

text \<open>
  Progress: which deposits can be encoded, that the requests of a lifecycle keep them encodable, and
  a sequence of requests that closes a deposit from any state, when the services answer.
\<close>

section \<open>Deposits stay encodable\<close>

definition encodable :: "Deposit \<Rightarrow> bool" where
  "encodable d \<longleftrightarrow> enc_Deposit d \<noteq> None"

lemma enc_ptr_omit: "(p = None \<or> (\<exists>y. enc_ptr e p = Some y)) \<longleftrightarrow> (\<exists>y. enc_ptr e p = Some y)"
  by (auto simp: enc_ptr_def)

lemma encodable_iff:
  "encodable d \<longleftrightarrow> enc_Meta (Deposit_Meta d) \<noteq> None \<and> enc_Tenant (Deposit_Tenant d) \<noteq> None
   \<and> enc_Landlord (Deposit_Landlord d) \<noteq> None \<and> enc_Property (Deposit_Property d) \<noteq> None
   \<and> enc_DepositData (Deposit_Deposit d) \<noteq> None
   \<and> enc_ptr enc_Pledge (Deposit_Pledge d) \<noteq> None \<and> enc_ptr enc_Trusteeship (Deposit_Trusteeship d) \<noteq> None
   \<and> enc_ptr enc_Provider (Deposit_Provider d) \<noteq> None \<and> enc_ptr enc_Transport (Deposit_Transport d) \<noteq> None
   \<and> enc_ptr enc_Settlement (Deposit_Settlement d) \<noteq> None
   \<and> enc_ptr enc_UtilityReservation (Deposit_UtilityReservation d) \<noteq> None"
  unfolding encodable_def enc_Deposit_def enc_obj_None_iff fields_ok_def by (simp add: enc_ptr_omit)

lemma enc_DepositData_enter:
  assumes "enc_DepositData x \<noteq> None" "enc_time now \<noteq> None"
  shows "enc_DepositData (x\<lparr>DepositData_LifecycleState := st,
      DepositData_History := DepositData_History x @ [e\<lparr>HistoryEntry_Timestamp := now\<rparr>]\<rparr>) \<noteq> None"
  using assms by (simp add: enc_DepositData_def json_ok enc_HistoryEntry_def) force

lemma encodable_enter_state:
  assumes "encodable d" "enc_time now \<noteq> None"
  shows "encodable (enter_state now st e d)"
  using assms(1) enc_DepositData_enter [OF _ assms(2), of "Deposit_Deposit d"]
  by (simp add: encodable_iff enter_state_def)

lemma encodable_identity:
  assumes "encodable d" "UpdateIdentity_patch i d = Some d1" "IdentityUpdateRequest_WalletMetadata i = None"
  shows "encodable d1"
proof -
  have "enc_Tenant ((Deposit_Tenant d)\<lparr>Tenant_EIDStatus := es\<rparr>) = None \<longleftrightarrow> enc_Tenant (Deposit_Tenant d) = None" for es
    by (simp add: enc_Tenant_def json_ok)
  then have "encodable (d\<lparr>Deposit_Tenant := (Deposit_Tenant d)\<lparr>Tenant_EIDStatus := es\<rparr>\<rparr>)" for es
    using assms(1) by (simp add: encodable_iff)
  moreover have "d1 = d\<lparr>Deposit_Tenant := (Deposit_Tenant d)\<lparr>Tenant_EIDStatus := IdentityUpdateRequest_EIDStatus i\<rparr>\<rparr>"
    using assms(2,3) by (simp add: UpdateIdentity_patch_def)
  ultimately show ?thesis by simp
qed

lemma encodable_pledge:
  assumes "encodable d" "Pledge_patch g d = Some d1"
  shows "encodable d1"
proof -
  have "enc_Pledge p \<noteq> None" for p by (simp add: enc_Pledge_def json_ok)
  then have "encodable (d\<lparr>Deposit_Pledge := Some p\<rparr>)" for p
    using assms(1) by (simp add: encodable_iff enc_ptr_def)
  then show ?thesis using assms(2) by (auto simp: Pledge_patch_def)
qed

lemma enc_Settlement_agreed:
  assumes "enc_Settlement st \<noteq> None" "f_finite a" "f_finite b"
  shows "enc_Settlement (st\<lparr>Settlement_AgreedTenantRefund := a, Settlement_AgreedLandlordRetention := b,
      Settlement_ExternalReference := x\<rparr>) \<noteq> None"
  using assms unfolding enc_Settlement_def enc_obj_None_iff fields_ok_def
  by (simp add: enc_float_def)

lemma encodable_resolve:
  assumes "encodable d" "DisputeResolve_patch r d = Some d1"
    and "f_finite (DisputeResolveRequest_AgreedTenantRefund r)" "f_finite (DisputeResolveRequest_AgreedLandlordRetention r)"
  shows "encodable d1"
proof -
  have "enc_Settlement zero_Settlement \<noteq> None" by code_simp
  then have "enc_Settlement (settlement_or_zero d) \<noteq> None"
    using assms(1) by (cases "Deposit_Settlement d") (simp_all add: encodable_iff settlement_or_zero_def enc_ptr_def)
  from enc_Settlement_agreed [OF this assms(3,4), of "DisputeResolveRequest_ResolutionReference r"]
  have "encodable (d\<lparr>Deposit_Settlement := Some ((settlement_or_zero d)\<lparr>
     Settlement_AgreedTenantRefund := DisputeResolveRequest_AgreedTenantRefund r,
     Settlement_AgreedLandlordRetention := DisputeResolveRequest_AgreedLandlordRetention r,
     Settlement_ExternalReference := DisputeResolveRequest_ResolutionReference r\<rparr>)\<rparr>)"
    using assms(1) by (simp add: encodable_iff enc_ptr_def)
  then show ?thesis using assms(2) by (auto simp: DisputeResolve_patch_def)
qed


section \<open>One request\<close>

text \<open>Services that answer, at a time JSON can represent.\<close>

definition working :: "Services \<Rightarrow> bool" where
  "working x \<longleftrightarrow> env_get (srv_env x) = no_fault \<and> env_update (srv_env x) = no_fault
     \<and> (case date_of (env_repo_now (srv_env x)) of (y, _, _) \<Rightarrow> 0 \<le> y \<and> y \<le> 9999)"

lemma workingD:
  assumes "working x"
  shows "\<not> env_get (srv_env x) 0" "\<forall>n. \<not> env_update (srv_env x) n" "enc_time (env_repo_now (srv_env x)) \<noteq> None"
  using assms by (auto simp: working_def no_fault_def enc_time_def split: prod.splits)

lemma server_inv_encodable: "server_inv db \<Longrightarrow> repo_view db k = Some d \<Longrightarrow> encodable d"
  by (auto simp: server_inv_def encodable_def elim: repo_inv_encodable)

definition verify_request :: IdentityUpdateRequest where
  "verify_request = \<lparr>IdentityUpdateRequest_EIDStatus = EIDVerified, IdentityUpdateRequest_VerificationTimestamp = [],
     IdentityUpdateRequest_ProviderReference = [], IdentityUpdateRequest_WalletMetadata = None\<rparr>"

definition pledge_request :: PledgeRequest where
  "pledge_request = \<lparr>PledgeRequest_PledgeDate = ''2025-01-01'', PledgeRequest_IsConfirmedByBank = True,
     PledgeRequest_ProviderReference = []\<rparr>"

definition resolve_request :: DisputeResolveRequest where
  "resolve_request = \<lparr>DisputeResolveRequest_AgreedTenantRefund = f_zero,
     DisputeResolveRequest_AgreedLandlordRetention = f_zero, DisputeResolveRequest_ResolutionReference = []\<rparr>"

definition next_request :: "string \<Rightarrow> LifecycleState \<Rightarrow> request" where
  "next_request k st = (case st of
      StateRequested \<Rightarrow> ReqIdentity (Some verify_request) k
    | StateIdentified \<Rightarrow> ReqPledge (Some pledge_request) k
    | StateFunded \<Rightarrow> ReqPledge (Some pledge_request) k
    | StatePledged \<Rightarrow> ReqRelease k
    | StateClaimed \<Rightarrow> ReqRelease k
    | _ \<Rightarrow> ReqDisputeResolve (Some resolve_request) k)"

definition next_state :: "LifecycleState \<Rightarrow> LifecycleState" where
  "next_state st = (case st of
      StateRequested \<Rightarrow> StateIdentified | StateIdentified \<Rightarrow> StatePledged | StateFunded \<Rightarrow> StatePledged
    | StatePledged \<Rightarrow> StateReleased | StateClaimed \<Rightarrow> StateReleased | _ \<Rightarrow> StateClosed)"

lemma next_request_effect:
  assumes inv: "server_inv (world_db w)" and d: "stored w k = Some d" and x: "working x"
    and st: "lifecycle d \<in> set known_states" "lifecycle d \<noteq> StateClosed"
    and w': "serve c x (next_request k (lifecycle d)) w = (r, es, w')"
  shows "server_inv (world_db w') \<and> (\<exists>d'. stored w' k = Some d' \<and> lifecycle d' = next_state (lifecycle d))"
proof -
  note enc = server_inv_encodable [OF inv d]
  note ok = workingD [OF x]
  have keep: "enc_Deposit (enter_state (env_repo_now (srv_env x)) st e d1) \<noteq> None" if "encodable d1" for st e d1
    using encodable_enter_state [OF that ok(3)] by (simp add: encodable_def)
  consider "lifecycle d = StateRequested" | "CanTransition (lifecycle d) StatePledged"
    | "CanTransition (lifecycle d) StateReleased" | "CanTransition (lifecycle d) StateClosed"
    using st by (auto simp: known_states_def CanTransition_to)
  then show ?thesis
  proof cases
    case 1
    have p: "UpdateIdentity_plan (the (Some verify_request)) d =
        Inr (StateIdentified, entry StateIdentified ''IDENTITY_PROVIDER'' [], UpdateIdentity_patch verify_request)"
      using 1 by (simp add: UpdateIdentity_plan_def StateForIdentityUpdate_def verify_request_def guard_transition_Inr CanTransition_to)
    have "UpdateIdentity_check (Some verify_request) = None" by (simp add: UpdateIdentity_check_def verify_request_def EIDVerified_def)
    moreover have "UpdateIdentity_patch verify_request d = Some d1 \<Longrightarrow> encodable d1" for d1
      by (erule encodable_identity [OF enc]) (simp add: verify_request_def)
    ultimately show ?thesis using identity.action_progress [OF inv _ d p ok(1,2) keep,
        where s = "cfg_server c" and revokes = False and mail = no_mail] w' 1
      by (auto simp: next_request_def next_state_def with_db_def UpdateIdentity_def split: prod.splits)
  next
    case 2
    have p: "Pledge_plan (the (Some pledge_request)) d = Inr (StatePledged, entry StatePledged ''BANK'' [], Pledge_patch pledge_request)"
      using 2 by (simp add: Pledge_plan_def guard_transition_Inr)
    have "Pledge_check (Some pledge_request) = None" by (simp add: Pledge_check_def pledge_request_def)
    moreover have "Pledge_patch pledge_request d = Some d1 \<Longrightarrow> encodable d1" for d1 by (erule encodable_pledge [OF enc])
    ultimately show ?thesis using pledge.action_progress [OF inv _ d p ok(1,2) keep,
        where s = "cfg_server c" and revokes = False and mail = "sendReceiptEmail (cfg_server c) (srv_env x)"] w' 2
      by (auto simp: next_request_def next_state_def with_db_def Pledge_handler_def CanTransition_to split: prod.splits)
  next
    case 3
    have p: "Release_plan d = Inr (StateReleased, entry StateReleased ''LANDLORD'' [], no_patch)"
      using 3 by (simp add: Release_plan_def guard_transition_Inr)
    have "no_patch d = Some d1 \<Longrightarrow> encodable d1" for d1 using enc by (simp add: no_patch_def)
    from release.action_progress [OF inv refl d p ok(1,2) keep [OF this],
        where s = "cfg_server c" and revokes = True and mail = "sendReleaseReceiptEmail (cfg_server c) (srv_env x)"] w' 3
    show ?thesis by (auto simp: next_request_def next_state_def with_db_def Release_def CanTransition_to split: prod.splits)
  next
    case 4
    have p: "DisputeResolve_plan (the (Some resolve_request)) d = Inr (StateClosed, entry StateClosed ''EXTERNAL'' [], DisputeResolve_patch resolve_request)"
      using 4 by (simp add: DisputeResolve_plan_def guard_transition_Inr resolve_request_def)
    have "DisputeResolve_check (Some resolve_request) = None" by code_simp
    moreover have "DisputeResolve_patch resolve_request d = Some d1 \<Longrightarrow> encodable d1" for d1
      by (erule encodable_resolve [OF enc]) (simp_all add: resolve_request_def)
    ultimately show ?thesis using resolve.action_progress [OF inv _ d p ok(1,2) keep,
        where s = "cfg_server c" and revokes = True and mail = no_mail] w' 4
      by (auto simp: next_request_def next_state_def with_db_def DisputeResolve_def CanTransition_to split: prod.splits)
  qed
qed

section \<open>Closing a deposit\<close>

text \<open>The requests that lead from a state to the end of the lifecycle.\<close>

fun closing_requests :: "nat \<Rightarrow> string \<Rightarrow> LifecycleState \<Rightarrow> request list" where
  "closing_requests 0 k st = []"
| "closing_requests (Suc n) k st =
     (if st = StateClosed then [] else next_request k st # closing_requests n k (next_state st))"

fun steps_to_closed :: "LifecycleState \<Rightarrow> nat" where
  "steps_to_closed StateClosed = 0"
| "steps_to_closed StateRequested = 4"
| "steps_to_closed StateIdentified = 3"
| "steps_to_closed StateFunded = 3"
| "steps_to_closed StatePledged = 2"
| "steps_to_closed StateClaimed = 2"
| "steps_to_closed st = 1"

lemma next_state_closer:
  assumes "st \<in> set known_states" "st \<noteq> StateClosed"
  shows "next_state st \<in> set known_states" "Suc (steps_to_closed (next_state st)) = steps_to_closed st"
  using assms by (auto simp: next_state_def known_states_def)

lemma closing_requests_close:
  assumes "server_inv (world_db w)" "stored w k = Some d" "working x" "lifecycle d \<in> set known_states"
    and "steps_to_closed (lifecycle d) \<le> n"
  shows "\<exists>d'. stored (run_requests c (map (Pair x) (closing_requests n k (lifecycle d))) w) k = Some d'
    \<and> lifecycle d' = StateClosed"
  using assms
proof (induction n arbitrary: w d)
  case 0
  then have "lifecycle d = StateClosed" by (cases "lifecycle d") auto
  with 0(2) show ?case by simp
next
  case (Suc n)
  show ?case
  proof (cases "lifecycle d = StateClosed")
    case False
    obtain r es w' where w': "serve c x (next_request k (lifecycle d)) w = (r, es, w')" by (metis prod_cases3)
    obtain d' where d': "server_inv (world_db w')" "stored w' k = Some d'" "lifecycle d' = next_state (lifecycle d)"
      using next_request_effect [OF Suc(2-5) False w'] by blast
    have "next_state (lifecycle d) \<in> set known_states" "steps_to_closed (next_state (lifecycle d)) \<le> n"
      using next_state_closer [OF Suc(5) False] Suc(6) by simp_all
    then have "\<exists>d''. stored (run_requests c (map (Pair x) (closing_requests n k (lifecycle d'))) w') k = Some d''
        \<and> lifecycle d'' = StateClosed"
      using Suc.IH [OF d'(1,2) Suc(4)] d'(3) by simp
    moreover have "run_requests c (map (Pair x) (closing_requests (Suc n) k (lifecycle d))) w =
        run_requests c (map (Pair x) (closing_requests n k (lifecycle d'))) w'"
      using False d'(3) w' by simp
    ultimately show ?thesis by metis
  qed (use Suc(3) in simp)
qed

lemma closing_requests_length: "length (closing_requests n k st) \<le> n"
  by (induction n arbitrary: st) simp_all

lemma closing_requests_ok: "list_all request_ok (closing_requests n k st)"
proof -
  have "request_ok (next_request k t)" for t by (cases t) (simp_all add: next_request_def)
  then show ?thesis by (induction n arbitrary: st) simp_all
qed

lemma deposit_inv_known: "deposit_inv d \<Longrightarrow> lifecycle d \<in> set known_states \<and> lifecycle d \<noteq> StateFunded"
proof -
  assume "deposit_inv d"
  then have h: "history_ok d" by (simp add: deposit_inv_def)
  then obtain ys where ys: "history_states d = ys @ [lifecycle d]"
    by (metis append_butlast_last_id history_ok_def history_states_def map_is_Nil_conv)
  show ?thesis
  proof (cases "ys = []")
    case True
    then show ?thesis using h ys by (simp add: history_ok_def known_states_def)
  next
    case False
    then have "legal_step (last ys) (lifecycle d)" using h ys by (simp add: history_ok_def chain_snoc)
    then show ?thesis using h ys legal_step_known by (auto simp: history_ok_def)
  qed
qed

end
