(* ===== verification/AuditTrail.thy ===== *)
theory AuditTrail
  imports Api
begin

text \<open>
  The history of a deposit is kept twice: in the document of its row and in the table
  \<open>deposit_history\<close>, which \<open>PostgresRepo.Create\<close> and \<open>PostgresRepo.UpdateState\<close> extend by a second
  statement. This theory relates the two. \<open>trail_step\<close> is what one request can do to both,
  \<open>audit_inv\<close> the invariant of the database, and \<open>trail_complete\<close> the state in which the
  table holds exactly the entries of the document.
\<close>

section \<open>Two views of a history\<close>

text \<open>What both hold of an entry: state, time at the precision of the column, actor.\<close>

definition audit_entry :: "HistoryEntry \<Rightarrow> string \<times> time \<times> string" where
  "audit_entry e = (state_string (HistoryEntry_State e), timestamptz (HistoryEntry_Timestamp e), HistoryEntry_Actor e)"

definition table_trail :: "Database \<Rightarrow> string \<Rightarrow> (string \<times> time \<times> string) list" where
  "table_trail db did = map (\<lambda>r. (HistoryRow_state r, HistoryRow_timestamp r, HistoryRow_actor r))
     (filter (\<lambda>r. HistoryRow_deposit_id r = did) (deposit_history db))"

definition document_trail :: "Deposit \<Rightarrow> (string \<times> time \<times> string) list" where
  "document_trail d = map audit_entry (history d)"

definition trail_complete :: "Database \<Rightarrow> string \<Rightarrow> bool" where
  "trail_complete db did = (case repo_view db did of
     None \<Rightarrow> table_trail db did = []
   | Some d \<Rightarrow> table_trail db did = document_trail d)"

text \<open>The table misses at most the entry of the creation.\<close>

definition trail_ok :: "Database \<Rightarrow> string \<Rightarrow> bool" where
  "trail_ok db did = (case repo_view db did of
     None \<Rightarrow> table_trail db did = []
   | Some d \<Rightarrow> document_trail d \<noteq> []
       \<and> (table_trail db did = document_trail d \<or> table_trail db did = tl (document_trail d)))"

definition audit_inv :: "Database \<Rightarrow> bool" where
  "audit_inv db \<longleftrightarrow> (\<forall>did. trail_ok db did)"

section \<open>One request\<close>

definition trail_step :: "Database \<Rightarrow> Database \<Rightarrow> string \<Rightarrow> bool" where
  "trail_step db db' k \<longleftrightarrow>
     (repo_view db' k = repo_view db k \<and> table_trail db' k = table_trail db k)
   \<or> (\<exists>d d' e. repo_view db k = Some d \<and> repo_view db' k = Some d' \<and> history d' = history d @ [e]
        \<and> table_trail db' k = table_trail db k @ [audit_entry e])
   \<or> (\<exists>d e. repo_view db k = None \<and> repo_view db' k = Some d \<and> history d = [e]
        \<and> (table_trail db' k = table_trail db k \<or> table_trail db' k = table_trail db k @ [audit_entry e]))"

lemma trail_step_same:
  "deposits db' = deposits db \<Longrightarrow> deposit_history db' = deposit_history db \<Longrightarrow> trail_step db db' k"
  by (simp add: trail_step_def table_trail_def repo_view_cong [of db' db])

lemma trail_step_ok: "trail_step db db' k \<Longrightarrow> trail_ok db k \<Longrightarrow> trail_ok db' k"
  by (auto simp: trail_step_def trail_ok_def document_trail_def split: option.splits)

lemma trail_step_complete:
  "trail_step db db' k \<Longrightarrow> trail_complete db k \<Longrightarrow> repo_view db k \<noteq> None \<Longrightarrow> trail_complete db' k"
  by (auto simp: trail_step_def trail_complete_def document_trail_def)

context lifecycle_action
begin

lemma action_trail:
  assumes "server_inv db" "handle_action s env bad plan revokes mail did db = (r, es, db')"
  shows "trail_step db db' k"
  using assms(2)
proof (cases rule: handle_action_cases)
  case rejected
  then show ?thesis by (simp add: trail_step_def)
next
  case (committed cur st e p d' db1)
  note c = committed(1-4)
  let ?e = "e\<lparr>HistoryEntry_Timestamp := env_repo_now env\<rparr>"
  obtain d1 where d1: "repo_view db did = Some cur" "p cur = Some d1" "d' = enter_state (env_repo_now env) st e d1"
    "repo_view db1 = (repo_view db)(did \<mapsto> d')" "deposit_inv cur"
    using commit_deposit [OF assms(1) c] by blast
  have "history d1 = history cur"
    using plan_patch [OF c(3)] d1(2,5) by (auto simp: patch_ok_def deposit_inv_def)
  then have h: "history d' = history cur @ [?e]" using d1(3) by (simp add: enter_state_def)
  have t: "table_trail db1 k = table_trail db k @ (if k = did then [audit_entry ?e] else [])"
    by (rule PostgresRepo_UpdateState_InrE [OF c(4)])
      (use plan_step [OF c(3)] in \<open>simp add: table_trail_def audit_entry_def\<close>)
  have "repo_view db' = repo_view db1" "table_trail db' = table_trail db1"
    using committed(7) repo_view_cong [of db' db1]
    by (simp_all add: table_trail_def PostgresSessionStore_RevokeByDepositID_def fun_eq_iff split: if_splits)
  with t h d1 show ?thesis by (cases "k = did") (auto simp: trail_step_def)
qed

end

text \<open>The row of a new deposit, with or without its entry in the table.\<close>

lemma create_trail:
  assumes "server_inv db" "CreateDeposit env body db = (r, es, db')"
    and "\<And>d. body = Some d \<Longrightarrow> pred_option InstallmentPlan_wf (DepositData_InstallmentPlan (Deposit_Deposit d))"
  shows "trail_step db db' k"
proof -
  consider "db' = db" | d where "body = Some d"
    "inserted (env_uuid env 0) (init_deposit (env_uuid env 0) (env_repo_now env) (CreateDeposit_defaults d)) db db'"
    using CreateDeposit_cases [OF assms(2)] by blast
  then show ?thesis
  proof cases
    case (2 d)
    let ?u = "env_uuid env 0"
    let ?d = "init_deposit ?u (env_repo_now env) (CreateDeposit_defaults d)"
    have wf: "Deposit_wf ?d" by (rule created_wf [OF assms(3) [OF 2(1)]])
    have ri: "repo_inv db" using assms(1) by (simp add: server_inv_def)
    have v: "repo_view db ?u = None" "repo_view db' = (repo_view db)(?u \<mapsto> ?d)"
      using inserted_view [OF ri 2(2) wf] by simp_all
    obtain e where e: "history ?d = [e]" "audit_entry e = (state_string StateRequested, timestamptz (env_repo_now env), ''TENANT'')"
      by (simp add: init_deposit_def audit_entry_def)
    have "table_trail db' k = table_trail db k \<or>
        (k = ?u \<and> table_trail db' k = table_trail db k @ [audit_entry e])"
      using assms(2) 2(1) e(2)
      by (auto simp: CreateDeposit_def PostgresRepo_Create_def Let_def table_trail_def
          split: option.splits if_splits)
    with v e(1) show ?thesis by (cases "k = ?u") (auto simp: trail_step_def)
  qed (simp add: trail_step_def)
qed

text \<open>A creation that is answered with 201 has written both.\<close>

lemma created_complete:
  assumes "server_inv db" "audit_inv db" "CreateDeposit env body db = (Respond 201 (JSON_Deposit d'), es, db')"
    and "\<And>d. body = Some d \<Longrightarrow> pred_option InstallmentPlan_wf (DepositData_InstallmentPlan (Deposit_Deposit d))"
  shows "repo_view db' (Deposit_ID d') = Some d'" "trail_complete db' (Deposit_ID d')"
proof -
  obtain d where d: "body = Some d" "CreateDeposit_check d = None"
    "PostgresRepo_Create (env_update env) (env_uuid env 0) (env_repo_now env) (CreateDeposit_defaults d) db = (Inr d', db')"
    using assms(3)
    by (auto simp: CreateDeposit_def CreateDeposit_check_def response_defs split: option.splits sum.splits prod.splits if_splits)
  let ?d = "init_deposit (env_uuid env 0) (env_repo_now env) (CreateDeposit_defaults d)"
  have ri: "repo_inv db" using assms(1) by (simp add: server_inv_def)
  from pg.create_Inr [OF ri d(3) created_wf [OF assms(4) [OF d(1)]]]
  have v: "d' = ?d" "repo_view db (env_uuid env 0) = None" "repo_view db' = (repo_view db)(env_uuid env 0 \<mapsto> d')" by simp_all
  have u: "Deposit_ID d' = env_uuid env 0" by (simp add: v(1) init_deposit_def)
  show "repo_view db' (Deposit_ID d') = Some d'" by (simp add: u v(3))
  have "table_trail db (env_uuid env 0) = []" using assms(2) v(2) by (simp add: audit_inv_def trail_ok_def option.case_eq_if)
  moreover have "table_trail db' (env_uuid env 0) = table_trail db (env_uuid env 0) @ document_trail d'"
    using d(3) v(1)
    by (auto simp: PostgresRepo_Create_def Let_def table_trail_def document_trail_def audit_entry_def init_deposit_def
        split: option.splits if_splits)
  ultimately show "trail_complete db' (Deposit_ID d')" by (simp add: trail_complete_def u v(3))
qed

section \<open>Every request\<close>

lemmas lifecycle_trail =
  identity.action_trail pledge.action_trail release.action_trail claim.action_trail
  settle.action_trail accept.action_trail dispute.action_trail resolve.action_trail
  partial.action_trail utility.action_trail

lemma session_ops_history:
  "PostgresIndexAllocator_AllocateIndex f db = (r1, db') \<Longrightarrow> deposit_history db' = deposit_history db"
  "PostgresSessionStore_Create f u now did vu idx db = (r2, db') \<Longrightarrow> deposit_history db' = deposit_history db"
  "PostgresSessionStore_ExchangeCodeForToken f u now code db = (r3, db') \<Longrightarrow> deposit_history db' = deposit_history db"
  "PostgresSessionStore_ConsumeByToken f now t cid db = (r4, db') \<Longrightarrow> deposit_history db' = deposit_history db"
  by (auto simp: PostgresIndexAllocator_AllocateIndex_def PostgresSessionStore_Create_def
      PostgresSessionStore_ExchangeCodeForToken_def PostgresSessionStore_ConsumeByToken_def Let_def
      split: if_splits option.splits)

lemma issuer_history:
  "deposit_history (snd (IssueCredential s env vu did db)) = deposit_history db"
  "deposit_history (snd (Token env form db)) = deposit_history db"
  "deposit_history (snd (Credential_endpoint s L env auth body db)) = deposit_history db"
proof -
  note d = session_ops_history
  show "deposit_history (snd (IssueCredential s env vu did db)) = deposit_history db"
    unfolding IssueCredential_def by (auto split: sum.splits prod.splits dest!: d(1,2))
  show "deposit_history (snd (Token env form db)) = deposit_history db"
    unfolding Token_def by (auto split: option.splits prod.splits dest!: d(3))
  show "deposit_history (snd (Credential_endpoint s L env auth body db)) = deposit_history db"
    unfolding Credential_endpoint_def Let_def
    by (auto split: option.splits sum.splits prod.splits dest!: d(4))
qed

lemma issuer_trail:
  "IssueCredential s env vu did db = (r, db') \<Longrightarrow> trail_step db db' k"
  "Token env form db = (r, db') \<Longrightarrow> trail_step db db' k"
  "Credential_endpoint s L env auth body db = (r, db') \<Longrightarrow> trail_step db db' k"
  using trail_step_same [of db' db k] issuer_deposits(1) [of s env vu did db] issuer_history(1) [of s env vu did db]
    issuer_deposits(2) [of env form db] issuer_history(2) [of env form db]
    issuer_deposits(3) [of s L env auth body db] issuer_history(3) [of s L env auth body db]
  by simp_all

lemma vp_trail:
  assumes "server_inv db" "ReceiveVpResponse s V env ve body did db vps = ((r, es, db'), vps')"
  shows "trail_step db db' k"
proof (cases "vp_check ve vps body")
  case (Inl r0)
  with assms(2) show ?thesis by (simp add: ReceiveVpResponse_def trail_step_def)
next
  case (Inr sess)
  obtain r2 es2 db2 where h: "handle_action s env None (vp_plan V ve sess (the body) did) False no_mail did db =
      (r2, es2, db2)" by (metis prod_cases3)
  with ReceiveVpResponse_db [OF Inr, of s V env did db] assms(2) have "db' = db2" by simp
  then show ?thesis using wallet.action_trail [OF assms(1) h] by simp
qed

lemma serve_trail:
  assumes "world_inv w" "request_ok req" "serve c x req w = (r, es, w')"
  shows "trail_step (world_db w) (world_db w') k"
proof -
  have inv: "server_inv (world_db w)" using assms(1) by (simp add: world_inv_def)
  show ?thesis
    using assms(2,3)
    by (cases req)
      (auto simp: with_db_def lifecycle_handlers trail_step_same split: prod.splits
        dest: lifecycle_trail [OF inv] create_trail [OF inv] vp_trail [OF inv] issuer_trail)
qed

lemma reachable_audit: "reachable c w \<Longrightarrow> audit_inv (world_db w)"
proof (induction rule: reachable.induct)
  case start
  then show ?case
    by (simp add: initial_world_def empty_db_def audit_inv_def trail_ok_def table_trail_def repo_view_def deposit_row_def)
next
  case (step w w')
  then show ?case
    unfolding audit_inv_def by (auto elim!: api_stepE intro: trail_step_ok serve_trail [OF reachable_inv])
qed

lemma requests_complete:
  assumes "(api_step c)\<^sup>*\<^sup>* w w'" "world_inv w" "stored w k \<noteq> None" "trail_complete (world_db w) k"
  shows "stored w' k \<noteq> None \<and> trail_complete (world_db w') k"
  using assms(1)
proof (induction rule: rtranclp_induct)
  case (step w1 w2)
  have "world_inv w1" by (rule requests_inv [OF step(1) assms(2)])
  then have t: "trail_step (world_db w1) (world_db w2) k" using step(2) by (auto elim!: api_stepE intro: serve_trail)
  have "stored w2 k \<noteq> None" using t step.IH by (auto simp: trail_step_def)
  with trail_step_complete [OF t] step.IH show ?case by blast
qed (use assms in simp)

end
