(* ===== verification/Signer.thy ===== *)
theory Signer
  imports Router
begin

text \<open>
  The signing key of the process (\<open>server/internal/issuance/credential.go\<close>, type \<open>Signer\<close>). The key is generated
  on first use, under a \<open>sync.Once\<close>, by whichever of the four callers comes first:
  \<open>BuildSDJWT\<close>, \<open>BuildStatusListJWT\<close>, the key set endpoint and the verification of a presentation. The other
  theories take the key and its id as given; \<open>uses_fixed_key\<close> justifies that: every run of uses of the
  lazily initialised signer gives the answers of a signer with one fixed key.

  \<open>sync.Once\<close> counts a call that panics as done. \<open>failed_key_final\<close> is what follows from it when the
  generator fails once.
\<close>

section \<open>The signer\<close>

text \<open>\<open>ecdsa.PrivateKey\<close> on P-256: the secret number and the coordinates of the public point\<close>

record PrivateKey =
  PrivateKey_D :: nat
  PrivateKey_X :: nat
  PrivateKey_Y :: nat

record Signer =
  Signer_once :: bool
  Signer_key :: "PrivateKey option"
  Signer_KeyID :: string

definition DefaultSigner :: Signer where
  "DefaultSigner = \<lparr>Signer_once = False, Signer_key = None, Signer_KeyID = []\<rparr>"

text \<open>What \<open>ecdsa.GenerateKey\<close> and \<open>uuid.NewString\<close> answer, if they are asked.\<close>

record Draw =
  draw_key :: "string + PrivateKey"
  draw_uuid :: string

text \<open>The first component is the message of a panic.\<close>

definition Signer_init :: "Draw \<Rightarrow> Signer \<Rightarrow> string option \<times> Signer" where
  "Signer_init dr s =
     (if Signer_once s then (None, s)
      else (case draw_key dr of
          Inl err \<Rightarrow> (Some (''issuance: failed to generate signing key: '' @ err), s\<lparr>Signer_once := True\<rparr>)
        | Inr key \<Rightarrow> (None, s\<lparr>Signer_once := True, Signer_key := Some key, Signer_KeyID := draw_uuid dr\<rparr>)))"

text \<open>The coordinates of the public key; \<open>None\<close> is a panic, also that of reading a \<open>nil\<close> key.\<close>

definition Signer_PublicKey :: "Draw \<Rightarrow> Signer \<Rightarrow> (nat \<times> nat) option \<times> Signer" where
  "Signer_PublicKey dr s =
     (case Signer_init dr s of
        (Some msg, s') \<Rightarrow> (None, s')
      | (None, s') \<Rightarrow> (case Signer_key s' of
          None \<Rightarrow> (None, s')
        | Some key \<Rightarrow> (Some (PrivateKey_X key, PrivateKey_Y key), s')))"

section \<open>The four uses\<close>

text \<open>
  The JWT library: signing with a key, which \<open>SignedString\<close> is handed even when it is \<open>nil\<close>, and parsing with
  a public key.
\<close>

record JwtKeys =
  jk_sign :: "PrivateKey option \<Rightarrow> jwt_header \<Rightarrow> sdJWTClaims \<Rightarrow> string option"
  jk_sign_list :: "PrivateKey option \<Rightarrow> jwt_header \<Rightarrow> statusListVCClaims \<Rightarrow> string option"
  jk_parse :: "nat \<times> nat \<Rightarrow> time \<Rightarrow> string \<Rightarrow> string + issuerJWTClaims"

definition signing_lib :: "JwtKeys \<Rightarrow> PrivateKey option \<Rightarrow> string \<Rightarrow> Lib \<Rightarrow> Lib" where
  "signing_lib J key keyID L =
     L\<lparr>lib_keyID := keyID, lib_sign := jk_sign J key, lib_sign_list := jk_sign_list J key\<rparr>"

definition verifying_lib :: "JwtKeys \<Rightarrow> nat \<times> nat \<Rightarrow> VpLib \<Rightarrow> VpLib" where
  "verifying_lib J pub V = V\<lparr>vp_parse_issuer := jk_parse J pub\<rparr>"

datatype signer_use =
    UseBuildSDJWT "nat \<Rightarrow> byte list option" string time string Deposit string int
  | UseBuildStatusListJWT time string "int list"
  | UseJWKS
  | UseVerifyVpToken time string string string

datatype signer_answer =
    Token_answer "(string \<times> string) option"
  | StatusList_answer "string option"
  | JWKS_answer response
  | Claims_answer "string + VerifiedClaims"
  | Panic_answer

text \<open>A use when the key and its id are fixed.\<close>

fun fixed_use :: "JwtKeys \<Rightarrow> Lib \<Rightarrow> VpLib \<Rightarrow> PrivateKey \<Rightarrow> string \<Rightarrow> signer_use \<Rightarrow> signer_answer" where
  "fixed_use J L V key keyID (UseBuildSDJWT salt uuid now issuerURL d validUntil idx) =
     Token_answer (BuildSDJWT (signing_lib J (Some key) keyID L) salt uuid now issuerURL d validUntil idx)"
| "fixed_use J L V key keyID (UseBuildStatusListJWT now issuerURL indices) =
     StatusList_answer (BuildStatusListJWT (lib_gzip L) (jk_sign_list J (Some key)) keyID now issuerURL indices)"
| "fixed_use J L V key keyID UseJWKS = JWKS_answer (JWKS keyID (PrivateKey_X key) (PrivateKey_Y key))"
| "fixed_use J L V key keyID (UseVerifyVpToken now vpToken nonce uri) =
     Claims_answer (VerifyVpToken (verifying_lib J (PrivateKey_X key, PrivateKey_Y key) V) now vpToken nonce uri)"

fun use_signer ::
  "JwtKeys \<Rightarrow> Lib \<Rightarrow> VpLib \<Rightarrow> Draw \<Rightarrow> signer_use \<Rightarrow> Signer \<Rightarrow> signer_answer \<times> Signer" where
  "use_signer J L V dr (UseBuildSDJWT salt uuid now issuerURL d validUntil idx) s =
     (case Signer_init dr s of
        (Some msg, s') \<Rightarrow> (Panic_answer, s')
      | (None, s') \<Rightarrow> (Token_answer (BuildSDJWT (signing_lib J (Signer_key s') (Signer_KeyID s') L)
           salt uuid now issuerURL d validUntil idx), s'))"
| "use_signer J L V dr (UseBuildStatusListJWT now issuerURL indices) s =
     (case Signer_init dr s of
        (Some msg, s') \<Rightarrow> (Panic_answer, s')
      | (None, s') \<Rightarrow> (StatusList_answer (BuildStatusListJWT (lib_gzip L) (jk_sign_list J (Signer_key s'))
           (Signer_KeyID s') now issuerURL indices), s'))"
| "use_signer J L V dr UseJWKS s =
     (case Signer_PublicKey dr s of
        (None, s') \<Rightarrow> (Panic_answer, s')
      | (Some (x, y), s') \<Rightarrow> (JWKS_answer (JWKS (Signer_KeyID s') x y), s'))"
| "use_signer J L V dr (UseVerifyVpToken now vpToken nonce uri) s =
     (case Signer_PublicKey dr s of
        (None, s') \<Rightarrow> (Panic_answer, s')
      | (Some pub, s') \<Rightarrow> (Claims_answer (VerifyVpToken (verifying_lib J pub V) now vpToken nonce uri), s'))"

fun run_signer ::
  "JwtKeys \<Rightarrow> Lib \<Rightarrow> VpLib \<Rightarrow> (Draw \<times> signer_use) list \<Rightarrow> Signer \<Rightarrow> signer_answer list \<times> Signer" where
  "run_signer J L V [] s = ([], s)"
| "run_signer J L V ((dr, u) # rest) s =
     (case use_signer J L V dr u s of (a, s1) \<Rightarrow>
      case run_signer J L V rest s1 of (as, s2) \<Rightarrow> (a # as, s2))"

section \<open>One key for the life of the process\<close>

definition holds_key :: "PrivateKey \<Rightarrow> string \<Rightarrow> Signer" where
  "holds_key key keyID = \<lparr>Signer_once = True, Signer_key = Some key, Signer_KeyID = keyID\<rparr>"

lemma use_held_key: "use_signer J L V dr u (holds_key key keyID) = (fixed_use J L V key keyID u, holds_key key keyID)"
  by (cases u) (simp_all add: Signer_init_def Signer_PublicKey_def holds_key_def)

lemma use_first_key:
  "draw_key dr = Inr key \<Longrightarrow> use_signer J L V dr u DefaultSigner =
     (fixed_use J L V key (draw_uuid dr) u, holds_key key (draw_uuid dr))"
  by (cases u) (simp_all add: Signer_init_def Signer_PublicKey_def holds_key_def DefaultSigner_def)

lemma run_held_key:
  "run_signer J L V us (holds_key key keyID) = (map (fixed_use J L V key keyID \<circ> snd) us, holds_key key keyID)"
  by (induction us) (auto simp: use_held_key)

lemma uses_fixed_key:
  assumes "draw_key dr = Inr key"
  shows "run_signer J L V ((dr, u) # us) DefaultSigner =
    (map (fixed_use J L V key (draw_uuid dr)) (u # map snd us), holds_key key (draw_uuid dr))"
  by (simp add: use_first_key [OF assms] run_held_key)

text \<open>A generator that fails on first use leaves a signer without a key for good.\<close>

definition keyless :: Signer where
  "keyless = DefaultSigner\<lparr>Signer_once := True\<rparr>"

lemma use_keyless:
  obtains ans where "use_signer J L V dr u keyless = (ans, keyless)" "u = UseJWKS \<Longrightarrow> ans = Panic_answer"
    "\<And>now tok nonce uri. u = UseVerifyVpToken now tok nonce uri \<Longrightarrow> ans = Panic_answer"
  by (cases u) (simp_all add: Signer_init_def Signer_PublicKey_def keyless_def DefaultSigner_def)

lemma failed_key_final:
  assumes "draw_key dr = Inl err"
  shows "use_signer J L V dr u DefaultSigner = (Panic_answer, keyless)"
    and "snd (run_signer J L V us keyless) = keyless"
    and "(dr', UseJWKS) \<in> set us \<Longrightarrow> Panic_answer \<in> set (fst (run_signer J L V us keyless))"
proof -
  show "use_signer J L V dr u DefaultSigner = (Panic_answer, keyless)"
    using assms by (cases u) (simp_all add: Signer_init_def Signer_PublicKey_def keyless_def DefaultSigner_def)
  have "snd (run_signer J L V us keyless) = keyless
      \<and> ((dr', UseJWKS) \<in> set us \<longrightarrow> Panic_answer \<in> set (fst (run_signer J L V us keyless)))"
  proof (induction us)
    case (Cons a us)
    obtain dr1 u1 where a: "a = (dr1, u1)" by fastforce
    obtain ans where "use_signer J L V dr1 u1 keyless = (ans, keyless)" "u1 = UseJWKS \<Longrightarrow> ans = Panic_answer"
      by (rule use_keyless [of J L V dr1 u1]) blast
    with Cons a show ?case by (auto split: prod.splits)
  qed simp
  then show "snd (run_signer J L V us keyless) = keyless"
    "(dr', UseJWKS) \<in> set us \<Longrightarrow> Panic_answer \<in> set (fst (run_signer J L V us keyless))" by blast+
qed

section \<open>The key set is that of the signatures\<close>

lemma JWKS_answers:
  assumes "PrivateKey_X key < 2 ^ 256" "PrivateKey_Y key < 2 ^ 256"
    and "JWKS_answer r \<in> set (map (fixed_use J L V key keyID) us)"
  obtains j ks where "r = Respond 200 (JSON_Value j)" "dec_jwks j = Some ks"
    "collect_keys ks Map.empty = [keyID \<mapsto> EcKey ''P-256'' (int (PrivateKey_X key)) (int (PrivateKey_Y key))]"
proof -
  obtain u where "u \<in> set us" "JWKS_answer r = fixed_use J L V key keyID u" using assms(3) by auto
  from this(2) have "r = JWKS keyID (PrivateKey_X key) (PrivateKey_Y key)" by (cases u) simp_all
  then show ?thesis using JWKS_readable [OF assms(1,2), of keyID] that by metis
qed

section \<open>What the process signs it accepts\<close>

text \<open>
  The library's contract: a token signed with a key is not empty, has no separator, and parses with the key's
  public point to the signed claims before they expire.
\<close>

definition keys_agree :: "JwtKeys \<Rightarrow> bool" where
  "keys_agree J \<longleftrightarrow> (\<forall>key h c t. jk_sign J (Some key) h c = Some t \<longrightarrow> t \<noteq> [] \<and> CHR ''~'' \<notin> set t \<and>
     (\<forall>now. now < RegisteredClaims_ExpiresAt (sdJWTClaims_RegisteredClaims c) * Second \<longrightarrow>
        jk_parse J (PrivateKey_X key, PrivateKey_Y key) now t = Inr (issuer_view c)))"

definition codecs_agree :: "Lib \<Rightarrow> VpLib \<Rightarrow> bool" where
  "codecs_agree L V \<longleftrightarrow> vp_sha256 V = lib_sha256 L
     \<and> (\<forall>j b. lib_marshal L j = Some b \<longrightarrow> b \<noteq> [] \<and> vp_unmarshal V b = Some j)"

lemma key_libs_agree:
  "keys_agree J \<Longrightarrow> codecs_agree L V \<Longrightarrow>
     libs_agree (signing_lib J (Some key) keyID L) (verifying_lib J (PrivateKey_X key, PrivateKey_Y key) V)"
  by (simp add: libs_agree_def keys_agree_def codecs_agree_def signing_lib_def verifying_lib_def)

lemma token_accepted:
  assumes "keys_agree J" "codecs_agree L V"
    and "fixed_use J L V key keyID (UseBuildSDJWT salt uuid now iss d vu idx) = Token_answer (Some (token, cid))"
    and "now' < NumericDate (credential_expiry now vu) * Second"
  shows "\<exists>vc. fixed_use J L V key keyID (UseVerifyVpToken now' token nonce uri) = Claims_answer (Inr vc)
    \<and> VerifiedClaims_CredentialID vc = cid \<and> VerifiedClaims_DepositID vc = Deposit_ID d
    \<and> VerifiedClaims_DepositAmount vc = DepositData_Amount (Deposit_Deposit d)"
proof -
  have b: "BuildSDJWT (signing_lib J (Some key) keyID L) salt uuid now iss d vu idx = Some (token, cid)"
    using assms(3) by simp
  obtain jws encs hs where e: "token = sd_jwt jws encs" "presented (\<lambda>_. True) encs (sd_specs now d vu) = encs"
    "\<And>P nonce uri. VerifyVpToken (verifying_lib J (PrivateKey_X key, PrivateKey_Y key) V) now'
      (sd_jwt jws (presented P encs (sd_specs now d vu))) nonce uri =
      Inr (selected_claims now' (credential_claims (signing_lib J (Some key) keyID L) iss cid now d vu idx hs) P (sd_specs now d vu))"
    by (rule issued_presentation [OF key_libs_agree [OF assms(1,2)] b assms(4)]) (rule that)
  show ?thesis using e(3) [of "\<lambda>_. True" nonce uri] e(1,2) by (simp add: selected_claims_fields)
qed

end
