(* ===== verification/GoJson.thy ===== *)
theory GoJson
  imports Json
begin

text \<open>
  How \<open>json.Unmarshal\<close> fills the fields of a struct from a document that comes from outside: an
  object key selects a field by its exact name or, failing that, up to case folding; a later key
  overrides an earlier one; \<open>null\<close> leaves a field as it is; a value of the wrong kind is an error.
  No two fields of the structs it is used for have names that fold alike.
\<close>

text \<open>
  \<open>foldName\<close>: ASCII letters become upper case; the Kelvin sign folds to \<open>K\<close> and the long s to \<open>S\<close>.
  Other characters above ASCII never fold to an ASCII character.
\<close>

definition fold_char :: "char \<Rightarrow> char" where
  "fold_char c = (let n = of_char c :: nat in if 97 \<le> n \<and> n \<le> 122 then char_of (n - 32) else c)"

fun fold_name :: "string \<Rightarrow> string" where
  "fold_name [] = []"
| "fold_name [c] = [fold_char c]"
| "fold_name [c, c1] = (if c = CHR 0xC5 \<and> c1 = CHR 0xBF then ''S'' else fold_char c # fold_name [c1])"
| "fold_name (c # c1 # c2 # cs) =
     (if c = CHR 0xC5 \<and> c1 = CHR 0xBF then CHR ''S'' # fold_name (c2 # cs)
      else if c = CHR 0xE2 \<and> c1 = CHR 0x84 \<and> c2 = CHR 0xAA then CHR ''K'' # fold_name cs
      else fold_char c # fold_name (c1 # c2 # cs))"

definition same_field :: "string \<Rightarrow> string \<Rightarrow> bool" where
  "same_field k name \<longleftrightarrow> k = name \<or> fold_name k = fold_name name"

fun go_field :: "(json \<Rightarrow> 'a option) \<Rightarrow> string \<Rightarrow> (string \<times> json) list \<Rightarrow> 'a \<Rightarrow> 'a option" where
  "go_field dec name [] acc = Some acc"
| "go_field dec name ((k, v) # rest) acc =
     (if same_field k name \<and> v \<noteq> JNull
      then (case dec v of None \<Rightarrow> None | Some x \<Rightarrow> go_field dec name rest x)
      else go_field dec name rest acc)"

text \<open>The members of the object a struct is read from; \<open>null\<close> has none.\<close>

fun members :: "json \<Rightarrow> (string \<times> json) list option" where
  "members (JObj kvs) = Some kvs"
| "members JNull = Some []"
| "members _ = None"

definition str_field :: "string \<Rightarrow> (string \<times> json) list \<Rightarrow> string option" where
  "str_field name kvs = go_field (\<lambda>j. g_str (Some j)) name kvs []"

definition int_field :: "string \<Rightarrow> (string \<times> json) list \<Rightarrow> int option" where
  "int_field name kvs = go_field (\<lambda>j. g_int (Some j)) name kvs 0"

definition float_field :: "string \<Rightarrow> (string \<times> json) list \<Rightarrow> float64 option" where
  "float_field name kvs = go_field (\<lambda>j. g_float (Some j)) name kvs f_zero"

definition strings_field :: "string \<Rightarrow> (string \<times> json) list \<Rightarrow> string list option" where
  "strings_field name kvs = go_field (\<lambda>j. g_list dec_string (Some j)) name kvs []"

lemma go_field_skip: "list_all (\<lambda>(k, v). \<not> same_field k name) kvs \<Longrightarrow> go_field dec name kvs acc = Some acc"
  by (induction kvs) auto

lemma go_field_append:
  "go_field dec name (xs @ ys) acc = Option.bind (go_field dec name xs acc) (go_field dec name ys)"
  by (induction xs arbitrary: acc) (auto split: option.splits)

section \<open>Names of lower case letters\<close>

definition low_char :: "char \<Rightarrow> bool" where
  "low_char c \<longleftrightarrow> c = CHR ''_'' \<or> (97 \<le> (of_char c :: nat) \<and> (of_char c :: nat) \<le> 122)"

lemma fold_name_map:
  "list_all (\<lambda>c. c \<noteq> CHR 0xC5 \<and> c \<noteq> CHR 0xE2) s \<Longrightarrow> fold_name s = map fold_char s"
  by (induction s rule: fold_name.induct) auto

lemma low_char_ascii: "low_char c \<Longrightarrow> c \<noteq> CHR 0xC5 \<and> c \<noteq> CHR 0xE2"
  by (auto simp: low_char_def)

lemma fold_char_low_inj:
  assumes "low_char a" "low_char b" "fold_char a = fold_char b"
  shows "a = b"
proof -
  have up: "(of_char (fold_char c) :: nat) = (if c = CHR ''_'' then 95 else of_char c - 32)" if "low_char c" for c
    using that by (auto simp: low_char_def fold_char_def Let_def)
  define m where "m = (of_char a :: nat)"
  define n where "n = (of_char b :: nat)"
  have a: "a = CHR ''_'' \<or> 97 \<le> m \<and> m \<le> 122" and b: "b = CHR ''_'' \<or> 97 \<le> n \<and> n \<le> 122"
    using assms(1,2) by (simp_all add: low_char_def m_def n_def)
  have eq: "(if a = CHR ''_'' then 95 else m - 32) = (if b = CHR ''_'' then 95 else n - 32)"
    using up [OF assms(1)] up [OF assms(2)] assms(3) by (simp only: m_def n_def)
  consider "a = CHR ''_''" "b = CHR ''_''" | "97 \<le> m" "97 \<le> n" "m - 32 = n - 32"
    using a b eq by (cases "a = CHR ''_''"; cases "b = CHR ''_''") auto
  then show ?thesis
  proof cases
    case 2
    then have "m = n" by linarith
    then show ?thesis by (simp add: m_def n_def)
  qed simp
qed

lemma same_field_low:
  assumes "list_all low_char k" "list_all low_char name"
  shows "same_field k name \<longleftrightarrow> k = name"
proof -
  have fold: "list_all low_char s \<Longrightarrow> fold_name s = map fold_char s" for s
    using low_char_ascii by (intro fold_name_map) (auto simp: list_all_iff)
  have "map fold_char k = map fold_char name \<Longrightarrow> k = name"
    using assms by (induction k name rule: list_induct2') (auto dest: fold_char_low_inj)
  then show ?thesis using fold assms by (auto simp: same_field_def)
qed

lemma same_field_length:
  assumes "length k \<noteq> length name" "list_all (\<lambda>c. c \<noteq> CHR 0xC5 \<and> c \<noteq> CHR 0xE2) (k @ name)"
  shows "\<not> same_field k name"
proof
  assume "same_field k name"
  then have "map fold_char k = map fold_char name" using assms(2) by (auto simp: same_field_def fold_name_map)
  then have "length (map fold_char k) = length (map fold_char name)" by simp
  then show False using assms(1) by simp
qed

end
