(* ===== verification/SdkVerifier.thy ===== *)
theory SdkVerifier
  imports Verification GoFmt GoJson "HOL-Library.Sublist"
begin

text \<open>
  The Go SDK's verifier of presentations (\<open>sdk-examples/go/openid4vp/service.go\<close>), for landlord
  applications: building the presentation request and verifying a \<open>vp_token\<close>. Errors are the
  constructors of \<open>sdk_error\<close>, one for each error the code builds. The JSON text parser and SHA-256 are
  those of \<open>VpLib\<close>; clock readings and random bytes are arguments.

  The result is \<open>Sdk_accepts_presented\<close>: what the server issues, the SDK accepts, for any selection
  of disclosures, with the values the server's own verifier reads. \<open>Sdk_ignores_signature\<close> records that
  the issuer's signature is not part of that check.
\<close>

section \<open>Requests\<close>

text \<open>\<open>strings.SplitN\<close> at a one-byte separator, for a positive count.\<close>

fun SplitN :: "string \<Rightarrow> char \<Rightarrow> nat \<Rightarrow> string list" where
  "SplitN s sep 0 = []"
| "SplitN s sep (Suc 0) = [s]"
| "SplitN [] sep n = [[]]"
| "SplitN (c # s) sep (Suc (Suc n)) =
     (if c = sep then [] # SplitN s sep (Suc n)
      else (case SplitN s sep (Suc (Suc n)) of [] \<Rightarrow> [[c]] | p # ps \<Rightarrow> (c # p) # ps))"

text \<open>\<open>newUUID\<close> from the 16 random bytes: version and variant bits, then five groups of hexadecimal digits.\<close>

definition hex_bytes :: "byte list \<Rightarrow> string" where
  "hex_bytes bs = concat (map (\<lambda>b. hex_digits 2 (unat b)) bs)"

definition newUUID :: "byte list option \<Rightarrow> string option" where
  "newUUID rand =
     (case rand of
        None \<Rightarrow> None
      | Some b0 \<Rightarrow>
          let b1 = b0[6 := or (and (b0 ! 6) 0x0f) 0x40];
              b = b1[8 := or (and (b1 ! 8) 0x3f) 0x80]
          in Some (hex_bytes (take 4 b) @ ''-'' @ hex_bytes (take 2 (drop 4 b)) @ ''-'' @ hex_bytes (take 2 (drop 6 b))
               @ ''-'' @ hex_bytes (take 2 (drop 8 b)) @ ''-'' @ hex_bytes (take 6 (drop 10 b))))"

record VpRequestResult =
  VpRequestResult_Nonce :: string
  VpRequestResult_VpRequest :: VpRequest

definition optional_field :: "string \<Rightarrow> Field" where
  "optional_field p = (plain_field p)\<lparr>Field_Optional := True\<rparr>"

definition Sdk_BuildVpRequest :: "string \<Rightarrow> byte list option \<Rightarrow> string \<Rightarrow> string \<Rightarrow> VpRequestResult option" where
  "Sdk_BuildVpRequest clientID rand depositID responseURI =
     map_option (\<lambda>nonce. \<lparr>VpRequestResult_Nonce = nonce, VpRequestResult_VpRequest = \<lparr>
       VpRequest_ClientID = clientID, VpRequest_ResponseType = ''vp_token'',
       VpRequest_ResponseMode = ''direct_post'', VpRequest_ResponseURI = responseURI,
       VpRequest_Nonce = nonce, VpRequest_State = depositID,
       VpRequest_PresentationDefinition = \<lparr>
         PresentationDefinition_ID = ''deposit-pledge-attestation-pd'',
         PresentationDefinition_InputDescriptors = [\<lparr>
           InputDescriptor_ID = ''deposit-pledge-attestation'',
           InputDescriptor_Format = [(''vc+sd-jwt'', [''ES256''])],
           InputDescriptor_Constraints = \<lparr>
             Constraints_Fields = [
               \<lparr>Field_Path = [''$.vct''],
                Field_Filter = Some \<lparr>FieldFilter_Type = ''string'', FieldFilter_Const = ''DepositPledgeAttestation''\<rparr>,
                Field_Optional = False\<rparr>,
               plain_field ''$.deposit_id'', plain_field ''$.pledge_date'', plain_field ''$.statutory_basis'',
               plain_field ''$.issuing_bank'', optional_field ''$.deposit_amount'', optional_field ''$.currency'',
               optional_field ''$.property_address'', optional_field ''$.tenant_first_name'',
               optional_field ''$.tenant_last_name'', optional_field ''$.pledged_until''],
             Constraints_LimitDisclosure = ''required''\<rparr>\<rparr>]\<rparr>\<rparr>\<rparr>) (newUUID rand)"

section \<open>Claims and errors\<close>

record IssuerClaims =
  IssuerClaims_CredentialID :: string
  IssuerClaims_DepositID :: string
  IssuerClaims_PledgeDate :: string
  IssuerClaims_StatutoryBasis :: string
  IssuerClaims_IssuingBank :: string
  IssuerClaims_SDHashes :: "string list"
  IssuerClaims_Exp :: int

record SdkVerifiedClaims =
  SdkVerifiedClaims_CredentialID :: string
  SdkVerifiedClaims_DepositID :: string
  SdkVerifiedClaims_PledgeDate :: string
  SdkVerifiedClaims_StatutoryBasis :: string
  SdkVerifiedClaims_IssuingBank :: string
  SdkVerifiedClaims_DepositAmount :: "float64 option"
  SdkVerifiedClaims_Currency :: "string option"
  SdkVerifiedClaims_PropertyAddress :: "string option"
  SdkVerifiedClaims_TenantFirstName :: "string option"
  SdkVerifiedClaims_TenantLastName :: "string option"
  SdkVerifiedClaims_PledgedUntil :: "string option"
  SdkVerifiedClaims_VerifiedAt :: time

datatype sdk_error =
    MissingIssuerJWT | MalformedJWT | PayloadBase64 | PayloadJSON | IssuerExpired
  | UnknownDigest string | DisclosureBase64 | DisclosureShape | DisclosureName
  | MalformedKB | KBHeaderBase64 | KBType string | KBPayloadBase64 | KBPayloadJSON
  | KBNonce string | KBAudience string | KBHash | KBTime

text \<open>The readings of the clock by one verification.\<close>

record SdkClock =
  sc_expiry :: time
  sc_kb :: time
  sc_verified :: time

definition Unix :: "time \<Rightarrow> int" where
  "Unix t = t div Second"

section \<open>Verification\<close>

definition dec_IssuerClaims :: "json \<Rightarrow> IssuerClaims option" where
  "dec_IssuerClaims j = do {
     kvs \<leftarrow> members j;
     jti \<leftarrow> str_field ''jti'' kvs; did \<leftarrow> str_field ''deposit_id'' kvs; pd \<leftarrow> str_field ''pledge_date'' kvs;
     sb \<leftarrow> str_field ''statutory_basis'' kvs; ib \<leftarrow> str_field ''issuing_bank'' kvs;
     sd \<leftarrow> strings_field ''_sd'' kvs; e \<leftarrow> int_field ''exp'' kvs;
     Some \<lparr>IssuerClaims_CredentialID = jti, IssuerClaims_DepositID = did, IssuerClaims_PledgeDate = pd,
       IssuerClaims_StatutoryBasis = sb, IssuerClaims_IssuingBank = ib, IssuerClaims_SDHashes = sd, IssuerClaims_Exp = e\<rparr> }"

definition verifyIssuerJWT :: "VpLib \<Rightarrow> string \<Rightarrow> sdk_error + IssuerClaims" where
  "verifyIssuerJWT V jwt =
     (let parts = SplitN jwt (CHR ''.'') 3 in
      if length parts < 3 then Inl MalformedJWT
      else case RawURLDecode (parts ! 1) of
        None \<Rightarrow> Inl PayloadBase64
      | Some raw \<Rightarrow> (case Option.bind (vp_unmarshal V (string_of raw)) dec_IssuerClaims of
          None \<Rightarrow> Inl PayloadJSON
        | Some c \<Rightarrow> Inr c))"

definition verifyKbJWT :: "VpLib \<Rightarrow> time \<Rightarrow> string \<Rightarrow> string \<Rightarrow> string list \<Rightarrow> string \<Rightarrow> string \<Rightarrow> sdk_error option" where
  "verifyKbJWT V now kbJWT issuerJWT disclosures expectedNonce responseURI =
     (let parts = SplitN kbJWT (CHR ''.'') 3 in
      if length parts < 2 then Some MalformedKB
      else case RawURLDecode (parts ! 0) of
        None \<Rightarrow> Some KBHeaderBase64
      | Some headerRaw \<Rightarrow>
          (let typ = do { j \<leftarrow> vp_unmarshal V (string_of headerRaw); kvs \<leftarrow> members j; str_field ''typ'' kvs } in
           if typ \<noteq> Some ''kb+jwt'' then Some (KBType (case_option [] (\<lambda>t. t) typ))
           else case RawURLDecode (parts ! 1) of
             None \<Rightarrow> Some KBPayloadBase64
           | Some payloadRaw \<Rightarrow>
               (case do { j \<leftarrow> vp_unmarshal V (string_of payloadRaw); kvs \<leftarrow> members j;
                          nonce \<leftarrow> str_field ''nonce'' kvs; aud \<leftarrow> str_field ''aud'' kvs;
                          h \<leftarrow> str_field ''sd_hash'' kvs; iat \<leftarrow> int_field ''iat'' kvs;
                          Some (nonce, aud, h, iat) } of
                  None \<Rightarrow> Some KBPayloadJSON
                | Some (nonce, aud, h, iat) \<Rightarrow>
                    if nonce \<noteq> expectedNonce then Some (KBNonce nonce)
                    else if aud \<noteq> responseURI then Some (KBAudience aud)
                    else if h \<noteq> vp_hash V (issuerJWT @ ''~'' @ concat (map (\<lambda>d. d @ ''~'') disclosures)) then Some KBHash
                    else if iat > Unix now + 30 \<or> iat < Unix now - 300 then Some KBTime
                    else None)))"

text \<open>The last non-empty part is the key-binding token, the parts in between are disclosures.\<close>

definition Sdk_split :: "string list \<Rightarrow> string \<times> string list" where
  "Sdk_split parts =
     (if length parts > 1
      then let kbJWT = last parts;
               discEnd = (if kbJWT = [] then length parts else length parts - 1)
           in (kbJWT, filter (\<lambda>d. d \<noteq> []) (drop 1 (take discEnd parts)))
      else ([], []))"

fun Sdk_disclosures ::
  "VpLib \<Rightarrow> string list \<Rightarrow> string list \<Rightarrow> (string \<rightharpoonup> json) \<Rightarrow> sdk_error + (string \<rightharpoonup> json)" where
  "Sdk_disclosures V sd [] disclosed = Inr disclosed"
| "Sdk_disclosures V sd (enc # rest) disclosed =
     (if vp_hash V enc \<notin> set sd then Inl (UnknownDigest (vp_hash V enc))
      else case RawURLDecode enc of
        None \<Rightarrow> Inl DisclosureBase64
      | Some raw \<Rightarrow> (case vp_unmarshal V (string_of raw) of
          Some (JArr (salt # name # value # others)) \<Rightarrow> (case g_str (Some name) of
            None \<Rightarrow> Inl DisclosureName
          | Some n \<Rightarrow> Sdk_disclosures V sd rest (disclosed(n \<mapsto> value)))
        | _ \<Rightarrow> Inl DisclosureShape))"

definition optString :: "(string \<rightharpoonup> json) \<Rightarrow> string \<Rightarrow> string option" where
  "optString m key = (case m key of None \<Rightarrow> None | Some v \<Rightarrow> g_str (Some v))"

definition optFloat :: "(string \<rightharpoonup> json) \<Rightarrow> string \<Rightarrow> float64 option" where
  "optFloat m key = (case m key of None \<Rightarrow> None | Some v \<Rightarrow> g_float (Some v))"

definition Sdk_claims :: "time \<Rightarrow> IssuerClaims \<Rightarrow> (string \<rightharpoonup> json) \<Rightarrow> SdkVerifiedClaims" where
  "Sdk_claims now c disclosed = \<lparr>
     SdkVerifiedClaims_CredentialID = IssuerClaims_CredentialID c, SdkVerifiedClaims_DepositID = IssuerClaims_DepositID c,
     SdkVerifiedClaims_PledgeDate = IssuerClaims_PledgeDate c, SdkVerifiedClaims_StatutoryBasis = IssuerClaims_StatutoryBasis c,
     SdkVerifiedClaims_IssuingBank = IssuerClaims_IssuingBank c,
     SdkVerifiedClaims_DepositAmount = optFloat disclosed ''deposit_amount'',
     SdkVerifiedClaims_Currency = optString disclosed ''currency'',
     SdkVerifiedClaims_PropertyAddress = optString disclosed ''property_address'',
     SdkVerifiedClaims_TenantFirstName = optString disclosed ''tenant_first_name'',
     SdkVerifiedClaims_TenantLastName = optString disclosed ''tenant_last_name'',
     SdkVerifiedClaims_PledgedUntil = optString disclosed ''pledged_until'',
     SdkVerifiedClaims_VerifiedAt = now\<rparr>"

definition Sdk_VerifyVpToken ::
  "VpLib \<Rightarrow> SdkClock \<Rightarrow> string \<Rightarrow> string \<Rightarrow> string \<Rightarrow> sdk_error + SdkVerifiedClaims" where
  "Sdk_VerifyVpToken V clock vpToken expectedNonce responseURI =
     (let parts = SplitChar vpToken (CHR ''~''); issuerJWT = hd parts in
      if issuerJWT = [] then Inl MissingIssuerJWT
      else case Sdk_split parts of (kbJWT, disclosureEncodings) \<Rightarrow>
        (case verifyIssuerJWT V issuerJWT of
           Inl err \<Rightarrow> Inl err
         | Inr c \<Rightarrow>
             if Unix (sc_expiry clock) \<ge> IssuerClaims_Exp c then Inl IssuerExpired
             else case Sdk_disclosures V (IssuerClaims_SDHashes c) disclosureEncodings Map.empty of
               Inl err \<Rightarrow> Inl err
             | Inr disclosed \<Rightarrow>
                 (case (if kbJWT = [] then None
                        else verifyKbJWT V (sc_kb clock) kbJWT issuerJWT disclosureEncodings expectedNonce responseURI) of
                    Some err \<Rightarrow> Inl err
                  | None \<Rightarrow> Inr (Sdk_claims (sc_verified clock) c disclosed))))"

section \<open>The payload of an issued credential\<close>

text \<open>
  The JSON form of the claims of \<open>issuance/credential.go\<close>, registered claims first, as the JWT library
  writes it into the payload part of a token; \<open>signs_payload\<close> is that documented behaviour.
\<close>

definition opt_member :: "string \<Rightarrow> string \<Rightarrow> (string \<times> json) list" where
  "opt_member k v = (if v = [] then [] else [(k, JStr v)])"

definition enc_credentialStatus :: "credentialStatus \<Rightarrow> json" where
  "enc_credentialStatus st = JObj [(''id'', JStr (credentialStatus_ID st)), (''type'', JStr (credentialStatus_Type st)),
     (''statusPurpose'', JStr (credentialStatus_StatusPurpose st)),
     (''statusListIndex'', JStr (credentialStatus_StatusListIndex st)),
     (''statusListCredential'', JStr (credentialStatus_StatusListCredential st))]"

definition credential_payload :: "sdJWTClaims \<Rightarrow> (string \<times> json) list" where
  "credential_payload c =
     (let r = sdJWTClaims_RegisteredClaims c in
      opt_member ''iss'' (RegisteredClaims_Issuer r) @ opt_member ''sub'' (RegisteredClaims_Subject r)
    @ [(''exp'', JInt (RegisteredClaims_ExpiresAt r)), (''iat'', JInt (RegisteredClaims_IssuedAt r))]
    @ opt_member ''jti'' (RegisteredClaims_ID r)
    @ [(''vct'', JStr (sdJWTClaims_VCT c)), (''_sd_alg'', JStr (sdJWTClaims_SDAlg c)),
       (''_sd'', JArr (map JStr (sdJWTClaims_SD c))), (''deposit_id'', JStr (sdJWTClaims_DepositID c)),
       (''pledge_date'', JStr (sdJWTClaims_PledgeDate c)), (''statutory_basis'', JStr (sdJWTClaims_StatutoryBasis c)),
       (''issuing_bank'', JStr (sdJWTClaims_IssuingBank c))]
    @ opt_member ''issuing_bank_id'' (sdJWTClaims_IssuingBankID c) @ opt_member ''property_id'' (sdJWTClaims_PropertyID c)
    @ (case sdJWTClaims_CredentialStatus c of None \<Rightarrow> [] | Some st \<Rightarrow> [(''credentialStatus'', enc_credentialStatus st)]))"

definition signs_payload :: "Lib \<Rightarrow> VpLib \<Rightarrow> bool" where
  "signs_payload L V \<longleftrightarrow> (\<forall>h c t. lib_sign L h c = Some t \<longrightarrow>
     (\<exists>head sig p. t = head @ ''.'' @ RawURLEncode (bytes_of p) @ ''.'' @ sig \<and> CHR ''.'' \<notin> set head
        \<and> vp_unmarshal V p = Some (JObj (credential_payload c))))"

definition payload_names :: "string list" where
  "payload_names = [''iss'', ''sub'', ''exp'', ''iat'', ''jti'', ''vct'', ''_sd_alg'', ''_sd'', ''deposit_id'', ''pledge_date'',
     ''statutory_basis'', ''issuing_bank'', ''issuing_bank_id'', ''property_id'', ''credentialStatus'']"

definition read_names :: "string list" where
  "read_names = [''jti'', ''deposit_id'', ''pledge_date'', ''statutory_basis'', ''issuing_bank'', ''_sd'', ''exp'']"

lemma payload_names_low: "list_all (\<lambda>k. k = ''credentialStatus'' \<or> list_all low_char k) payload_names"
  by (simp add: payload_names_def low_char_def)

lemma payload_names_fold:
  assumes "k \<in> set payload_names" "name \<in> set read_names"
  shows "same_field k name \<longleftrightarrow> k = name"
proof -
  have low: "list_all low_char name" and len: "length name \<le> 15" and fit: "length name \<noteq> 16"
    using assms(2) by (auto simp: read_names_def low_char_def)
  show ?thesis
  proof (cases "k = ''credentialStatus''")
    case True
    have "list_all (\<lambda>c. c \<noteq> CHR 0xC5 \<and> c \<noteq> CHR 0xE2) (k @ name)"
      using low low_char_ascii by (auto simp: True list_all_iff)
    then show ?thesis using same_field_length [of k name] fit True by auto
  next
    case False
    then have "list_all low_char k" using assms(1) payload_names_low by (auto simp: list_all_iff)
    then show ?thesis using low by (rule same_field_low)
  qed
qed

lemma go_field_map_of:
  assumes "fst ` set kvs \<subseteq> set payload_names" "name \<in> set read_names" "distinct (map fst kvs)"
  shows "go_field dec name kvs acc =
    (case map_of kvs name of None \<Rightarrow> Some acc | Some v \<Rightarrow> if v = JNull then Some acc else dec v)"
  using assms(1,3)
proof (induction kvs arbitrary: acc)
  case (Cons kv kvs)
  obtain k v where kv: "kv = (k, v)" by fastforce
  have same: "same_field k name \<longleftrightarrow> k = name"
    using payload_names_fold Cons.prems(1) assms(2) kv by auto
  have "k = name \<Longrightarrow> map_of kvs name = None" using Cons.prems(2) kv by (auto simp: map_of_eq_None_iff)
  then show ?case using Cons kv same by (auto split: option.splits)
qed simp

lemma subseq_set: "subseq xs ys \<Longrightarrow> set xs \<subseteq> set ys"
  by (induction rule: list_emb.induct) auto

lemma subseq_distinct: "subseq xs ys \<Longrightarrow> distinct ys \<Longrightarrow> distinct xs"
  by (induction rule: list_emb.induct) (auto dest: subseq_set)

lemma opt_member_keys: "map fst (opt_member k v) = (if v = [] then [] else [k])"
  by (simp add: opt_member_def)

lemma credential_payload_keys:
  "fst ` set (credential_payload c) \<subseteq> set payload_names" "distinct (map fst (credential_payload c))"
proof -
  have "subseq (map fst (credential_payload c)) payload_names"
    by (simp add: credential_payload_def payload_names_def opt_member_keys Let_def split: option.splits)
  moreover have "distinct payload_names" by (simp add: payload_names_def)
  ultimately show "distinct (map fst (credential_payload c))" by (rule subseq_distinct)
  show "fst ` set (credential_payload c) \<subseteq> set payload_names"
    using subseq_set [OF \<open>subseq _ payload_names\<close>] by simp
qed

text \<open>The claims the SDK reads from the payload of an issued credential.\<close>

definition sdk_view :: "sdJWTClaims \<Rightarrow> IssuerClaims" where
  "sdk_view c = \<lparr>IssuerClaims_CredentialID = RegisteredClaims_ID (sdJWTClaims_RegisteredClaims c),
     IssuerClaims_DepositID = sdJWTClaims_DepositID c, IssuerClaims_PledgeDate = sdJWTClaims_PledgeDate c,
     IssuerClaims_StatutoryBasis = sdJWTClaims_StatutoryBasis c, IssuerClaims_IssuingBank = sdJWTClaims_IssuingBank c,
     IssuerClaims_SDHashes = sdJWTClaims_SD c,
     IssuerClaims_Exp = RegisteredClaims_ExpiresAt (sdJWTClaims_RegisteredClaims c)\<rparr>"

lemma traverse_dec_string: "traverse dec_string (map JStr xs) = Some xs"
  by (induction xs) (simp_all add: dec_string_def)

lemma payload_lookup:
  "map_of (credential_payload c) ''jti'' =
     (if RegisteredClaims_ID (sdJWTClaims_RegisteredClaims c) = [] then None
      else Some (JStr (RegisteredClaims_ID (sdJWTClaims_RegisteredClaims c))))"
  "map_of (credential_payload c) ''exp'' = Some (JInt (RegisteredClaims_ExpiresAt (sdJWTClaims_RegisteredClaims c)))"
  "map_of (credential_payload c) ''_sd'' = Some (JArr (map JStr (sdJWTClaims_SD c)))"
  "map_of (credential_payload c) ''deposit_id'' = Some (JStr (sdJWTClaims_DepositID c))"
  "map_of (credential_payload c) ''pledge_date'' = Some (JStr (sdJWTClaims_PledgeDate c))"
  "map_of (credential_payload c) ''statutory_basis'' = Some (JStr (sdJWTClaims_StatutoryBasis c))"
  "map_of (credential_payload c) ''issuing_bank'' = Some (JStr (sdJWTClaims_IssuingBank c))"
  by (simp_all add: credential_payload_def Let_def opt_member_def map_add_def split: option.splits)

lemma dec_credential_payload:
  assumes "is_int64 (RegisteredClaims_ExpiresAt (sdJWTClaims_RegisteredClaims c))"
  shows "dec_IssuerClaims (JObj (credential_payload c)) = Some (sdk_view c)"
proof -
  note f = go_field_map_of [OF credential_payload_keys(1) _ credential_payload_keys(2)]
  have str: "str_field n (credential_payload c) =
      (case map_of (credential_payload c) n of None \<Rightarrow> Some [] | Some v \<Rightarrow> if v = JNull then Some [] else g_str (Some v))"
    if "n \<in> set read_names" for n using f [OF that] by (simp add: str_field_def)
  have "strings_field ''_sd'' (credential_payload c) = Some (sdJWTClaims_SD c)"
    by (simp add: strings_field_def f read_names_def payload_lookup traverse_dec_string)
  moreover have "int_field ''exp'' (credential_payload c) = Some (RegisteredClaims_ExpiresAt (sdJWTClaims_RegisteredClaims c))"
    using assms by (simp add: int_field_def f read_names_def payload_lookup)
  ultimately show ?thesis
    by (simp add: dec_IssuerClaims_def str read_names_def payload_lookup sdk_view_def)
qed

lemma SplitN_first:
  "sep \<notin> set p \<Longrightarrow> SplitN (p @ sep # s) sep (Suc (Suc n)) = p # SplitN s sep (Suc n)"
  by (induction p) auto

lemma verifyIssuerJWT_payload:
  assumes "CHR ''.'' \<notin> set head" "vp_unmarshal V p = Some j" "dec_IssuerClaims j = Some c"
  shows "verifyIssuerJWT V (head @ ''.'' @ RawURLEncode (bytes_of p) @ ''.'' @ sig) = Inr c"
proof -
  have "SplitN (head @ CHR ''.'' # RawURLEncode (bytes_of p) @ CHR ''.'' # sig) (CHR ''.'') (Suc (Suc (Suc 0))) =
      [head, RawURLEncode (bytes_of p), sig]"
    using SplitN_first [OF assms(1), of "RawURLEncode (bytes_of p) @ CHR ''.'' # sig" 1]
      SplitN_first [OF RawURLEncode_chars(2), of "bytes_of p" sig 0] by simp
  then show ?thesis using assms(2,3) by (simp add: verifyIssuerJWT_def Let_def RawURLDecode_Encode numeral_3_eq_3)
qed

text \<open>The disclosure loops of server and SDK agree wherever the server's succeeds.\<close>

lemma Sdk_disclosures_refines:
  "verify_disclosures V sd encs m = Inr m' \<Longrightarrow> Sdk_disclosures V sd encs m = Inr m'"
  by (induction encs arbitrary: m) (auto split: if_splits option.splits json.splits list.splits)

lemma Sdk_split_presentation:
  assumes "\<forall>p \<in> set ds. p \<noteq> []" "set es \<subseteq> {[]}" "es \<noteq> []"
  shows "Sdk_split (jws # ds @ es) = ([], ds)"
proof -
  have "last es = []" using assms(2,3) last_in_set by blast
  moreover have "filter (\<lambda>d. d \<noteq> []) ds = ds" "filter (\<lambda>d. d \<noteq> []) es = []"
    using assms(1,2) by (auto simp: filter_id_conv filter_empty_conv)
  ultimately show ?thesis using assms(3) by (simp add: Sdk_split_def Let_def)
qed

lemma SplitChar_snoc: "SplitChar (s @ [sep]) sep = SplitChar s sep @ [[]]"
  by (induction s) (auto split: list.splits)

lemma Sdk_accepts_presented:
  assumes "libs_agree L V" "signs_payload L V" "list_all2 (discloses L) encs specs" "distinct (map fst specs)"
    and "lib_sign L h c = Some jws" "sdJWTClaims_SD c = map (disclosure_hash L) encs"
    and "is_int64 (RegisteredClaims_ExpiresAt (sdJWTClaims_RegisteredClaims c))"
    and "Unix (sc_expiry clock) < RegisteredClaims_ExpiresAt (sdJWTClaims_RegisteredClaims c)"
  shows "Sdk_VerifyVpToken V clock (sd_jwt jws (presented P encs specs)) nonce uri =
    Inr (Sdk_claims (sc_verified clock) (sdk_view c) (map_of (filter (\<lambda>spec. P (fst spec)) specs)))"
proof -
  let ?ds = "presented P encs specs" and ?specs = "filter (\<lambda>spec. P (fst spec)) specs"
  have ds: "list_all2 (discloses L) ?ds ?specs" by (rule presented_discloses [OF assms(3)])
  then have chars: "\<forall>p \<in> set ?ds. p \<noteq> [] \<and> CHR ''~'' \<notin> set p"
    using discloses_chars [OF assms(1)] list_all2_left [OF ds] by blast
  have jws: "jws \<noteq> []" "CHR ''~'' \<notin> set jws" using libs_agreeD(4) [OF assms(1,5)] by auto
  obtain es where es: "SplitChar (sd_jwt jws ?ds) (CHR ''~'') = jws # ?ds @ es" "set es \<subseteq> {[]}"
    using SplitChar_presentation [OF jws(2)] chars by blast
  have "es \<noteq> []"
  proof
    assume "es = []"
    then have "last (SplitChar (sd_jwt jws ?ds) (CHR ''~'')) \<noteq> []"
      using es(1) jws(1) chars by (cases "?ds = []") auto
    then show False using SplitChar_snoc [of "jws @ ''~'' @ Join ?ds ''~''"] by (simp add: sd_jwt_def)
  qed
  then have sp: "Sdk_split (jws # ?ds @ es) = ([], ?ds)" using Sdk_split_presentation es(2) chars by blast
  have "verify_disclosures V (sdJWTClaims_SD c) ?ds Map.empty = Inr (map_of (rev ?specs))"
    using verify_disclosures_complete [OF assms(1) ds, of "map (disclosure_hash L) encs" Map.empty]
      presented_subset [of P encs specs] assms(6) by auto
  moreover have "map_of (rev ?specs) = map_of ?specs" using assms(4) by (intro map_of_rev_distinct distinct_map_filter)
  ultimately have sd: "Sdk_disclosures V (sdJWTClaims_SD c) ?ds Map.empty = Inr (map_of ?specs)"
    using Sdk_disclosures_refines by metis
  obtain head sig p where t: "jws = head @ ''.'' @ RawURLEncode (bytes_of p) @ ''.'' @ sig" "CHR ''.'' \<notin> set head"
    "vp_unmarshal V p = Some (JObj (credential_payload c))"
    using assms(2,5) unfolding signs_payload_def by blast
  have "verifyIssuerJWT V jws = Inr (sdk_view c)"
    using verifyIssuerJWT_payload [OF t(2,3) dec_credential_payload [OF assms(7)]] t(1) by simp
  then show ?thesis using jws(1) sp sd assms(8) by (simp add: Sdk_VerifyVpToken_def Let_def es(1) sdk_view_def)
qed

text \<open>The signature part of the issuer's token plays no role.\<close>

lemma Sdk_ignores_signature:
  assumes "CHR ''.'' \<notin> set head" "CHR ''.'' \<notin> set head'"
    and "vp_unmarshal V p = Some j" "dec_IssuerClaims j = Some c"
  shows "verifyIssuerJWT V (head @ ''.'' @ RawURLEncode (bytes_of p) @ ''.'' @ sig) =
    verifyIssuerJWT V (head' @ ''.'' @ RawURLEncode (bytes_of p) @ ''.'' @ sig')"
  using verifyIssuerJWT_payload [OF assms(1,3,4)] verifyIssuerJWT_payload [OF assms(2,3,4)] by simp

end
