(* ===== verification/SdkEid.thy ===== *)
theory SdkEid
  imports SdkVerifier
begin

text \<open>
  The Go SDK's eID integration (\<open>sdk-examples/go/eid\<close>): the webhook handler of \<open>webhook.go\<close> and the
  verification service of \<open>service.go\<close>. HMAC-SHA256, the JSON text parser, the parser of RFC 3339
  timestamps and the HTTP transport are in \<open>EidLib\<close> (\<open>eid_unmarshal\<close> reads a whole text,
  \<open>eid_decode\<close> the first value of it, as \<open>json.Decoder\<close> does). A handler returns its error and the calls it makes, in
  order; the calls that the code makes in a goroutine come in the order of that goroutine.

  \<open>HandleWebhook_push\<close>: an update of the deposit's identity is only pushed for a body signed with the
  webhook secret that reports VERIFIED for that deposit.
\<close>

section \<open>Data\<close>

datatype EIDStatus = EIDStatusNotStarted | EIDStatusPending | EIDStatusVerified | EIDStatusFailed | EIDStatusExpired

fun eid_string :: "EIDStatus \<Rightarrow> string" where
  "eid_string EIDStatusNotStarted = ''NOT_STARTED''"
| "eid_string EIDStatusPending = ''PENDING''"
| "eid_string EIDStatusVerified = ''VERIFIED''"
| "eid_string EIDStatusFailed = ''FAILED''"
| "eid_string EIDStatusExpired = ''EXPIRED''"

definition eid_status :: "string \<Rightarrow> EIDStatus option" where
  "eid_status s = List.find (\<lambda>x. eid_string x = s)
     [EIDStatusNotStarted, EIDStatusPending, EIDStatusVerified, EIDStatusFailed, EIDStatusExpired]"

record VerificationRequest =
  VerificationRequest_DepositID :: string
  VerificationRequest_TenantEmail :: string
  VerificationRequest_RedirectURI :: string
  VerificationRequest_ClientID :: string

record VerificationSession =
  VerificationSession_SessionID :: string
  VerificationSession_AuthorizationURL :: string
  VerificationSession_ExpiresAt :: time

record KYCUpdatePayload =
  KYCUpdatePayload_EIDStatus :: EIDStatus
  KYCUpdatePayload_VerificationTimestamp :: time
  KYCUpdatePayload_ProviderReference :: string

record EidEvent =
  EidEvent_SessionID :: string
  EidEvent_DepositID :: string
  EidEvent_Status :: EIDStatus
  EidEvent_ProviderReference :: string
  EidEvent_CompletedAt :: time
  EidEvent_ErrorCode :: string

datatype eid_error =
    ErrMissingSignature | ErrSignatureMismatch | ErrMissingFields | ErrUnknownStatus string | ErrParseBody
  | ErrBuildRequest | ErrTransport string | ErrHTTP int

datatype http_method = POST | PATCH

record HttpRequest =
  HttpRequest_Method :: http_method
  HttpRequest_URL :: string
  HttpRequest_Headers :: "(string \<times> string) list"
  HttpRequest_Body :: string

text \<open>The answer of the transport: an error, or a status and the body text.\<close>

record EidLib =
  eid_hmac :: "string \<Rightarrow> byte list \<Rightarrow> byte list"
  eid_unmarshal :: "string \<Rightarrow> json option"
  eid_decode :: "string \<Rightarrow> json option"
  eid_parse_time :: "string \<Rightarrow> time option"
  eid_printable :: "nat \<Rightarrow> bool"
  eid_url_ok :: "string \<Rightarrow> bool"
  eid_do :: "HttpRequest \<Rightarrow> string + (int \<times> string)"

section \<open>The webhook (\<open>webhook.go\<close>)\<close>

definition verifyHMAC :: "EidLib \<Rightarrow> byte list \<Rightarrow> string \<Rightarrow> string \<Rightarrow> eid_error option" where
  "verifyHMAC E body signature secret =
     (if signature = [] then Some ErrMissingSignature
      else if hex_bytes (eid_hmac E secret body) \<noteq> signature then Some ErrSignatureMismatch
      else None)"

definition parseWebhookEvent :: "EidLib \<Rightarrow> time \<Rightarrow> byte list \<Rightarrow> eid_error + EidEvent" where
  "parseWebhookEvent E now data =
     (case do { j \<leftarrow> eid_unmarshal E (string_of data); kvs \<leftarrow> members j;
                sid \<leftarrow> str_field ''session_id'' kvs; did \<leftarrow> str_field ''deposit_id'' kvs; st \<leftarrow> str_field ''status'' kvs;
                pr \<leftarrow> str_field ''provider_reference'' kvs; ca \<leftarrow> str_field ''completed_at'' kvs;
                ec \<leftarrow> str_field ''error_code'' kvs; Some (sid, did, st, pr, ca, ec) } of
        None \<Rightarrow> Inl ErrParseBody
      | Some (sid, did, st, pr, ca, ec) \<Rightarrow>
          if did = [] \<or> st = [] then Inl ErrMissingFields
          else (case eid_status st of
            None \<Rightarrow> Inl (ErrUnknownStatus st)
          | Some status \<Rightarrow> Inr \<lparr>EidEvent_SessionID = sid, EidEvent_DepositID = did, EidEvent_Status = status,
              EidEvent_ProviderReference = pr,
              EidEvent_CompletedAt =
                (if ca \<noteq> [] then (case eid_parse_time E ca of Some t \<Rightarrow> t | None \<Rightarrow> now) else now),
              EidEvent_ErrorCode = ec\<rparr>))"

record WebhookHandler =
  WebhookHandler_bearerToken :: string
  WebhookHandler_hasCallback :: bool

datatype eid_call =
    PushKYC string KYCUpdatePayload string
  | OnComplete EidEvent

definition complete :: "WebhookHandler \<Rightarrow> EidEvent \<Rightarrow> eid_call list" where
  "complete h event = (if WebhookHandler_hasCallback h then [OnComplete event] else [])"

definition eid_dispatch :: "WebhookHandler \<Rightarrow> EidEvent \<Rightarrow> eid_call list" where
  "eid_dispatch h event =
     (case EidEvent_Status event of
        EIDStatusVerified \<Rightarrow>
          PushKYC (EidEvent_DepositID event) \<lparr>KYCUpdatePayload_EIDStatus = EIDStatusVerified,
             KYCUpdatePayload_VerificationTimestamp = EidEvent_CompletedAt event,
             KYCUpdatePayload_ProviderReference = EidEvent_ProviderReference event\<rparr> (WebhookHandler_bearerToken h)
          # complete h event
      | EIDStatusFailed \<Rightarrow> complete h event
      | EIDStatusExpired \<Rightarrow> complete h event
      | _ \<Rightarrow> [])"

definition HandleWebhook ::
  "EidLib \<Rightarrow> WebhookHandler \<Rightarrow> time \<Rightarrow> byte list \<Rightarrow> string \<Rightarrow> string \<Rightarrow> eid_error option \<times> eid_call list" where
  "HandleWebhook E h now rawBody signature webhookSecret =
     (case verifyHMAC E rawBody signature webhookSecret of
        Some err \<Rightarrow> (Some err, [])
      | None \<Rightarrow> (case parseWebhookEvent E now rawBody of
          Inl err \<Rightarrow> (Some err, [])
        | Inr event \<Rightarrow> (None, eid_dispatch h event)))"

section \<open>The service (\<open>service.go\<close>)\<close>

definition member_q :: "EidLib \<Rightarrow> string \<Rightarrow> string \<Rightarrow> string" where
  "member_q E k v = [CHR 0x22] @ k @ [CHR 0x22] @ '':'' @ Quote (eid_printable E) v"

definition session_body :: "EidLib \<Rightarrow> VerificationRequest \<Rightarrow> string" where
  "session_body E req = ''{'' @ member_q E ''client_id'' (VerificationRequest_ClientID req) @ '',''
     @ member_q E ''deposit_id'' (VerificationRequest_DepositID req) @ '',''
     @ member_q E ''tenant_email'' (VerificationRequest_TenantEmail req) @ '',''
     @ member_q E ''redirect_uri'' (VerificationRequest_RedirectURI req) @ '',''
     @ [CHR 0x22] @ ''scope'' @ [CHR 0x22] @ '':'' @ [CHR 0x22] @ ''openid eid'' @ [CHR 0x22] @ ''}''"

text \<open>The body of the answer: a decoding error is ignored, and a field it concerns stays empty.\<close>

definition session_answer :: "EidLib \<Rightarrow> string \<Rightarrow> string \<times> string" where
  "session_answer E body =
     (case Option.bind (eid_decode E body) members of
        None \<Rightarrow> ([], [])
      | Some kvs \<Rightarrow> (case_option [] (\<lambda>s. s) (str_field ''session_id'' kvs),
                      case_option [] (\<lambda>s. s) (str_field ''authorization_url'' kvs)))"

definition InitiateVerification ::
  "EidLib \<Rightarrow> string \<Rightarrow> time \<Rightarrow> VerificationRequest \<Rightarrow> eid_error + VerificationSession" where
  "InitiateVerification E baseURL now req =
     (let url = baseURL @ ''/sessions'' in
      if \<not> eid_url_ok E url then Inl ErrBuildRequest
      else case eid_do E \<lparr>HttpRequest_Method = POST, HttpRequest_URL = url,
             HttpRequest_Headers = [(''Content-Type'', ''application/json'')], HttpRequest_Body = session_body E req\<rparr> of
        Inl err \<Rightarrow> Inl (ErrTransport err)
      | Inr (status, body) \<Rightarrow>
          if status \<noteq> 201 then Inl (ErrHTTP status)
          else (case session_answer E body of (sid, auth) \<Rightarrow> Inr \<lparr>
            VerificationSession_SessionID = (if sid = [] then VerificationRequest_DepositID req @ ''-session'' else sid),
            VerificationSession_AuthorizationURL =
              (if auth = [] then baseURL @ ''/authorize?deposit_id='' @ VerificationRequest_DepositID req else auth),
            VerificationSession_ExpiresAt = now + 15 * Minute\<rparr>))"

definition kyc_body :: "EidLib \<Rightarrow> KYCUpdatePayload \<Rightarrow> string" where
  "kyc_body E p = ''{'' @ member_q E ''eid_status'' (eid_string (KYCUpdatePayload_EIDStatus p)) @ '',''
     @ member_q E ''verification_timestamp'' (FormatRFC3339 (KYCUpdatePayload_VerificationTimestamp p)) @ '',''
     @ member_q E ''provider_reference'' (KYCUpdatePayload_ProviderReference p) @ ''}''"

definition kyc_request :: "EidLib \<Rightarrow> string \<Rightarrow> string \<Rightarrow> KYCUpdatePayload \<Rightarrow> string \<Rightarrow> HttpRequest" where
  "kyc_request E apiBaseURL depositID payload bearerToken = \<lparr>
     HttpRequest_Method = PATCH, HttpRequest_URL = apiBaseURL @ ''/deposits/'' @ depositID @ ''/identity'',
     HttpRequest_Headers = [(''Content-Type'', ''application/json''), (''Authorization'', ''Bearer '' @ bearerToken)],
     HttpRequest_Body = kyc_body E payload\<rparr>"

definition UpdateDepositKYCStatus ::
  "EidLib \<Rightarrow> string \<Rightarrow> string \<Rightarrow> KYCUpdatePayload \<Rightarrow> string \<Rightarrow> eid_error option" where
  "UpdateDepositKYCStatus E apiBaseURL depositID payload bearerToken =
     (let req = kyc_request E apiBaseURL depositID payload bearerToken in
      if \<not> eid_url_ok E (HttpRequest_URL req) then Some ErrBuildRequest
      else case eid_do E req of
        Inl err \<Rightarrow> Some (ErrTransport err)
      | Inr (status, body) \<Rightarrow> if status \<noteq> 200 \<and> status \<noteq> 204 then Some (ErrHTTP status) else None)"

section \<open>What a webhook can cause\<close>

lemma find_Some_holds: "List.find P xs = Some x \<Longrightarrow> P x"
  by (induction xs) (auto split: if_splits)

lemma eid_status_string: "eid_status s = Some st \<Longrightarrow> eid_string st = s"
  unfolding eid_status_def by (drule find_Some_holds)

lemma HandleWebhook_ok:
  assumes "HandleWebhook E h now body sig secret = (err, calls)" "err = None \<or> calls \<noteq> []"
  obtains event where "sig \<noteq> []" "sig = hex_bytes (eid_hmac E secret body)" "parseWebhookEvent E now body = Inr event"
    "err = None" "calls = eid_dispatch h event"
proof -
  have ok: "verifyHMAC E body sig secret = None"
    using assms by (cases "verifyHMAC E body sig secret") (simp_all add: HandleWebhook_def)
  obtain event where e: "parseWebhookEvent E now body = Inr event"
    using assms ok by (cases "parseWebhookEvent E now body") (simp_all add: HandleWebhook_def)
  have s: "sig \<noteq> [] \<and> hex_bytes (eid_hmac E secret body) = sig"
    using ok by (cases "sig = []"; cases "hex_bytes (eid_hmac E secret body) = sig") (simp_all add: verifyHMAC_def)
  have "err = None" "calls = eid_dispatch h event" using assms(1) ok e by (simp_all add: HandleWebhook_def)
  then show ?thesis by (rule that [OF conjunct1 [OF s] sym [OF conjunct2 [OF s]] e])
qed

lemma parseWebhookEvent_Inr: "parseWebhookEvent E now body = Inr event \<Longrightarrow> EidEvent_DepositID event \<noteq> []"
  by (auto simp: parseWebhookEvent_def split: option.splits prod.splits if_splits)

lemma HandleWebhook_push:
  assumes "HandleWebhook E h now body sig secret = (err, calls)" "PushKYC did p tok \<in> set calls"
  obtains event where "sig = hex_bytes (eid_hmac E secret body)" "parseWebhookEvent E now body = Inr event"
    "EidEvent_Status event = EIDStatusVerified" "did = EidEvent_DepositID event" "did \<noteq> []" "tok = WebhookHandler_bearerToken h"
    "p = \<lparr>KYCUpdatePayload_EIDStatus = EIDStatusVerified, KYCUpdatePayload_VerificationTimestamp = EidEvent_CompletedAt event,
       KYCUpdatePayload_ProviderReference = EidEvent_ProviderReference event\<rparr>"
proof -
  have "calls \<noteq> []" using assms(2) by auto
  then obtain event where e: "sig = hex_bytes (eid_hmac E secret body)" "parseWebhookEvent E now body = Inr event"
    "calls = eid_dispatch h event" using HandleWebhook_ok [OF assms(1)] by blast
  then show ?thesis
    using that assms(2) parseWebhookEvent_Inr [OF e(2)]
    by (auto simp: eid_dispatch_def complete_def split: EIDStatus.splits if_splits)
qed

end
