(* ===== verification/JsonText.thy ===== *)
theory JsonText
  imports GoJson GoFmt
begin

text \<open>
  The texts that Go's \<open>encoding/json\<close> reads: the grammar of its scanner, with the nesting limit, and the
  conversion of string literals, in which invalid UTF-8 and lone surrogates become the replacement
  character. \<open>Unmarshal\<close> reads a whole text, \<open>Decode\<close> the first value of it, as a \<open>json.Decoder\<close> does. The recursion
  is bounded by a counter; \<open>jvalue_fuel\<close> shows that the length of the text is enough.

  \<open>unquote_Quote\<close> is the exact relation of Go's two ways of quoting: which strings survive when a
  text is built with \<open>%q\<close> and read as JSON, and that all others make the text invalid.
\<close>

section \<open>String literals\<close>

definition quote_mark :: char where
  "quote_mark = CHR 0x22"

definition backslash :: char where
  "backslash = CHR 0x5C"

definition hex_val :: "char \<Rightarrow> nat option" where
  "hex_val c =
     (let n = char_code c in
      if 48 \<le> n \<and> n \<le> 57 then Some (n - 48)
      else if 97 \<le> n \<and> n \<le> 102 then Some (n - 87)
      else if 65 \<le> n \<and> n \<le> 70 then Some (n - 55) else None)"

fun hex4 :: "string \<Rightarrow> nat option" where
  "hex4 (a # b # c # d # _) =
     (case (hex_val a, hex_val b, hex_val c, hex_val d) of
        (Some a, Some b, Some c, Some d) \<Rightarrow> Some (4096 * a + 256 * b + 16 * c + d)
      | _ \<Rightarrow> None)"
| "hex4 _ = None"

text \<open>\<open>utf8.EncodeRune\<close> on a rune that is no surrogate\<close>

definition encode_rune :: "nat \<Rightarrow> string" where
  "encode_rune r =
     (if r < 0x80 then [char_of r]
      else if r < 0x800 then [char_of (0xC0 + r div 64), char_of (0x80 + r mod 64)]
      else if r < 0x10000 then
        [char_of (0xE0 + r div 4096), char_of (0x80 + r div 64 mod 64), char_of (0x80 + r mod 64)]
      else [char_of (0xF0 + r div 262144), char_of (0x80 + r div 4096 mod 64), char_of (0x80 + r div 64 mod 64),
            char_of (0x80 + r mod 64)])"

definition surrogate :: "nat \<Rightarrow> bool" where
  "surrogate r \<longleftrightarrow> 0xD800 \<le> r \<and> r < 0xE000"

text \<open>\<open>utf16.DecodeRune\<close>: a high and a low surrogate make one rune.\<close>

definition surrogate_pair :: "nat \<Rightarrow> nat \<Rightarrow> nat option" where
  "surrogate_pair r r2 =
     (if 0xD800 \<le> r \<and> r < 0xDC00 \<and> 0xDC00 \<le> r2 \<and> r2 < 0xE000
      then Some ((r - 0xD800) * 1024 + (r2 - 0xDC00) + 0x10000) else None)"

text \<open>The rune of an escape \<open>\u\<close> and how many characters after its four digits it uses up.\<close>

definition escaped_rune :: "nat \<Rightarrow> string \<Rightarrow> nat \<times> nat" where
  "escaped_rune r rest =
     (if surrogate r then
        (case rest of
           b # u # ds \<Rightarrow>
             (case (if b = backslash \<and> u = CHR ''u'' then Option.bind (hex4 ds) (surrogate_pair r) else None) of
                Some dec \<Rightarrow> (dec, 6)
              | None \<Rightarrow> (RuneError, 0))
         | _ \<Rightarrow> (RuneError, 0))
      else (r, 0))"

definition simple_escape :: "char \<Rightarrow> char option" where
  "simple_escape c =
     map_of [(quote_mark, quote_mark), (backslash, backslash), (CHR ''/'', CHR ''/''), (CHR ''b'', CHR 0x08), (CHR ''f'', CHR 0x0C),
       (CHR ''n'', CHR 0x0A), (CHR ''r'', CHR 0x0D), (CHR ''t'', CHR 0x09)] c"

definition prepend :: "string \<Rightarrow> (string \<times> string) option \<Rightarrow> (string \<times> string) option" where
  "prepend t res = map_option (\<lambda>(s, rest). (t @ s, rest)) res"

text \<open>The text after an opening quotation mark: the string and what follows the closing mark.\<close>

function (sequential) unquote :: "string \<Rightarrow> (string \<times> string) option" where
  "unquote [] = None"
| "unquote (c # cs) =
     (if c = quote_mark then Some ([], cs)
      else if c = backslash then
        (case cs of
           [] \<Rightarrow> None
         | e # cs1 \<Rightarrow>
             if e = CHR ''u'' then
               (case hex4 cs1 of
                  None \<Rightarrow> None
                | Some r \<Rightarrow>
                    (case escaped_rune r (drop 4 cs1) of
                       (rune, used) \<Rightarrow> prepend (encode_rune rune) (unquote (drop (4 + used) cs1))))
             else (case simple_escape e of None \<Rightarrow> None | Some x \<Rightarrow> prepend [x] (unquote cs1)))
      else if char_code c < 0x20 then None
      else (case decode_rune (c # cs) of
              (r, width) \<Rightarrow>
                if width = 1 \<and> r = RuneError then prepend (encode_rune RuneError) (unquote cs)
                else prepend (take width (c # cs)) (unquote (drop (width - 1) cs))))"
  by pat_completeness auto
termination by (relation "measure length") auto

section \<open>Values\<close>

definition skip_ws :: "string \<Rightarrow> string" where
  "skip_ws = dropWhile (\<lambda>c. c = CHR '' '' \<or> c = CHR 0x09 \<or> c = CHR 0x0A \<or> c = CHR 0x0D)"

definition maxNestingDepth :: nat where
  "maxNestingDepth = 10000"

text \<open>The digits at the start of a text; \<open>None\<close> when there is none.\<close>

definition digits1 :: "string \<Rightarrow> (string \<times> string) option" where
  "digits1 s = (let ds = takeWhile is_digit s in if ds = [] then None else Some (ds, drop (length ds) s))"

definition integer_part :: "string \<Rightarrow> (string \<times> string) option" where
  "integer_part s = (case s of c # cs \<Rightarrow> if c = CHR ''0'' then Some (''0'', cs) else digits1 s | [] \<Rightarrow> None)"

definition fraction_part :: "string \<Rightarrow> (string \<times> string) option" where
  "fraction_part s = (case s of c # cs \<Rightarrow> if c = CHR ''.'' then digits1 cs else Some ([], s) | [] \<Rightarrow> Some ([], []))"

text \<open>The exponent, when there is one.\<close>

definition exponent_part :: "string \<Rightarrow> (int option \<times> string) option" where
  "exponent_part s =
     (case s of
        c # cs \<Rightarrow>
          if c = CHR ''e'' \<or> c = CHR ''E'' then
            (let neg = (cs \<noteq> [] \<and> hd cs = CHR ''-'');
                 ds = (if cs \<noteq> [] \<and> (hd cs = CHR ''-'' \<or> hd cs = CHR ''+'') then tl cs else cs)
             in map_option (\<lambda>(d, rest). (Some (if neg then - int (parse_digits d) else int (parse_digits d)), rest)) (digits1 ds))
          else Some (None, s)
      | [] \<Rightarrow> Some (None, []))"

text \<open>\<open>strconv.ParseInt\<close> on a literal without fraction and exponent, \<open>strconv.ParseFloat\<close>, correctly rounded, on the others.\<close>

definition number_value :: "bool \<Rightarrow> string \<Rightarrow> string \<Rightarrow> int option \<Rightarrow> json" where
  "number_value neg ip fp ex =
     (let sign = (if neg then - 1 else 1) in
      if fp = [] \<and> ex = None then JInt (sign * int (parse_digits ip))
      else JNum (rnd (of_int (sign * int (parse_digits (ip @ fp)))
                        * (10 :: rat) powi (case_option 0 (\<lambda>e. e) ex - int (length fp)))))"

definition jnumber :: "string \<Rightarrow> (json \<times> string) option" where
  "jnumber s =
     (let neg = (s \<noteq> [] \<and> hd s = CHR ''-'') in
      do { (ip, r1) \<leftarrow> integer_part (if neg then tl s else s);
           (fp, r2) \<leftarrow> fraction_part r1;
           (ex, r3) \<leftarrow> exponent_part r2;
           Some (number_value neg ip fp ex, r3) })"

definition jliteral :: "string \<Rightarrow> (json \<times> string) option" where
  "jliteral s =
     (if HasPrefix s ''true'' then Some (JBool True, drop 4 s)
      else if HasPrefix s ''false'' then Some (JBool False, drop 5 s)
      else if HasPrefix s ''null'' then Some (JNull, drop 4 s)
      else jnumber s)"

text \<open>
  \<open>jvalue n d s\<close> reads a value at nesting depth \<open>d\<close>, \<open>jmembers\<close> the rest of an object after its brace or a
  comma, \<open>jelements\<close> that of an array.
\<close>

fun jvalue :: "nat \<Rightarrow> nat \<Rightarrow> string \<Rightarrow> (json \<times> string) option"
  and jmembers :: "nat \<Rightarrow> nat \<Rightarrow> string \<Rightarrow> ((string \<times> json) list \<times> string) option"
  and jelements :: "nat \<Rightarrow> nat \<Rightarrow> string \<Rightarrow> (json list \<times> string) option" where
  "jvalue 0 d s = None"
| "jvalue (Suc n) d s =
     (case skip_ws s of
        [] \<Rightarrow> None
      | c # cs \<Rightarrow>
          if c = quote_mark then map_option (\<lambda>(t, r). (JStr t, r)) (unquote cs)
          else if c = CHR ''{'' then
            (if maxNestingDepth \<le> d then None
             else if HasPrefix (skip_ws cs) ''}'' then Some (JObj [], tl (skip_ws cs))
             else map_option (\<lambda>(kvs, r). (JObj kvs, r)) (jmembers n (Suc d) cs))
          else if c = CHR ''['' then
            (if maxNestingDepth \<le> d then None
             else if HasPrefix (skip_ws cs) '']'' then Some (JArr [], tl (skip_ws cs))
             else map_option (\<lambda>(vs, r). (JArr vs, r)) (jelements n (Suc d) cs))
          else jliteral (c # cs))"
| "jmembers 0 d s = None"
| "jmembers (Suc n) d s =
     (case skip_ws s of
        [] \<Rightarrow> None
      | q # cs \<Rightarrow>
          if q \<noteq> quote_mark then None
          else do { (k, r) \<leftarrow> unquote cs;
                    r1 \<leftarrow> (if HasPrefix (skip_ws r) '':'' then Some (tl (skip_ws r)) else None);
                    (v, r2) \<leftarrow> jvalue n d r1;
                    (if HasPrefix (skip_ws r2) ''}'' then Some ([(k, v)], tl (skip_ws r2))
                     else if HasPrefix (skip_ws r2) '','' then
                       map_option (\<lambda>(kvs, r). ((k, v) # kvs, r)) (jmembers n d (tl (skip_ws r2)))
                     else None) })"
| "jelements 0 d s = None"
| "jelements (Suc n) d s =
     do { (v, r) \<leftarrow> jvalue n d s;
          (if HasPrefix (skip_ws r) '']'' then Some ([v], tl (skip_ws r))
           else if HasPrefix (skip_ws r) '','' then map_option (\<lambda>(vs, r). (v # vs, r)) (jelements n d (tl (skip_ws r)))
           else None) }"

definition json_text :: "string \<Rightarrow> (json \<times> string) option" where
  "json_text s = jvalue (Suc (2 * length s)) 0 s"

definition Unmarshal :: "string \<Rightarrow> json option" where
  "Unmarshal s = (case json_text s of Some (j, rest) \<Rightarrow> if skip_ws rest = [] then Some j else None | None \<Rightarrow> None)"

text \<open>
  The decoder stops after the first value. The character that ends a string, number or literal is only complained about
  when the next value is read.
\<close>

definition Decode :: "string \<Rightarrow> json option" where
  "Decode s = map_option fst (json_text s)"

section \<open>The counter is large enough\<close>

lemma length_skip_ws: "length (skip_ws s) \<le> length s"
  by (simp add: skip_ws_def length_dropWhile_le)

lemma prepend_Some [simp]: "prepend t res = Some (u, r) \<longleftrightarrow> (\<exists>v. res = Some (v, r) \<and> u = t @ v)"
  by (auto simp: prepend_def)

lemma unquote_step:
  assumes "unquote (c # cs) = Some (t, r)"
  shows "r = cs \<or> (\<exists>k v. unquote (drop k cs) = Some (v, r))"
proof (cases "c = quote_mark")
  case False
  show ?thesis
  proof (cases "c = backslash")
    case True
    then obtain e cs1 where cs: "cs = e # cs1" using assms False by (cases cs) simp_all
    have d: "drop k cs1 = drop (Suc k) cs" for k by (simp add: cs)
    show ?thesis
    proof (cases "e = CHR ''u''")
      case u: True
      then obtain q where "hex4 cs1 = Some q" using assms False True cs by (cases "hex4 cs1") simp_all
      then have "\<exists>k v. unquote (drop k cs1) = Some (v, r)"
        using assms False True cs u by (cases "escaped_rune q (drop 4 cs1)") auto
      then show ?thesis using d by metis
    next
      case u: False
      then obtain y where "simple_escape e = Some y" using assms False True cs by (cases "simple_escape e") simp_all
      then have "\<exists>v. unquote (drop 0 cs1) = Some (v, r)" using assms False True cs u by auto
      then show ?thesis using d by metis
    qed
  next
    case b: False
    obtain rn w where w: "decode_rune (c # cs) = (rn, w)" by fastforce
    have n: "\<not> char_code c < 0x20" using assms False b by (auto simp del: One_nat_def)
    show ?thesis
    proof (cases "w = 1 \<and> rn = RuneError")
      case True
      then have "\<exists>v. unquote (drop 0 cs) = Some (v, r)" using assms False b n w by auto
      then show ?thesis by blast
    next
      case v: False
      then have "\<exists>v. unquote (drop (w - 1) cs) = Some (v, r)" using assms False b n w by auto
      then show ?thesis by blast
    qed
  qed
qed (use assms in simp)

lemma unquote_shorter: "unquote s = Some (t, r) \<Longrightarrow> length r < length s"
proof (induction s arbitrary: t r rule: length_induct)
  case (1 s)
  show ?case
  proof (cases s)
    case (Cons c cs)
    with 1(2) unquote_step consider "r = cs" | k v where "unquote (drop k cs) = Some (v, r)" by blast
    then show ?thesis
    proof cases
      case (2 k v)
      have "length (drop k cs) < length s" using Cons by simp
      with 1(1) 2 have "length r < length (drop k cs)" by blast
      then show ?thesis using Cons by simp
    qed (simp add: Cons)
  qed (use 1(2) in simp)
qed

lemma digits1_shorter: "digits1 s = Some (ds, r) \<Longrightarrow> length r < length s"
  by (cases s) (auto simp: digits1_def Let_def split: if_splits)

lemma number_parts_shorter:
  "integer_part s = Some (ip, r) \<Longrightarrow> length r < length s"
  "fraction_part s = Some (fp, r) \<Longrightarrow> length r \<le> length s"
  "exponent_part s = Some (ex, r) \<Longrightarrow> length r \<le> length s"
proof -
  show "integer_part s = Some (ip, r) \<Longrightarrow> length r < length s"
    by (auto simp: integer_part_def split: list.splits if_splits dest: digits1_shorter)
  show "fraction_part s = Some (fp, r) \<Longrightarrow> length r \<le> length s"
    by (auto simp: fraction_part_def split: list.splits if_splits dest: digits1_shorter)
  show "exponent_part s = Some (ex, r) \<Longrightarrow> length r \<le> length s"
    by (auto simp: exponent_part_def Let_def split: list.splits if_splits dest!: digits1_shorter)
qed

lemma jnumber_shorter: "jnumber s = Some (j, r) \<Longrightarrow> length r < length s"
proof -
  assume "jnumber s = Some (j, r)"
  then obtain ip r1 fp r2 ex where n: "integer_part (if s \<noteq> [] \<and> hd s = CHR ''-'' then tl s else s) = Some (ip, r1)"
    "fraction_part r1 = Some (fp, r2)" "exponent_part r2 = Some (ex, r)"
    by (auto simp: jnumber_def Let_def split: option.splits bind_splits)
  have "length (if s \<noteq> [] \<and> hd s = CHR ''-'' then tl s else s) \<le> length s" by simp
  with number_parts_shorter(1) [OF n(1)] number_parts_shorter(2) [OF n(2)] number_parts_shorter(3) [OF n(3)]
  show ?thesis by linarith
qed

lemma jliteral_shorter: "jliteral s = Some (j, r) \<Longrightarrow> length r < length s"
  by (cases s) (auto simp: jliteral_def HasPrefix_def dest: jnumber_shorter split: if_splits)

lemma tl_skip_ws: "HasPrefix (skip_ws s) [c] \<Longrightarrow> length (tl (skip_ws s)) < length s"
  using length_skip_ws [of s] by (cases "skip_ws s") (auto simp: HasPrefix_def)

lemma values_shorter:
  "jvalue n d s = Some (j, r) \<Longrightarrow> length r < length s"
  "jmembers n d s = Some (kvs, r) \<Longrightarrow> length r < length s"
  "jelements n d s = Some (js, r) \<Longrightarrow> length r < length s"
proof (induction n d s and n d s and n d s arbitrary: j r and kvs r and js r rule: jvalue_jmembers_jelements.induct)
  case (2 n d s)
  obtain c cs where c: "skip_ws s = c # cs" using 2(3) by (cases "skip_ws s") simp_all
  have "length cs < length s" using length_skip_ws [of s] c by simp
  moreover have "length r \<le> length cs"
    using 2 c by (fastforce split: if_splits dest: unquote_shorter jliteral_shorter tl_skip_ws)
  ultimately show ?case by simp
next
  case (4 n d s)
  obtain cs where c: "skip_ws s = quote_mark # cs" using 4(3) by (cases "skip_ws s") (simp_all split: if_splits)
  obtain k r0 v r2 where k: "unquote cs = Some (k, r0)" "HasPrefix (skip_ws r0) '':''"
    "jvalue n d (tl (skip_ws r0)) = Some (v, r2)"
    using 4(3) c by (auto split: bind_splits if_splits)
  have "length r2 < length (tl (skip_ws r0))" using 4(1) [OF c, of "(k, r0)" k r0 "tl (skip_ws r0)" v r2] k by simp
  moreover have "length (tl (skip_ws r0)) < length r0" by (rule tl_skip_ws [OF k(2)])
  moreover have "length r0 < length cs" by (rule unquote_shorter [OF k(1)])
  moreover have "length cs < length s" using length_skip_ws [of s] c by simp
  moreover have "length r < length r2"
    using 4(2,3) c k tl_skip_ws [of r2] by (fastforce split: if_splits)
  ultimately show ?case by linarith
next
  case (6 n d s)
  obtain v r2 where k: "jvalue n d s = Some (v, r2)"
    using 6(3) by (auto split: bind_splits)
  have "length r2 < length s" using 6(1) k by simp
  moreover have "length r < length r2"
    using 6(2,3) k tl_skip_ws [of r2] by (fastforce split: if_splits)
  ultimately show ?case by linarith
qed simp_all

lemma fuel_step:
  "(\<forall>d s. 2 * length s < n \<longrightarrow> jvalue (Suc n) d s = jvalue n d s)
   \<and> (\<forall>d s. 2 * length s < n \<longrightarrow> jmembers (Suc n) d s = jmembers n d s)
   \<and> (\<forall>d s. 2 * length s + 1 < n \<longrightarrow> jelements (Suc n) d s = jelements n d s)"
proof (induction n)
  case (Suc n)
  note unfold = jvalue.simps(2) [of "Suc n"] jmembers.simps(2) [of "Suc n"] jelements.simps(2) [of "Suc n"]
    jvalue.simps(2) [of n] jmembers.simps(2) [of n] jelements.simps(2) [of n]
  have v: "jvalue (Suc n) d s = jvalue n d s" if "2 * length s < n" for d s using Suc that by blast
  have m: "jmembers (Suc n) d s = jmembers n d s" if "2 * length s < n" for d s using Suc that by blast
  have e: "jelements (Suc n) d s = jelements n d s" if "2 * length s + 1 < n" for d s using Suc that by blast
  have "jvalue (Suc (Suc n)) d s = jvalue (Suc n) d s" if l: "2 * length s < Suc n" for d s
  proof (cases "skip_ws s")
    case (Cons c cs)
    then have "length cs < length s" using length_skip_ws [of s] by simp
    then have "jmembers (Suc n) d' cs = jmembers n d' cs" "jelements (Suc n) d' cs = jelements n d' cs" for d'
      using l by (intro m e; linarith)+
    then show ?thesis unfolding unfold(1,4) by (simp only: Cons list.case)
  qed (simp add: unfold)
  moreover have "jmembers (Suc (Suc n)) d s = jmembers (Suc n) d s" if l: "2 * length s < Suc n" for d s
  proof (cases "\<exists>cs k r. skip_ws s = quote_mark # cs \<and> unquote cs = Some (k, r) \<and> HasPrefix (skip_ws r) '':''")
    case True
    then obtain cs k r where c: "skip_ws s = quote_mark # cs" "unquote cs = Some (k, r)" "HasPrefix (skip_ws r) '':''" by blast
    let ?r1 = "tl (skip_ws r)"
    have lr: "Suc (Suc (length ?r1)) < length s"
      using length_skip_ws [of s] c(1) unquote_shorter [OF c(2)] tl_skip_ws [OF c(3)] by simp
    have "jvalue (Suc n) d ?r1 = jvalue n d ?r1" using l lr by (intro v) linarith
    moreover have "jmembers (Suc n) d (tl (skip_ws r2)) = jmembers n d (tl (skip_ws r2))"
      if "jvalue n d ?r1 = Some (j, r2)" "HasPrefix (skip_ws r2) '',''" for j r2
      using l lr values_shorter(1) [OF that(1)] tl_skip_ws [OF that(2)] by (intro m) linarith
    ultimately show ?thesis
      unfolding unfold(2,5) using c by (cases "jvalue n d ?r1") auto
  next
    case False
    then show ?thesis unfolding unfold(2,5) by (auto split: list.split bind_split)
  qed
  moreover have "jelements (Suc (Suc n)) d s = jelements (Suc n) d s" if l: "2 * length s + 1 < Suc n" for d s
  proof -
    have "jvalue (Suc n) d s = jvalue n d s" using l by (intro v) linarith
    moreover have "jelements (Suc n) d (tl (skip_ws r2)) = jelements n d (tl (skip_ws r2))"
      if "jvalue n d s = Some (j, r2)" "HasPrefix (skip_ws r2) '',''" for j r2
      using l values_shorter(1) [OF that(1)] tl_skip_ws [OF that(2)] by (intro e) linarith
    ultimately show ?thesis unfolding unfold(3,6) by (cases "jvalue n d s") auto
  qed
  ultimately show ?case by blast
qed simp

lemma jvalue_fuel:
  assumes "2 * length s < n"
  shows "jvalue n d s = jvalue (Suc (2 * length s)) d s"
proof -
  have "jvalue (Suc (2 * length s) + k) d s = jvalue (Suc (2 * length s)) d s" for k
    by (induction k) (use fuel_step in auto)
  then show ?thesis using assms by (metis Suc_leI le_add_diff_inverse)
qed

section \<open>Runes\<close>

lemma char_code_inject: "char_code c = char_code c' \<longleftrightarrow> c = c'"
  by (simp add: char_code_def)

lemma char_of_code [simp]: "char_of (char_code c) = c"
  by (simp add: char_code_def)

lemma char_code_of [simp]: "n < 256 \<Longrightarrow> char_code (char_of n) = n"
  by (simp add: char_code_def)

lemma char_code_less [simp]: "char_code c < 256"
  by (simp add: char_code_def)

text \<open>The bits of a byte below its marker: \<open>n\<close> is the marker \<open>k\<close> plus the bits.\<close>

lemma marker_bits:
  assumes "(k :: nat) \<le> n" "n < k + m" "k mod m = 0"
  obtains x where "n = k + x" "x < m" "n mod m = x"
proof -
  from assms(1) obtain x where x: "n = k + x" using le_Suc_ex by blast
  with assms have "x < m" by simp
  moreover have "n mod m = x" using x assms(3) \<open>x < m\<close> by (metis add.left_neutral mod_add_left_eq mod_less)
  ultimately show ?thesis using that x by blast
qed

lemma lead_ranges:
  "in_range 0xC2 0xDF c \<Longrightarrow> \<not> char_code c < 0x80"
  "in_range 0xE0 0xEF c \<Longrightarrow> \<not> char_code c < 0x80" "in_range 0xE0 0xEF c \<Longrightarrow> \<not> in_range 0xC2 0xDF c"
  "in_range 0xF0 0xF4 c \<Longrightarrow> \<not> char_code c < 0x80" "in_range 0xF0 0xF4 c \<Longrightarrow> \<not> in_range 0xC2 0xDF c"
  "in_range 0xF0 0xF4 c \<Longrightarrow> \<not> in_range 0xE0 0xEF c"
  by (simp_all add: in_range_def)

lemma decode_rune_ranges:
  "char_code c < 0x80 \<Longrightarrow> decode_rune (c # cs) = (char_code c, 1)"
  "in_range 0xC2 0xDF c \<Longrightarrow> decode_rune (c # cs) = (case cs of
      c1 # _ \<Rightarrow> if in_range 0x80 0xBF c1 then (char_code c mod 32 * 64 + char_code c1 mod 64, 2) else (RuneError, 1)
    | [] \<Rightarrow> (RuneError, 1))"
  "in_range 0xE0 0xEF c \<Longrightarrow> decode_rune (c # cs) = (case cs of
      c1 # c2 # _ \<Rightarrow>
        if in_range (if char_code c = 0xE0 then 0xA0 else 0x80) (if char_code c = 0xED then 0x9F else 0xBF) c1 \<and> in_range 0x80 0xBF c2
        then (char_code c mod 16 * 4096 + char_code c1 mod 64 * 64 + char_code c2 mod 64, 3) else (RuneError, 1)
    | _ \<Rightarrow> (RuneError, 1))"
  "in_range 0xF0 0xF4 c \<Longrightarrow> decode_rune (c # cs) = (case cs of
      c1 # c2 # c3 # _ \<Rightarrow>
        if in_range (if char_code c = 0xF0 then 0x90 else 0x80) (if char_code c = 0xF4 then 0x8F else 0xBF) c1
           \<and> in_range 0x80 0xBF c2 \<and> in_range 0x80 0xBF c3
        then (char_code c mod 8 * 262144 + char_code c1 mod 64 * 4096 + char_code c2 mod 64 * 64 + char_code c3 mod 64, 4)
        else (RuneError, 1)
    | _ \<Rightarrow> (RuneError, 1))"
  "\<not> char_code c < 0x80 \<Longrightarrow> \<not> in_range 0xC2 0xDF c \<Longrightarrow> \<not> in_range 0xE0 0xEF c \<Longrightarrow> \<not> in_range 0xF0 0xF4 c \<Longrightarrow>
     decode_rune (c # cs) = (RuneError, 1)"
  unfolding decode_rune_def list.case
  by (simp_all only: lead_ranges if_True if_False not_False_eq_True)

text \<open>A continuation byte carries six bits.\<close>

lemma continuation:
  assumes "in_range 0x80 0xBF c"
  obtains y where "char_code c = 0x80 + y" "y < 64" "char_code c mod 64 = y"
  by (rule marker_bits [of "0x80" "char_code c" 64]) (use assms in \<open>simp_all add: in_range_def\<close>)

lemma decode_rune_cases:
  assumes "decode_rune (c # cs) = (r, w)"
  obtains (invalid) "r = RuneError" "w = 1"
  | (one) "char_code c < 0x80" "r = char_code c" "w = 1"
  | (two) c1 t x y where "cs = c1 # t" "char_code c = 0xC0 + x" "2 \<le> x" "x < 32" "char_code c1 = 0x80 + y" "y < 64"
      "r = x * 64 + y" "w = 2"
  | (three) c1 c2 t x y z where "cs = c1 # c2 # t" "char_code c = 0xE0 + x" "x < 16" "char_code c1 = 0x80 + y" "y < 64"
      "char_code c2 = 0x80 + z" "z < 64" "r = x * 4096 + y * 64 + z" "w = 3" "x = 0 \<Longrightarrow> 32 \<le> y" "x = 13 \<Longrightarrow> y < 32"
  | (four) c1 c2 c3 t x y z u where "cs = c1 # c2 # c3 # t" "char_code c = 0xF0 + x" "x < 5" "char_code c1 = 0x80 + y" "y < 64"
      "char_code c2 = 0x80 + z" "z < 64" "char_code c3 = 0x80 + u" "u < 64"
      "r = x * 262144 + y * 4096 + z * 64 + u" "w = 4" "x = 0 \<Longrightarrow> 16 \<le> y"
proof -
  consider (a) "char_code c < 0x80" | (b) "in_range 0xC2 0xDF c" | (c) "in_range 0xE0 0xEF c" | (d) "in_range 0xF0 0xF4 c"
    | (e) "\<not> char_code c < 0x80" "\<not> in_range 0xC2 0xDF c" "\<not> in_range 0xE0 0xEF c" "\<not> in_range 0xF0 0xF4 c" by blast
  then show ?thesis
  proof cases
    case a
    then have "r = char_code c" "w = 1" using assms decode_rune_ranges(1) [OF a] by simp_all
    with one [OF a] show ?thesis by blast
  next
    case e
    then have "r = RuneError" "w = 1" using assms decode_rune_ranges(5) [OF e] by simp_all
    with invalid show ?thesis by blast
  next
    case b
    obtain x where x: "char_code c = 0xC0 + x" "x < 32" "char_code c mod 32 = x"
      by (rule marker_bits [of "0xC0" "char_code c" 32]) (use b in \<open>simp_all add: in_range_def\<close>)
    have x2: "2 \<le> x" using b x(1) by (simp add: in_range_def)
    note eq = assms [unfolded decode_rune_ranges(2) [OF b]]
    show ?thesis
    proof (cases "\<exists>c1 t. cs = c1 # t \<and> in_range 0x80 0xBF c1")
      case True
      then obtain c1 t where cs: "cs = c1 # t" "in_range 0x80 0xBF c1" by blast
      obtain y where y: "char_code c1 = 0x80 + y" "y < 64" "char_code c1 mod 64 = y" by (rule continuation [OF cs(2)])
      have "r = x * 64 + y" "w = 2" using eq cs x(3) y(3) by simp_all
      with two [OF cs(1) x(1) x2 x(2) y(1,2)] show ?thesis by blast
    next
      case False
      then have "r = RuneError" "w = 1" using eq by (cases cs; simp)+
      with invalid show ?thesis by blast
    qed
  next
    case c
    obtain x where x: "char_code c = 0xE0 + x" "x < 16" "char_code c mod 16 = x"
      by (rule marker_bits [of "0xE0" "char_code c" 16]) (use c in \<open>simp_all add: in_range_def\<close>)
    note eq = assms [unfolded decode_rune_ranges(3) [OF c]]
    show ?thesis
    proof (cases "\<exists>c1 c2 t. cs = c1 # c2 # t \<and>
        in_range (if char_code c = 0xE0 then 0xA0 else 0x80) (if char_code c = 0xED then 0x9F else 0xBF) c1 \<and> in_range 0x80 0xBF c2")
      case True
      then obtain c1 c2 t where cs: "cs = c1 # c2 # t"
        "in_range (if char_code c = 0xE0 then 0xA0 else 0x80) (if char_code c = 0xED then 0x9F else 0xBF) c1"
        "in_range 0x80 0xBF c2" by blast
      have c1: "in_range 0x80 0xBF c1" using cs(2) by (simp add: in_range_def split: if_splits)
      obtain y where y: "char_code c1 = 0x80 + y" "y < 64" "char_code c1 mod 64 = y" by (rule continuation [OF c1])
      obtain z where z: "char_code c2 = 0x80 + z" "z < 64" "char_code c2 mod 64 = z" by (rule continuation [OF cs(3)])
      have "r = x * 4096 + y * 64 + z" "w = 3" using eq cs x(3) y(3) z(3) by simp_all
      moreover have "x = 0 \<Longrightarrow> 32 \<le> y" "x = 13 \<Longrightarrow> y < 32" using cs(2) x(1) y(1) by (simp_all add: in_range_def)
      ultimately show ?thesis using three [OF cs(1) x(1,2) y(1,2) z(1,2)] by blast
    next
      case False
      then have "r = RuneError \<and> w = 1" using eq by (auto split: list.splits if_splits)
      with invalid show ?thesis by blast
    qed
  next
    case d
    obtain x where x: "char_code c = 0xF0 + x" "x < 8" "char_code c mod 8 = x"
      by (rule marker_bits [of "0xF0" "char_code c" 8]) (use d in \<open>simp_all add: in_range_def\<close>)
    have x5: "x < 5" using d x(1) by (simp add: in_range_def)
    note eq = assms [unfolded decode_rune_ranges(4) [OF d]]
    show ?thesis
    proof (cases "\<exists>c1 c2 c3 t. cs = c1 # c2 # c3 # t \<and>
        in_range (if char_code c = 0xF0 then 0x90 else 0x80) (if char_code c = 0xF4 then 0x8F else 0xBF) c1
        \<and> in_range 0x80 0xBF c2 \<and> in_range 0x80 0xBF c3")
      case True
      then obtain c1 c2 c3 t where cs: "cs = c1 # c2 # c3 # t"
        "in_range (if char_code c = 0xF0 then 0x90 else 0x80) (if char_code c = 0xF4 then 0x8F else 0xBF) c1"
        "in_range 0x80 0xBF c2" "in_range 0x80 0xBF c3" by blast
      have c1: "in_range 0x80 0xBF c1" using cs(2) by (simp add: in_range_def split: if_splits)
      obtain y where y: "char_code c1 = 0x80 + y" "y < 64" "char_code c1 mod 64 = y" by (rule continuation [OF c1])
      obtain z where z: "char_code c2 = 0x80 + z" "z < 64" "char_code c2 mod 64 = z" by (rule continuation [OF cs(3)])
      obtain u where u: "char_code c3 = 0x80 + u" "u < 64" "char_code c3 mod 64 = u" by (rule continuation [OF cs(4)])
      have "r = x * 262144 + y * 4096 + z * 64 + u" "w = 4" using eq cs x(3) y(3) z(3) u(3) by simp_all
      moreover have "x = 0 \<Longrightarrow> 16 \<le> y" using cs(2) x(1) y(1) by (simp add: in_range_def)
      ultimately show ?thesis using four [OF cs(1) x(1) x5 y(1,2) z(1,2) u(1,2)] by blast
    next
      case False
      then have "r = RuneError \<and> w = 1" using eq by (auto split: list.splits if_splits)
      with invalid show ?thesis by blast
    qed
  qed
qed

lemma base_digit: "(b :: nat) < k \<Longrightarrow> (a * k + b) div k = a" "b < k \<Longrightarrow> (a * k + b) mod k = b"
  by simp_all

text \<open>What decodes is its own encoding, and decodes alike in front of any other text.\<close>

lemma decoded_rune:
  assumes "decode_rune (c # cs) = (r, w)" "\<not> (w = 1 \<and> r = RuneError)"
  shows "take w (c # cs) = encode_rune r" "decode_rune (take w (c # cs) @ t) = (r, w)"
    and "0 < w" "w \<le> length (c # cs)" "\<not> surrogate r"
    and "r < 0x80 \<Longrightarrow> w = 1 \<and> c = char_of r" "0x80 \<le> r \<Longrightarrow> 0x80 \<le> char_code c"
proof -
  have "take w (c # cs) = encode_rune r \<and> decode_rune (take w (c # cs) @ t) = (r, w) \<and> 0 < w \<and> w \<le> length (c # cs)
    \<and> \<not> surrogate r \<and> (r < 0x80 \<longrightarrow> w = 1 \<and> c = char_of r) \<and> (0x80 \<le> r \<longrightarrow> 0x80 \<le> char_code c)"
    using assms(1)
  proof (cases rule: decode_rune_cases)
    case invalid
    with assms(2) show ?thesis by simp
  next
    case one
    then show ?thesis by (simp add: encode_rune_def decode_rune_ranges(1) surrogate_def)
  next
    case (two c1 t1 x y)
    have c: "c = char_of (0xC0 + x)" "c1 = char_of (0x80 + y)" using two(2,5) by (metis char_of_code)+
    have "in_range 0xC2 0xDF c" "in_range 0x80 0xBF c1" using two by (simp_all add: in_range_def)
    moreover have "r div 64 = x" "r mod 64 = y" "0x80 \<le> r" "r < 0x800" using two by simp_all
    ultimately show ?thesis
      using two c assms(1) by (simp add: encode_rune_def surrogate_def decode_rune_ranges(2))
  next
    case (three c1 c2 t1 x y z)
    have c: "c = char_of (0xE0 + x)" "c1 = char_of (0x80 + y)" "c2 = char_of (0x80 + z)"
      using three(2,4,6) by (metis char_of_code)+
    have lead: "in_range 0xE0 0xEF c" using three(2,3) by (simp add: in_range_def)
    have q: "r div 4096 = x" "r div 64 mod 64 = y" "r mod 64 = z" "0x800 \<le> r" "r < 0x10000" "\<not> surrogate r"
    proof -
      have r: "r = x * 4096 + (y * 64 + z)" "r = (x * 64 + y) * 64 + z" using three(8) by simp_all
      have yz: "y * 64 + z < 4096" using three(5,7) by simp
      show "r div 4096 = x" unfolding r(1) by (rule base_digit(1) [OF yz])
      show "r mod 64 = z" unfolding r(2) by (rule base_digit(2) [OF three(7)])
      have "r div 64 = x * 64 + y" unfolding r(2) by (rule base_digit(1) [OF three(7)])
      then show "r div 64 mod 64 = y" using base_digit(2) [OF three(5)] by simp
      show "0x800 \<le> r" using r(1) three(10) by (cases "x = 0") auto
      show "r < 0x10000" using r(1) yz three(3) by linarith
      consider "x < 13" | "x = 13" | "14 \<le> x" by linarith
      then show "\<not> surrogate r" using r(1) yz three(7,11) by cases (auto simp: surrogate_def)
    qed
    have "\<not> r < 0x80" "\<not> r < 0x800" using q(4) by simp_all
    then have "encode_rune r = [c, c1, c2]" by (simp only: encode_rune_def q(1-3,5) if_True if_False c)
    moreover have "decode_rune (c # c1 # c2 # t) = (r, w)"
      using assms(1) unfolding three(1) decode_rune_ranges(3) [OF lead] list.case .
    ultimately show ?thesis using three(1,2,9) q(4,6) by simp
  next
    case (four c1 c2 c3 t1 x y z u)
    have c: "c = char_of (0xF0 + x)" "c1 = char_of (0x80 + y)" "c2 = char_of (0x80 + z)" "c3 = char_of (0x80 + u)"
      using four(2,4,6,8) by (metis char_of_code)+
    have lead: "in_range 0xF0 0xF4 c" using four(2,3) by (simp add: in_range_def)
    have q: "r div 262144 = x" "r div 4096 mod 64 = y" "r div 64 mod 64 = z" "r mod 64 = u" "0x10000 \<le> r" "\<not> surrogate r"
    proof -
      have r: "r = x * 262144 + (y * 4096 + z * 64 + u)" "r = (x * 64 + y) * 4096 + (z * 64 + u)"
        "r = (x * 4096 + y * 64 + z) * 64 + u" using four(10) by simp_all
      have yzu: "y * 4096 + z * 64 + u < 262144" "z * 64 + u < 4096" using four(5,7,9) by simp_all
      show "r div 262144 = x" unfolding r(1) by (rule base_digit(1) [OF yzu(1)])
      have "r div 4096 = x * 64 + y" unfolding r(2) by (rule base_digit(1) [OF yzu(2)])
      then show "r div 4096 mod 64 = y" using base_digit(2) [OF four(5)] by simp
      have "r div 64 = (x * 64 + y) * 64 + z" using base_digit(1) [OF four(9), of "x * 4096 + y * 64 + z"] r(3) by simp
      then show "r div 64 mod 64 = z" by (simp only: base_digit(2) [OF four(7)])
      show "r mod 64 = u" unfolding r(3) by (rule base_digit(2) [OF four(9)])
      show "0x10000 \<le> r" using r(1) four(12) by (cases "x = 0") auto
      then show "\<not> surrogate r" by (simp add: surrogate_def)
    qed
    have "\<not> r < 0x80" "\<not> r < 0x800" "\<not> r < 0x10000" using q(5) by simp_all
    then have "encode_rune r = [c, c1, c2, c3]" by (simp only: encode_rune_def q(1-4) if_False c)
    moreover have "decode_rune (c # c1 # c2 # c3 # t) = (r, w)"
      using assms(1) unfolding four(1) decode_rune_ranges(4) [OF lead] list.case .
    ultimately show ?thesis using four(1,2,11) q(5,6) by simp
  qed
  then show "take w (c # cs) = encode_rune r" "decode_rune (take w (c # cs) @ t) = (r, w)" "0 < w" "w \<le> length (c # cs)"
    "\<not> surrogate r" "r < 0x80 \<Longrightarrow> w = 1 \<and> c = char_of r" "0x80 \<le> r \<Longrightarrow> 0x80 \<le> char_code c" by blast+
qed

section \<open>Quoted by \<open>%q\<close>, read as JSON\<close>

lemma hex_val_digit: "hex_val (hex_digit n) = Some (n mod 16)"
proof -
  have "hex_val (''0123456789abcdef'' ! m) = Some m" if "m < 16" for m
  proof -
    from that have "m \<in> set [0, 1, 2, 3, 4, 5, 6, 7, 8, 9, 10, 11, 12, 13, 14, 15]" by (simp, presburger)
    then show ?thesis by (auto simp: hex_val_def char_code_def)
  qed
  then show ?thesis by (simp add: hex_digit_def)
qed

lemma hex_digits_length [simp]: "length (hex_digits w n) = w"
  by (induction w arbitrary: n) simp_all

lemma hex4_digits:
  assumes "r < 0x10000"
  shows "hex4 (hex_digits 4 r @ t) = Some r"
proof -
  have four: "(4 :: nat) = Suc (Suc (Suc (Suc 0)))" by simp
  have d: "r div 16 div 16 = r div 256" "r div 256 div 16 = r div 4096" by (simp_all add: div_mult2_eq [symmetric])
  have "hex_digits 4 r = [hex_digit (r div 4096), hex_digit (r div 256), hex_digit (r div 16), hex_digit r]"
    unfolding four hex_digits.simps d by simp
  moreover have "r div 4096 < 16" using assms by (simp add: less_mult_imp_div_less)
  moreover have "4096 * (r div 4096) + 256 * (r div 256 mod 16) + 16 * (r div 16 mod 16) + r mod 16 = r"
  proof -
    have "16 * (q div 16) + q mod 16 = q" for q :: nat by simp
    from this [of "r div 256"] this [of "r div 16"] this [of r] d
    have "16 * (r div 4096) + r div 256 mod 16 = r div 256" "16 * (r div 256) + r div 16 mod 16 = r div 16"
      "16 * (r div 16) + r mod 16 = r" by simp_all
    then show ?thesis by linarith
  qed
  ultimately show ?thesis by (simp add: hex_val_digit)
qed

text \<open>
  The strings that \<open>%q\<close> writes as a JSON literal: valid UTF-8 without control characters other than those with an
  escape of one letter in both, and without unprintable runes above the basic plane.
\<close>

fun json_safe :: "(nat \<Rightarrow> bool) \<Rightarrow> string \<Rightarrow> bool" where
  "json_safe printable [] \<longleftrightarrow> True"
| "json_safe printable (c # cs) \<longleftrightarrow>
     (case decode_rune (c # cs) of (r, width) \<Rightarrow>
        \<not> (width = 1 \<and> r = RuneError)
        \<and> (is_print printable r \<or> r \<in> {0x08, 0x09, 0x0A, 0x0C, 0x0D} \<or> (0x80 \<le> r \<and> r < 0x10000))
        \<and> json_safe printable (drop (width - 1) cs))"

lemma prepend_None [simp]: "prepend t None = None"
  by (simp add: prepend_def)

lemma prepend_if: "prepend t (if b then Some (s, r) else None) = (if b then Some (t @ s, r) else None)"
  by (simp add: prepend_def)

declare unquote.simps(2) [simp del]

lemma unquote_escape:
  "unquote (backslash # e # t) =
     (if e = CHR ''u'' then
        (case hex4 t of None \<Rightarrow> None
         | Some r \<Rightarrow> (case escaped_rune r (drop 4 t) of (rune, used) \<Rightarrow> prepend (encode_rune rune) (unquote (drop (4 + used) t))))
      else (case simple_escape e of None \<Rightarrow> None | Some x \<Rightarrow> prepend [x] (unquote t)))"
  by (subst unquote.simps) (simp add: quote_mark_def backslash_def)

lemma unquote_mark [simp]: "unquote (quote_mark # t) = Some ([], t)"
  by (subst unquote.simps) simp

text \<open>The characters with an escape of one letter.\<close>

lemma escape_chars:
  "char_of (0x22 :: nat) = quote_mark" "char_of (0x5C :: nat) = backslash"
  "char_of (0x08 :: nat) = CHR 0x08" "char_of (0x09 :: nat) = CHR 0x09" "char_of (0x0A :: nat) = CHR 0x0A"
  "char_of (0x0C :: nat) = CHR 0x0C" "char_of (0x0D :: nat) = CHR 0x0D"
proof -
  have c: "char_code c = n \<Longrightarrow> char_of n = c" for c n by (metis char_of_code)
  show "char_of (0x22 :: nat) = quote_mark" "char_of (0x5C :: nat) = backslash"
    "char_of (0x08 :: nat) = CHR 0x08" "char_of (0x09 :: nat) = CHR 0x09" "char_of (0x0A :: nat) = CHR 0x0A"
    "char_of (0x0C :: nat) = CHR 0x0C" "char_of (0x0D :: nat) = CHR 0x0D"
    by (rule c, simp add: char_code_def quote_mark_def backslash_def)+
qed

lemma escape_letters:
  "simple_escape quote_mark = Some quote_mark" "simple_escape backslash = Some backslash"
  "simple_escape (CHR ''b'') = Some (CHR 0x08)" "simple_escape (CHR ''t'') = Some (CHR 0x09)"
  "simple_escape (CHR ''n'') = Some (CHR 0x0A)" "simple_escape (CHR ''f'') = Some (CHR 0x0C)"
  "simple_escape (CHR ''r'') = Some (CHR 0x0D)"
  "simple_escape (CHR ''a'') = None" "simple_escape (CHR ''v'') = None" "simple_escape (CHR ''x'') = None"
  "simple_escape (CHR ''U'') = None"
  by (simp_all add: simple_escape_def quote_mark_def backslash_def)

lemma unquote_letter:
  "e \<noteq> CHR ''u'' \<Longrightarrow> unquote (CHR 0x5C # e # t) =
     (case simple_escape e of None \<Rightarrow> None | Some x \<Rightarrow> prepend [x] (unquote t))"
  using unquote_escape [of e t] by (simp add: backslash_def)

text \<open>One rune, quoted and read.\<close>

lemma unquote_escape_rune:
  assumes "decode_rune (c # cs) = (r, w)" "\<not> (w = 1 \<and> r = RuneError)"
  shows "unquote (escape_rune printable r (take w (c # cs)) @ t) =
    (if is_print printable r \<or> r \<in> {0x08, 0x09, 0x0A, 0x0C, 0x0D} \<or> (0x80 \<le> r \<and> r < 0x10000)
     then prepend (take w (c # cs)) (unquote t) else None)"
proof -
  let ?b = "take w (c # cs)"
  note rune = decoded_rune [OF assms]
  consider (mark) "r = 0x22 \<or> r = 0x5C" | (plain) "is_print printable r" "r \<noteq> 0x22" "r \<noteq> 0x5C"
    | (short) "\<not> is_print printable r" "r < 0x80" | (u) "\<not> is_print printable r" "0x80 \<le> r" "r < 0x10000"
    | (U) "\<not> is_print printable r" "0x10000 \<le> r" by (meson linorder_not_less)
  then show ?thesis
  proof cases
    case mark
    then have c: "w = 1" "c = char_of r" using rune(6) by auto
    have "unquote (backslash # c # t) = prepend [c] (unquote t)"
      using mark c(2) unquote_letter [of c t]
      by (elim disjE) (simp_all add: escape_chars escape_letters, simp_all add: quote_mark_def backslash_def)
    moreover have "is_print printable r" using mark by (auto simp: is_print_def)
    ultimately show ?thesis using mark c(1) by (simp add: escape_rune_def backslash_def)
  next
    case plain
    have "char_code quote_mark = 0x22" "char_code backslash = 0x5C" by (simp_all add: char_code_def quote_mark_def backslash_def)
    moreover have "char_code c = r \<or> 0x80 \<le> char_code c" using rune(6,7) by (cases "r < 0x80") auto
    moreover have "\<not> r < 0x20" using plain by (auto simp: is_print_def)
    ultimately have c: "c \<noteq> quote_mark" "c \<noteq> backslash" "\<not> char_code c < 0x20" using plain by auto
    obtain cs' where b: "?b = c # cs'" "length cs' = w - 1" using rune(3,4) by (cases w) auto
    have "decode_rune (c # cs' @ t) = (r, w)" using rune(2) [of t] b(1) by simp
    then have "unquote (c # cs' @ t) = prepend (take w (c # cs' @ t)) (unquote (drop (w - 1) (cs' @ t)))"
      using c assms(2) by (subst unquote.simps) auto
    also have "\<dots> = prepend ?b (unquote t)" using b rune(3) by (cases w) simp_all
    finally show ?thesis using plain b(1) by (simp add: escape_rune_def)
  next
    case short
    have c: "w = 1" "c = char_of r" using rune(6) short(2) by auto
    have control: "r < 0x20 \<or> r = 0x7F" using short by (auto simp: is_print_def)
    show ?thesis
    proof (cases "r \<in> {0x08, 0x09, 0x0A, 0x0C, 0x0D}")
      case True
      then show ?thesis
        using short c by (elim insertE) (simp_all add: escape_rune_def unquote_letter escape_letters escape_chars)
    next
      case False
      moreover have "r \<noteq> 0x22" "r \<noteq> 0x5C" using control by auto
      ultimately have "escape_rune printable r ?b =
          (if r = 0x07 then [CHR 0x5C, CHR ''a''] else if r = 0x0B then [CHR 0x5C, CHR ''v'']
           else [CHR 0x5C, CHR ''x''] @ hex_digits 2 r)"
        using short(1) control unfolding escape_rune_def by (simp only: if_False if_True insert_iff empty_iff de_Morgan_disj HOL.simp_thms)
      then have "unquote (escape_rune printable r ?b @ t) = None"
        by (simp add: unquote_letter escape_letters)
      then show ?thesis using False short by simp
    qed
  next
    case u
    have "unquote (backslash # CHR ''u'' # hex_digits 4 r @ t) = prepend (encode_rune r) (unquote t)"
      using hex4_digits [OF u(3), of t] rune(5)
      by (simp add: unquote_escape escaped_rune_def hex_digits_length)
    then show ?thesis using u rune(1) by (simp add: escape_rune_def backslash_def)
  next
    case U
    then show ?thesis by (simp add: escape_rune_def unquote_letter escape_letters)
  qed
qed

lemma unquote_Quote:
  "unquote (quote_body printable s @ quote_mark # t) = (if json_safe printable s then Some (s, t) else None)"
proof (induction printable s rule: quote_body.induct)
  case (1 printable)
  then show ?case by simp
next
  case (2 printable c cs)
  obtain r w where d: "decode_rune (c # cs) = (r, w)" by fastforce
  show ?case
  proof (cases "w = 1 \<and> r = RuneError")
    case True
    then show ?thesis using d by (simp add: unquote_letter escape_letters)
  next
    case False
    have "0 < w" "w \<le> length (c # cs)" using decoded_rune(3,4) [OF d False] by auto
    then have s: "take w (c # cs) @ drop (w - 1) cs = c # cs" by (cases w) simp_all
    have IH: "unquote (quote_body printable (drop (w - 1) cs) @ quote_mark # t) =
        (if json_safe printable (drop (w - 1) cs) then Some (drop (w - 1) cs, t) else None)"
      using 2(2) [OF d [symmetric] False] .
    have q: "quote_body printable (c # cs) =
        escape_rune printable r (take w (c # cs)) @ quote_body printable (drop (w - 1) cs)"
      using d False by auto
    have j: "json_safe printable (c # cs) \<longleftrightarrow>
        (is_print printable r \<or> r \<in> {0x08, 0x09, 0x0A, 0x0C, 0x0D} \<or> (0x80 \<le> r \<and> r < 0x10000))
        \<and> json_safe printable (drop (w - 1) cs)"
      using d False by auto
    show ?thesis unfolding q j append_assoc unquote_escape_rune [OF d False] IH prepend_if s by simp
  qed
qed

end
