(* ===== verification/EidPush.thy ===== *)
theory EidPush
  imports SdkEid JsonText Router Liveness
begin

text \<open>
  The SDK's identity update as the server receives it: the request that \<open>UpdateDepositKYCStatus\<close> of
  \<open>sdk-examples/go/eid/service.go\<close> sends, the route \<open>PATCH /v1/deposits/{id}/identity\<close> of \<open>router.go\<close> it
  matches, the body as \<open>UpdateIdentity\<close> of \<open>handlers.go\<close> decodes it, and the handler. The SDK builds the
  body with \<open>%q\<close>; \<open>kyc_body_decoded\<close> is exactly what the server reads of it.
\<close>

section \<open>The body of an identity update\<close>

text \<open>The members of a \<open>wallet_metadata\<close> object fill the struct that is there.\<close>

definition fill_wallet :: "(string \<times> json) list \<Rightarrow> WalletMetadata \<Rightarrow> WalletMetadata option" where
  "fill_wallet kvs w =
     (let f = (\<lambda>name old. go_field (\<lambda>j. g_str (Some j)) name kvs old) in do {
        a \<leftarrow> f ''issuer'' (WalletMetadata_Issuer w); b \<leftarrow> f ''issuer_id'' (WalletMetadata_IssuerID w);
        c \<leftarrow> f ''wallet_provider'' (WalletMetadata_WalletProvider w); d \<leftarrow> f ''credential_type'' (WalletMetadata_CredentialType w);
        e \<leftarrow> f ''credential_format'' (WalletMetadata_CredentialFormat w); g \<leftarrow> f ''assurance_level'' (WalletMetadata_AssuranceLevel w);
        h \<leftarrow> f ''presentation_id'' (WalletMetadata_PresentationID w); i \<leftarrow> f ''issuing_country'' (WalletMetadata_IssuingCountry w);
        k \<leftarrow> f ''verified_at'' (WalletMetadata_VerifiedAt w); l \<leftarrow> f ''expires_at'' (WalletMetadata_ExpiresAt w);
        Some \<lparr>WalletMetadata_Issuer = a, WalletMetadata_IssuerID = b, WalletMetadata_WalletProvider = c,
          WalletMetadata_CredentialType = d, WalletMetadata_CredentialFormat = e, WalletMetadata_AssuranceLevel = g,
          WalletMetadata_PresentationID = h, WalletMetadata_IssuingCountry = i, WalletMetadata_VerifiedAt = k,
          WalletMetadata_ExpiresAt = l\<rparr> })"

definition empty_wallet :: WalletMetadata where
  "empty_wallet = \<lparr>WalletMetadata_Issuer = [], WalletMetadata_IssuerID = [], WalletMetadata_WalletProvider = [],
     WalletMetadata_CredentialType = [], WalletMetadata_CredentialFormat = [], WalletMetadata_AssuranceLevel = [],
     WalletMetadata_PresentationID = [], WalletMetadata_IssuingCountry = [], WalletMetadata_VerifiedAt = [],
     WalletMetadata_ExpiresAt = []\<rparr>"

text \<open>A pointer: \<open>null\<close> resets it, an object is read into what it points to.\<close>

fun wallet_field :: "(string \<times> json) list \<Rightarrow> WalletMetadata option \<Rightarrow> WalletMetadata option option" where
  "wallet_field [] acc = Some acc"
| "wallet_field ((k, v) # rest) acc =
     (if \<not> same_field k ''wallet_metadata'' then wallet_field rest acc
      else if v = JNull then wallet_field rest None
      else (case Option.bind (members v) (\<lambda>kvs. fill_wallet kvs (case acc of None \<Rightarrow> empty_wallet | Some w \<Rightarrow> w)) of
              None \<Rightarrow> None
            | Some w \<Rightarrow> wallet_field rest (Some w)))"

definition decode_IdentityUpdateRequest :: "string \<Rightarrow> IdentityUpdateRequest option" where
  "decode_IdentityUpdateRequest body = do {
     j \<leftarrow> Decode body; kvs \<leftarrow> members j;
     st \<leftarrow> str_field ''eid_status'' kvs; ts \<leftarrow> str_field ''verification_timestamp'' kvs;
     ref \<leftarrow> str_field ''provider_reference'' kvs; wallet \<leftarrow> wallet_field kvs None;
     Some \<lparr>IdentityUpdateRequest_EIDStatus = st, IdentityUpdateRequest_VerificationTimestamp = ts,
       IdentityUpdateRequest_ProviderReference = ref, IdentityUpdateRequest_WalletMetadata = wallet\<rparr> }"

section \<open>The route\<close>

text \<open>
  \<open>base\<close> is the address of the server with the prefix \<open>/v1\<close>; the parameter \<open>{id}\<close> is one segment of the path.
  Only ids of characters that a URL leaves as they are have a route here; the server's own ids are of this kind.
\<close>

definition path_char :: "char \<Rightarrow> bool" where
  "path_char c \<longleftrightarrow> is_digit c \<or> (let n = char_code c in 65 \<le> n \<and> n \<le> 90 \<or> 97 \<le> n \<and> n \<le> 122) \<or> c \<in> set ''-_.~''"

definition identity_route :: "string \<Rightarrow> HttpRequest \<Rightarrow> request option" where
  "identity_route base req =
     (let pre = base @ ''/deposits/''; url = HttpRequest_URL req; rest = drop (length pre) url;
          did = takeWhile path_char rest
      in if HttpRequest_Method req = PATCH \<and> HasPrefix url pre \<and> did \<noteq> [] \<and> drop (length did) rest = ''/identity''
         then Some (ReqIdentity (decode_IdentityUpdateRequest (HttpRequest_Body req)) did) else None)"

definition authorization :: "HttpRequest \<Rightarrow> string" where
  "authorization req = (case map_of (HttpRequest_Headers req) ''Authorization'' of None \<Rightarrow> [] | Some h \<Rightarrow> h)"

definition serve_identity ::
  "RouterConfig \<Rightarrow> Services \<Rightarrow> time \<Rightarrow> string \<Rightarrow> HttpRequest \<Rightarrow> World \<Rightarrow> (response \<times> effect list \<times> World) option" where
  "serve_identity rc x now base req w =
     map_option (\<lambda>r. NewRouter rc x now (authorization req) (Change r) w) (identity_route base req)"

text \<open>The SDK's transport gives the status that the server answers the request with.\<close>

definition delivers :: "EidLib \<Rightarrow> RouterConfig \<Rightarrow> Services \<Rightarrow> time \<Rightarrow> string \<Rightarrow> World \<Rightarrow> HttpRequest \<Rightarrow> bool" where
  "delivers E rc x now base w req \<longleftrightarrow>
     (case serve_identity rc x now base req w of
        Some (Respond status rb, es, w') \<Rightarrow> map_sum id fst (eid_do E req) = Inr status
      | _ \<Rightarrow> True)"

section \<open>The text of the update\<close>

lemma json_safe_plain: "list_all plain_char s \<Longrightarrow> json_safe printable s"
  by (induction s) (auto simp: decode_rune_def plain_char_def is_print_def RuneError_def)

lemma unquote_plain: "list_all plain_char s \<Longrightarrow> unquote (s @ quote_mark # t) = Some (s, t)"
  using unquote_Quote [of "\<lambda>r. True" s t] by (simp add: quote_body_plain json_safe_plain)

lemma skip_ws_stop: "c \<notin> {CHR '' '', CHR 0x09, CHR 0x0A, CHR 0x0D} \<Longrightarrow> skip_ws (c # cs) = c # cs"
  by (simp add: skip_ws_def)

lemma jvalue_Quote:
  "jvalue (Suc n) d (Quote printable v @ t) = (if json_safe printable v then Some (JStr v, t) else None)"
  using unquote_Quote [of printable v t] by (simp add: Quote_def skip_ws_stop quote_mark_def)

lemma jvalue_object:
  assumes "skip_ws b = b" "\<not> HasPrefix b ''}''"
  shows "jvalue (Suc n) 0 (CHR ''{'' # b) = map_option (\<lambda>(kvs, r). (JObj kvs, r)) (jmembers n (Suc 0) b)"
  using assms by (simp add: skip_ws_stop quote_mark_def maxNestingDepth_def)

text \<open>One member, before the end of the object or before the next one.\<close>

lemma jmembers_member_q:
  assumes "list_all plain_char k"
  shows "jmembers (Suc (Suc n)) d (member_q E k v @ ''}'' @ t) =
      (if json_safe (eid_printable E) v then Some ([(k, JStr v)], t) else None)" (is ?last)
    and "jmembers (Suc (Suc n)) d (member_q E k v @ '','' @ t) =
      (if json_safe (eid_printable E) v then map_option (\<lambda>(kvs, r). ((k, JStr v) # kvs, r)) (jmembers (Suc n) d t) else None)" (is ?more)
proof -
  have key: "unquote (k @ CHR 0x22 # u) = Some (k, u)" for u
    using unquote_plain [OF assms, of u] by (simp add: quote_mark_def)
  note step = jmembers.simps(2) skip_ws_stop key quote_mark_def HasPrefix_def
  show ?last using jvalue_Quote [of n d "eid_printable E" v "''}'' @ t"]
    by (simp add: member_q_def step del: jvalue.simps)
  show ?more using jvalue_Quote [of n d "eid_printable E" v "'','' @ t"]
    by (simp add: member_q_def step del: jvalue.simps)
qed

text \<open>An object of strings: the texts that the SDK builds, and what the parser makes of them.\<close>

fun members_q :: "EidLib \<Rightarrow> (string \<times> string) list \<Rightarrow> string" where
  "members_q E [] = ''}''"
| "members_q E [(k, v)] = member_q E k v @ ''}''"
| "members_q E ((k, v) # kv # rest) = member_q E k v @ '','' @ members_q E (kv # rest)"

definition string_members :: "(string \<times> string) list \<Rightarrow> (string \<times> json) list" where
  "string_members kvs = map (\<lambda>(k, v). (k, JStr v)) kvs"

lemma jmembers_q:
  assumes "kvs \<noteq> []" "list_all (\<lambda>(k, v). list_all plain_char k) kvs" "length kvs \<le> n"
  shows "jmembers (Suc n) d (members_q E kvs) =
    (if list_all (\<lambda>(k, v). json_safe (eid_printable E) v) kvs then Some (string_members kvs, []) else None)"
  using assms
proof (induction E kvs arbitrary: n rule: members_q.induct)
  case (2 E k v)
  then obtain m where "n = Suc m" by (cases n) auto
  then show ?case using jmembers_member_q(1) [of k m d E v "[]"] 2(2) by (simp add: string_members_def del: jmembers.simps)
next
  case (3 E k v kv rest)
  then obtain m where n: "n = Suc m" by (cases n) auto
  have IH: "jmembers (Suc m) d (members_q E (kv # rest)) =
      (if list_all (\<lambda>(k, v). json_safe (eid_printable E) v) (kv # rest) then Some (string_members (kv # rest), []) else None)"
    using 3 n by (intro 3(1)) simp_all
  show ?case
    using 3(3) unfolding n members_q.simps
    by (subst jmembers_member_q(2)) (simp_all add: IH string_members_def del: jmembers.simps)
qed simp

lemma members_q_start: "kvs \<noteq> [] \<Longrightarrow> \<exists>t. members_q E kvs = CHR 0x22 # t"
  by (induction E kvs rule: members_q.induct) (simp_all add: member_q_def)

lemma members_q_length: "length kvs \<le> length (members_q E kvs)"
  by (induction E kvs rule: members_q.induct) simp_all

lemma object_text:
  assumes "kvs \<noteq> []" "list_all (\<lambda>(k, v). list_all plain_char k) kvs"
  shows "json_text (CHR ''{'' # members_q E kvs) =
    (if list_all (\<lambda>(k, v). json_safe (eid_printable E) v) kvs then Some (JObj (string_members kvs), []) else None)"
proof -
  let ?b = "members_q E kvs"
  obtain t where t: "?b = CHR 0x22 # t" using members_q_start [OF assms(1)] by blast
  have "jvalue (Suc (Suc (Suc (2 * length ?b)))) 0 (CHR ''{'' # ?b) =
      map_option (\<lambda>(kvs, r). (JObj kvs, r)) (jmembers (Suc (Suc (2 * length ?b))) (Suc 0) ?b)"
    by (rule jvalue_object) (simp_all add: t skip_ws_stop HasPrefix_def)
  moreover have "length kvs \<le> Suc (2 * length ?b)" using members_q_length [of kvs E] by simp
  ultimately show ?thesis using jmembers_q [OF assms, of "Suc (2 * length ?b)" "Suc 0" E] by (simp add: json_text_def)
qed

lemma plain_eid_string: "list_all plain_char (eid_string st)"
  by (cases st) (simp_all add: plain_char_def char_code_def)

lemma plain_show_width: "list_all plain_char (show_width w i)"
proof -
  have "is_digit c \<Longrightarrow> plain_char c" for c by (auto simp: is_digit_def plain_char_def char_code_def)
  then show ?thesis
    using show_padded_digits [of _ w "nat \<bar>i\<bar>"]
    by (auto simp: show_width_def list_all_iff plain_char_def char_code_def)
qed

lemma plain_FormatRFC3339: "list_all plain_char (FormatRFC3339 t)"
  by (auto simp: FormatRFC3339_def FormatDate_def show_date_def Let_def plain_show_width plain_char_def char_code_def
      split: prod.splits)

text \<open>The members of an update; the reference is the only value that is not always a JSON literal.\<close>

definition kyc_members :: "KYCUpdatePayload \<Rightarrow> (string \<times> string) list" where
  "kyc_members p = [(''eid_status'', eid_string (KYCUpdatePayload_EIDStatus p)),
     (''verification_timestamp'', FormatRFC3339 (KYCUpdatePayload_VerificationTimestamp p)),
     (''provider_reference'', KYCUpdatePayload_ProviderReference p)]"

lemma kyc_body_value:
  "json_text (kyc_body E p) =
     (if json_safe (eid_printable E) (KYCUpdatePayload_ProviderReference p)
      then Some (JObj (string_members (kyc_members p)), []) else None)"
proof -
  have "kyc_body E p = CHR ''{'' # members_q E (kyc_members p)" by (simp add: kyc_body_def kyc_members_def)
  moreover have "kyc_members p \<noteq> []" "list_all (\<lambda>(k, v). list_all plain_char k) (kyc_members p)"
    by (simp_all add: kyc_members_def plain_char_def char_code_def)
  moreover have "list_all (\<lambda>(k, v). json_safe (eid_printable E) v) (kyc_members p) \<longleftrightarrow>
      json_safe (eid_printable E) (KYCUpdatePayload_ProviderReference p)"
    by (simp add: kyc_members_def json_safe_plain plain_eid_string plain_FormatRFC3339)
  ultimately show ?thesis using object_text [of "kyc_members p" E] by simp
qed

text \<open>The request for a session is readable for the provider exactly when all four values of it are.\<close>

lemma session_body_value:
  "Unmarshal (session_body E req) =
     (if list_all (json_safe (eid_printable E)) [VerificationRequest_ClientID req, VerificationRequest_DepositID req,
           VerificationRequest_TenantEmail req, VerificationRequest_RedirectURI req]
      then Some (JObj (string_members [(''client_id'', VerificationRequest_ClientID req),
        (''deposit_id'', VerificationRequest_DepositID req), (''tenant_email'', VerificationRequest_TenantEmail req),
        (''redirect_uri'', VerificationRequest_RedirectURI req), (''scope'', ''openid eid'')])) else None)"
proof -
  let ?kvs = "[(''client_id'', VerificationRequest_ClientID req), (''deposit_id'', VerificationRequest_DepositID req),
    (''tenant_email'', VerificationRequest_TenantEmail req), (''redirect_uri'', VerificationRequest_RedirectURI req),
    (''scope'', ''openid eid'')]"
  have scope: "list_all plain_char ''openid eid''" by (simp add: plain_char_def char_code_def)
  have "session_body E req = CHR ''{'' # members_q E ?kvs"
    using Quote_ascii [OF scope, of "eid_printable E"] by (simp add: session_body_def member_q_def)
  moreover have "list_all (\<lambda>(k, v). list_all plain_char k) ?kvs" by (simp add: plain_char_def char_code_def)
  moreover have "list_all (\<lambda>(k, v). json_safe (eid_printable E) v) ?kvs \<longleftrightarrow>
      list_all (json_safe (eid_printable E)) [VerificationRequest_ClientID req, VerificationRequest_DepositID req,
        VerificationRequest_TenantEmail req, VerificationRequest_RedirectURI req]"
    using json_safe_plain [OF scope] by simp
  ultimately show ?thesis using object_text [of ?kvs E] by (simp add: Unmarshal_def skip_ws_def)
qed

lemma kyc_body_decoded:
  "decode_IdentityUpdateRequest (kyc_body E p) =
     (if json_safe (eid_printable E) (KYCUpdatePayload_ProviderReference p)
      then Some \<lparr>IdentityUpdateRequest_EIDStatus = eid_string (KYCUpdatePayload_EIDStatus p),
        IdentityUpdateRequest_VerificationTimestamp = FormatRFC3339 (KYCUpdatePayload_VerificationTimestamp p),
        IdentityUpdateRequest_ProviderReference = KYCUpdatePayload_ProviderReference p,
        IdentityUpdateRequest_WalletMetadata = None\<rparr>
      else None)"
proof -
  have "Decode (kyc_body E p) =
      (if json_safe (eid_printable E) (KYCUpdatePayload_ProviderReference p) then Some (JObj (string_members (kyc_members p))) else None)"
    by (simp add: Decode_def kyc_body_value)
  moreover have "\<not> same_field k ''wallet_metadata''" if "k \<in> {''eid_status'', ''verification_timestamp'', ''provider_reference''}" for k
    using that by (auto simp: same_field_low low_char_def)
  moreover have "str_field ''eid_status'' (string_members (kyc_members p)) = Some (eid_string (KYCUpdatePayload_EIDStatus p))"
    "str_field ''verification_timestamp'' (string_members (kyc_members p)) = Some (FormatRFC3339 (KYCUpdatePayload_VerificationTimestamp p))"
    "str_field ''provider_reference'' (string_members (kyc_members p)) = Some (KYCUpdatePayload_ProviderReference p)"
    by (simp_all add: str_field_def string_members_def kyc_members_def same_field_low low_char_def)
  ultimately show ?thesis
    by (simp add: decode_IdentityUpdateRequest_def string_members_def kyc_members_def)
qed

section \<open>From the webhook to the deposit\<close>

lemma kyc_request_route:
  assumes "did \<noteq> []" "list_all path_char did"
  shows "identity_route base (kyc_request E base did p tok) =
    Some (ReqIdentity (decode_IdentityUpdateRequest (kyc_body E p)) did)"
proof -
  have "\<not> path_char (CHR ''/'')" by (simp add: path_char_def char_code_def is_digit_def)
  then have "takeWhile path_char (did @ ''/identity'') = did"
    using assms(2) by (simp add: list_all_iff takeWhile_append2)
  moreover have "drop (length base + 10) (base @ ''/deposits/'' @ did @ ''/identity'') = did @ ''/identity''" by simp
  ultimately show ?thesis using assms(1) by (simp add: identity_route_def kyc_request_def HasPrefix_def Let_def del: drop_drop)
qed

lemma kyc_request_authorization: "authorization (kyc_request E base did p tok) = ''Bearer '' @ tok"
  by (simp add: authorization_def kyc_request_def)

text \<open>A verified identity moves a requested deposit on; only the status of the update is kept.\<close>

lemma verified_update:
  assumes inv: "server_inv (world_db w)" and d: "stored w did = Some d" and x: "working x"
    and st: "lifecycle d = StateRequested"
    and i: "IdentityUpdateRequest_EIDStatus i = EIDVerified" "IdentityUpdateRequest_WalletMetadata i = None"
    and d': "d' = enter_state (env_repo_now (srv_env x)) StateIdentified (entry StateIdentified ''IDENTITY_PROVIDER'' [])
      (d\<lparr>Deposit_Tenant := (Deposit_Tenant d)\<lparr>Tenant_EIDStatus := EIDVerified\<rparr>\<rparr>)"
  obtains es w' where "serve c x (ReqIdentity (Some i) did) w = (Respond 200 (JSON_Deposit d'), es, w')"
    "server_inv (world_db w')" "stored w' did = Some d'"
proof -
  note ok = workingD [OF x]
  let ?e = "entry StateIdentified ''IDENTITY_PROVIDER'' []"
  let ?h = "UpdateIdentity (cfg_server c) (srv_env x) (Some i) did (world_db w)"
  have p: "UpdateIdentity_plan (the (Some i)) d = Inr (StateIdentified, ?e, UpdateIdentity_patch i)"
    using st i(1) by (simp add: UpdateIdentity_plan_def StateForIdentityUpdate_def guard_transition_Inr CanTransition_to)
  have chk: "UpdateIdentity_check (Some i) = None" using i(1) by (simp add: UpdateIdentity_check_def EIDVerified_def)
  have enc: "enc_Deposit (enter_state (env_repo_now (srv_env x)) StateIdentified ?e d1) \<noteq> None"
    if "UpdateIdentity_patch i d = Some d1" for d1
    using encodable_enter_state [OF encodable_identity [OF server_inv_encodable [OF inv d] that i(2)] ok(3)]
    by (simp add: encodable_def)
  have d1: "UpdateIdentity_patch i d = Some (d\<lparr>Deposit_Tenant := (Deposit_Tenant d)\<lparr>Tenant_EIDStatus := EIDVerified\<rparr>\<rparr>)"
    using i by (simp add: UpdateIdentity_patch_def)
  obtain es db' where h: "?h = (Respond 200 (JSON_Deposit d'), es, db')"
    unfolding UpdateIdentity_def
    by (rule identity.action_total [OF inv chk d p ok(1,2) enc, where s = "cfg_server c" and revokes = False and mail = no_mail])
      (auto simp: d1 d')
  moreover have "server_inv db' \<and> repo_view db' did = Some d'"
    using identity.action_progress [OF inv chk d p ok(1,2) enc, where s = "cfg_server c" and revokes = False and mail = no_mail] h
    by (simp add: UpdateIdentity_def)
  ultimately show ?thesis using that [of es "w\<lparr>world_db := db'\<rparr>"] by (simp add: with_db_def)
qed

text \<open>The request of a push, answered by the server.\<close>

lemma push_served:
  assumes "did \<noteq> []" "list_all path_char did" "JWTMiddleware (rc_jwt rc) (rc_secret rc) now (''Bearer '' @ tok) = Inr claims"
  shows "serve_identity rc x now base (kyc_request E base did p tok) w =
    Some (serve (rc_config rc) x (ReqIdentity (decode_IdentityUpdateRequest (kyc_body E p)) did) w)"
  using assms by (simp add: serve_identity_def kyc_request_route kyc_request_authorization NewRouter_def)

lemma bad_body_rejected: "serve c x (ReqIdentity None did) w = (bad_json, [], w)"
  by (simp add: UpdateIdentity_def UpdateIdentity_check_def handle_action_def with_db_def)

lemma delivered_status:
  assumes "delivers E rc x now base w (kyc_request E base did p tok)" "eid_url_ok E (base @ ''/deposits/'' @ did @ ''/identity'')"
    and "serve_identity rc x now base (kyc_request E base did p tok) w = Some (Respond status rb, es, w')"
  shows "UpdateDepositKYCStatus E base did p tok = (if status = 200 \<or> status = 204 then None else Some (ErrHTTP status))"
proof -
  have url: "HttpRequest_URL (kyc_request E base did p tok) = base @ ''/deposits/'' @ did @ ''/identity''"
    by (simp add: kyc_request_def)
  show ?thesis
    using assms by (cases "eid_do E (kyc_request E base did p tok)") (auto simp: delivers_def UpdateDepositKYCStatus_def url)
qed

end
