(* ===== verification/SdkAuth.thy ===== *)
theory SdkAuth
  imports SdkVerifier
begin

text \<open>
  The Go SDK's bearer token validator (\<open>sdk-examples/go/auth/validator.go\<close>). The JSON text parser is
  that of \<open>VpLib\<close>; the conversion of a float outside the range of \<open>int64\<close>, which Go leaves to the
  implementation, is the argument \<open>wrap\<close>. \<open>ValidateToken_sound\<close> states what acceptance
  guarantees: structure, issuer, expiry and scopes; \<open>ValidateToken_ignores_signature\<close> that the
  signature is not among them.
\<close>

section \<open>Text\<close>

text \<open>\<open>strings.TrimSuffix\<close> and \<open>strings.TrimRight(s, "=")\<close>\<close>

definition TrimSuffix :: "string \<Rightarrow> string \<Rightarrow> string" where
  "TrimSuffix s p = (if length p \<le> length s \<and> drop (length s - length p) s = p then take (length s - length p) s else s)"

definition TrimRightEq :: "string \<Rightarrow> string" where
  "TrimRightEq s = rev (dropWhile (\<lambda>c. c = CHR ''='') (rev s))"

text \<open>\<open>unicode.IsSpace\<close>, and \<open>strings.Fields\<close> as a loop over runes with the current word.\<close>

definition is_space :: "nat \<Rightarrow> bool" where
  "is_space r \<longleftrightarrow> r \<in> set [0x09, 0x0A, 0x0B, 0x0C, 0x0D, 0x20, 0x85, 0xA0, 0x1680, 0x2028, 0x2029, 0x202F, 0x205F, 0x3000]
     \<or> 0x2000 \<le> r \<and> r \<le> 0x200A"

fun fields_from :: "string \<Rightarrow> string \<Rightarrow> string list" where
  "fields_from word [] = (if word = [] then [] else [word])"
| "fields_from word (c # cs) =
     (case decode_rune (c # cs) of (r, width) \<Rightarrow>
        if is_space r then (if word = [] then [] else [word]) @ fields_from [] (drop (width - 1) cs)
        else fields_from (word @ take (max width 1) (c # cs)) (drop (width - 1) cs))"

definition Fields :: "string \<Rightarrow> string list" where
  "Fields s = fields_from [] s"

section \<open>Validation\<close>

record TokenClaims =
  TokenClaims_Subject :: string
  TokenClaims_Issuer :: string
  TokenClaims_Scopes :: "string set"
  TokenClaims_ExpiresAt :: time

definition HasScope :: "TokenClaims \<Rightarrow> string \<Rightarrow> bool" where
  "HasScope c scope \<longleftrightarrow> scope \<in> TokenClaims_Scopes c"

datatype token_error =
    MalformedToken nat | TokenBase64 | TokenJSON | MissingSub | MissingIss | MissingExp
  | UnexpectedIssuer string | TokenExpired int | InsufficientScope string

record OidcTokenValidator =
  OidcTokenValidator_JWKSUri :: string
  OidcTokenValidator_ExpectedIssuer :: string

definition NewOidcTokenValidator :: "string \<Rightarrow> OidcTokenValidator" where
  "NewOidcTokenValidator discoveryURL =
     (let issuer = TrimSuffix discoveryURL ''/.well-known/openid-configuration''
      in \<lparr>OidcTokenValidator_JWKSUri = issuer @ ''/.well-known/jwks.json'', OidcTokenValidator_ExpectedIssuer = issuer\<rparr>)"

text \<open>\<open>int64(x)\<close>: truncation towards zero within the range.\<close>

definition float_to_int64 :: "(float64 \<Rightarrow> int) \<Rightarrow> float64 \<Rightarrow> int" where
  "float_to_int64 wrap x = (case x of
     Fin q \<Rightarrow> let n = (if 0 \<le> q then \<lfloor>q\<rfloor> else - \<lfloor>- q\<rfloor>) in if is_int64 n then n else wrap x
   | _ \<Rightarrow> wrap x)"

definition parseAndValidateClaims ::
  "VpLib \<Rightarrow> (float64 \<Rightarrow> int) \<Rightarrow> OidcTokenValidator \<Rightarrow> time \<Rightarrow> string \<Rightarrow> token_error + TokenClaims" where
  "parseAndValidateClaims V wrap v now jwt =
     (let parts = SplitN jwt (CHR ''.'') 3 in
      if length parts \<noteq> 3 then Inl (MalformedToken (length parts))
      else case RawURLDecode (TrimRightEq (parts ! 1)) of
        None \<Rightarrow> Inl TokenBase64
      | Some raw \<Rightarrow>
          (case do { j \<leftarrow> vp_unmarshal V (string_of raw); kvs \<leftarrow> members j; sub \<leftarrow> str_field ''sub'' kvs;
                     iss \<leftarrow> str_field ''iss'' kvs; scope \<leftarrow> str_field ''scope'' kvs; e \<leftarrow> float_field ''exp'' kvs;
                     Some (sub, iss, scope, e) } of
             None \<Rightarrow> Inl TokenJSON
           | Some (sub, iss, scope, e) \<Rightarrow>
               if sub = [] then Inl MissingSub
               else if iss = [] then Inl MissingIss
               else if e = f_zero then Inl MissingExp
               else if iss \<noteq> OidcTokenValidator_ExpectedIssuer v then Inl (UnexpectedIssuer iss)
               else let exp = float_to_int64 wrap e in
                 if Unix now > exp then Inl (TokenExpired exp)
                 else Inr \<lparr>TokenClaims_Subject = sub, TokenClaims_Issuer = iss, TokenClaims_Scopes = set (Fields scope),
                        TokenClaims_ExpiresAt = exp * Second\<rparr>))"

fun checkScopes :: "TokenClaims \<Rightarrow> string list \<Rightarrow> token_error option" where
  "checkScopes c [] = None"
| "checkScopes c (scope # rest) = (if \<not> HasScope c scope then Some (InsufficientScope scope) else checkScopes c rest)"

definition ValidateToken ::
  "VpLib \<Rightarrow> (float64 \<Rightarrow> int) \<Rightarrow> OidcTokenValidator \<Rightarrow> time \<Rightarrow> string \<Rightarrow> string list \<Rightarrow> token_error + TokenClaims" where
  "ValidateToken V wrap v now bearerToken requiredScopes =
     (case parseAndValidateClaims V wrap v now (TrimPrefix bearerToken ''Bearer '') of
        Inl err \<Rightarrow> Inl err
      | Inr claims \<Rightarrow> (case checkScopes claims requiredScopes of Some err \<Rightarrow> Inl err | None \<Rightarrow> Inr claims))"

section \<open>What acceptance guarantees\<close>

lemma checkScopes_None: "checkScopes c scopes = None \<longleftrightarrow> set scopes \<subseteq> TokenClaims_Scopes c"
  by (induction scopes) (auto simp: HasScope_def)

lemma parseAndValidateClaims_Inr:
  assumes "parseAndValidateClaims V wrap v now jwt = Inr claims"
  shows "TokenClaims_Issuer claims = OidcTokenValidator_ExpectedIssuer v" "TokenClaims_Subject claims \<noteq> []"
    "Unix now * Second \<le> TokenClaims_ExpiresAt claims" "length (SplitN jwt (CHR ''.'') 3) = 3"
  using assms
  by (auto simp: parseAndValidateClaims_def Let_def not_less Second_def split: if_splits option.splits prod.splits)

lemma ValidateToken_sound:
  assumes "ValidateToken V wrap v now tok scopes = Inr claims"
  shows "TokenClaims_Issuer claims = OidcTokenValidator_ExpectedIssuer v" "TokenClaims_Subject claims \<noteq> []"
    "Unix now * Second \<le> TokenClaims_ExpiresAt claims" "set scopes \<subseteq> TokenClaims_Scopes claims"
proof -
  have p: "parseAndValidateClaims V wrap v now (TrimPrefix tok ''Bearer '') = Inr claims" "checkScopes claims scopes = None"
    using assms by (auto simp: ValidateToken_def split: sum.splits option.splits)
  show "TokenClaims_Issuer claims = OidcTokenValidator_ExpectedIssuer v" "TokenClaims_Subject claims \<noteq> []"
    "Unix now * Second \<le> TokenClaims_ExpiresAt claims" "set scopes \<subseteq> TokenClaims_Scopes claims"
    using parseAndValidateClaims_Inr [OF p(1)] p(2) by (simp_all add: checkScopes_None)
qed

lemma ValidateToken_ignores_signature:
  assumes "CHR ''.'' \<notin> set head" "CHR ''.'' \<notin> set head'" "CHR ''.'' \<notin> set payload"
  shows "parseAndValidateClaims V wrap v now (head @ CHR ''.'' # payload @ CHR ''.'' # sig) =
    parseAndValidateClaims V wrap v now (head' @ CHR ''.'' # payload @ CHR ''.'' # sig')"
proof -
  have "SplitN (h @ CHR ''.'' # payload @ CHR ''.'' # s) (CHR ''.'') 3 = [h, payload, s]" if "CHR ''.'' \<notin> set h" for h s
    using SplitN_first [OF that, of "payload @ CHR ''.'' # s" 1] SplitN_first [OF assms(3), of s 0]
    by (simp add: numeral_3_eq_3)
  then show ?thesis using assms(1,2) by (simp add: parseAndValidateClaims_def Let_def)
qed

text \<open>A round trip of the constructor: the discovery URL of an issuer is reduced to the issuer.\<close>

lemma NewOidcTokenValidator_issuer:
  "OidcTokenValidator_ExpectedIssuer (NewOidcTokenValidator (issuer @ ''/.well-known/openid-configuration'')) = issuer"
  by (simp add: NewOidcTokenValidator_def TrimSuffix_def Let_def)

end
