(* ===== verification/SdkModels.thy ===== *)
theory SdkModels
  imports Server
begin

text \<open>
  The data model of the Go SDK (\<open>sdk-examples/go/models/models.go\<close>) and its JSON form. The structures whose
  fields and tags are those of the server's model (address, wallet metadata, property,
  instalment plan, trusteeship, meta) are the server's records; the others are declared here. The
  fields under \<open>custom_fields\<close> are kept as the members of a JSON object.

  \<open>sdk_document_read\<close>: the server's decoder finds no deposit data in such a document, because the SDK
  writes it under another key.
\<close>

record SdkTenant =
  SdkTenant_FirstName :: string
  SdkTenant_LastName :: string
  SdkTenant_Email :: string
  SdkTenant_TaxID :: string
  SdkTenant_EIDStatus :: string
  SdkTenant_WalletMetadata :: "WalletMetadata option"
  SdkTenant_Address :: Address

record SdkLandlord =
  SdkLandlord_Name :: string
  SdkLandlord_Type :: string
  SdkLandlord_IBAN :: string

record SdkDepositDetails =
  SdkDepositDetails_Amount :: float64
  SdkDepositDetails_Currency :: string
  SdkDepositDetails_Type :: string
  SdkDepositDetails_LifecycleState :: string
  SdkDepositDetails_InstallmentPlan :: "InstallmentPlan option"

record SdkPledge =
  SdkPledge_PledgeDate :: string
  SdkPledge_StatutoryBasis :: string
  SdkPledge_IsConfirmedByBank :: bool

record SdkProvider =
  SdkProvider_ProviderType :: string
  SdkProvider_ExecutingEntity :: string
  SdkProvider_BrandName :: string
  SdkProvider_InsurancePolicyNumber :: string
  SdkProvider_CustomFields :: "(string \<times> json) list"

record SdkHistoryEntry =
  SdkHistoryEntry_State :: string
  SdkHistoryEntry_Timestamp :: time
  SdkHistoryEntry_Actor :: string
  SdkHistoryEntry_Comment :: string

record SdkDeposit =
  SdkDeposit_Meta :: Meta
  SdkDeposit_Tenant :: SdkTenant
  SdkDeposit_Landlord :: SdkLandlord
  SdkDeposit_Property :: Property
  SdkDeposit_DepositDetails :: SdkDepositDetails
  SdkDeposit_Pledge :: "SdkPledge option"
  SdkDeposit_Trusteeship :: "Trusteeship option"
  SdkDeposit_Provider :: SdkProvider
  SdkDeposit_History :: "SdkHistoryEntry list"

section \<open>The JSON form\<close>

definition enc_SdkTenant :: "SdkTenant \<Rightarrow> json option" where
  "enc_SdkTenant x = enc_obj [
     (''first_name'', False, Some (JStr (SdkTenant_FirstName x))),
     (''last_name'', False, Some (JStr (SdkTenant_LastName x))),
     (''email'', False, Some (JStr (SdkTenant_Email x))),
     (''tax_id'', SdkTenant_TaxID x = [], Some (JStr (SdkTenant_TaxID x))),
     (''eid_status'', False, Some (JStr (SdkTenant_EIDStatus x))),
     (''wallet_metadata'', SdkTenant_WalletMetadata x = None, enc_ptr enc_WalletMetadata (SdkTenant_WalletMetadata x)),
     (''address'', False, enc_Address (SdkTenant_Address x))]"

definition enc_SdkLandlord :: "SdkLandlord \<Rightarrow> json option" where
  "enc_SdkLandlord x = enc_obj [
     (''name'', False, Some (JStr (SdkLandlord_Name x))),
     (''type'', False, Some (JStr (SdkLandlord_Type x))),
     (''iban'', SdkLandlord_IBAN x = [], Some (JStr (SdkLandlord_IBAN x)))]"

definition enc_SdkDepositDetails :: "SdkDepositDetails \<Rightarrow> json option" where
  "enc_SdkDepositDetails x = enc_obj [
     (''amount'', False, enc_float (SdkDepositDetails_Amount x)),
     (''currency'', False, Some (JStr (SdkDepositDetails_Currency x))),
     (''type'', False, Some (JStr (SdkDepositDetails_Type x))),
     (''lifecycle_state'', False, Some (JStr (SdkDepositDetails_LifecycleState x))),
     (''installment_plan'', SdkDepositDetails_InstallmentPlan x = None,
        enc_ptr enc_InstallmentPlan (SdkDepositDetails_InstallmentPlan x))]"

definition enc_SdkPledge :: "SdkPledge \<Rightarrow> json option" where
  "enc_SdkPledge x = enc_obj [
     (''pledge_date'', SdkPledge_PledgeDate x = [], Some (JStr (SdkPledge_PledgeDate x))),
     (''statutory_basis'', False, Some (JStr (SdkPledge_StatutoryBasis x))),
     (''is_confirmed_by_bank'', False, Some (JBool (SdkPledge_IsConfirmedByBank x)))]"

definition enc_SdkProvider :: "SdkProvider \<Rightarrow> json option" where
  "enc_SdkProvider x = enc_obj [
     (''provider_type'', False, Some (JStr (SdkProvider_ProviderType x))),
     (''executing_entity'', False, Some (JStr (SdkProvider_ExecutingEntity x))),
     (''brand_name'', SdkProvider_BrandName x = [], Some (JStr (SdkProvider_BrandName x))),
     (''insurance_policy_number'', SdkProvider_InsurancePolicyNumber x = [], Some (JStr (SdkProvider_InsurancePolicyNumber x))),
     (''custom_fields'', SdkProvider_CustomFields x = [], Some (JObj (SdkProvider_CustomFields x)))]"

definition enc_SdkHistoryEntry :: "SdkHistoryEntry \<Rightarrow> json option" where
  "enc_SdkHistoryEntry x = enc_obj [
     (''state'', False, Some (JStr (SdkHistoryEntry_State x))),
     (''timestamp'', False, enc_time (SdkHistoryEntry_Timestamp x)),
     (''actor'', False, Some (JStr (SdkHistoryEntry_Actor x))),
     (''comment'', SdkHistoryEntry_Comment x = [], Some (JStr (SdkHistoryEntry_Comment x)))]"

definition enc_SdkDeposit :: "SdkDeposit \<Rightarrow> json option" where
  "enc_SdkDeposit x = enc_obj [
     (''meta'', False, enc_Meta (SdkDeposit_Meta x)),
     (''tenant'', False, enc_SdkTenant (SdkDeposit_Tenant x)),
     (''landlord'', False, enc_SdkLandlord (SdkDeposit_Landlord x)),
     (''property'', False, enc_Property (SdkDeposit_Property x)),
     (''deposit_details'', False, enc_SdkDepositDetails (SdkDeposit_DepositDetails x)),
     (''pledge'', SdkDeposit_Pledge x = None, enc_ptr enc_SdkPledge (SdkDeposit_Pledge x)),
     (''trusteeship'', SdkDeposit_Trusteeship x = None, enc_ptr enc_Trusteeship (SdkDeposit_Trusteeship x)),
     (''provider'', False, enc_SdkProvider (SdkDeposit_Provider x)),
     (''history'', False, enc_list enc_SdkHistoryEntry (SdkDeposit_History x))]"

section \<open>An SDK document at the server\<close>

text \<open>What the server's decoder makes of the SDK's form of a value\<close>

definition read_as :: "('a \<Rightarrow> json option) \<Rightarrow> (json \<Rightarrow> 'b option) \<Rightarrow> 'a \<Rightarrow> 'b \<Rightarrow> bool" where
  "read_as e d x y \<longleftrightarrow> (\<forall>j. e x = Some j \<longrightarrow> j \<noteq> JNull \<and> d j = Some y)"

lemma read_as_objI:
  assumes "\<And>x. e x = enc_obj (fs x)" "distinct (map fst (fs x))" "\<And>j. d j = Option.bind (obj_of j) body"
    and "fields_ok (fs x) \<Longrightarrow> body (field_value (fs x)) = Some y"
  shows "read_as e d x y"
  using assms enc_obj_SomeD by (fastforce simp: read_as_def)

lemma g_struct_read_as: "read_as e d x y \<Longrightarrow> \<exists>j. e x = Some j \<Longrightarrow> g_struct d (e x) = Some y"
  by (auto simp: read_as_def g_struct_def)

lemma g_ptr_read_as: "read_as e d x y \<Longrightarrow> \<exists>j. e x = Some j \<Longrightarrow> g_ptr d (e x) = Some (Some y)"
  by (auto simp: read_as_def g_ptr_Some)

lemma g_ptr_omit_read_as:
  assumes "\<And>x. read_as e d x (f x)" "p = None \<or> (\<exists>y. enc_ptr e p = Some y)"
  shows "g_ptr d (if p = None then None else enc_ptr e p) = Some (map_option f p)"
proof (cases p)
  case (Some x)
  then show ?thesis using assms(2) g_ptr_read_as [OF assms(1), of x] by (simp add: enc_ptr_def)
qed simp

lemma read_as_inverts: "inverts e d x \<Longrightarrow> read_as e d x x"
  by (simp add: inverts_def read_as_def)

definition tenant_view :: "SdkTenant \<Rightarrow> Tenant" where
  "tenant_view x = \<lparr>Tenant_FirstName = SdkTenant_FirstName x, Tenant_LastName = SdkTenant_LastName x,
     Tenant_Email = SdkTenant_Email x, Tenant_TaxID = SdkTenant_TaxID x, Tenant_EIDStatus = SdkTenant_EIDStatus x,
     Tenant_WalletMetadata = SdkTenant_WalletMetadata x, Tenant_Address = Some (SdkTenant_Address x)\<rparr>"

definition landlord_view :: "SdkLandlord \<Rightarrow> Landlord" where
  "landlord_view x = \<lparr>Landlord_Name = SdkLandlord_Name x, Landlord_Type = SdkLandlord_Type x, Landlord_IBAN = SdkLandlord_IBAN x\<rparr>"

definition pledge_view :: "SdkPledge \<Rightarrow> Pledge" where
  "pledge_view x = \<lparr>Pledge_PledgeDate = SdkPledge_PledgeDate x, Pledge_StatutoryBasis = SdkPledge_StatutoryBasis x,
     Pledge_IsConfirmedByBank = SdkPledge_IsConfirmedByBank x\<rparr>"

definition provider_view :: "SdkProvider \<Rightarrow> Provider" where
  "provider_view x = \<lparr>Provider_ProviderType = SdkProvider_ProviderType x, Provider_ExecutingEntity = SdkProvider_ExecutingEntity x,
     Provider_BrandName = SdkProvider_BrandName x, Provider_ProviderID = [],
     Provider_InsurancePolicyNumber = SdkProvider_InsurancePolicyNumber x\<rparr>"

definition no_data :: DepositData where
  "no_data = \<lparr>DepositData_Amount = f_zero, DepositData_Currency = [], DepositData_Type = [],
     DepositData_LifecycleState = state_of_string [], DepositData_History = [], DepositData_InstallmentPlan = None\<rparr>"

definition server_view :: "SdkDeposit \<Rightarrow> Deposit" where
  "server_view x = \<lparr>Deposit_ID = [], Deposit_Meta = SdkDeposit_Meta x, Deposit_Tenant = tenant_view (SdkDeposit_Tenant x),
     Deposit_Landlord = landlord_view (SdkDeposit_Landlord x), Deposit_Property = SdkDeposit_Property x,
     Deposit_Deposit = no_data, Deposit_Pledge = map_option pledge_view (SdkDeposit_Pledge x),
     Deposit_Trusteeship = SdkDeposit_Trusteeship x, Deposit_Provider = Some (provider_view (SdkDeposit_Provider x)),
     Deposit_Transport = None, Deposit_Settlement = None, Deposit_UtilityReservation = None\<rparr>"

lemma read_tenant: "read_as enc_SdkTenant dec_Tenant x (tenant_view x)"
  by (rule read_as_objI [OF enc_SdkTenant_def _ dec_Tenant_def])
    (simp_all add: json_simps json_inverts tenant_view_def g_ptr_read_as [OF read_as_inverts [OF dec_enc_Address]])

lemma read_landlord: "read_as enc_SdkLandlord dec_Landlord x (landlord_view x)"
  by (rule read_as_objI [OF enc_SdkLandlord_def _ dec_Landlord_def]) (simp_all add: json_simps landlord_view_def)

lemma read_pledge: "read_as enc_SdkPledge dec_Pledge x (pledge_view x)"
  by (rule read_as_objI [OF enc_SdkPledge_def _ dec_Pledge_def]) (simp_all add: json_simps pledge_view_def)

lemma read_provider: "read_as enc_SdkProvider dec_Provider x (provider_view x)"
  by (rule read_as_objI [OF enc_SdkProvider_def _ dec_Provider_def]) (simp_all add: json_simps provider_view_def)

lemma read_no_data: "g_struct dec_DepositData None = Some no_data"
  by (simp add: g_struct_def dec_DepositData_def no_data_def g_state_def)

lemmas read_parts = g_struct_read_as [OF read_tenant] g_struct_read_as [OF read_landlord]
  g_ptr_read_as [OF read_provider] g_ptr_omit_read_as [OF read_pledge] read_no_data

lemma read_deposit: "read_as enc_SdkDeposit dec_Deposit x (server_view x)"
  by (rule read_as_objI [OF enc_SdkDeposit_def _ dec_Deposit_def])
    (simp_all add: json_simps json_inverts read_parts server_view_def)

definition sdk_complaint :: "SdkDeposit \<Rightarrow> string" where
  "sdk_complaint x =
     (if SdkTenant_FirstName (SdkDeposit_Tenant x) = [] \<or> SdkTenant_LastName (SdkDeposit_Tenant x) = []
         \<or> SdkTenant_Email (SdkDeposit_Tenant x) = []
      then ''tenant first_name, last_name and email are required''
      else if SdkLandlord_Name (SdkDeposit_Landlord x) = [] then ''landlord name is required''
      else ''deposit amount and type are required'')"

lemma server_view_rejected: "CreateDeposit_check (server_view x) = Some (invalid (sdk_complaint x))"
  unfolding CreateDeposit_check_def sdk_complaint_def
  by (simp add: server_view_def no_data_def tenant_view_def landlord_view_def)

lemma sdk_document_read: "enc_SdkDeposit x = Some j \<Longrightarrow> dec_Deposit j = Some (server_view x)"
  using read_deposit by (simp add: read_as_def)

end
