(* ===== verification/Samples.thy ===== *)
theory Samples
  imports Concurrency Startup Liveness AuditTrail Signer SdkVerifier EidPush SdkAuth SdkModels
begin

text \<open>
  Concrete inputs: a configuration, a landlord's deposit request and a run of the
  server on them. The theorems of the development are instantiated here and in the
  root theory at these values.
\<close>

section \<open>Configuration and services\<close>

text \<open>A library for which every page is 210 wide and whose output is empty\<close>

definition demo_pdf :: Fpdf where
  "demo_pdf = \<lparr>fpdf_pageWidth = (\<lambda>cs. Fin 210), fpdf_Y = (\<lambda>cs. Fin 20),
     fpdf_Output = (\<lambda>cs. Some [])\<rparr>"

definition demo_server :: Server where
  "demo_server = \<lparr>Server_webhookURL = ''https://bank.example/hook'', Server_issuerURL = ''https://x.example'',
     Server_pdf = demo_pdf\<rparr>"

text \<open>Stand-ins for the libraries: constant texts and signatures, no compression.\<close>

definition demo_lib :: Lib where
  "demo_lib = \<lparr>lib_sha256 = (\<lambda>bs. bs), lib_marshal = (\<lambda>j. Some ''x''), lib_lower = (\<lambda>s. s), lib_keyID = ''k1'',
     lib_sign = (\<lambda>h c. Some ''h.p.s''), lib_sign_list = (\<lambda>h c. Some ''h.l.s''), lib_gzip = Some\<rparr>"

text \<open>A verifier that accepts every issuer token as an attestation for deposit \<open>d1\<close>.\<close>

definition demo_vp :: VpLib where
  "demo_vp = \<lparr>vp_parse_issuer = (\<lambda>now t. Inr \<lparr>issuerJWTClaims_Issuer = [], issuerJWTClaims_Subject = [],
       issuerJWTClaims_ID = ''c'', issuerJWTClaims_IssuedAt = None, issuerJWTClaims_ExpiresAt = None,
       issuerJWTClaims_VCT = ''DepositPledgeAttestation'', issuerJWTClaims_SDAlg = ''sha-256'',
       issuerJWTClaims_SD = [], issuerJWTClaims_DepositID = ''d1'', issuerJWTClaims_PledgeDate = [],
       issuerJWTClaims_StatutoryBasis = [], issuerJWTClaims_IssuingBank = [],
       issuerJWTClaims_IssuingBankID = [], issuerJWTClaims_PropertyID = []\<rparr>),
     vp_parse_kb = (\<lambda>t. Inl ''invalid''),
     vp_unmarshal = (\<lambda>s. None), vp_quote = (\<lambda>s. s), vp_b64_error = (\<lambda>s. []), vp_sha256 = (\<lambda>bs. bs)\<rparr>"

definition demo_config :: Config where
  "demo_config = \<lparr>cfg_server = demo_server, cfg_lib = demo_lib, cfg_vp = demo_vp\<rparr>"

text \<open>The \<open>m\<close>-th minute of 1 January 2025; identifiers carry the minute of the request.\<close>

definition demo_time :: "int \<Rightarrow> time" where
  "demo_time m = (1735689600 + m * 60) * Second"

definition demo_id :: "int \<Rightarrow> nat \<Rightarrow> string" where
  "demo_id m n = (if n = 0 then ''d'' else if n = 1 then ''u'' else ''v'') @ show_int m"

definition demo_env :: "int \<Rightarrow> Env" where
  "demo_env h = \<lparr>env_now = demo_time h, env_repo_now = demo_time h, env_hook_now = demo_time h,
     env_pdf_now = demo_time h, env_pdf_done = demo_time h, env_uuid = demo_id h, env_get = no_fault, env_update = no_fault, env_revoke = no_fault\<rparr>"

definition demo_issuer_env :: "int \<Rightarrow> IssuerEnv" where
  "demo_issuer_env h = \<lparr>ie_now = demo_time h, ie_now2 = demo_time h, ie_uuid = demo_id h,
     ie_salt = (\<lambda>n. Some []), ie_get = no_fault, ie_alloc = no_fault, ie_sess = no_fault, ie_consume = no_fault\<rparr>"

definition demo_vp_env :: "int \<Rightarrow> VpEnv" where
  "demo_vp_env h = \<lparr>ve_now = demo_time h, ve_verify_now = demo_time h, ve_record_now = demo_time h,
     ve_create_now = (\<lambda>n. demo_time h), ve_uuid = demo_id h\<rparr>"

definition demo_services :: "int \<Rightarrow> Services" where
  "demo_services h = \<lparr>srv_env = demo_env h, srv_issuer = demo_issuer_env h, srv_vp = demo_vp_env h\<rparr>"

section \<open>A deposit and its requests\<close>

definition demo_address :: Address where
  "demo_address = \<lparr>Address_Street = ''Hauptstr. 1'', Address_ZIP = ''10115'', Address_City = ''Berlin'', Address_Country = ''DE''\<rparr>"

definition demo_deposit :: Deposit where
  "demo_deposit = \<lparr>
     Deposit_ID = [], Deposit_Meta = \<lparr>Meta_Version = [], Meta_Timestamp = zero_time, Meta_ExternalID = []\<rparr>,
     Deposit_Tenant = \<lparr>Tenant_FirstName = ''Ada'', Tenant_LastName = ''L'', Tenant_Email = ''a@x.de'', Tenant_TaxID = [],
       Tenant_EIDStatus = EIDNotStarted, Tenant_WalletMetadata = None, Tenant_Address = None\<rparr>,
     Deposit_Landlord = \<lparr>Landlord_Name = ''Bob'', Landlord_Type = ''PRIVATE'', Landlord_IBAN = []\<rparr>,
     Deposit_Property = \<lparr>Property_Address = demo_address, Property_UnitID = ''u7''\<rparr>,
     Deposit_Deposit = \<lparr>DepositData_Amount = Fin 1500, DepositData_Currency = [],
       DepositData_Type = DepositTypeCash, DepositData_LifecycleState = StateOther [], DepositData_History = [],
       DepositData_InstallmentPlan = None\<rparr>,
     Deposit_Pledge = None, Deposit_Trusteeship = None, Deposit_Provider = None, Deposit_Transport = None,
     Deposit_Settlement = None, Deposit_UtilityReservation = None\<rparr>"

definition demo_identity_body :: IdentityUpdateRequest where
  "demo_identity_body = \<lparr>IdentityUpdateRequest_EIDStatus = EIDVerified,
     IdentityUpdateRequest_VerificationTimestamp = [], IdentityUpdateRequest_ProviderReference = [],
     IdentityUpdateRequest_WalletMetadata = None\<rparr>"

definition demo_identity :: request where
  "demo_identity = ReqIdentity (Some demo_identity_body) ''d1''"

definition demo_pledge_body :: PledgeRequest where
  "demo_pledge_body = \<lparr>PledgeRequest_PledgeDate = ''2025-01-01'', PledgeRequest_IsConfirmedByBank = True,
     PledgeRequest_ProviderReference = []\<rparr>"

definition demo_pledge :: request where
  "demo_pledge = ReqPledge (Some demo_pledge_body) ''d1''"

section \<open>A run\<close>

definition world_after :: "int \<Rightarrow> request \<Rightarrow> World \<Rightarrow> World" where
  "world_after h req w = snd (snd (serve demo_config (demo_services h) req w))"

definition world1 :: World where "world1 = world_after 1 (ReqCreate (Some demo_deposit)) initial_world"
definition world2 :: World where "world2 = world_after 2 demo_identity world1"
definition world3 :: World where "world3 = world_after 3 demo_pledge world2"
definition world4 :: World where "world4 = world_after 4 (ReqRelease ''d1'') world3"

definition demo_resolve_body :: DisputeResolveRequest where
  "demo_resolve_body = \<lparr>DisputeResolveRequest_AgreedTenantRefund = Fin 1500,
     DisputeResolveRequest_AgreedLandlordRetention = Fin 0, DisputeResolveRequest_ResolutionReference = ''r''\<rparr>"

definition demo_resolve :: request where
  "demo_resolve = ReqDisputeResolve (Some demo_resolve_body) ''d1''"

definition world5 :: World where "world5 = world_after 5 demo_resolve world4"

text \<open>A second branch from the pledge: a credential is issued.\<close>

definition offered :: World where "offered = world_after 4 (ReqIssueCredential [] ''d1'') world3"
definition tokened :: World where "tokened = world_after 5 (ReqToken (Some (preAuthGrant, ''u4''))) offered"

definition demo_credential_request :: request where
  "demo_credential_request = ReqCredential ''Bearer d5'' (Some (''vc+sd-jwt'', ''DepositPledgeAttestation''))"

definition issued :: World where "issued = world_after 6 demo_credential_request tokened"

definition demo_vp_response :: VpResponseBody where
  "demo_vp_response = \<lparr>VpResponseBody_VpToken = ''h.p.s~'', VpResponseBody_State = ''d4''\<rparr>"

definition asked :: World where "asked = world_after 4 (ReqVpRequest ''d1'') world3"

lemma world_after_step: "request_ok req \<Longrightarrow> api_step demo_config w (world_after h req w)"
  unfolding world_after_def by (rule api_step.intros) (auto simp: prod_eq_iff)

lemma world_after_reachable:
  "reachable demo_config w \<Longrightarrow> request_ok req \<Longrightarrow> reachable demo_config (world_after h req w)"
  by (rule reachable.step [OF _ world_after_step])

lemma demo_reachable:
  "reachable demo_config world1" "reachable demo_config world2" "reachable demo_config world3"
  "reachable demo_config world4"
proof -
  show r1: "reachable demo_config world1"
    unfolding world1_def by (rule world_after_reachable [OF reachable.start]) (simp add: demo_deposit_def)
  show r2: "reachable demo_config world2"
    unfolding world2_def by (rule world_after_reachable [OF r1]) (simp add: demo_identity_def)
  show r3: "reachable demo_config world3"
    unfolding world3_def by (rule world_after_reachable [OF r2]) (simp add: demo_pledge_def)
  show "reachable demo_config world4"
    unfolding world4_def by (rule world_after_reachable [OF r3]) simp
qed

lemma issuance_reachable:
  "reachable demo_config offered" "reachable demo_config tokened" "reachable demo_config issued"
proof -
  show r1: "reachable demo_config offered"
    unfolding offered_def by (rule world_after_reachable [OF demo_reachable(3)]) simp
  show r2: "reachable demo_config tokened"
    unfolding tokened_def by (rule world_after_reachable [OF r1]) simp
  show "reachable demo_config issued"
    unfolding issued_def by (rule world_after_reachable [OF r2]) (simp add: demo_credential_request_def)
qed

section \<open>The databases of the run\<close>

text \<open>
  The values the run computes, so that later evaluations start from them.
\<close>

definition pledged_db :: Database where
  "pledged_db = \<lparr>
     deposits = [\<lparr>DepositRow_id = ''d1'', DepositRow_lifecycle_state = ''PLEDGED'', DepositRow_data = JObj [
       (''id'', JStr ''d1''),
       (''meta'', JObj [(''version'', JStr ''2.0.0''), (''timestamp'', JTime 1735689660000000000)]),
       (''tenant'', JObj [(''first_name'', JStr ''Ada''), (''last_name'', JStr ''L''), (''email'', JStr ''a@x.de''),
          (''eid_status'', JStr ''VERIFIED'')]),
       (''landlord'', JObj [(''name'', JStr ''Bob''), (''type'', JStr ''PRIVATE'')]),
       (''property'', JObj [(''address'', JObj [(''street'', JStr ''Hauptstr. 1''), (''zip'', JStr ''10115''),
          (''city'', JStr ''Berlin''), (''country'', JStr ''DE'')]), (''unit_id'', JStr ''u7'')]),
       (''deposit'', JObj [(''amount'', JNum (Fin 1500)), (''currency'', JStr ''EUR''),
          (''type'', JStr ''CASH_EQUIVALENT''), (''lifecycle_state'', JStr ''PLEDGED''),
          (''history'', JArr [
             JObj [(''state'', JStr ''REQUESTED''), (''timestamp'', JTime 1735689660000000000), (''actor'', JStr ''TENANT'')],
             JObj [(''state'', JStr ''IDENTIFIED''), (''timestamp'', JTime 1735689720000000000),
               (''actor'', JStr ''IDENTITY_PROVIDER'')],
             JObj [(''state'', JStr ''PLEDGED''), (''timestamp'', JTime 1735689780000000000), (''actor'', JStr ''BANK'')]])]),
       (''pledge'', JObj [(''pledge_date'', JStr ''2025-01-01''), (''statutory_basis'', JStr BGB_551),
          (''is_confirmed_by_bank'', JBool True)])]\<rparr>],
     deposit_history = [
       \<lparr>HistoryRow_deposit_id = ''d1'', HistoryRow_state = ''REQUESTED'', HistoryRow_timestamp = 1735689660000000000,
        HistoryRow_actor = ''TENANT'', HistoryRow_comment = None, HistoryRow_signature = None\<rparr>,
       \<lparr>HistoryRow_deposit_id = ''d1'', HistoryRow_state = ''IDENTIFIED'', HistoryRow_timestamp = 1735689720000000000,
        HistoryRow_actor = ''IDENTITY_PROVIDER'', HistoryRow_comment = Some [], HistoryRow_signature = Some []\<rparr>,
       \<lparr>HistoryRow_deposit_id = ''d1'', HistoryRow_state = ''PLEDGED'', HistoryRow_timestamp = 1735689780000000000,
        HistoryRow_actor = ''BANK'', HistoryRow_comment = Some [], HistoryRow_signature = Some []\<rparr>],
     issuance_sessions = [], status_list_counter = 0\<rparr>"

definition demo_session :: SessionRow where
  "demo_session = \<lparr>SessionRow_id = ''d4'', SessionRow_deposit_id = ''d1'', SessionRow_pre_authorized_code = ''u4'',
     SessionRow_access_token = Some ''d5'', SessionRow_nonce = Some ''u5'', SessionRow_state = ''PENDING'',
     SessionRow_created_at = 1735689840000000000, SessionRow_expires_at = 1735690740000000000,
     SessionRow_credential_id = None, SessionRow_valid_until = Some [], SessionRow_status_list_index = Some 0\<rparr>"

definition demo_credential_id :: string where
  "demo_credential_id = ''urn:xmiete:credential:d6''"

definition tokened_db :: Database where
  "tokened_db = pledged_db\<lparr>issuance_sessions := [demo_session], status_list_counter := 1\<rparr>"

definition issued_db :: Database where
  "issued_db = pledged_db\<lparr>issuance_sessions := [demo_session\<lparr>SessionRow_state := ''CONSUMED'',
     SessionRow_credential_id := Some demo_credential_id\<rparr>], status_list_counter := 1\<rparr>"

section \<open>What the requests do, evaluated\<close>

text \<open>
  A request of the run is its handler on the database. A pledge and a release are evaluated without their mails
  (\<open>handle_action_mail\<close>); the steps of a branch of the run are evaluated together.
\<close>

definition response_deposit :: "response \<Rightarrow> Deposit option" where
  "response_deposit r = (case r of Respond status (JSON_Deposit d) \<Rightarrow> if status = 200 then Some d else None | _ \<Rightarrow> None)"

lemma response_depositD: "response_deposit r = Some d \<Longrightarrow> r = Respond 200 (JSON_Deposit d)"
  by (auto simp: response_deposit_def split: response.splits Body.splits if_splits)

definition response_status :: "response \<Rightarrow> int" where
  "response_status r = (case r of Respond st b \<Rightarrow> st | Panicked \<Rightarrow> 0)"

definition response_body :: "response \<Rightarrow> Deposit option" where
  "response_body r = (case r of Respond status (JSON_Deposit d) \<Rightarrow> Some d | _ \<Rightarrow> None)"

lemma response_statusE:
  assumes "response_status r = st" "st \<noteq> 0"
  obtains b where "r = Respond st b"
  using assms by (cases r) (auto simp: response_status_def)

definition quiet_pledge :: "int \<Rightarrow> Database \<Rightarrow> result" where
  "quiet_pledge h = handle_action demo_server (demo_env h) (Pledge_check (Some demo_pledge_body))
     (Pledge_plan demo_pledge_body) False no_mail ''d1''"

definition quiet_release :: "int \<Rightarrow> Database \<Rightarrow> result" where
  "quiet_release h = handle_action demo_server (demo_env h) None Release_plan True no_mail ''d1''"

lemma quiet_pledge_eq:
  "fst (Pledge_handler demo_server (demo_env h) (Some demo_pledge_body) ''d1'' db) = fst (quiet_pledge h db)"
  "snd (snd (Pledge_handler demo_server (demo_env h) (Some demo_pledge_body) ''d1'' db)) = snd (snd (quiet_pledge h db))"
  unfolding Pledge_handler_def quiet_pledge_def option.sel by (rule handle_action_mail)+

lemma quiet_release_eq:
  "fst (Release demo_server (demo_env h) ''d1'' db) = fst (quiet_release h db)"
  "snd (snd (Release demo_server (demo_env h) ''d1'' db)) = snd (snd (quiet_release h db))"
  unfolding Release_def quiet_release_def by (rule handle_action_mail)+

lemmas demo_parts = demo_config_def demo_services_def with_db_def case_prod_unfold

lemma world_after_simps:
  "world_after h (ReqCreate b) w = w\<lparr>world_db := snd (snd (CreateDeposit (demo_env h) b (world_db w)))\<rparr>"
  "world_after h demo_identity w =
     w\<lparr>world_db := snd (snd (UpdateIdentity demo_server (demo_env h) (Some demo_identity_body) ''d1'' (world_db w)))\<rparr>"
  "world_after h demo_pledge w = w\<lparr>world_db := snd (snd (quiet_pledge h (world_db w)))\<rparr>"
  "world_after h (ReqRelease ''d1'') w = w\<lparr>world_db := snd (snd (quiet_release h (world_db w)))\<rparr>"
  "world_after h demo_resolve w =
     w\<lparr>world_db := snd (snd (DisputeResolve demo_server (demo_env h) (Some demo_resolve_body) ''d1'' (world_db w)))\<rparr>"
  "world_after h (ReqSettle p0 i) w = w\<lparr>world_db := snd (snd (Settle demo_server (demo_env h) p0 i (world_db w)))\<rparr>"
  "world_after h (ReqSettleAccept a i) w = w\<lparr>world_db := snd (snd (SettleAccept demo_server (demo_env h) a i (world_db w)))\<rparr>"
  "world_after h (ReqPartialRelease p i) w =
     w\<lparr>world_db := snd (snd (PartialRelease demo_server (demo_env h) p i (world_db w)))\<rparr>"
  "world_after h (ReqIssueCredential vu i) w =
     w\<lparr>world_db := snd (IssueCredential demo_server (demo_issuer_env h) vu i (world_db w))\<rparr>"
  "world_after h (ReqToken form) w = w\<lparr>world_db := snd (Token (demo_issuer_env h) form (world_db w))\<rparr>"
  "world_after h (ReqCredential auth c) w =
     w\<lparr>world_db := snd (Credential_endpoint demo_server demo_lib (demo_issuer_env h) auth c (world_db w))\<rparr>"
  "world_after h (ReqVpRequest i) w =
     w\<lparr>world_vp := snd (CreateVpRequest demo_server demo_lib (demo_env h) (demo_vp_env h) i (world_db w) (world_vp w))\<rparr>"
  by (simp_all add: world_after_def demo_parts demo_identity_def demo_pledge_def demo_resolve_def
      quiet_pledge_eq quiet_release_eq)

lemma pledge_run:
  "case CreateDeposit (demo_env 1) (Some demo_deposit) empty_db of (r1, _, db1) \<Rightarrow>
   case UpdateIdentity demo_server (demo_env 2) (Some demo_identity_body) ''d1'' db1 of (_, _, db2) \<Rightarrow>
   case quiet_pledge 3 db2 of (r3, _, db3) \<Rightarrow>
     response_status r1 = 201 \<and> map_option (\<lambda>d. (Deposit_ID d, lifecycle d)) (response_body r1) = Some (''d1'', StateRequested)
     \<and> response_deposit r3 \<noteq> None \<and> db3 = pledged_db"
  by code_simp

lemma world3_value [code]: "world3 = \<lparr>world_db = pledged_db, world_vp = VpStore_new\<rparr>"
  using pledge_run
  by (simp add: world3_def world2_def world1_def world_after_simps initial_world_def case_prod_unfold)

lemma demo_created: "response_status (fst (serve demo_config (demo_services 1) (ReqCreate (Some demo_deposit)) initial_world)) = 201"
  using pledge_run by (simp add: demo_parts initial_world_def)

lemma demo_created_deposit:
  obtains d es where "serve demo_config (demo_services 1) (ReqCreate (Some demo_deposit)) initial_world =
      (Respond 201 (JSON_Deposit d), es, world1)"
    "Deposit_ID d = ''d1''" "lifecycle d = StateRequested" "stored world1 ''d1'' = Some d"
proof -
  let ?s = "serve demo_config (demo_services 1) (ReqCreate (Some demo_deposit)) initial_world"
  have r: "response_status (fst ?s) = 201"
    "map_option (\<lambda>d. (Deposit_ID d, lifecycle d)) (response_body (fst ?s)) = Some (''d1'', StateRequested)"
    using pledge_run by (simp_all add: demo_parts initial_world_def)
  then obtain d where d: "fst ?s = Respond 201 (JSON_Deposit d)" "Deposit_ID d = ''d1''" "lifecycle d = StateRequested"
    by (cases "fst ?s") (auto simp: response_status_def response_body_def split: Body.splits)
  then have s: "?s = (Respond 201 (JSON_Deposit d), fst (snd ?s), world1)"
    by (simp add: world1_def world_after_def prod_eq_iff)
  have "CreateDeposit (demo_env 1) (Some demo_deposit) (world_db initial_world) =
      (Respond 201 (JSON_Deposit d), fst (snd (CreateDeposit (demo_env 1) (Some demo_deposit) (world_db initial_world))), world_db world1)"
    using d(1) by (simp add: demo_parts world1_def world_after_simps prod_eq_iff)
  from created_complete(1) [OF _ _ this] reachable_audit [OF reachable.start] reachable_server_inv [OF reachable.start] d(2)
  have "stored world1 ''d1'' = Some d" by (simp add: demo_deposit_def)
  with that s d(2,3) show ?thesis by blast
qed

lemma demo_pledged:
  obtains d where "Pledge_handler demo_server (demo_env 3) (Some demo_pledge_body) ''d1'' (world_db world2) =
    (Respond 200 (JSON_Deposit d), fireWebhook demo_server (demo_env 3) d @ sendReceiptEmail demo_server (demo_env 3) d, pledged_db)"
proof -
  let ?p = "Pledge_handler demo_server (demo_env 3) (Some demo_pledge_body) ''d1'' (world_db world2)"
  have "response_deposit (fst ?p) \<noteq> None" and db: "snd (snd ?p) = pledged_db"
    using pledge_run unfolding quiet_pledge_eq
    by (simp_all add: world2_def world1_def world_after_simps initial_world_def case_prod_unfold)
  then obtain d where d: "fst ?p = Respond 200 (JSON_Deposit d)" using response_depositD by blast
  moreover have "fst (snd ?p) = fireWebhook demo_server (demo_env 3) d @ sendReceiptEmail demo_server (demo_env 3) d"
  proof -
    have "handle_action demo_server (demo_env 3) (Pledge_check (Some demo_pledge_body)) (Pledge_plan demo_pledge_body) False
        (sendReceiptEmail demo_server (demo_env 3)) ''d1'' (world_db world2) =
        (Respond 200 (JSON_Deposit d), fst (snd ?p), snd (snd ?p))"
      using d by (simp add: Pledge_handler_def prod_eq_iff)
    then show ?thesis by (cases rule: handle_action_cases) (auto simp: Pledge_rejects)
  qed
  ultimately show ?thesis using that db by (metis prod.collapse)
qed

lemma issue_run:
  "case IssueCredential demo_server (demo_issuer_env 4) [] ''d1'' pledged_db of (_, db4) \<Rightarrow>
   case Token (demo_issuer_env 5) (Some (preAuthGrant, ''u4'')) db4 of (_, db5) \<Rightarrow>
   case Credential_endpoint demo_server demo_lib (demo_issuer_env 6) ''Bearer d5''
     (Some (''vc+sd-jwt'', ''DepositPledgeAttestation'')) db5 of (r6, db6) \<Rightarrow>
     db5 = tokened_db \<and> db6 = issued_db
     \<and> r6 = Respond 200 (JSON_Value (JObj [(''credential'', JStr ''h.p.s~eA~eA~eA~eA~eA~eA~'')]))"
  by code_simp

lemma tokened_value [code]: "tokened = \<lparr>world_db = tokened_db, world_vp = VpStore_new\<rparr>"
  using issue_run by (simp add: tokened_def offered_def world_after_simps world3_value case_prod_unfold)

lemma issued_value [code]: "issued = \<lparr>world_db = issued_db, world_vp = VpStore_new\<rparr>"
  using issue_run
  by (auto simp: issued_def demo_credential_request_def tokened_value world_after_simps case_prod_unfold)

lemma demo_credential:
  "fst (serve demo_config (demo_services 6) demo_credential_request tokened) =
     Respond 200 (JSON_Value (JObj [(''credential'', JStr ''h.p.s~eA~eA~eA~eA~eA~eA~'')]))"
  using issue_run by (auto simp: demo_credential_request_def demo_parts tokened_value)

lemma present_run:
  "case CreateVpRequest demo_server demo_lib (demo_env 4) (demo_vp_env 4) ''d1'' pledged_db VpStore_new of (_, vps) \<Rightarrow>
   case ReceiveVpResponse demo_server demo_vp (demo_env 5) (demo_vp_env 5) (Some demo_vp_response) ''d1'' pledged_db vps of
     ((r, _, _), _) \<Rightarrow> response_status r = 200"
  by code_simp

lemma demo_presented:
  "response_status (fst (serve demo_config (demo_services 5) (ReqVpResponse (Some demo_vp_response) ''d1'') asked)) = 200"
  using present_run by (simp add: demo_parts asked_def world_after_simps world3_value)

lemma pledged_inv: "repo_inv pledged_db"
  using reachable_inv [OF demo_reachable(3)] by (simp add: world_inv_def server_inv_def world3_value)

lemma release_run:
  "case quiet_release 4 pledged_db of (_, _, db4) \<Rightarrow>
   case DisputeResolve demo_server (demo_env 5) (Some demo_resolve_body) ''d1'' db4 of (_, _, db5) \<Rightarrow>
   case quiet_release 7 issued_db of (_, _, db7) \<Rightarrow>
     map_option lifecycle (repo_view db4 ''d1'') = Some StateReleased
   \<and> map_option lifecycle (repo_view db5 ''d1'') = Some StateClosed
   \<and> response_status (fst (quiet_release 9 db4)) = 409
   \<and> map_option lifecycle (repo_view db7 ''d1'') = Some StateReleased
   \<and> PostgresSessionStore_RevokedStatusListIndices no_fault db7 = Inr [0]
   \<and> response_deposit (fst (quiet_release 7 tokened_db)) \<noteq> None"
  by code_simp

lemma world4_deposit: "map_option lifecycle (stored world4 ''d1'') = Some StateReleased"
  using release_run by (simp add: world4_def world_after_simps world3_value case_prod_unfold)

lemma world5_reachable: "reachable demo_config world5"
  unfolding world5_def by (rule world_after_reachable [OF demo_reachable(4)]) (simp add: demo_resolve_def)

lemma world5_deposit: "map_option lifecycle (stored world5 ''d1'') = Some StateClosed"
  using release_run by (simp add: world5_def world4_def world_after_simps world3_value case_prod_unfold)

lemma demo_release_again:
  "response_status (fst (serve demo_config (demo_services 9) (ReqRelease ''d1'') world4)) = 409"
  using release_run by (simp add: demo_parts quiet_release_eq world4_def world_after_simps world3_value)

lemma demo_release_issued:
  "map_option lifecycle (stored (world_after 7 (ReqRelease ''d1'') issued) ''d1'') = Some StateReleased"
  "PostgresSessionStore_RevokedStatusListIndices no_fault (world_db (world_after 7 (ReqRelease ''d1'') issued)) = Inr [0]"
  using release_run by (simp_all add: world_after_simps issued_value case_prod_unfold)

lemma demo_release_pending: "response_deposit (fst (Release demo_server (demo_env 7) ''d1'' tokened_db)) \<noteq> None"
  using release_run by (simp add: quiet_release_eq case_prod_unfold)

section \<open>A store in memory\<close>

definition demo_store :: Store where
  "demo_store = snd (Store_ExchangeCodeForToken (demo_id 2) (demo_time 2) ''u1''
     (snd (Store_Create (demo_id 1) (demo_time 1) ''dep'' [] 5 NewStore)))"

lemma demo_store_inv: "Store_inv demo_store"
proof -
  have "Store_inv (snd (Store_Create (demo_id 1) (demo_time 1) ''dep'' [] 5 NewStore))"
    using mem.create_keeps [OF NewStore_inv] by blast
  then show ?thesis unfolding demo_store_def by (metis mem.exchange_cred prod.collapse)
qed

lemma asked_reachable: "reachable demo_config asked"
  unfolding asked_def by (rule world_after_reachable [OF demo_reachable(3)]) simp


section \<open>Libraries that fit together\<close>

text \<open>
  The texts of the six disclosures of \<open>demo_deposit\<close> (with empty salts), a signature for one credential,
  and the verifier's inverse functions.
\<close>

definition fit_specs :: "(string \<times> json) list" where
  "fit_specs = sd_specs (demo_time 1) demo_deposit ''2025-12-31''"

definition fit_table :: "(json \<times> string) list" where
  "fit_table = zip (map (\<lambda>(n, v). JArr [JStr [], JStr n, v]) fit_specs)
     [''[\"\",\"deposit_amount\",1500]'', ''[\"\",\"currency\",\"\"]'',
      ''[\"\",\"property_address\",\"Hauptstr. 1, 10115 Berlin, DE\"]'', ''[\"\",\"tenant_first_name\",\"Ada\"]'',
      ''[\"\",\"tenant_last_name\",\"L\"]'', ''[\"\",\"pledged_until\",\"2025-12-31\"]'']"

definition fit_claims :: sdJWTClaims where
  "fit_claims = credential_claims demo_lib ''https://x.example'' ''urn:xmiete:credential:c'' (demo_time 1) demo_deposit
     ''2025-12-31'' 3 (map (\<lambda>(j, b). disclosure_hash demo_lib (RawURLEncode (bytes_of b))) fit_table)"

definition fit_lib :: Lib where
  "fit_lib = demo_lib\<lparr>lib_marshal := map_of fit_table, lib_sign := (\<lambda>h c. if c = fit_claims then Some ''h.p.s'' else None)\<rparr>"

definition fit_vp :: VpLib where
  "fit_vp = demo_vp\<lparr>vp_parse_issuer := (\<lambda>now t. if t = ''h.p.s'' then Inr (issuer_view fit_claims) else Inl ''signature''),
     vp_unmarshal := map_of (map (\<lambda>(j, b). (b, j)) fit_table)\<rparr>"

lemma fit_table_facts:
  "distinct (map snd fit_table)" "list_all (\<lambda>(j, b). b \<noteq> []) fit_table"
  by code_simp+

lemma fit_marshal:
  assumes "map_of fit_table j = Some b"
  shows "b \<noteq> [] \<and> map_of (map (\<lambda>(j, b). (b, j)) fit_table) b = Some j"
proof -
  have jb: "(j, b) \<in> set fit_table" using assms by (rule map_of_SomeD)
  have "distinct (map fst (map (\<lambda>(j, b). (b, j)) fit_table))"
    using fit_table_facts(1) by (simp add: case_prod_unfold comp_def)
  moreover have "(b, j) \<in> set (map (\<lambda>(j, b). (b, j)) fit_table)" using jb by force
  ultimately have "map_of (map (\<lambda>(j, b). (b, j)) fit_table) b = Some j" by (rule map_of_is_SomeI)
  with jb fit_table_facts(2) show ?thesis by (auto simp: list_all_iff)
qed

lemma fit_libs_agree: "libs_agree fit_lib fit_vp"
  unfolding libs_agree_def using fit_marshal
  by (auto simp: fit_lib_def fit_vp_def demo_lib_def demo_vp_def split: if_splits)

lemma fit_token: "BuildSDJWT fit_lib (\<lambda>n. Some []) ''c'' (demo_time 1) ''https://x.example'' demo_deposit ''2025-12-31'' 3 \<noteq> None"
  by code_simp

lemma fit_time: "demo_time 2 < NumericDate (credential_expiry (demo_time 1) ''2025-12-31'') * Second"
  by code_simp

definition demo_settle :: SettleRequest where
  "demo_settle = \<lparr>SettleRequest_InitiatedBy = ''LANDLORD'', SettleRequest_TenancyEndDate = [], SettleRequest_HandoverDate = [],
     SettleRequest_HandoverProtocolRef = [],
     SettleRequest_ClaimItems = [\<lparr>ClaimItemInput_Category = ''DAMAGE'', ClaimItemInput_Description = ''door'',
       ClaimItemInput_AmountClaimed = Fin 200, ClaimItemInput_EvidenceRefs = [], ClaimItemInput_RoomOrArea = []\<rparr>],
     SettleRequest_ProposedTenantRefund = Fin 1300, SettleRequest_ProposedLandlordRetention = Fin 200\<rparr>"

definition demo_settle_request :: request where "demo_settle_request = ReqSettle (Some demo_settle) ''d1''"

definition settled :: World where "settled = world_after 4 demo_settle_request world3"

lemma settle_run:
  "case Settle demo_server (demo_env 4) (Some demo_settle) ''d1'' pledged_db of (r4, _, db4) \<Rightarrow>
   case SettleAccept demo_server (demo_env 5) (Some \<lparr>SettleAcceptRequest_AcceptedBy = ''TENANT''\<rparr>) ''d1'' db4 of
     (r5, _, db5) \<Rightarrow>
     response_deposit r4 \<noteq> None \<and> response_deposit r5 \<noteq> None
     \<and> map_option (\<lambda>d. (lifecycle d, DepositData_Amount (Deposit_Deposit d),
           map_option Settlement_AgreedTenantRefund (Deposit_Settlement d), history_states d, Deposit_Trusteeship d,
           DepositData_Currency (Deposit_Deposit d)))
         (repo_view db5 ''d1'') =
       Some (StateClosed, Fin 1500, Some (Fin 1300),
         [StateRequested, StateIdentified, StatePledged, StateSettleProposed, StateClosed], None, ''EUR'')"
  by code_simp

lemma settled_db: "world_db settled = snd (snd (Settle demo_server (demo_env 4) (Some demo_settle) ''d1'' pledged_db))"
  by (simp add: settled_def demo_settle_request_def world_after_simps world3_value)

lemma demo_settlement:
  "response_deposit (fst (Settle demo_server (demo_env 4) (Some demo_settle) ''d1'' pledged_db)) \<noteq> None"
  "response_deposit (fst (SettleAccept demo_server (demo_env 5) (Some \<lparr>SettleAcceptRequest_AcceptedBy = ''TENANT''\<rparr>) ''d1''
     (world_db settled))) \<noteq> None"
  using settle_run by (simp_all add: settled_db case_prod_unfold)

lemma settled_reachable: "reachable demo_config settled"
  unfolding settled_def by (rule world_after_reachable [OF demo_reachable(3)]) (simp add: demo_settle_request_def)

definition demo_partial :: PartialReleaseRequest where
  "demo_partial = \<lparr>PartialReleaseRequest_ReleasedAmount = Fin 1200, PartialReleaseRequest_ReservedAmount = Fin 300,
     PartialReleaseRequest_MonthlyAdvance = Fin 100, PartialReleaseRequest_BillingPeriodEnd = ''2024-02-29''\<rparr>"

definition partially_released :: World where
  "partially_released = world_after 4 (ReqPartialRelease (Some demo_partial) ''d1'') world3"

lemma partially_released_reachable: "reachable demo_config partially_released"
  unfolding partially_released_def by (rule world_after_reachable [OF demo_reachable(3)]) simp

definition demo_utility :: UtilitySettleRequest where
  "demo_utility = \<lparr>UtilitySettleRequest_SettlementRef = ''r'', UtilitySettleRequest_ActualCost = Fin 1300,
     UtilitySettleRequest_TotalAdvancePaid = Fin 1200\<rparr>"

lemma demo_amounts_wf: "f_wf (Fin 1300)" "f_wf (Fin 1200)" "f_wf (Fin 300)"
  using f_wf_of_int [of 1300] f_wf_of_int [of 1200] f_wf_of_int [of 300] by simp_all

section \<open>A release and a claim at the same time\<close>

definition release_flight :: flight where
  "release_flight = (''d1'', StateReleased, entry StateReleased ''LANDLORD'' [], no_patch)"

definition claim_flight :: flight where
  "claim_flight = (''d1'', StateClaimed, entry StateClaimed ''LANDLORD'' ''damage'', no_patch)"

definition demo_claim :: request where
  "demo_claim = ReqClaim (Some \<lparr>ClaimRequest_ClaimAmount = Fin 100, ClaimRequest_Reason = ''damage'',
     ClaimRequest_EvidenceURLs = []\<rparr>) ''d1''"

definition released_db :: Database where
  "released_db = snd (PostgresRepo_UpdateState no_fault (demo_time 4) ''d1'' StateReleased
     (entry StateReleased ''LANDLORD'' []) no_patch pledged_db)"

definition raced_db :: Database where
  "raced_db = snd (PostgresRepo_UpdateState no_fault (demo_time 5) ''d1'' StateClaimed
     (entry StateClaimed ''LANDLORD'' ''damage'') no_patch released_db)"

lemma pledged_read: "\<exists>d. PostgresRepo_GetByID no_fault ''d1'' pledged_db = Inr d \<and> lifecycle d = StatePledged"
proof -
  have "(case PostgresRepo_GetByID no_fault ''d1'' pledged_db of Inl e \<Rightarrow> None | Inr d \<Rightarrow> Some (lifecycle d)) = Some StatePledged"
    by code_simp
  then show ?thesis by (cases "PostgresRepo_GetByID no_fault ''d1'' pledged_db") auto
qed

lemma race_reads: "interleave\<^sup>*\<^sup>* (pledged_db, []) (pledged_db, [release_flight, claim_flight])"
proof -
  obtain d where d: "PostgresRepo_GetByID no_fault ''d1'' pledged_db = Inr d" "lifecycle d = StatePledged"
    using pledged_read by blast
  have "interleave (pledged_db, []) (pledged_db, [] @ [release_flight])"
    unfolding release_flight_def
    by (rule interleave.begin_request [where req = "ReqRelease ''d1''" and plan = Release_plan, OF _ d(1)])
      (simp_all add: Release_plan_def d(2) guard_transition_Inr)
  moreover have "interleave (pledged_db, [release_flight]) (pledged_db, [release_flight] @ [claim_flight])"
    unfolding claim_flight_def
    by (rule interleave.begin_request [where req = demo_claim and plan = "Claim_plan \<lparr>ClaimRequest_ClaimAmount = Fin 100,
        ClaimRequest_Reason = ''damage'', ClaimRequest_EvidenceURLs = []\<rparr>", OF _ d(1)])
      (simp_all add: demo_claim_def Claim_check_def Claim_plan_def d(2) guard_transition_Inr)
  ultimately show ?thesis by simp
qed

lemma race_run: "interleave\<^sup>*\<^sup>* (pledged_db, []) (raced_db, [])"
proof -
  have "interleave (pledged_db, [] @ release_flight # [claim_flight]) (released_db, [] @ [claim_flight])"
    unfolding release_flight_def released_db_def by (rule interleave.commit [where f = no_fault]) (rule prod.collapse [symmetric])
  moreover have "interleave (released_db, [] @ claim_flight # []) (raced_db, [] @ [])"
    unfolding claim_flight_def raced_db_def by (rule interleave.commit [where f = no_fault]) (rule prod.collapse [symmetric])
  ultimately show ?thesis using race_reads by simp
qed

definition demo_cheap_utility :: UtilitySettleRequest where
  "demo_cheap_utility = \<lparr>UtilitySettleRequest_SettlementRef = ''r'', UtilitySettleRequest_ActualCost = Fin 900,
     UtilitySettleRequest_TotalAdvancePaid = Fin 1200\<rparr>"

definition issued_then_partial :: World where
  "issued_then_partial = world_after 7 (ReqPartialRelease (Some demo_partial) ''d1'') issued"

lemma partial_run:
  "case PartialRelease demo_server (demo_env 4) (Some demo_partial) ''d1'' pledged_db of (r, _, db4) \<Rightarrow>
   case PartialRelease demo_server (demo_env 7) (Some demo_partial) ''d1'' issued_db of (_, _, db7) \<Rightarrow>
   case UtilitySettle demo_server (demo_env 8) (Some demo_cheap_utility) ''d1'' db7 of (_, _, db8) \<Rightarrow>
     map_option (\<lambda>d. map_option UtilityReservation_ResolutionDeadline (Deposit_UtilityReservation d)) (response_deposit r) =
       Some (Some ''2025-03-01'')
   \<and> map_option (\<lambda>d. (lifecycle d, map_option UtilityReservation_ReservedAmount (Deposit_UtilityReservation d)))
       (repo_view db4 ''d1'') = Some (StatePartiallyReleased, Some (Fin 300))
   \<and> map_option lifecycle (repo_view db8 ''d1'') = Some StateClosed
   \<and> PostgresSessionStore_CredentialStatus no_fault demo_credential_id db7 = (''active'', True)"
  by code_simp

lemma demo_partial_release:
  "map_option (\<lambda>d. map_option UtilityReservation_ResolutionDeadline (Deposit_UtilityReservation d))
      (response_deposit (fst (PartialRelease demo_server (demo_env 4) (Some demo_partial) ''d1'' pledged_db))) =
    Some (Some ''2025-03-01'')"
  "map_option (\<lambda>d. (lifecycle d, map_option UtilityReservation_ReservedAmount (Deposit_UtilityReservation d)))
      (stored partially_released ''d1'') = Some (StatePartiallyReleased, Some (Fin 300))"
  using partial_run
  by (simp_all add: partially_released_def world_after_simps world3_value case_prod_unfold)

lemma demo_utility_close:
  "map_option lifecycle (repo_view (snd (snd (UtilitySettle demo_server (demo_env 8) (Some demo_cheap_utility) ''d1''
     (world_db issued_then_partial)))) ''d1'') = Some StateClosed"
  "PostgresSessionStore_CredentialStatus no_fault demo_credential_id (world_db issued_then_partial) = (''active'', True)"
  using partial_run by (simp_all add: issued_then_partial_def world_after_simps issued_value case_prod_unfold)

section \<open>Access\<close>

text \<open>A JWT library that accepts the token \<open>good\<close>, with whatever key it is given.\<close>

definition demo_jwt :: JwtParse where
  "demo_jwt opts now tok =
     (let answer = (\<lambda>k. case k of Inl _ \<Rightarrow> None
        | Inr _ \<Rightarrow> Some (\<lambda>c. if c = ''iss'' then map_option JStr (ParserOptions_Issuer opts) else None)) in
      if tok \<noteq> ''good'' then Decided None
      else case ParserOptions_ValidMethods opts of
        None \<Rightarrow> Asks \<lparr>JwtToken_Alg = ''HS256'', JwtToken_IsHMAC = True, JwtToken_Kid = None\<rparr> answer
      | Some [] \<Rightarrow> Decided None
      | Some (m # ms) \<Rightarrow> Asks \<lparr>JwtToken_Alg = m, JwtToken_IsHMAC = False, JwtToken_Kid = Some ''k1''\<rparr> answer)"

lemma demo_jwt_contract: "jwt_contract demo_jwt"
  by (auto simp: jwt_contract_def demo_jwt_def Let_def split: option.splits list.splits sum.splits)

definition demo_router :: RouterConfig where
  "demo_router = \<lparr>rc_config = demo_config, rc_jwt = demo_jwt, rc_secret = ''s'', rc_printable = (\<lambda>r. True),
     rc_key = (1, 2)\<rparr>"

definition demo_jwks_env :: "time \<Rightarrow> JwksEnv" where
  "demo_jwks_env now = \<lparr>je_now = now,
     je_fetch = GetReturned 200 (Inr [jwk_of ''k1'' ''AQ'' ''Ag'']), je_fetched_now = now\<rparr>"

section \<open>The SDK\<close>

text \<open>The libraries of the sample credential again, with tokens whose payload part can be read.\<close>

definition wire_text :: string where
  "wire_text = ''h.'' @ RawURLEncode (bytes_of ''PAYLOAD'') @ ''.s''"

definition wire_lib :: Lib where
  "wire_lib = fit_lib\<lparr>lib_sign := (\<lambda>h c. if c = fit_claims then Some wire_text else None)\<rparr>"

definition wire_vp :: VpLib where
  "wire_vp = fit_vp\<lparr>
     vp_parse_issuer := (\<lambda>now t. if t = wire_text then Inr (issuer_view fit_claims) else Inl ''signature''),
     vp_unmarshal := (map_of (map (\<lambda>(j, b). (b, j)) fit_table))(''PAYLOAD'' \<mapsto> JObj (credential_payload fit_claims))\<rparr>"

lemma wire_text_fresh: "''PAYLOAD'' \<notin> snd ` set fit_table"
  by (simp add: fit_table_def fit_specs_def sd_specs_def)

lemma wire_text_chars: "wire_text \<noteq> []" "CHR ''~'' \<notin> set wire_text"
  using RawURLEncode_chars(1) [of "bytes_of ''PAYLOAD''"] by (simp_all add: wire_text_def)

lemma wire_libs_agree: "libs_agree wire_lib wire_vp"
proof -
  have "b \<noteq> [] \<and> vp_unmarshal wire_vp b = Some j" if "lib_marshal wire_lib j = Some b" for j b
  proof -
    have j: "map_of fit_table j = Some b" using that by (simp add: wire_lib_def fit_lib_def)
    then have "b \<noteq> ''PAYLOAD''" using wire_text_fresh by (metis map_of_SomeD image_eqI snd_conv)
    then show ?thesis using fit_marshal [OF j] by (simp add: wire_vp_def)
  qed
  then show ?thesis
    unfolding libs_agree_def using wire_text_chars
    by (auto simp: wire_lib_def wire_vp_def fit_lib_def fit_vp_def demo_lib_def demo_vp_def split: if_splits)
qed

lemma wire_signs_payload: "signs_payload wire_lib wire_vp"
  unfolding signs_payload_def
proof (intro allI impI)
  fix h c t assume "lib_sign wire_lib h c = Some t"
  then have t: "t = wire_text" "c = fit_claims" by (auto simp: wire_lib_def split: if_splits)
  have "wire_text = ''h'' @ ''.'' @ RawURLEncode (bytes_of ''PAYLOAD'') @ ''.'' @ ''s''" by (simp add: wire_text_def)
  moreover have "CHR ''.'' \<notin> set ''h''" by simp
  moreover have "vp_unmarshal wire_vp ''PAYLOAD'' = Some (JObj (credential_payload fit_claims))" by (simp add: wire_vp_def)
  ultimately show "\<exists>head sig p. t = head @ ''.'' @ RawURLEncode (bytes_of p) @ ''.'' @ sig \<and> CHR ''.'' \<notin> set head
      \<and> vp_unmarshal wire_vp p = Some (JObj (credential_payload c))" unfolding t by blast
qed

lemma build_disclosures_cong:
  "lib_marshal L = lib_marshal L' \<Longrightarrow> lib_sha256 L = lib_sha256 L' \<Longrightarrow>
     build_disclosures L salt i specs = build_disclosures L' salt i specs"
  by (induction specs arbitrary: i)
    (auto simp: newSDDisclosure_def disclosure_hash_def split: option.splits)

lemma wire_token:
  "BuildSDJWT wire_lib (\<lambda>n. Some []) ''c'' (demo_time 1) ''https://x.example'' demo_deposit ''2025-12-31'' 3 \<noteq> None"
proof -
  have d: "build_disclosures wire_lib salt i specs = build_disclosures fit_lib salt i specs" for salt i specs
    by (rule build_disclosures_cong) (simp_all add: wire_lib_def)
  have c: "credential_claims wire_lib iss cid now dep vu idx hs = credential_claims fit_lib iss cid now dep vu idx hs"
    for iss cid now dep vu idx hs by (simp add: credential_claims_def bank_id_def wire_lib_def)
  have s: "lib_sign wire_lib h cl = None \<longleftrightarrow> lib_sign fit_lib h' cl = None" for h h' cl
    by (simp add: wire_lib_def fit_lib_def)
  show ?thesis using fit_token unfolding BuildSDJWT_def Let_def d c
    by (auto split: option.splits) (metis s option.distinct(1))
qed

lemma wire_time:
  "is_int64 (NumericDate (credential_expiry (demo_time 1) ''2025-12-31''))"
  "Unix (demo_time 2) < NumericDate (credential_expiry (demo_time 1) ''2025-12-31'')"
  by code_simp+

text \<open>An eID setup: the signature of a body is the body itself, and the body is read as a report of success.\<close>

definition demo_eid :: EidLib where
  "demo_eid = \<lparr>eid_hmac = (\<lambda>k b. b),
     eid_unmarshal = (\<lambda>t. Some (JObj [(''deposit_id'', JStr ''d1''), (''status'', JStr t)])),
     eid_decode = (\<lambda>t. None), eid_parse_time = (\<lambda>t. None), eid_printable = (\<lambda>r. True), eid_url_ok = (\<lambda>u. True),
     eid_do = (\<lambda>r. Inr (200, []))\<rparr>"

text \<open>
  A provider's report as text, read by the JSON parser, and a transport that hands every request to the server in
  its state after the creation of \<open>d1\<close>.
\<close>

definition report_members :: "(string \<times> string) list" where
  "report_members = [(''deposit_id'', ''d1''), (''status'', ''VERIFIED''), (''provider_reference'', ''ref-7'')]"

definition demo_report :: string where
  "demo_report = CHR ''{'' # members_q demo_eid report_members"

definition push_payload :: KYCUpdatePayload where
  "push_payload = \<lparr>KYCUpdatePayload_EIDStatus = EIDStatusVerified, KYCUpdatePayload_VerificationTimestamp = demo_time 2,
     KYCUpdatePayload_ProviderReference = ''ref-7''\<rparr>"

definition push_webhook :: WebhookHandler where
  "push_webhook = \<lparr>WebhookHandler_bearerToken = ''good'', WebhookHandler_hasCallback = False\<rparr>"

lemma report_read: "Unmarshal demo_report = Some (JObj (string_members report_members))"
proof -
  have "list_all (\<lambda>(k, v). list_all plain_char k \<and> list_all plain_char v) report_members"
    by (simp add: report_members_def plain_char_def char_code_def)
  then have "list_all (\<lambda>(k, v). list_all plain_char k) report_members"
    "list_all (\<lambda>(k, v). json_safe (eid_printable demo_eid) v) report_members"
    using json_safe_plain by (auto simp: list_all_iff)
  then show ?thesis
    using object_text [of report_members demo_eid] by (simp add: demo_report_def Unmarshal_def skip_ws_def report_members_def)
qed

lemma report_fields:
  "str_field ''session_id'' (string_members report_members) = Some []"
  "str_field ''deposit_id'' (string_members report_members) = Some ''d1''"
  "str_field ''status'' (string_members report_members) = Some ''VERIFIED''"
  "str_field ''provider_reference'' (string_members report_members) = Some ''ref-7''"
  "str_field ''completed_at'' (string_members report_members) = Some []"
  "str_field ''error_code'' (string_members report_members) = Some []"
  by (simp_all add: str_field_def string_members_def report_members_def same_field_low low_char_def)

lemma report_parsed:
  "eid_unmarshal E = Unmarshal \<Longrightarrow> parseWebhookEvent E now (bytes_of demo_report) = Inr \<lparr>EidEvent_SessionID = [],
    EidEvent_DepositID = ''d1'', EidEvent_Status = EIDStatusVerified, EidEvent_ProviderReference = ''ref-7'',
    EidEvent_CompletedAt = now, EidEvent_ErrorCode = []\<rparr>"
  by (simp add: parseWebhookEvent_def report_read report_fields eid_status_def)

definition push_eid :: EidLib where
  "push_eid = demo_eid\<lparr>eid_unmarshal := Unmarshal, eid_decode := Decode,
     eid_do := (\<lambda>req. case serve_identity demo_router (demo_services 2) (demo_time 2) ''v1'' req world1 of
       Some (Respond status rb, es, w') \<Rightarrow> Inr (status, []) | _ \<Rightarrow> Inl ''no answer'')\<rparr>"

lemma push_webhook_call:
  "HandleWebhook push_eid push_webhook (demo_time 2) (bytes_of demo_report) (hex_bytes (bytes_of demo_report)) ''s'' =
     (None, [PushKYC ''d1'' push_payload ''good''])"
proof -
  have "hex_bytes (bytes_of demo_report) \<noteq> []" by (simp add: hex_bytes_def bytes_of_def demo_report_def numeral_2_eq_2)
  then have "verifyHMAC push_eid (bytes_of demo_report) (hex_bytes (bytes_of demo_report)) ''s'' = None"
    by (simp add: verifyHMAC_def push_eid_def demo_eid_def)
  moreover have "eid_unmarshal push_eid = Unmarshal" by (simp add: push_eid_def)
  ultimately show ?thesis
    by (simp add: HandleWebhook_def report_parsed eid_dispatch_def complete_def push_webhook_def push_payload_def)
qed

lemma push_delivers: "delivers push_eid demo_router (demo_services 2) (demo_time 2) ''v1'' world1 req"
  by (auto simp: delivers_def push_eid_def split: option.splits prod.splits response.splits)

lemma push_token: "\<exists>claims. JWTMiddleware (rc_jwt demo_router) (rc_secret demo_router) (demo_time 2) (''Bearer '' @ ''good'') = Inr claims"
proof -
  have "map_sum (\<lambda>_. ()) (\<lambda>_. ()) (JWTMiddleware (rc_jwt demo_router) (rc_secret demo_router) (demo_time 2) (''Bearer '' @ ''good'')) = Inr ()"
    by code_simp
  then show ?thesis by (cases "JWTMiddleware (rc_jwt demo_router) (rc_secret demo_router) (demo_time 2) (''Bearer '' @ ''good'')") auto
qed

lemma demo_working: "working (demo_services h) \<longleftrightarrow> (case date_of (demo_time h) of (y, _, _) \<Rightarrow> 0 \<le> y \<and> y \<le> 9999)"
  by (simp add: working_def demo_services_def demo_env_def)

lemma push_working: "working (demo_services 2)"
  unfolding demo_working by code_simp

section \<open>The signing key\<close>

definition demo_key :: PrivateKey where
  "demo_key = \<lparr>PrivateKey_D = 5, PrivateKey_X = 1, PrivateKey_Y = 2 ^ 255\<rparr>"

definition demo_draw :: Draw where
  "demo_draw = \<lparr>draw_key = Inr demo_key, draw_uuid = ''k1''\<rparr>"

definition demo_keys :: JwtKeys where
  "demo_keys = \<lparr>jk_sign = (\<lambda>k. lib_sign fit_lib), jk_sign_list = (\<lambda>k. lib_sign_list fit_lib),
     jk_parse = (\<lambda>pub. vp_parse_issuer fit_vp)\<rparr>"

lemma demo_keys_agree: "keys_agree demo_keys" "codecs_agree fit_lib fit_vp"
  using fit_libs_agree unfolding keys_agree_def codecs_agree_def libs_agree_def by (simp_all add: demo_keys_def)

lemma demo_signing_lib: "signing_lib demo_keys (Some demo_key) ''k1'' fit_lib = fit_lib"
  by (simp add: signing_lib_def demo_keys_def fit_lib_def demo_lib_def)

section \<open>Documents and mails\<close>

text \<open>The proposal of the landlord is accepted: the deposit is closed, 1300 of its 1500 go to the tenant.\<close>

definition accepted :: World where
  "accepted = world_after 5 (ReqSettleAccept (Some \<lparr>SettleAcceptRequest_AcceptedBy = ''TENANT''\<rparr>) ''d1'') settled"

lemma accepted_reachable: "reachable demo_config accepted"
  unfolding accepted_def by (rule world_after_reachable [OF settled_reachable]) simp

lemma accepted_deposit:
  "map_option (\<lambda>d. (lifecycle d, DepositData_Amount (Deposit_Deposit d),
      map_option Settlement_AgreedTenantRefund (Deposit_Settlement d), history_states d, Deposit_Trusteeship d, DepositData_Currency (Deposit_Deposit d)))
     (stored accepted ''d1'') =
   Some (StateClosed, Fin 1500, Some (Fin 1300),
     [StateRequested, StateIdentified, StatePledged, StateSettleProposed, StateClosed], None, ''EUR'')"
  using settle_run by (simp add: accepted_def world_after_simps settled_db case_prod_unfold)

lemma demo_fetch:
  assumes "reachable demo_config w" "stored w did = Some d"
  shows "fetch_deposit (demo_env h) did (world_db w) = Inr d"
  using assms reachable_server_inv [OF assms(1)]
  by (simp add: fetch_deposit_def server_inv_def pg.get_view demo_env_def no_fault_def)

lemma demo_receipt:
  assumes "reachable demo_config w" "stored w did = Some d" "receipt_available (lifecycle d)"
  obtains pdf where "GetReceipt demo_server (demo_env h) did (world_db w) = Respond 200 (PDF (''receipt-'' @ did @ ''.pdf'') pdf)"
  using assms(3) demo_fetch [OF assms(1,2), of h]
  by (simp add: GetReceipt_def Generate_def demo_server_def demo_pdf_def)

lemma demo_release_receipt:
  assumes "reachable demo_config w" "stored w did = Some d" "release_receipt_available (lifecycle d)"
  obtains pdf where
    "GetReleaseReceipt demo_server (demo_env h) did (world_db w) = Respond 200 (PDF (''release-receipt-'' @ did @ ''.pdf'') pdf)"
  using assms(3) demo_fetch [OF assms(1,2), of h]
  by (simp add: GetReleaseReceipt_def GenerateReleaseReceipt_def demo_server_def demo_pdf_def)

definition demo_mailer :: Mailer where
  "demo_mailer = SMTP \<lparr>SMTPMailer_host = ''mail'', SMTPMailer_port = 587, SMTPMailer_username = [], SMTPMailer_password = [],
     SMTPMailer_from = ''noreply@xmiete.org''\<rparr>"

definition demo_sdk_deposit :: SdkDeposit where
  "demo_sdk_deposit = \<lparr>
     SdkDeposit_Meta = \<lparr>Meta_Version = ''2.2.0'', Meta_Timestamp = demo_time 0, Meta_ExternalID = []\<rparr>,
     SdkDeposit_Tenant = \<lparr>SdkTenant_FirstName = ''Ada'', SdkTenant_LastName = ''L'', SdkTenant_Email = ''a@x.de'', SdkTenant_TaxID = [],
       SdkTenant_EIDStatus = ''NOT_STARTED'', SdkTenant_WalletMetadata = None, SdkTenant_Address = demo_address\<rparr>,
     SdkDeposit_Landlord = \<lparr>SdkLandlord_Name = ''Bob'', SdkLandlord_Type = ''PRIVATE'', SdkLandlord_IBAN = []\<rparr>,
     SdkDeposit_Property = \<lparr>Property_Address = demo_address, Property_UnitID = ''u7''\<rparr>,
     SdkDeposit_DepositDetails = \<lparr>SdkDepositDetails_Amount = Fin 1500, SdkDepositDetails_Currency = ''EUR'',
       SdkDepositDetails_Type = DepositTypeCash, SdkDepositDetails_LifecycleState = ''REQUESTED'',
       SdkDepositDetails_InstallmentPlan = None\<rparr>,
     SdkDeposit_Pledge = None, SdkDeposit_Trusteeship = None,
     SdkDeposit_Provider = \<lparr>SdkProvider_ProviderType = ''BANK'', SdkProvider_ExecutingEntity = ''B'', SdkProvider_BrandName = [],
       SdkProvider_InsurancePolicyNumber = [], SdkProvider_CustomFields = []\<rparr>,
     SdkDeposit_History = []\<rparr>"

end
