(* ===== verification/Spec2Isabelle.thy ===== *)
theory Spec2Isabelle
  imports Samples
begin

text \<open>
  A verification library of the XMiete server (\<open>src/server\<close>), a backend that manages tenancy
  deposits, issues a pledge attestation as an SD-JWT credential and verifies presentations of it, and of
  the Go SDK for its clients (\<open>src/sdk-examples/go\<close>).

  \<^bold>\<open>Parts of the program and theories.\<close>

  \<^item> Go's standard library as far as the code uses it: GoStrings (\<open>strings\<close>, \<open>strconv\<close>), GoFloat
    (\<open>float64\<close> as the dyadic rationals with round-to-nearest-even, infinities and NaN), GoTime (\<open>time\<close>:
    instants as nanoseconds since 1970, the proleptic Gregorian calendar, \<open>AddDate\<close>, the two layouts
    used), GoBase64 (\<open>base64.RawURLEncoding\<close>), GoFmt (UTF-8 decoding, \<open>%q\<close>, \<open>%.2g\<close>), GoJson (the field
    matching of \<open>encoding/json\<close>), JsonText (its texts: the scanner's grammar and string literals, and how they relate
    to \<open>%q\<close>). Prelude holds the shared list and option lemmas.
  \<^item> Models: the records of \<open>models/deposit.go\<close>; Json: their \<open>encoding/json\<close> form, tag by tag, with
    \<open>omitempty\<close>, and the decoder.
  \<^item> StateMachine: \<open>statemachine/transitions.go\<close>.
  \<^item> Repository: the tables and \<open>db/postgres.go\<close>; the locale \<open>repository\<close> is the contract of
    \<open>db.Repository\<close>.
  \<^item> Issuance: the session stores \<open>issuance/session.go\<close> (with a heap, because four maps share session
    objects) and \<open>db/session_store.go\<close>, and both index allocators; the locale \<open>session_store\<close> is the
    contract of \<open>issuance.SessionStore\<close>.
  \<^item> StatusList: \<open>issuance/statuslist.go\<close>. Credential: \<open>issuance/credential.go\<close>. Verification:
    \<open>verification/vp.go\<close>. Signer: the type \<open>Signer\<close> of \<open>issuance/credential.go\<close> with its key generated on first use; the
    theories before it take the key as given.
  \<^item> Server and SettlementFlow: \<open>api/handlers.go\<close>; IssuerHandlers: \<open>api/issuer_handlers.go\<close>;
    VerifierHandlers: \<open>api/verifier_handlers.go\<close>. The locale \<open>lifecycle_action\<close> is what every handler
    that changes a deposit promises; each handler is an interpretation.
  \<^item> Receipt: the two PDF documents of \<open>receipt/pdf.go\<close> as sequences of calls to the PDF library, with
    \<open>writes\<close> as the calculus of what a piece of drawing code puts on the page; Mailer: \<open>mailer\<close>.
  \<^item> Api: all state-changing endpoints as one step relation (\<open>api_step\<close>, \<open>reachable\<close>); Liveness: requests that
    bring a deposit to its end; AuditTrail: the history table beside the history in the documents; Concurrency: the two database calls of a handler as separate
    steps (\<open>interleave\<close>).
  \<^item> Validator: \<open>internal/validator\<close> and its endpoint. Auth: \<open>api/middleware/auth.go\<close> with the key cache.
    Discovery: the metadata and key set endpoints. Router: \<open>api/router.go\<close>, every route with the
    middleware in front of it. Startup: \<open>cmd/server/main.go\<close> and
    \<open>NewPostgresRepo\<close>, the life of the process as a list of steps.
  \<^item> SdkVerifier, SdkEid, SdkAuth, SdkModels: the packages \<open>openid4vp\<close>, \<open>eid\<close>, \<open>auth\<close> and \<open>models\<close> of the SDK.
    EidPush: the SDK's identity update as text, through the route, the middleware, the decoder and the handler of the server.
  \<^item> Samples: a concrete configuration and run, at which the theorems are instantiated.

  \<^bold>\<open>State and operations.\<close> The server's state is \<open>World\<close>: the database (a record of row lists) and
  the presentation sessions. Every handler is a function from the decoded request and the database to
  the response, the asynchronous effects (webhook, mails) and the database after it. What a handler
  takes from outside is an argument: clock readings, random identifiers, and for every database
  statement whether the service rejects it (\<open>faults\<close>), so each error branch of the source is a branch
  of the model. A run-time panic is a value (\<open>Panicked\<close>, \<open>ErrPanic\<close>).

  \<^bold>\<open>Parameters.\<close> Code that is not in the repository enters as arguments: SHA-256, the JSON text codec,
  the JWT library and gzip (records \<open>Lib\<close> and \<open>VpLib\<close>, \<open>JwtParse\<close> for the middleware), the PDF library
  (\<open>Fpdf\<close>), the mail dialer, the SDK's HMAC and HTTP transport (\<open>EidLib\<close>), and the table of
  printable characters. Where a theorem needs something of them it is a named hypothesis
  (\<open>libs_agree\<close>; \<open>keys_agree\<close>: what a key signs its public point verifies; \<open>delivers\<close>: the transport gives the status
  the server answered; \<open>signs_payload\<close>: the payload of a signed token is the JSON form of its claims; \<open>jwt_contract\<close>: an
  accepted token was verified with the key the callback returned, with a permitted method and
  issuer; decompression inverts compression).

  \<^bold>\<open>What is shown.\<close> Lifecycle: every stored history is a run of the transition table and the state of a
  deposit implies the evidence behind it, over all sequences of requests; every deposit can be
  closed and every lifecycle is finite. Storage: the repository refines a map, documents are read
  back, failures change nothing, the history table agrees with the documents. Credentials and presentations: single use of tokens and
  sessions, revocation visible in the status list, issued credentials are accepted by both
  verifiers and accepted claims were signed. Settlement: who may agree to what, and the
  floating point amounts. Documents: what receipts and mails say and who gets them. Access: no
  lifecycle change without a valid token, keys that are current, one signing key that is the published one.
  SDK: what it accepts and sends, and what the server makes of it. The theorems under
  Concurrency and some of the others record defects of the code.

  \<^bold>\<open>Totality.\<close> All functions of the model are total; the loops of the code run over
  finite lists. Only the JSON parser has a counter, twice the length of the text, and \<open>jvalue_fuel\<close> shows that no
  larger one gives another result. One clock reading stands for readings taken one after the other within
  \<open>VerifyVpToken\<close> and within the two session constructors.
\<close>

section \<open>The lifecycle of a deposit\<close>



text \<open>
  C2. What the state of a stored deposit guarantees, in every reachable state of the server: past
  REQUESTED the tenant's identity is verified; past IDENTIFIED there is a pledge confirmed by the
  bank; a proposed or disputed settlement is recorded; a partially released deposit has a
  reservation of a positive amount.
\<close>

theorem lifecycle_state_evidence:
  assumes "reachable c w" "stored w k = Some d"
  shows "(lifecycle d \<noteq> StateRequested \<longrightarrow> Tenant_EIDStatus (Deposit_Tenant d) = EIDVerified)
    \<and> (lifecycle d \<noteq> StateRequested \<and> lifecycle d \<noteq> StateIdentified \<longrightarrow>
        (\<exists>p. Deposit_Pledge d = Some p \<and> Pledge_IsConfirmedByBank p))
    \<and> (lifecycle d = StateSettleProposed \<or> lifecycle d = StateDisputed \<longrightarrow> Deposit_Settlement d \<noteq> None)
    \<and> (lifecycle d = StatePartiallyReleased \<longrightarrow>
        (\<exists>ur. Deposit_UtilityReservation d = Some ur \<and> \<not> f_le (UtilityReservation_ReservedAmount ur) f_zero))"
proof -
  have "deposit_inv d" using reachable_inv [OF assms(1)] assms(2) by (auto simp: world_inv_def server_inv_view)
  then have "deposit_facts (lifecycle d) d" by (rule deposit_inv_facts)
  then show ?thesis by (auto simp: deposit_facts_def split: option.splits)
qed

theorem lifecycle_state_evidence_witness:
  "\<exists>d p. stored world4 ''d1'' = Some d \<and> lifecycle d = StateReleased \<and> Deposit_Pledge d = Some p
    \<and> Pledge_IsConfirmedByBank p \<and> Tenant_EIDStatus (Deposit_Tenant d) = EIDVerified"
  using world4_deposit lifecycle_state_evidence [OF demo_reachable(4)] by fastforce



text \<open>C4. A closed deposit is never changed again, by any sequence of requests.\<close>

theorem closed_deposit_final:
  assumes "reachable c w" "(api_step c)\<^sup>*\<^sup>* w w'" "stored w k = Some d" "lifecycle d = StateClosed"
  shows "stored w' k = Some d"
  by (rule run_closed [OF assms(2) reachable_inv [OF assms(1)] assms(3,4)])

theorem closed_deposit_final_witness:
  "\<exists>d. stored world5 ''d1'' = Some d \<and> lifecycle d = StateClosed
    \<and> stored (world_after 6 (ReqRelease ''d1'') world5) ''d1'' = Some d"
proof -
  obtain d where d: "stored world5 ''d1'' = Some d" "lifecycle d = StateClosed" using world5_deposit by auto
  have "(api_step demo_config)\<^sup>*\<^sup>* world5 (world_after 6 (ReqRelease ''d1'') world5)"
    by (rule r_into_rtranclp, rule world_after_step) simp
  from closed_deposit_final [OF world5_reachable this d] d show ?thesis by blast
qed

text \<open>
  C5. The history of a deposit is an audit trail: whatever requests follow, a stored deposit stays
  stored and its history is only ever extended at the end.
\<close>

theorem history_append_only:
  assumes "reachable c w" "(api_step c)\<^sup>*\<^sup>* w w'" "stored w k = Some d"
  shows "\<exists>d' es. stored w' k = Some d' \<and> history d' = history d @ es"
  by (rule run_history [OF assms(2) reachable_inv [OF assms(1)] assms(3)])

theorem history_append_only_witness:
  "\<exists>d d' es. stored world3 ''d1'' = Some d \<and> stored world4 ''d1'' = Some d' \<and> history d' = history d @ es"
proof -
  have "stored world3 ''d1'' \<noteq> None" by code_simp
  then obtain d where d: "stored world3 ''d1'' = Some d" by blast
  have "(api_step demo_config)\<^sup>*\<^sup>* world3 world4"
    unfolding world4_def by (rule r_into_rtranclp, rule world_after_step) simp
  from history_append_only [OF demo_reachable(3) this d] d show ?thesis by blast
qed

text \<open>
  C6. A request that names a deposit leaves every other deposit as it was.
\<close>

theorem deposits_isolated:
  assumes "reachable c w" "serve c x req w = (r, es, w')" "request_deposit req = Some did" "k \<noteq> did"
  shows "stored w' k = stored w k"
  by (rule serve_frame [OF reachable_inv [OF assms(1)] assms(2-4)])

theorem deposits_isolated_witness:
  "stored (snd (snd (serve demo_config (demo_services 4) (ReqRelease ''other'') world3))) ''d1'' = stored world3 ''d1''"
  by (rule deposits_isolated [OF demo_reachable(3), of "demo_services 4" "ReqRelease ''other''"
        "fst (serve demo_config (demo_services 4) (ReqRelease ''other'') world3)"
        "fst (snd (serve demo_config (demo_services 4) (ReqRelease ''other'') world3))" _ "''other''"]) simp_all

section \<open>Progress\<close>



text \<open>
  C8. Every lifecycle is finite: a chain of permitted transitions has at most seven steps, it never
  meets a state twice, and from every state of the program there is one that ends in CLOSED.
\<close>

theorem lifecycle_terminates:
  assumes "s \<in> set known_states"
  shows "(\<forall>xs. chain CanTransition (s # xs) \<longrightarrow> length xs \<le> 7 \<and> distinct (s # xs))
    \<and> (\<exists>xs. chain CanTransition (s # xs) \<and> last (s # xs) = StateClosed)
    \<and> \<not> CanTransition StateClosed t"
proof -
  have "lifecycle_rank s \<le> 7" by (cases s) simp_all
  then have "length xs \<le> 7 \<and> distinct (s # xs)" if "chain CanTransition (s # xs)" for xs
    using lm.chain_bounded [OF that] lm.chain_distinct [OF that] by linarith
  then show ?thesis using closed_reachable [OF assms] by simp
qed

theorem lifecycle_terminates_witness:
  "length [StateIdentified, StateFunded, StatePledged, StatePartiallyReleased, StateSettleProposed, StateDisputed, StateClosed] \<le> 7
   \<and> distinct [StateRequested, StateIdentified, StateFunded, StatePledged, StatePartiallyReleased, StateSettleProposed,
       StateDisputed, StateClosed]"
proof -
  have "StateRequested \<in> set known_states" by (simp add: known_states_def)
  moreover have "chain CanTransition (StateRequested # [StateIdentified, StateFunded, StatePledged, StatePartiallyReleased,
      StateSettleProposed, StateDisputed, StateClosed])" by simp
  ultimately show ?thesis using lifecycle_terminates [of StateRequested] by blast
qed

section \<open>Documents\<close>

text \<open>
  C9. A receipt is only handed out for a deposit whose pledge the bank has confirmed, and says so: an
  answer 200 of the receipt endpoint, in any reachable state, carries a PDF whose texts are those of
  the stored deposit, with the amount and the confirmation by the bank among its rows, and that
  deposit has a confirmed pledge and a verified tenant.
\<close>

theorem receipt_implies_confirmed_pledge:
  assumes "reachable c w" "GetReceipt s env did (world_db w) = Respond 200 b"
  shows "\<exists>d p pdf calls. stored w did = Some d \<and> Deposit_Pledge d = Some p \<and> Pledge_IsConfirmedByBank p
    \<and> Tenant_EIDStatus (Deposit_Tenant d) = EIDVerified
    \<and> b = PDF (''receipt-'' @ did @ ''.pdf'') pdf \<and> fpdf_Output (Server_pdf s) calls = Some pdf
    \<and> pdf_texts calls = receipt_texts (env_pdf_now env) (env_pdf_done env) d
    \<and> (''Confirmed by Bank:'', ''Yes'') \<in> set (receipt_rows d)
    \<and> (''Amount:'', money (DepositData_Amount (Deposit_Deposit d)) d) \<in> set (receipt_rows d)"
proof -
  obtain d pdf where d: "fetch_deposit env did (world_db w) = Inr d" "receipt_available (lifecycle d)"
    "Generate (Server_pdf s) (env_pdf_now env) (env_pdf_done env) d = Some pdf" "b = PDF (''receipt-'' @ did @ ''.pdf'') pdf"
    using GetReceipt_200 [OF assms(2)] by blast
  have i: "server_inv (world_db w)" using reachable_inv [OF assms(1)] by (simp add: world_inv_def)
  have st: "stored w did = Some d" "deposit_facts (lifecycle d) d"
    using fetch_deposit_Inr [OF i d(1)] deposit_inv_facts by auto
  have "lifecycle d \<noteq> StateRequested" "lifecycle d \<noteq> StateIdentified" using d(2) by (auto simp: receipt_available_def)
  with st(2) have t: "Tenant_EIDStatus (Deposit_Tenant d) = EIDVerified"
    "case Deposit_Pledge d of None \<Rightarrow> False | Some p \<Rightarrow> Pledge_IsConfirmedByBank p"
    by (simp_all add: deposit_facts_def)
  then obtain p where p: "Deposit_Pledge d = Some p" "Pledge_IsConfirmedByBank p" by (cases "Deposit_Pledge d") simp_all
  obtain calls where "fpdf_Output (Server_pdf s) calls = Some pdf"
    "pdf_texts calls = receipt_texts (env_pdf_now env) (env_pdf_done env) d" by (rule Generate_texts [OF d(3)])
  moreover have "(''Confirmed by Bank:'', ''Yes'') \<in> set (receipt_rows d)" using p by (simp add: receipt_rows_def)
  moreover have "(''Amount:'', money (DepositData_Amount (Deposit_Deposit d)) d) \<in> set (receipt_rows d)"
    by (simp add: receipt_rows_def)
  ultimately show ?thesis using st(1) d(4) t(1) p by blast
qed

theorem receipt_implies_confirmed_pledge_witness:
  "\<exists>pdf d p. GetReceipt demo_server (demo_env 9) ''d1'' (world_db world4) = Respond 200 (PDF ''receipt-d1.pdf'' pdf)
   \<and> stored world4 ''d1'' = Some d \<and> Deposit_Pledge d = Some p \<and> Pledge_IsConfirmedByBank p"
proof -
  have "map_option lifecycle (stored world4 ''d1'') = Some StateReleased" by (rule world4_deposit)
  then obtain d where d: "stored world4 ''d1'' = Some d" "lifecycle d = StateReleased" by auto
  obtain pdf where "GetReceipt demo_server (demo_env 9) ''d1'' (world_db world4) = Respond 200 (PDF (''receipt-'' @ ''d1'' @ ''.pdf'') pdf)"
    by (rule demo_receipt [OF demo_reachable(4) d(1)]) (simp add: d(2) receipt_available_def)
  then have r: "GetReceipt demo_server (demo_env 9) ''d1'' (world_db world4) = Respond 200 (PDF ''receipt-d1.pdf'' pdf)" by simp
  from receipt_implies_confirmed_pledge [OF demo_reachable(4) r] r show ?thesis by blast
qed



text \<open>
  C11. The mails: a message that a request leads to is addressed to the tenant of a stored deposit and
  has exactly that deposit's document attached. Only a pledge that was carried out sends a
  receipt, and only a release that was carried out a release confirmation.
\<close>

theorem mails_to_tenant:
  assumes "reachable c w" "serve c x req w = (r, es, w')" "msg \<in> set (messages dial m es)"
  shows "\<exists>did d pdf. stored w' did = Some d \<and> r = Respond 200 (JSON_Deposit d)
    \<and> Message_To msg = Tenant_Email (Deposit_Tenant d)
    \<and> ((\<exists>b. req = ReqPledge b did) \<and> lifecycle d = StatePledged
        \<and> Generate (Server_pdf (cfg_server c)) (env_pdf_now (srv_env x)) (env_pdf_done (srv_env x)) d = Some pdf
        \<and> Message_Attachment msg = (''receipt-'' @ did @ ''.pdf'', pdf)
       \<or> req = ReqRelease did \<and> lifecycle d = StateReleased
        \<and> GenerateReleaseReceipt (Server_pdf (cfg_server c)) (env_pdf_now (srv_env x)) (env_pdf_done (srv_env x)) d = Some pdf
        \<and> Message_Attachment msg = (''release-receipt-'' @ did @ ''.pdf'', pdf))"
proof -
  have inv: "server_inv (world_db w)" by (rule reachable_server_inv [OF assms(1)])
  have inv': "server_inv (world_db w')" if "request_ok req"
    using serve_inv [OF _ that assms(2)] inv by (simp add: world_inv_def)
  from assms(2,3) show ?thesis
  proof (cases rule: serve_messages)
    case (pledge b did)
    then obtain db' where h: "Pledge_handler (cfg_server c) (srv_env x) b did (world_db w) = (r, es, db')" "w' = w\<lparr>world_db := db'\<rparr>"
      using assms(2) by (auto simp: with_db_def split: prod.splits)
    obtain d where d: "r = Respond 200 (JSON_Deposit d)" "repo_view db' did = Some d" "lifecycle d = StatePledged"
      "msg \<in> set (messages dial m (sendReceiptEmail (cfg_server c) (srv_env x) d))"
      by (rule pledge_messages [OF inv h(1) assms(3)])
    have "Deposit_ID d = did" using inv' pledge h(2) d(2) by (intro stored_id [of db']) simp_all
    with d h(2) pledge show ?thesis by (intro exI [of _ did] exI [of _ d]) (auto simp: receipt_messages elim!: receipt_mail.rendered_message)
  next
    case (release did)
    then obtain db' where h: "Release (cfg_server c) (srv_env x) did (world_db w) = (r, es, db')" "w' = w\<lparr>world_db := db'\<rparr>"
      using assms(2) by (auto simp: with_db_def split: prod.splits)
    obtain d where d: "r = Respond 200 (JSON_Deposit d)" "repo_view db' did = Some d" "lifecycle d = StateReleased"
      "msg \<in> set (messages dial m (sendReleaseReceiptEmail (cfg_server c) (srv_env x) d))"
      by (rule release_sends [OF inv h(1) assms(3)])
    have "Deposit_ID d = did" using inv' release h(2) d(2) by (intro stored_id [of db']) simp_all
    with d h(2) release show ?thesis by (intro exI [of _ did] exI [of _ d]) (auto simp: release_messages elim!: release_mail.rendered_message)
  qed
qed

theorem mails_to_tenant_witness:
  "\<exists>msg. messages (\<lambda>s m. None) demo_mailer (fst (snd (serve demo_config (demo_services 3) demo_pledge world2))) = [msg]
     \<and> Message_To msg = ''a@x.de'' \<and> fst (Message_Attachment msg) = ''receipt-d1.pdf''"
proof -
  let ?s = "serve demo_config (demo_services 3) demo_pledge world2"
  let ?ms = "messages (\<lambda>s m. None) demo_mailer (fst (snd ?s))"
  obtain d0 where "fst (snd ?s) = fireWebhook demo_server (demo_env 3) d0 @ sendReceiptEmail demo_server (demo_env 3) d0"
    by (rule demo_pledged) (simp add: demo_pledge_def demo_parts)
  then have "?ms = messages (\<lambda>s m. None) demo_mailer (sendReceiptEmail demo_server (demo_env 3) d0)" by simp
  then obtain msg where m: "?ms = [msg]"
    by (simp add: messages_def sendReceiptEmail_def Generate_def demo_server_def demo_pdf_def demo_mailer_def Let_def)
  have s: "?s = (fst ?s, fst (snd ?s), world3)" by (simp add: world3_def world_after_def)
  have "msg \<in> set ?ms" using m by simp
  from mails_to_tenant [OF demo_reachable(2) s this]
  obtain did d pdf where d: "stored world3 did = Some d" "Message_To msg = Tenant_Email (Deposit_Tenant d)"
    "\<exists>b. demo_pledge = ReqPledge b did" "Message_Attachment msg = (''receipt-'' @ did @ ''.pdf'', pdf)"
    by (auto simp: demo_pledge_def)
  then have "did = ''d1''" by (simp add: demo_pledge_def)
  moreover have "map_option (\<lambda>d. Tenant_Email (Deposit_Tenant d)) (stored world3 ''d1'') = Some ''a@x.de''" by code_simp
  ultimately show ?thesis using d m by auto
qed

section \<open>Storage\<close>

text \<open>
  C12. \<open>UpdateState\<close> of the database-backed repository refines the update of one entry of a map from
  ids to deposits: on success the new deposit is the mutation of the stored one with the state and
  one history entry added, it is what a read returns, and every other deposit is as before; on any
  error, at whichever statement, the database is unchanged.
\<close>

theorem repository_refines_map:
  assumes "repo_inv db" "patch_ok p" "state_wf s" "state_wf (HistoryEntry_State e)"
    and "PostgresRepo_UpdateState f now did s e p db = (res, db')"
  shows "case res of
      Inl err \<Rightarrow> db' = db
    | Inr d' \<Rightarrow> repo_inv db' \<and> repo_view db' = (repo_view db)(did \<mapsto> d')
        \<and> (\<exists>d d1. repo_view db did = Some d \<and> p d = Some d1 \<and> d' = enter_state now s e d1)
        \<and> PostgresRepo_GetByID no_fault did db' = Inr d'
        \<and> (\<forall>k. k \<noteq> did \<longrightarrow> PostgresRepo_GetByID no_fault k db' = PostgresRepo_GetByID no_fault k db)"
proof (cases res)
  case (Inl err)
  with assms(5) show ?thesis by (simp add: pg.update_Inl)
next
  case (Inr d')
  note u = assms(5) [unfolded Inr]
  have f: "\<not> no_fault 0" by (simp add: no_fault_def)
  from pg.update_view [OF assms(1) u assms(2-4)] pg.update_Inr [OF assms(1) u]
    pg.read_after_write [where g = no_fault, OF assms(1) u assms(2-4) f] Inr
  show ?thesis by simp
qed

theorem repository_refines_map_witness:
  "\<exists>d' db'. PostgresRepo_UpdateState no_fault 0 ''d1'' StateReleased (entry StateReleased ''LANDLORD'' []) no_patch pledged_db
      = (Inr d', db') \<and> PostgresRepo_GetByID no_fault ''d1'' db' = Inr d'"
proof -
  let ?u = "PostgresRepo_UpdateState no_fault 0 ''d1'' StateReleased (entry StateReleased ''LANDLORD'' []) no_patch pledged_db"
  have "\<not> isl (fst ?u)" by code_simp
  then obtain d' db' where u: "?u = (Inr d', db')" by (cases "fst ?u"; cases ?u) auto
  from repository_refines_map [OF pledged_inv _ _ _ u] u show ?thesis
    by (simp add: known_state_wf known_states_def)
qed

text \<open>
  C13. The audit trail: in every reachable state the history table holds, for each stored deposit, the
  entries of the deposit's own history in their order (state, time at the precision of the column,
  actor), except that the entry of the creation is missing when its statement failed; there are no
  rows for ids without a deposit. After a creation answered with 201 table and document agree, after every further sequence of
  requests too.
\<close>

theorem audit_trail_consistent:
  assumes "reachable c w"
  shows "(\<forall>k. case stored w k of
        None \<Rightarrow> table_trail (world_db w) k = []
      | Some d \<Rightarrow> document_trail d \<noteq> []
          \<and> (table_trail (world_db w) k = document_trail d \<or> table_trail (world_db w) k = tl (document_trail d)))
    \<and> (\<forall>x b d' es w' w''. request_ok (ReqCreate b) \<and> serve c x (ReqCreate b) w = (Respond 201 (JSON_Deposit d'), es, w')
        \<and> (api_step c)\<^sup>*\<^sup>* w' w'' \<longrightarrow>
        (\<exists>d. stored w'' (Deposit_ID d') = Some d \<and> table_trail (world_db w'') (Deposit_ID d') = document_trail d))"
proof -
  have "\<exists>d. stored w'' (Deposit_ID d') = Some d \<and> table_trail (world_db w'') (Deposit_ID d') = document_trail d"
    if b: "request_ok (ReqCreate b)" and s: "serve c x (ReqCreate b) w = (Respond 201 (JSON_Deposit d'), es, w')"
      and run: "(api_step c)\<^sup>*\<^sup>* w' w''" for x b d' es w' w''
  proof -
    have "CreateDeposit (srv_env x) b (world_db w) = (Respond 201 (JSON_Deposit d'), es, world_db w')"
      using s by (auto simp: with_db_def split: prod.splits)
    note c = created_complete [OF reachable_server_inv [OF assms] reachable_audit [OF assms] this]
    have "pred_option InstallmentPlan_wf (DepositData_InstallmentPlan (Deposit_Deposit d))" if "b = Some d" for d
      using b that by simp
    then have "stored w' (Deposit_ID d') \<noteq> None" "trail_complete (world_db w') (Deposit_ID d')" using c by simp_all
    moreover have "world_inv w'" by (rule reachable_inv [OF reachable.step [OF assms api_step.intros [OF b s]]])
    ultimately have "stored w'' (Deposit_ID d') \<noteq> None \<and> trail_complete (world_db w'') (Deposit_ID d')"
      by (intro requests_complete [OF run])
    then show ?thesis by (auto simp: trail_complete_def)
  qed
  moreover have "trail_ok (world_db w) k" for k using reachable_audit [OF assms] by (simp add: audit_inv_def)
  ultimately show ?thesis unfolding trail_ok_def by blast
qed

theorem audit_trail_consistent_witness:
  "\<exists>d. stored world3 ''d1'' = Some d \<and> table_trail (world_db world3) ''d1'' = document_trail d
    \<and> map fst (document_trail d) = [''REQUESTED'', ''IDENTIFIED'', ''PLEDGED'']"
proof -
  obtain d' es where c: "serve demo_config (demo_services 1) (ReqCreate (Some demo_deposit)) initial_world =
      (Respond 201 (JSON_Deposit d'), es, world1)" "Deposit_ID d' = ''d1''" by (rule demo_created_deposit)
  have "api_step demo_config world1 world2" "api_step demo_config world2 world3"
    unfolding world2_def world3_def by (rule world_after_step, simp add: demo_identity_def demo_pledge_def)+
  then have run: "(api_step demo_config)\<^sup>*\<^sup>* world1 world3" by simp
  have ok: "request_ok (ReqCreate (Some demo_deposit))" by (simp add: demo_deposit_def)
  from audit_trail_consistent [OF reachable.start, THEN conjunct2, rule_format, OF conjI [OF ok conjI [OF c(1) run]]] c(2)
  obtain d where d: "stored world3 ''d1'' = Some d" "table_trail (world_db world3) ''d1'' = document_trail d" by auto
  have "map fst (table_trail (world_db world3) ''d1'') = [''REQUESTED'', ''IDENTIFIED'', ''PLEDGED'']"
    by (simp add: world3_value table_trail_def pledged_db_def)
  with d show ?thesis by auto
qed





text \<open>
  C16. A lifecycle request that is not answered with a deposit and status 200 leaves the database as
  it was and notifies nobody: errors of the request, of the state machine and of the database alike.
\<close>

theorem failed_request_changes_nothing:
  assumes "serve c x req w = (r, es, w')" "request_plan env req \<noteq> None" "\<nexists>d. r = Respond 200 (JSON_Deposit d)"
  shows "w' = w \<and> es = []"
proof -
  have h: "db' = db \<and> es' = []" if "handle_action s e bad plan revokes mail did db = (r, es', db')"
    for s e bad plan revokes mail did db db' es'
    using handle_action_error [OF that] assms(3) by blast
  show ?thesis
    using assms(1,2) by (cases req) (auto simp: with_db_def lifecycle_handlers split: prod.splits dest: h)
qed

theorem failed_request_changes_nothing_witness:
  "snd (serve demo_config (demo_services 9) (ReqRelease ''d1'') world4) = ([], world4)"
proof -
  let ?s = "serve demo_config (demo_services 9) (ReqRelease ''d1'') world4"
  obtain b where r: "fst ?s = Respond 409 b" by (rule response_statusE [OF demo_release_again]) simp_all
  then have s: "?s = (Respond 409 b, fst (snd ?s), snd (snd ?s))" by (metis prod.collapse)
  have "snd (snd ?s) = world4 \<and> fst (snd ?s) = []"
    by (rule failed_request_changes_nothing [OF s, of "demo_env 9"]) simp_all
  then show ?thesis by (simp add: prod_eq_iff)
qed

section \<open>Credentials: issued once, revoked for good\<close>

text \<open>
  C17. An access token buys one credential: after the credential endpoint has answered 200 for a
  token, no later use of the token is answered 200, whatever requests come in between, as long as
  none of them draws the same random identifier again.
\<close>

theorem credential_token_single_use:
  assumes "reachable c w" "serve c x (ReqCredential auth body) w = (Respond 200 b, es, w1)"
    and "list_all (\<lambda>(x', req). ie_uuid (srv_issuer x') 0 \<noteq> bearer auth) reqs"
  shows "fst (serve c x2 (ReqCredential auth body2) (run_requests c reqs w1)) \<noteq> Respond 200 b2"
proof
  have inv: "sessions_inv (world_db w)" using reachable_inv [OF assms(1)] by (simp add: world_inv_def server_inv_def)
  obtain db1 where "Credential_endpoint (cfg_server c) (cfg_lib c) (srv_issuer x) auth body (world_db w) = (Respond 200 b, db1)"
    and w1: "world_db w1 = db1"
    using assms(2) by (auto simp: with_db_def split: prod.splits)
  then obtain cid y where "PostgresSessionStore_ConsumeByToken (ie_consume (srv_issuer x)) (ie_now2 (srv_issuer x))
      (bearer auth) cid (world_db w) = (Some y, db1)"
    by (auto elim!: Credential_endpoint_200)
  then have "token_spent (bearer auth) (world_db w1)" using consume_spends_token [OF inv] w1 by blast
  then have spent: "token_spent (bearer auth) (world_db (run_requests c reqs w1))"
    using assms(3) by (rule run_token_spent)
  assume "fst (serve c x2 (ReqCredential auth body2) (run_requests c reqs w1)) = Respond 200 b2"
  then obtain db2 where "Credential_endpoint (cfg_server c) (cfg_lib c) (srv_issuer x2) auth body2
      (world_db (run_requests c reqs w1)) = (Respond 200 b2, db2)"
    by (auto simp: with_db_def split: prod.splits)
  then show False using consume_spent [OF spent] by (auto elim!: Credential_endpoint_200) (metis fst_conv option.distinct(1))
qed

theorem credential_token_single_use_witness:
  "fst (serve demo_config (demo_services 6) demo_credential_request tokened) =
     Respond 200 (JSON_Value (JObj [(''credential'', JStr ''h.p.s~eA~eA~eA~eA~eA~eA~'')]))
   \<and> fst (serve demo_config (demo_services 8) demo_credential_request
       (run_requests demo_config [(demo_services 7, ReqRelease ''d1'')] issued)) \<noteq>
     Respond 200 (JSON_Value (JObj [(''credential'', JStr ''h.p.s~eA~eA~eA~eA~eA~eA~'')]))"
proof -
  let ?s = "serve demo_config (demo_services 6) demo_credential_request tokened"
  note r = demo_credential
  have s: "serve demo_config (demo_services 6)
      (ReqCredential ''Bearer d5'' (Some (''vc+sd-jwt'', ''DepositPledgeAttestation''))) tokened =
      (Respond 200 (JSON_Value (JObj [(''credential'', JStr ''h.p.s~eA~eA~eA~eA~eA~eA~'')])), fst (snd ?s), issued)"
    using r by (simp add: prod_eq_iff issued_def world_after_def demo_credential_request_def)
  have "list_all (\<lambda>(x', req). ie_uuid (srv_issuer x') 0 \<noteq> bearer ''Bearer d5'') [(demo_services 7, ReqRelease ''d1'')]"
    by code_simp
  from credential_token_single_use [OF issuance_reachable(2) s this] r show ?thesis
    by (simp add: demo_credential_request_def)
qed

text \<open>
  C18. The session store in memory keeps both promises against every sequence of calls of the store: a
  token that was consumed once is refused for ever, unless a later exchange mints the same token; and
  after a deposit is revoked every credential issued for it is reported revoked and its index is in
  the published list, unless the same credential id is issued again.
\<close>

theorem memory_store_permanent:
  assumes "Store_inv s" "run = fold (session_step Store_Create Store_ExchangeCodeForToken
      Store_ConsumeByToken Store_RevokeByDepositID) ops"
  shows "(Store_ConsumeByToken now t cid s = (Some x, s1) \<and> list_all (\<lambda>op. \<not> op_mints_token t op) ops \<longrightarrow>
      fst (Store_ConsumeByToken now' t cid' (run s1)) = None)
    \<and> (Store_cred s cid = Some y \<and> list_all (\<lambda>op. \<not> op_issues cid op) ops \<longrightarrow>
      Store_CredentialStatus cid (run (Store_RevokeByDepositID (Session_DepositID y) s)) = (''revoked'', True)
      \<and> Session_StatusListIndex y \<in> set (Store_RevokedStatusListIndices (run (Store_RevokeByDepositID (Session_DepositID y) s))))"
  using mem.single_use [OF assms(1), of now t cid x s1 ops now' cid'] mem.revocation_permanent [OF assms(1), of cid y _ ops]
  by (simp add: mem.run_def assms(2))

theorem memory_store_permanent_witness:
  "\<exists>x s. Store_ConsumeByToken (demo_time 3) ''d2'' ''cred'' demo_store = (Some x, s)
    \<and> fst (Store_ConsumeByToken (demo_time 4) ''d2'' ''cred2'' s) = None
    \<and> Store_CredentialStatus ''cred'' (Store_RevokeByDepositID ''dep'' s) = (''revoked'', True)
    \<and> 5 \<in> set (Store_RevokedStatusListIndices (Store_RevokeByDepositID ''dep'' s))"
proof -
  have f: "map_option (\<lambda>x. (Session_DepositID x, Session_StatusListIndex x))
      (fst (Store_ConsumeByToken (demo_time 3) ''d2'' ''cred'' demo_store)) = Some (''dep'', 5)" by code_simp
  then obtain x s where c: "Store_ConsumeByToken (demo_time 3) ''d2'' ''cred'' demo_store = (Some x, s)"
    and x: "Session_DepositID x = ''dep''" "Session_StatusListIndex x = 5"
    by (cases "Store_ConsumeByToken (demo_time 3) ''d2'' ''cred'' demo_store") auto
  have i: "Store_inv s" using mem.consume_inv [OF demo_store_inv c] .
  have y: "Store_cred s ''cred'' = Some x" using mem.consume_Some [OF demo_store_inv c] by simp
  have r: "id = fold (session_step Store_Create Store_ExchangeCodeForToken Store_ConsumeByToken Store_RevokeByDepositID) []"
    by (simp add: fun_eq_iff)
  from memory_store_permanent [OF demo_store_inv r, of "demo_time 3" "''d2''" "''cred''" x s "demo_time 4" "''cred2''"]
    memory_store_permanent [OF i r, of _ _ "''cred''" _ _ _ _ x] c x y
  show ?thesis by simp
qed



section \<open>The status list\<close>

text \<open>
  C20. The published list encodes exactly the revoked indices in range: for any list of indices, a
  verifier who decodes the text (base64url, then decompression) reads the bit of an index below the size
  of the list as set if and only if the index is in the list. Indices outside the range are dropped
  without an error: the list published is the one published without them, so that their revocation is
  not visible to a verifier.
\<close>

theorem status_list_roundtrip:
  assumes "\<forall>bs buf. gzip bs = Some buf \<longrightarrow> gunzip buf = Some bs"
    and "BuildEncodedList gzip idxs = Some enc"
  shows "(\<forall>i. 0 \<le> i \<and> i < StatusListSize \<longrightarrow> verifier_reads gunzip enc i = Some (i \<in> set idxs))
    \<and> BuildEncodedList gzip (filter (\<lambda>i. 0 \<le> i \<and> i < StatusListSize) idxs) = Some enc"
proof -
  have "verifier_reads gunzip enc i = Some (i \<in> set idxs)" if "0 \<le> i" "i < StatusListSize" for i
    using verifier_reads_revoked [OF _ assms(2) that] assms(1) by blast
  then show ?thesis
    using revocation_bitstring_out_of_range [of idxs] assms(2) by (simp add: BuildEncodedList_def)
qed

theorem status_list_roundtrip_witness:
  "verifier_reads Some (RawURLEncode (revocation_bitstring [7, 131071, 131072])) 131071 = Some True
   \<and> verifier_reads Some (RawURLEncode (revocation_bitstring [7, 131071, 131072])) 8 = Some False
   \<and> BuildEncodedList Some [7, 131071] = BuildEncodedList Some [7, 131071, 131072]"
proof -
  have e: "BuildEncodedList Some [7, 131071, 131072] = Some (RawURLEncode (revocation_bitstring [7, 131071, 131072]))"
    by (simp add: BuildEncodedList_def)
  have g: "\<forall>bs buf. Some bs = Some buf \<longrightarrow> Some buf = Some bs" by simp
  from status_list_roundtrip [OF g e] e show ?thesis by (simp add: StatusListSize_def)
qed

text \<open>
  C21. Status list indices identify sessions: in every reachable state all issuance sessions carry
  pairwise different indices, each non-negative and below the database's counter.
\<close>

theorem status_list_indices_unique:
  assumes "reachable c w"
  shows "distinct (map SessionRow_status_list_index (issuance_sessions (world_db w)))
    \<and> (\<forall>r \<in> set (issuance_sessions (world_db w)). \<exists>i. SessionRow_status_list_index r = Some i
         \<and> 0 \<le> i \<and> i < status_list_counter (world_db w))"
proof -
  have i: "indices_ok (map SessionRow_status_list_index (issuance_sessions (world_db w)), status_list_counter (world_db w))"
    using reachable_indices [OF assms] by (simp add: index_view_def)
  from indices_okD [OF i] have "\<forall>r \<in> set (issuance_sessions (world_db w)). \<exists>i. SessionRow_status_list_index r = Some i
      \<and> 0 \<le> i \<and> i < status_list_counter (world_db w)" by simp
  moreover have "distinct (map SessionRow_status_list_index (issuance_sessions (world_db w)))"
    using i by (simp add: indices_ok_def)
  ultimately show ?thesis by blast
qed

theorem status_list_indices_unique_witness:
  "distinct (map SessionRow_status_list_index (issuance_sessions (world_db issued)))
   \<and> length (issuance_sessions (world_db issued)) = 1 \<and> status_list_counter (world_db issued) = 1"
  using status_list_indices_unique [OF issuance_reachable(3)] by (simp add: issued_value issued_db_def)

text \<open>
  The in-memory allocator counts 0, 1, 2, ... without a repetition for the first 2 ^ 63 calls,
  and wraps to the smallest 64-bit integer at the next.
\<close>

lemma memory_allocator_range:
  assumes "n \<le> 2 ^ 63"
  shows "mem_indices n 0 = map int [0..<n] \<and> distinct (mem_indices n 0)
    \<and> fst (MemIndexAllocator_AllocateIndex (of_nat (2 ^ 63))) = - (2 ^ 63)"
proof -
  have "mem_indices n 0 = map int [0..<n]" using mem_indices_upt [of 0 n] assms by simp
  moreover have "fst (MemIndexAllocator_AllocateIndex (of_nat (2 ^ 63))) = - (2 ^ 63)"
    by (simp add: MemIndexAllocator_AllocateIndex_def)
  ultimately show ?thesis by (simp add: distinct_map)
qed

section \<open>Presentations\<close>

text \<open>
  C22. An issued credential verifies, with selective disclosure: if the library functions of issuer
  and verifier fit together, then before the credential expires a presentation of the disclosures
  the holder selects (\<open>P\<close>) is accepted, identifies the credential and the deposit, and reveals
  exactly the selected values; the credential as issued is the presentation of all of them.
\<close>

theorem issued_credential_verifies:
  assumes "libs_agree L V" "BuildSDJWT L salt uuid now iss d vu idx = Some (token, cid)"
    and "now' < NumericDate (credential_expiry now vu) * Second"
  shows "\<exists>jws encs. token = sd_jwt jws encs
    \<and> (\<forall>P. \<exists>vc. VerifyVpToken V now' (sd_jwt jws (presented P encs (sd_specs now d vu))) nonce uri = Inr vc
      \<and> VerifiedClaims_CredentialID vc = cid \<and> VerifiedClaims_DepositID vc = Deposit_ID d
      \<and> VerifiedClaims_PledgeDate vc = pledge_date now d \<and> VerifiedClaims_IssuingBank vc = bank_name d
      \<and> VerifiedClaims_DepositAmount vc =
          (if P ''deposit_amount'' then DepositData_Amount (Deposit_Deposit d) else f_zero)
      \<and> VerifiedClaims_Currency vc = (if P ''currency'' then DepositData_Currency (Deposit_Deposit d) else [])
      \<and> VerifiedClaims_PropertyAddress vc = (if P ''property_address'' then property_address d else [])
      \<and> VerifiedClaims_TenantFirstName vc =
          (if P ''tenant_first_name'' then Tenant_FirstName (Deposit_Tenant d) else [])
      \<and> VerifiedClaims_TenantLastName vc =
          (if P ''tenant_last_name'' then Tenant_LastName (Deposit_Tenant d) else [])
      \<and> VerifiedClaims_PledgedUntil vc = (if P ''pledged_until'' then pledged_until now vu else []))
    \<and> presented (\<lambda>_. True) encs (sd_specs now d vu) = encs"
proof -
  obtain jws encs hs where e: "token = sd_jwt jws encs" "presented (\<lambda>_. True) encs (sd_specs now d vu) = encs"
    "\<And>P nonce uri. VerifyVpToken V now' (sd_jwt jws (presented P encs (sd_specs now d vu))) nonce uri =
      Inr (selected_claims now' (credential_claims L iss cid now d vu idx hs) P (sd_specs now d vu))"
    by (rule issued_presentation [OF assms]) (rule that)
  then show ?thesis by (intro exI [of _ jws] exI [of _ encs]) (simp add: selected_claims_fields)
qed

theorem issued_credential_verifies_witness:
  "\<exists>jws encs vc. fst (the (BuildSDJWT fit_lib (\<lambda>n. Some []) ''c'' (demo_time 1) ''https://x.example'' demo_deposit
       ''2025-12-31'' 3)) = sd_jwt jws encs
    \<and> VerifyVpToken fit_vp (demo_time 2) (sd_jwt jws (presented (\<lambda>n. n = ''deposit_amount'') encs fit_specs)) ''n'' ''u'' = Inr vc
    \<and> VerifiedClaims_DepositAmount vc = Fin 1500 \<and> VerifiedClaims_TenantFirstName vc = []"
proof -
  obtain token cid where b: "BuildSDJWT fit_lib (\<lambda>n. Some []) ''c'' (demo_time 1) ''https://x.example'' demo_deposit
      ''2025-12-31'' 3 = Some (token, cid)" using fit_token by auto
  from issued_credential_verifies [OF fit_libs_agree b fit_time, of "''n''" "''u''"]
  obtain jws encs where t: "token = sd_jwt jws encs" and all: "\<forall>P. \<exists>vc. VerifyVpToken fit_vp (demo_time 2)
      (sd_jwt jws (presented P encs (sd_specs (demo_time 1) demo_deposit ''2025-12-31''))) ''n'' ''u'' = Inr vc
      \<and> VerifiedClaims_DepositAmount vc = (if P ''deposit_amount'' then DepositData_Amount (Deposit_Deposit demo_deposit) else f_zero)
      \<and> VerifiedClaims_TenantFirstName vc = (if P ''tenant_first_name'' then Tenant_FirstName (Deposit_Tenant demo_deposit) else [])"
    by blast
  from spec [OF all, of "\<lambda>n. n = ''deposit_amount''"] b t show ?thesis
    by (auto simp: fit_specs_def demo_deposit_def)
qed





section \<open>Settlement\<close>

text \<open>
  C25. What an accepted settlement proposal records in the stored deposit: the proposing party and the
  items of the request, numbered from \<open>item-1\<close>, with their sum; the other party has 14 days to
  respond. In a counter-proposal the parties alternate and the initiator and the initial time stay.
\<close>

theorem settle_proposal_recorded:
  assumes "server_inv db" "Settle s env (Some req) did db = (Respond 200 (JSON_Deposit d'), es, db')"
  shows "\<exists>d st. repo_view db did = Some d \<and> repo_view db' did = Some d' \<and> lifecycle d' = StateSettleProposed
    \<and> Deposit_Settlement d' = Some st \<and> Settlement_LastProposedBy st = SettleRequest_InitiatedBy req
    \<and> map ClaimItem_AmountClaimed (Settlement_ClaimItems st) = map ClaimItemInput_AmountClaimed (SettleRequest_ClaimItems req)
    \<and> map ClaimItem_ID (Settlement_ClaimItems st) =
        map (\<lambda>n. ''item-'' @ show_int (int n + 1)) [0..<length (SettleRequest_ClaimItems req)]
    \<and> Settlement_TotalClaimed st = foldl f_add f_zero (map ClaimItemInput_AmountClaimed (SettleRequest_ClaimItems req))
    \<and> Settlement_ResponseDeadline st = FormatDate (env_now env + 14 * Day)
    \<and> (if lifecycle d = StateSettleProposed
       then \<exists>st0. Deposit_Settlement d = Some st0 \<and> Settlement_LastProposedBy st0 \<noteq> SettleRequest_InitiatedBy req
          \<and> Settlement_InitiatedBy st = Settlement_InitiatedBy st0 \<and> Settlement_InitiatedAt st = Settlement_InitiatedAt st0
       else Settlement_InitiatedBy st = SettleRequest_InitiatedBy req \<and> Settlement_InitiatedAt st = env_now env)"
proof -
  have h: "handle_action s env (Settle_check (Some req)) (Settle_plan (env_now env) (the (Some req))) False no_mail did db =
      (Respond 200 (JSON_Deposit d'), es, db')" using assms(2) by (simp add: Settle_def)
  obtain cur st e p d1 where c: "repo_view db did = Some cur" "Settle_plan (env_now env) req cur = Inr (st, e, p)"
    "p cur = Some d1" "d' = enter_state (env_repo_now env) st e d1" "repo_view db' did = Some d'"
    by (rule settle.action_committed [OF assms(1) h]) simp_all
  note items = settle_items_amounts settle_items_ids [of 0, simplified] settle_items_total
  from c(2) show ?thesis
  proof (cases rule: Settle_plan_cases)
    case first
    then have "Deposit_Settlement d' = Some (settle_proposal (env_now env) req (SettleRequest_InitiatedBy req) (env_now env))"
      "lifecycle d' = StateSettleProposed" "lifecycle cur \<noteq> StateSettleProposed" using c(3,4) by (auto simp: set_settlement_def)
    then show ?thesis using c(1,5) by (simp add: items)
  next
    case (counter s0)
    then have "Deposit_Settlement d' = Some (settle_proposal (env_now env) req (Settlement_InitiatedBy s0) (Settlement_InitiatedAt s0))"
      "lifecycle d' = StateSettleProposed" using c(3,4) by (auto simp: set_settlement_def)
    then show ?thesis using c(1,5) counter(1,2,4) by (simp add: items)
  qed
qed

theorem settle_proposal_recorded_witness:
  "\<exists>d' st. response_deposit (fst (Settle demo_server (demo_env 4) (Some demo_settle) ''d1'' pledged_db)) = Some d'
    \<and> Deposit_Settlement d' = Some st \<and> Settlement_LastProposedBy st = ''LANDLORD''
    \<and> map ClaimItem_ID (Settlement_ClaimItems st) = [''item-1'']"
proof -
  let ?s = "Settle demo_server (demo_env 4) (Some demo_settle) ''d1'' pledged_db"
  obtain d' where d': "response_deposit (fst ?s) = Some d'" using demo_settlement(1) by blast
  then have r: "?s = (Respond 200 (JSON_Deposit d'), fst (snd ?s), snd (snd ?s))"
    using response_depositD by (simp add: prod_eq_iff)
  have inv: "server_inv pledged_db" using reachable_server_inv [OF demo_reachable(3)] by (simp add: world3_value)
  have "show_int 1 = ''1''" by code_simp
  with settle_proposal_recorded [OF inv r] d' show ?thesis by (auto simp: demo_settle_def)
qed

text \<open>
  C26. A settlement is accepted only by the party that did not make the last proposal. Then the deposit
  is CLOSED and the agreed amounts are the proposed ones.
\<close>

theorem settle_accept_agreed:
  assumes "server_inv db" "SettleAccept s env (Some req) did db = (Respond 200 (JSON_Deposit d'), es, db')"
  shows "\<exists>d st. repo_view db did = Some d \<and> lifecycle d = StateSettleProposed \<and> Deposit_Settlement d = Some st
    \<and> Settlement_LastProposedBy st \<noteq> SettleAcceptRequest_AcceptedBy req
    \<and> repo_view db' did = Some d' \<and> lifecycle d' = StateClosed
    \<and> Deposit_Settlement d' = Some (st\<lparr>Settlement_AgreedTenantRefund := Settlement_ProposedTenantRefund st,
        Settlement_AgreedLandlordRetention := Settlement_ProposedLandlordRetention st\<rparr>)"
proof -
  have h: "handle_action s env (SettleAccept_check (Some req)) (SettleAccept_plan (the (Some req))) True no_mail did db =
      (Respond 200 (JSON_Deposit d'), es, db')" using assms(2) by (simp add: SettleAccept_def)
  obtain cur st e p d1 where c: "repo_view db did = Some cur" "SettleAccept_plan req cur = Inr (st, e, p)"
    "p cur = Some d1" "d' = enter_state (env_repo_now env) st e d1" "repo_view db' did = Some d'"
    by (rule accept.action_committed [OF assms(1) h]) simp_all
  note plan = SettleAccept_plan_Inr [OF c(2)]
  from plan(5) c plan(1-3) show ?thesis by (auto simp: SettleAccept_patch_def)
qed

theorem settle_accept_agreed_witness:
  "\<exists>d' st. response_deposit (fst (SettleAccept demo_server (demo_env 5)
       (Some \<lparr>SettleAcceptRequest_AcceptedBy = ''TENANT''\<rparr>) ''d1'' (world_db settled))) = Some d'
    \<and> lifecycle d' = StateClosed \<and> Deposit_Settlement d' = Some st \<and> Settlement_LastProposedBy st \<noteq> ''TENANT''
    \<and> Settlement_AgreedTenantRefund st = Settlement_ProposedTenantRefund st"
proof -
  let ?s = "SettleAccept demo_server (demo_env 5) (Some \<lparr>SettleAcceptRequest_AcceptedBy = ''TENANT''\<rparr>) ''d1'' (world_db settled)"
  obtain d' where d': "response_deposit (fst ?s) = Some d'" using demo_settlement(2) by blast
  then have "?s = (Respond 200 (JSON_Deposit d'), fst (snd ?s), snd (snd ?s))"
    using response_depositD by (simp add: prod_eq_iff)
  from settle_accept_agreed [OF reachable_server_inv [OF settled_reachable] this] d' show ?thesis by auto
qed

text \<open>
  Neither party can act on its own proposal: countering or accepting one's own last proposal is
  answered 409 and changes nothing.
\<close>

lemma own_proposal_rejected:
  assumes "server_inv db" "repo_view db did = Some d" "lifecycle d = StateSettleProposed" "Deposit_Settlement d = Some st"
    and "\<not> env_get env 0"
  shows "(Settle_check (Some req) = None \<and> SettleRequest_InitiatedBy req = Settlement_LastProposedBy st \<longrightarrow>
      Settle s env (Some req) did db = (writeError 409 (''cannot counter your own proposal '' @ em_dash
        @ '' wait for the other party to respond'') ''CONFLICT'', [], db))
    \<and> (SettleAccept_check (Some acc) = None \<and> SettleAcceptRequest_AcceptedBy acc = Settlement_LastProposedBy st \<longrightarrow>
      SettleAccept s env (Some acc) did db = (writeError 409 ''cannot accept your own proposal'' ''CONFLICT'', [], db))"
proof -
  have "repo_inv db" using assms(1) by (simp add: server_inv_def)
  then have f: "fetch_deposit env did db = Inr d" using assms(2,5) by (simp add: fetch_deposit_def pg.get_view)
  show ?thesis
    using assms(3,4)
    by (simp add: Settle_def SettleAccept_def handle_action_def f Settle_plan_def SettleAccept_plan_def Let_def)
qed

text \<open>
  Claims in whole units add up exactly: when all amounts of a proposal are non-negative integers
  and their sum is below 2 ^ 53, the floating point total of the proposal is that sum.
\<close>

lemma settle_total_exact:
  assumes "\<forall>n \<in> set ns. 0 \<le> n" "sum_list ns < 2 ^ 53"
    and "map ClaimItemInput_AmountClaimed inps = map (\<lambda>n. Fin (of_int n)) ns"
  shows "fst (settle_items 0 f_zero inps) = Fin (of_int (sum_list ns))"
  using whole_total [of ns 0] assms by (simp add: settle_items_total)

section \<open>Partial release and utility settlement\<close>

text \<open>
  C27. A partial release reserves what was requested and sets the statutory deadline: the deposit is
  PARTIALLY_RELEASED with the requested amounts, the reservation is positive, and the resolution
  deadline is the same calendar day one year after the end of the billing period (1 March for 29
  February).
\<close>

theorem partial_release_deadline:
  assumes "server_inv db" "PartialRelease s env (Some req) did db = (Respond 200 (JSON_Deposit d'), es, db')"
  shows "\<exists>ur t y m d. Deposit_UtilityReservation d' = Some ur \<and> lifecycle d' = StatePartiallyReleased
    \<and> UtilityReservation_ReservedAmount ur = PartialReleaseRequest_ReservedAmount req
    \<and> UtilityReservation_ReleasedAmount ur = PartialReleaseRequest_ReleasedAmount req
    \<and> \<not> f_le (UtilityReservation_ReservedAmount ur) f_zero
    \<and> PartialReleaseRequest_BillingPeriodEnd req = show_date (y, m, d) \<and> valid_date y m d \<and> 0 \<le> y \<and> y \<le> 9999
    \<and> UtilityReservation_ResolutionDeadline ur = show_date (if m = 2 \<and> d = 29 then (y + 1, 3, 1) else (y + 1, m, d))"
proof -
  have h: "handle_action s env (PartialRelease_check (Some req)) (PartialRelease_plan (the (Some req))) False no_mail did db =
      (Respond 200 (JSON_Deposit d'), es, db')" using assms(2) by (simp add: PartialRelease_def)
  obtain cur st e p d1 where c: "PartialRelease_check (Some req) = None" "PartialRelease_plan req cur = Inr (st, e, p)"
    "p cur = Some d1" "d' = enter_state (env_repo_now env) st e d1"
    by (rule partial.action_committed [OF assms(1) h]) simp_all
  have d': "Deposit_UtilityReservation d' = Some (reservation_of req)" "lifecycle d' = StatePartiallyReleased"
    using c(2-4) by (auto simp: PartialRelease_plan_def guard_transition_Inr PartialRelease_patch_def)
  obtain t where t: "ParseDate (PartialReleaseRequest_BillingPeriodEnd req) = Some t"
    and pos: "\<not> f_le (PartialReleaseRequest_ReservedAmount req) f_zero"
    using c(1) by (auto simp: PartialRelease_check_def split: if_splits)
  obtain y m d where ymd: "valid_date y m d" "0 \<le> y" "y \<le> 9999"
    "PartialReleaseRequest_BillingPeriodEnd req = show_date (y, m, d)" "date_of t = (y, m, d)"
    using ParseDate_SomeD [OF t] by blast
  have "UtilityReservation_ResolutionDeadline (reservation_of req) =
      show_date (if m = 2 \<and> d = 29 then (y + 1, 3, 1) else (y + 1, m, d))"
    using AddDate_year [OF ymd(5)] t by (simp add: reservation_of_def FormatDate_def)
  with d' ymd pos show ?thesis by (simp add: reservation_of_def) metis
qed

theorem partial_release_deadline_witness:
  "\<exists>d' ur. response_deposit (fst (PartialRelease demo_server (demo_env 4) (Some demo_partial) ''d1'' pledged_db)) = Some d'
    \<and> Deposit_UtilityReservation d' = Some ur \<and> UtilityReservation_ReservedAmount ur = Fin 300
    \<and> UtilityReservation_ResolutionDeadline ur = ''2025-03-01''"
proof -
  let ?s = "PartialRelease demo_server (demo_env 4) (Some demo_partial) ''d1'' pledged_db"
  note e = demo_partial_release(1)
  then obtain d' where d': "response_deposit (fst ?s) = Some d'" by auto
  then have "?s = (Respond 200 (JSON_Deposit d'), fst (snd ?s), snd (snd ?s))"
    using response_depositD by (simp add: prod_eq_iff)
  from partial_release_deadline [OF _ this] reachable_server_inv [OF demo_reachable(3)] d' e show ?thesis
    by (auto simp: world3_value demo_partial_def)
qed

text \<open>The amounts of a utility settlement for whole figures below 2 ^ 53.\<close>

lemma utility_amounts_whole:
  assumes "UtilitySettleRequest_ActualCost req = Fin a" "UtilitySettleRequest_TotalAdvancePaid req = Fin b"
    and "f_wf (Fin a)" "f_wf (Fin b)" "0 \<le> b" "b < a" "f_wf (Fin reserved)" "0 < reserved"
    and "retention req (Fin reserved) = Fin t" "utility_refund req (Fin reserved) = Fin r"
    and "a \<in> \<int>" "b \<in> \<int>" "reserved \<in> \<int>" "a < 2 ^ 53" "reserved < 2 ^ 53"
  shows "t + r = reserved \<and> t = min (a - b) reserved"
proof -
  obtain a' b' n where i: "a = of_int a'" "b = of_int b'" "reserved = of_int n"
    using assms(11-13) by (auto elim!: Ints_cases)
  have "a' < 2 ^ 53" "n < 2 ^ 53" using assms(14,15) unfolding i by (metis of_int_less_iff of_int_numeral of_int_power)+
  from utility_whole_amounts [of req a' b' n] this assms i show ?thesis by simp
qed

text \<open>
  C28. Utility settlement decides by the exact figures and proposes sound amounts. For finite amounts
  the rounded floating point difference has the sign of the exact one, so the deposit is closed
  exactly when the actual cost does not exceed the advances paid, and a settlement is proposed
  otherwise. The proposed retention is then positive and at most the reservation, the refund lies
  between zero and the reservation, the retention is the whole reservation (and the refund zero) when
  the shortfall exceeds it, and for whole amounts below 2 ^ 53 retention and refund add up to the
  reservation exactly.
\<close>

theorem utility_settle_outcome:
  assumes "UtilitySettleRequest_ActualCost req = Fin a" "UtilitySettleRequest_TotalAdvancePaid req = Fin b"
    and "f_wf (Fin a)" "f_wf (Fin b)" "0 \<le> b" "f_wf (Fin reserved)" "0 < reserved"
    and "lifecycle d = StatePartiallyReleased" "Deposit_UtilityReservation d = Some ur"
    and "UtilityReservation_ReservedAmount ur = Fin reserved"
  shows "\<exists>st e p d1 ur'. UtilitySettle_plan now req d = Inr (st, e, p)
    \<and> st = (if a \<le> b then StateClosed else StateSettleProposed)
    \<and> p d = Some d1 \<and> Deposit_UtilityReservation d1 = Some ur'
    \<and> UtilityReservation_ActualCost ur' = Fin a \<and> UtilityReservation_ReservedAmount ur' = Fin reserved
    \<and> (if a \<le> b then Deposit_Settlement d1 = Deposit_Settlement d
       else \<exists>s t r. Deposit_Settlement d1 = Some s \<and> Settlement_TotalClaimed s = shortfall req
         \<and> Settlement_ProposedLandlordRetention s = Fin t \<and> Settlement_ProposedTenantRefund s = Fin r
         \<and> 0 < t \<and> t \<le> reserved \<and> 0 \<le> r \<and> r \<le> reserved
         \<and> (f_lt (Fin reserved) (shortfall req) \<longrightarrow> t = reserved \<and> r = 0)
         \<and> (a \<in> \<int> \<and> b \<in> \<int> \<and> reserved \<in> \<int> \<and> a < 2 ^ 53 \<and> reserved < 2 ^ 53 \<longrightarrow>
             t + r = reserved \<and> t = min (a - b) reserved))"
proof -
  obtain st e p d1 ur' where plan: "UtilitySettle_plan now req d = Inr (st, e, p)"
    "st = (if a \<le> b then StateClosed else StateSettleProposed)" "p d = Some d1" "Deposit_UtilityReservation d1 = Some ur'"
    "UtilityReservation_ActualCost ur' = Fin a" "UtilityReservation_ReservedAmount ur' = Fin reserved"
    and stl: "if a \<le> b then Deposit_Settlement d1 = Deposit_Settlement d
      else \<exists>s. Deposit_Settlement d1 = Some s \<and> Settlement_TotalClaimed s = shortfall req
        \<and> Settlement_ProposedLandlordRetention s = retention req (Fin reserved)
        \<and> Settlement_ProposedTenantRefund s = utility_refund req (Fin reserved)"
    using shortfall_sign [OF assms(1-4)] assms
    by (auto simp: UtilitySettle_plan_def Let_def guard_transition_def Transition_def UtilitySettle_patch_def
        resolve_reservation_def utility_settlement_def split: if_splits)
  show ?thesis
  proof (cases "a \<le> b")
    case True
    with plan stl show ?thesis by auto
  next
    case False
    then have less: "b < a" by simp
    obtain t r where tr: "retention req (Fin reserved) = Fin t" "utility_refund req (Fin reserved) = Fin r"
      "0 < t" "t \<le> reserved" "0 \<le> r" "r \<le> reserved" "f_lt (Fin reserved) (shortfall req) \<Longrightarrow> t = reserved \<and> r = 0"
      using utility_amounts [OF assms(1-5) less assms(6,7)] by blast
    have money: "0 < t \<and> t \<le> reserved \<and> 0 \<le> r \<and> r \<le> reserved
        \<and> (f_lt (Fin reserved) (shortfall req) \<longrightarrow> t = reserved \<and> r = 0)
        \<and> (a \<in> \<int> \<and> b \<in> \<int> \<and> reserved \<in> \<int> \<and> a < 2 ^ 53 \<and> reserved < 2 ^ 53 \<longrightarrow> t + r = reserved \<and> t = min (a - b) reserved)"
      using utility_amounts_whole [OF assms(1-5) less assms(6,7) tr(1,2)] tr(3-7) by blast
    from False stl tr(1,2) obtain s where s: "Deposit_Settlement d1 = Some s" "Settlement_TotalClaimed s = shortfall req"
      "Settlement_ProposedLandlordRetention s = Fin t" "Settlement_ProposedTenantRefund s = Fin r" by auto
    show ?thesis
    proof (intro exI conjI)
      show "UtilitySettle_plan now req d = Inr (st, e, p)" "st = (if a \<le> b then StateClosed else StateSettleProposed)"
        "p d = Some d1" "Deposit_UtilityReservation d1 = Some ur'" "UtilityReservation_ActualCost ur' = Fin a"
        "UtilityReservation_ReservedAmount ur' = Fin reserved" by (rule plan)+
      show "if a \<le> b then Deposit_Settlement d1 = Deposit_Settlement d
         else \<exists>s t r. Deposit_Settlement d1 = Some s \<and> Settlement_TotalClaimed s = shortfall req
           \<and> Settlement_ProposedLandlordRetention s = Fin t \<and> Settlement_ProposedTenantRefund s = Fin r
           \<and> 0 < t \<and> t \<le> reserved \<and> 0 \<le> r \<and> r \<le> reserved
           \<and> (f_lt (Fin reserved) (shortfall req) \<longrightarrow> t = reserved \<and> r = 0)
           \<and> (a \<in> \<int> \<and> b \<in> \<int> \<and> reserved \<in> \<int> \<and> a < 2 ^ 53 \<and> reserved < 2 ^ 53 \<longrightarrow> t + r = reserved \<and> t = min (a - b) reserved)"
        unfolding if_not_P [OF False] using s money by blast
    qed
  qed
qed

theorem utility_settle_outcome_witness:
  "\<exists>d st e p d1 s t r. stored partially_released ''d1'' = Some d \<and> UtilitySettle_plan 0 demo_utility d = Inr (st, e, p)
    \<and> st = StateSettleProposed \<and> p d = Some d1 \<and> Deposit_Settlement d1 = Some s
    \<and> Settlement_ProposedLandlordRetention s = Fin t \<and> Settlement_ProposedTenantRefund s = Fin r \<and> t + r = 300 \<and> t = 100"
proof -
  obtain d ur where d: "stored partially_released ''d1'' = Some d" "lifecycle d = StatePartiallyReleased"
    "Deposit_UtilityReservation d = Some ur" "UtilityReservation_ReservedAmount ur = Fin 300"
    using demo_partial_release(2) by auto
  obtain st e p d1 s t r where "UtilitySettle_plan 0 demo_utility d = Inr (st, e, p)" "st = StateSettleProposed" "p d = Some d1"
    "Deposit_Settlement d1 = Some s" "Settlement_ProposedLandlordRetention s = Fin t" "Settlement_ProposedTenantRefund s = Fin r"
    "t + r = 300" "t = min (1300 - 1200) 300"
    using utility_settle_outcome [of demo_utility 1300 1200 300 d ur 0] d demo_amounts_wf by (auto simp: demo_utility_def)
  with d(1) show ?thesis by auto
qed

section \<open>The conformance validator\<close>

text \<open>
  C29. The verdict of a conformance report is a property of the document: it is valid exactly when the
  parties are named, the amount is not zero or below, the currency is given, the type is one of the
  four known, and, for a country of the table, the currency is the country's, the type is permitted
  there and the amount does not exceed the tolerated cap. Warnings never make a report invalid.
\<close>

theorem validator_verdict:
  "Report_Valid (Validate printable now d rent) \<longleftrightarrow>
     Tenant_FirstName (Deposit_Tenant d) \<noteq> [] \<and> Tenant_LastName (Deposit_Tenant d) \<noteq> []
   \<and> Tenant_Email (Deposit_Tenant d) \<noteq> [] \<and> Landlord_Name (Deposit_Landlord d) \<noteq> []
   \<and> \<not> f_le (DepositData_Amount (Deposit_Deposit d)) f_zero
   \<and> DepositData_Currency (Deposit_Deposit d) \<noteq> []
   \<and> DepositData_Type (Deposit_Deposit d) \<in> {''CASH_EQUIVALENT'', ''BANK_GUARANTEE'', ''INSURANCE'', ''SURETY''}
   \<and> (case jurisdictionRules (Address_Country (Property_Address (Deposit_Property d))) of
        None \<Rightarrow> True
      | Some rule \<Rightarrow> DepositData_Currency (Deposit_Deposit d) = jurisdictionRule_Currency rule
          \<and> (jurisdictionRule_AllowedTypes rule = []
             \<or> DepositData_Type (Deposit_Deposit d) \<in> set (jurisdictionRule_AllowedTypes rule))
          \<and> \<not> cap_exceeded rule rent (DepositData_Amount (Deposit_Deposit d)))"
  by (auto simp: Validate_verdict conforms_def Let_def known_deposit_types_def DepositTypeCash_def
      DepositTypeBankGuarantee_def DepositTypeInsurance_def split: option.splits)

text \<open>
  C30. The cap check in floating point against the exact cap, for rents from 1 to 10 ^ 9: a deposit
  within the statutory number of months is never rejected by it, and one it lets pass exceeds the cap by
  at most 0.51 per cent (0.5 per cent is the intended tolerance).
\<close>

theorem validator_cap_bounds:
  assumes "jurisdictionRules c = Some rule" "1 \<le> r" "r \<le> 10 ^ 9" "f_wf (Fin a)" "0 < a"
  shows "\<exists>m. jurisdictionRule_MaxMonths rule = Fin m
    \<and> (a \<le> m * r \<longrightarrow> \<not> cap_exceeded rule (Fin r) (Fin a))
    \<and> (\<not> cap_exceeded rule (Fin r) (Fin a) \<longrightarrow> a \<le> m * r * (10051 / 10000))"
  using cap_check_exact [OF assms] by metis

theorem validator_cap_bounds_witness:
  "\<exists>rule. jurisdictionRules ''DE'' = Some rule \<and> \<not> cap_exceeded rule (Fin 500) (Fin 1500)
     \<and> cap_exceeded rule (Fin 500) (Fin 1508)"
proof -
  obtain rule where rule: "jurisdictionRules ''DE'' = Some rule" "jurisdictionRule_MaxMonths rule = Fin 3"
    by (simp add: jurisdictionRules_def jurisdiction_table_def mk_rule_def)
  have "f_wf (Fin 1500)" "f_wf (Fin 1508)" using f_wf_of_int [of 1500] f_wf_of_int [of 1508] by simp_all
  then show ?thesis
    using validator_cap_bounds [OF rule(1), of 500 1500] validator_cap_bounds [OF rule(1), of 500 1508] rule by auto
qed

section \<open>Concurrent requests\<close>

text \<open>
  C31. What survives every interleaving of requests, where the read and the update of different
  requests alternate freely: rows stay well-formed, no update dereferences a nil pointer, and the
  history of a deposit is still only extended.
\<close>

theorem interleaving_safe:
  assumes "repo_inv db" "interleave\<^sup>*\<^sup>* (db, []) (db', fls)" "repo_view db k = Some d"
  shows "repo_inv db' \<and> (\<exists>d' es. repo_view db' k = Some d' \<and> history d' = history d @ es)
    \<and> (\<forall>(did, st, e, p) \<in> set fls. fst (PostgresRepo_UpdateState f now did st e p db') \<noteq> Inl ErrPanic)"
proof -
  have i: "interleave_inv (db', fls)" by (rule interleave_run_inv [OF assms(2) interleave_inv_start [OF assms(1)]])
  have "fst (PostgresRepo_UpdateState f now did st e p db') \<noteq> Inl ErrPanic" if "(did, st, e, p) \<in> set fls" for did st e p
    using commit_outcome(1) [of db' did st e p f now] i that by (fastforce simp: interleave_inv_def intro: prod.collapse [symmetric])
  moreover have "\<exists>d' es. repo_view db' k = Some d' \<and> history d' = history d @ es"
    using interleave_run_history [OF assms(2) interleave_inv_start [OF assms(1)], of k d] assms(3) by simp
  ultimately show ?thesis using i by (auto simp: interleave_inv_def)
qed

theorem interleaving_safe_witness:
  "repo_inv raced_db \<and> (\<exists>d d' es. repo_view pledged_db ''d1'' = Some d \<and> repo_view raced_db ''d1'' = Some d'
     \<and> history d' = history d @ es)"
proof -
  obtain d where d: "PostgresRepo_GetByID no_fault ''d1'' pledged_db = Inr d" using pledged_read by blast
  have v: "repo_view pledged_db ''d1'' = Some d" by (rule pg.get_Inr [OF pledged_inv d])
  from interleaving_safe [OF pledged_inv race_run v] v show ?thesis by blast
qed

text \<open>
  C32. The transition table does not survive interleaving: the handlers check the state they read
  before the transaction, so a claim that read PLEDGED before a release was committed still commits.
  The run from a pledged deposit ends with RELEASED followed by CLAIMED in the history, a step the
  table forbids.
\<close>

theorem interleaving_breaks_table:
  "interleave\<^sup>*\<^sup>* (world_db world3, []) (raced_db, [])
   \<and> (\<exists>d. repo_view raced_db ''d1'' = Some d \<and> lifecycle d = StateClaimed
      \<and> history_states d = [StateRequested, StateIdentified, StatePledged, StateReleased, StateClaimed])
   \<and> \<not> legal_step StateReleased StateClaimed"
proof -
  have "map_option (\<lambda>d. (lifecycle d, history_states d)) (repo_view raced_db ''d1'') =
      Some (StateClaimed, [StateRequested, StateIdentified, StatePledged, StateReleased, StateClaimed])" by code_simp
  then have "\<exists>d. repo_view raced_db ''d1'' = Some d \<and> lifecycle d = StateClaimed
      \<and> history_states d = [StateRequested, StateIdentified, StatePledged, StateReleased, StateClaimed]" by auto
  moreover have "\<not> legal_step StateReleased StateClaimed" by (simp add: legal_step_def)
  ultimately show ?thesis using race_run by (simp add: world3_value)
qed

section \<open>Limits of revocation\<close>



text \<open>
  Closing a deposit through a utility settlement without shortfall revokes nothing: the issuance
  sessions are untouched, so credentials of the closed deposit stay active.
\<close>

lemma utility_close_revokes_nothing:
  assumes "UtilitySettle s env body did db = (r, es, db')"
  shows "issuance_sessions db' = issuance_sessions db
    \<and> PostgresSessionStore_CredentialStatus f cid db' = PostgresSessionStore_CredentialStatus f cid db"
proof -
  have "issuance_sessions db' = issuance_sessions db"
    using assms unfolding UtilitySettle_def
    by (cases rule: handle_action_cases) (auto dest: UpdateState_sessions)
  then show ?thesis by (simp add: PostgresSessionStore_CredentialStatus_def)
qed

lemma utility_close_credential_active:
  "\<exists>r es db'. UtilitySettle demo_server (demo_env 8) (Some demo_cheap_utility) ''d1'' (world_db issued_then_partial) = (r, es, db')
    \<and> map_option lifecycle (repo_view db' ''d1'') = Some StateClosed
    \<and> PostgresSessionStore_CredentialStatus no_fault demo_credential_id db' = (''active'', True)"
proof -
  let ?s = "UtilitySettle demo_server (demo_env 8) (Some demo_cheap_utility) ''d1'' (world_db issued_then_partial)"
  have s: "?s = (fst ?s, fst (snd ?s), snd (snd ?s))" by simp
  show ?thesis using demo_utility_close utility_close_revokes_nothing [OF s, of no_fault demo_credential_id] s by metis
qed

text \<open>
  Creating a deposit is not atomic: when only the second statement fails, the client is told
  500, but the deposit is stored and can be read, without a row in the history table.
\<close>

lemma create_not_atomic:
  assumes "repo_inv db" "CreateDeposit_check d = None" "deposit_row db (env_uuid env 0) = None"
    and "env_update env = (\<lambda>n. n = 1)"
    and "d' = init_deposit (env_uuid env 0) (env_repo_now env) (CreateDeposit_defaults d)"
    and "enc_Deposit d' = Some j" "Deposit_wf d'"
  shows "\<exists>db'. CreateDeposit env (Some d) db = (writeError 500 ''failed to create deposit'' ''INTERNAL_ERROR'', [], db')
    \<and> PostgresRepo_GetByID no_fault (env_uuid env 0) db' = Inr d' \<and> deposit_history db' = deposit_history db"
proof -
  let ?u = "env_uuid env 0"
  let ?db = "db\<lparr>deposits := deposits db @ [\<lparr>DepositRow_id = ?u, DepositRow_lifecycle_state = state_string StateRequested,
      DepositRow_data = j\<rparr>]\<rparr>"
  have c: "PostgresRepo_Create (env_update env) ?u (env_repo_now env) (CreateDeposit_defaults d) db = (Inl ErrDB, ?db)"
    using assms(3,4,6) by (simp add: PostgresRepo_Create_def Let_def assms(5) [symmetric])
  have "inserted ?u d' db ?db"
    using assms(3,6) by (simp add: inserted_def)
  from inserted_view [OF assms(1) this assms(7)] have "PostgresRepo_GetByID no_fault ?u ?db = Inr d'"
    by (simp add: pg.get_view no_fault_def assms(5))
  with c assms(2) show ?thesis by (simp add: CreateDeposit_def)
qed

lemma create_not_atomic_run:
  "\<exists>d' db'. CreateDeposit ((demo_env 1)\<lparr>env_update := \<lambda>n. n = 1\<rparr>) (Some demo_deposit) empty_db =
      (writeError 500 ''failed to create deposit'' ''INTERNAL_ERROR'', [], db')
    \<and> PostgresRepo_GetByID no_fault ''d1'' db' = Inr d' \<and> deposit_history db' = []"
proof -
  let ?env = "(demo_env 1)\<lparr>env_update := \<lambda>n. n = 1\<rparr>"
  let ?d = "init_deposit (env_uuid ?env 0) (env_repo_now ?env) (CreateDeposit_defaults demo_deposit)"
  have inv: "repo_inv empty_db" by (simp add: repo_inv_def empty_db_def)
  have "enc_Deposit ?d \<noteq> None" by code_simp
  then obtain j where j: "enc_Deposit ?d = Some j" by blast
  have chk: "CreateDeposit_check demo_deposit = None" "env_uuid ?env 0 = ''d1''" by code_simp+
  have "Deposit_wf ?d"
    by (simp add: Deposit_wf_def DepositData_wf_def HistoryEntry_wf_def init_deposit_def
        CreateDeposit_defaults_def known_state_wf known_states_def demo_deposit_def)
  from create_not_atomic [OF inv chk(1) _ _ refl j this] chk(2) show ?thesis
    by (auto simp: empty_db_def deposit_row_def)
qed

section \<open>Access\<close>

text \<open>
  C34. Authentication: a request without a bearer token that the JWT library accepts under the server's
  secret changes the lifecycle state of no deposit; on the routes behind the middleware it is
  answered 401 and changes and notifies nothing at all.
\<close>

theorem authentication_required:
  assumes "jwt_contract (rc_jwt rc)" "reachable (rc_config rc) w"
    and "\<not> valid_bearer (rc_jwt rc) (rc_secret rc) now header"
    and "NewRouter rc x now header req w = (r, es, w')"
  shows "(\<forall>k. map_option lifecycle (stored w' k) = map_option lifecycle (stored w k))
    \<and> (jwt_protected req \<longrightarrow> w' = w \<and> es = [] \<and> (\<exists>m. r = writeAuthError m))"
  using unauthenticated_effect [OF assms(1) reachable_inv [OF assms(2)] assms(3,4)] by blast

theorem authentication_required_witness:
  "\<exists>m. NewRouter demo_router (demo_services 9) (demo_time 9) ''Bearer bad'' (Change (ReqRelease ''d1'')) world3 =
     (writeAuthError m, [], world3)"
proof -
  let ?r = "NewRouter demo_router (demo_services 9) (demo_time 9) ''Bearer bad'' (Change (ReqRelease ''d1'')) world3"
  have r: "?r = (fst ?r, fst (snd ?r), snd (snd ?r))" by simp
  have nv: "\<not> valid_bearer (rc_jwt demo_router) (rc_secret demo_router) (demo_time 9) ''Bearer bad''"
    by (simp add: valid_bearer_def demo_router_def demo_jwt_def)
  have c: "jwt_contract (rc_jwt demo_router)" using demo_jwt_contract by (simp add: demo_router_def)
  have w: "reachable (rc_config demo_router) world3" using demo_reachable(3) by (simp add: demo_router_def)
  from authentication_required [OF c w nv r] show ?thesis using r by (metis jwt_protected.simps(10))
qed



text \<open>
  C36. One signing key for the life of the process, and the published one: whichever of its four users
  comes first makes the signer generate its key, and every run of uses answers as with that key fixed from the
  start, whatever the generator would have given later. Every answer of the key set endpoint decodes, with
  the decoder of the middleware, to exactly that key under its id, leading zero bytes included. A
  credential built anywhere in the run is accepted by every verification in the run before it expires.
\<close>

theorem signer_one_key:
  assumes "draw_key dr = Inr key" "PrivateKey_X key < 2 ^ 256" "PrivateKey_Y key < 2 ^ 256"
    and "keys_agree J" "codecs_agree L V"
    and "uses = u # map snd us" "run_signer J L V ((dr, u) # us) DefaultSigner = (answers, s)"
  shows "answers = map (fixed_use J L V key (draw_uuid dr)) uses
    \<and> (\<forall>r. JWKS_answer r \<in> set answers \<longrightarrow> (\<exists>j ks. r = Respond 200 (JSON_Value j) \<and> dec_jwks j = Some ks
        \<and> collect_keys ks Map.empty =
            [draw_uuid dr \<mapsto> EcKey ''P-256'' (int (PrivateKey_X key)) (int (PrivateKey_Y key))]))
    \<and> (\<forall>i k salt uuid now iss d vu idx token cid now' nonce uri.
        i < length uses \<and> k < length uses
        \<and> uses ! i = UseBuildSDJWT salt uuid now iss d vu idx \<and> answers ! i = Token_answer (Some (token, cid))
        \<and> uses ! k = UseVerifyVpToken now' token nonce uri \<and> now' < NumericDate (credential_expiry now vu) * Second \<longrightarrow>
        (\<exists>vc. answers ! k = Claims_answer (Inr vc) \<and> VerifiedClaims_CredentialID vc = cid
          \<and> VerifiedClaims_DepositID vc = Deposit_ID d
          \<and> VerifiedClaims_DepositAmount vc = DepositData_Amount (Deposit_Deposit d)))"
proof -
  have a: "answers = map (fixed_use J L V key (draw_uuid dr)) uses"
    using uses_fixed_key [OF assms(1), of J L V u us] assms(6,7) by simp
  moreover have "\<exists>j ks. r = Respond 200 (JSON_Value j) \<and> dec_jwks j = Some ks
      \<and> collect_keys ks Map.empty = [draw_uuid dr \<mapsto> EcKey ''P-256'' (int (PrivateKey_X key)) (int (PrivateKey_Y key))]"
    if "JWKS_answer r \<in> set answers" for r
    using JWKS_answers [OF assms(2,3) that [unfolded a]] by metis
  moreover have "\<exists>vc. answers ! k = Claims_answer (Inr vc) \<and> VerifiedClaims_CredentialID vc = cid
      \<and> VerifiedClaims_DepositID vc = Deposit_ID d \<and> VerifiedClaims_DepositAmount vc = DepositData_Amount (Deposit_Deposit d)"
    if "i < length uses" "k < length uses" "uses ! i = UseBuildSDJWT salt uuid now iss d vu idx"
      "answers ! i = Token_answer (Some (token, cid))" "uses ! k = UseVerifyVpToken now' token nonce uri"
      "now' < NumericDate (credential_expiry now vu) * Second"
    for i k salt uuid now iss d vu idx token cid now' nonce uri
    using token_accepted [OF assms(4,5) _ that(6), of key "draw_uuid dr" salt uuid iss d idx token cid nonce uri]
      that(1-5) unfolding a by simp
  ultimately show ?thesis by blast
qed

theorem signer_one_key_witness:
  "\<exists>token cid vc r j ks. fst (run_signer demo_keys fit_lib fit_vp [(demo_draw, UseBuildSDJWT (\<lambda>n. Some []) ''c'' (demo_time 1)
        ''https://x.example'' demo_deposit ''2025-12-31'' 3), (demo_draw\<lparr>draw_uuid := ''k2''\<rparr>, UseJWKS),
        (demo_draw, UseVerifyVpToken (demo_time 2) token ''n'' ''u'')] DefaultSigner) =
      [Token_answer (Some (token, cid)), JWKS_answer r, Claims_answer (Inr vc)]
    \<and> VerifiedClaims_CredentialID vc = cid
    \<and> r = Respond 200 (JSON_Value j) \<and> dec_jwks j = Some ks
    \<and> collect_keys ks Map.empty = [''k1'' \<mapsto> EcKey ''P-256'' 1 (2 ^ 255)]"
proof -
  let ?b = "UseBuildSDJWT (\<lambda>n. Some []) ''c'' (demo_time 1) ''https://x.example'' demo_deposit ''2025-12-31'' 3"
  obtain token cid where t: "BuildSDJWT fit_lib (\<lambda>n. Some []) ''c'' (demo_time 1) ''https://x.example'' demo_deposit
      ''2025-12-31'' 3 = Some (token, cid)" using fit_token by auto
  let ?us = "[(demo_draw\<lparr>draw_uuid := ''k2''\<rparr>, UseJWKS), (demo_draw, UseVerifyVpToken (demo_time 2) token ''n'' ''u'')]"
  let ?run = "run_signer demo_keys fit_lib fit_vp ((demo_draw, ?b) # ?us) DefaultSigner"
  have key: "draw_key demo_draw = Inr demo_key" "draw_uuid demo_draw = ''k1''" "PrivateKey_X demo_key = 1" "PrivateKey_Y demo_key = 2 ^ 255"
    by (simp_all add: demo_draw_def demo_key_def)
  have small: "PrivateKey_X demo_key < 2 ^ 256" "PrivateKey_Y demo_key < 2 ^ 256" by (simp_all add: demo_key_def)
  obtain answers s where r: "?run = (answers, s)" by fastforce
  note one = signer_one_key [OF key(1) small demo_keys_agree refl r]
  have b: "fixed_use demo_keys fit_lib fit_vp demo_key ''k1'' ?b = Token_answer (Some (token, cid))"
    by (simp add: demo_signing_lib t)
  have a: "answers = [Token_answer (Some (token, cid)), fixed_use demo_keys fit_lib fit_vp demo_key ''k1'' UseJWKS,
      fixed_use demo_keys fit_lib fit_vp demo_key ''k1'' (UseVerifyVpToken (demo_time 2) token ''n'' ''u'')]"
    using conjunct1 [OF one] b key(2) by simp
  have "\<exists>vc. answers ! 2 = Claims_answer (Inr vc) \<and> VerifiedClaims_CredentialID vc = cid"
    using one [THEN conjunct2, THEN conjunct2, rule_format, of 0 2] a fit_time by auto
  then obtain vc where v: "answers ! 2 = Claims_answer (Inr vc)" "VerifiedClaims_CredentialID vc = cid" by blast
  have "JWKS_answer (JWKS ''k1'' (PrivateKey_X demo_key) (PrivateKey_Y demo_key)) \<in> set answers" using a by simp
  from one [THEN conjunct2, THEN conjunct1, rule_format, OF this] obtain j ks where
    k: "JWKS ''k1'' (PrivateKey_X demo_key) (PrivateKey_Y demo_key) = Respond 200 (JSON_Value j)" "dec_jwks j = Some ks"
    "collect_keys ks Map.empty = [''k1'' \<mapsto> EcKey ''P-256'' 1 (2 ^ 255)]"
    using key by auto
  have "fst ?run = [Token_answer (Some (token, cid)), JWKS_answer (Respond 200 (JSON_Value j)), Claims_answer (Inr vc)]"
    unfolding r using a v(1) k(1) by simp
  with v(2) k(2,3) show ?thesis by blast
qed

text \<open>
  A generator that fails on the first use leaves the process without a key: \<open>sync.Once\<close> counts the call that
  panicked as done, so every later request to the key set endpoint panics too, although the generator would work again.
\<close>

lemma key_failure_is_final:
  assumes "draw_key dr = Inl err" "(dr', UseJWKS) \<in> set us"
  shows "Panic_answer \<in> set (tl (fst (run_signer J L V ((dr, u) # us) DefaultSigner)))"
  using failed_key_final(1) [OF assms(1), of J L V u] failed_key_final(3) [OF assms(1,2), of J L V]
  by (simp add: case_prod_unfold)

section \<open>The SDK's verifier\<close>



text \<open>
  C38. What an eID webhook can cause: the handler makes a call only for a body signed with the webhook
  secret, in an event that parses and names a deposit. It pushes an identity update exactly when the
  event reports VERIFIED: one update, for the deposit of the event, with status VERIFIED, the provider's
  reference and the handler's own bearer token. For events not yet finished it does nothing.
\<close>

theorem eid_webhook_guarded:
  assumes "HandleWebhook E h now body sig secret = (err, calls)" "err = None \<or> calls \<noteq> []"
  shows "sig \<noteq> [] \<and> sig = hex_bytes (eid_hmac E secret body)
    \<and> (\<exists>event. parseWebhookEvent E now body = Inr event \<and> EidEvent_DepositID event \<noteq> []
      \<and> (\<forall>did p tok. PushKYC did p tok \<in> set calls \<longleftrightarrow>
           EidEvent_Status event = EIDStatusVerified \<and> did = EidEvent_DepositID event \<and> tok = WebhookHandler_bearerToken h
           \<and> p = \<lparr>KYCUpdatePayload_EIDStatus = EIDStatusVerified,
                KYCUpdatePayload_VerificationTimestamp = EidEvent_CompletedAt event,
                KYCUpdatePayload_ProviderReference = EidEvent_ProviderReference event\<rparr>)
      \<and> length (filter (\<lambda>c. \<exists>did p tok. c = PushKYC did p tok) calls) \<le> 1
      \<and> (EidEvent_Status event = EIDStatusPending \<or> EidEvent_Status event = EIDStatusNotStarted \<longrightarrow> calls = []))"
proof -
  obtain event where e: "sig \<noteq> []" "sig = hex_bytes (eid_hmac E secret body)" "parseWebhookEvent E now body = Inr event"
    "calls = eid_dispatch h event" using HandleWebhook_ok [OF assms] by metis
  have "PushKYC did p tok \<in> set calls \<longleftrightarrow> EidEvent_Status event = EIDStatusVerified \<and> did = EidEvent_DepositID event
      \<and> tok = WebhookHandler_bearerToken h \<and> p = \<lparr>KYCUpdatePayload_EIDStatus = EIDStatusVerified,
         KYCUpdatePayload_VerificationTimestamp = EidEvent_CompletedAt event,
         KYCUpdatePayload_ProviderReference = EidEvent_ProviderReference event\<rparr>" for did p tok
    by (cases "EidEvent_Status event") (auto simp: e(4) eid_dispatch_def complete_def)
  moreover have "length (filter (\<lambda>c. \<exists>did p tok. c = PushKYC did p tok) calls) \<le> 1"
    by (cases "EidEvent_Status event") (simp_all add: e(4) eid_dispatch_def complete_def)
  moreover have "EidEvent_Status event = EIDStatusPending \<or> EidEvent_Status event = EIDStatusNotStarted \<longrightarrow> calls = []"
    by (auto simp: e(4) eid_dispatch_def)
  ultimately show ?thesis using e(1-3) parseWebhookEvent_Inr [OF e(3)] by blast
qed

theorem eid_webhook_guarded_witness:
  "\<exists>p. PushKYC ''d1'' p ''good'' \<in> set (snd (HandleWebhook push_eid push_webhook (demo_time 2) (bytes_of demo_report)
     (hex_bytes (bytes_of demo_report)) ''s''))"
proof -
  let ?calls = "[PushKYC ''d1'' push_payload ''good'']"
  obtain event where e: "parseWebhookEvent push_eid (demo_time 2) (bytes_of demo_report) = Inr event"
    "\<forall>did p tok. PushKYC did p tok \<in> set ?calls \<longleftrightarrow>
       EidEvent_Status event = EIDStatusVerified \<and> did = EidEvent_DepositID event \<and> tok = WebhookHandler_bearerToken push_webhook
       \<and> p = \<lparr>KYCUpdatePayload_EIDStatus = EIDStatusVerified,
                KYCUpdatePayload_VerificationTimestamp = EidEvent_CompletedAt event,
                KYCUpdatePayload_ProviderReference = EidEvent_ProviderReference event\<rparr>"
    using eid_webhook_guarded [OF push_webhook_call] by blast
  have "eid_unmarshal push_eid = Unmarshal" by (simp add: push_eid_def)
  then have "EidEvent_Status event = EIDStatusVerified" "EidEvent_DepositID event = ''d1''"
    using e(1) report_parsed [of push_eid "demo_time 2"] by auto
  moreover have "WebhookHandler_bearerToken push_webhook = ''good''" by (simp add: push_webhook_def)
  ultimately show ?thesis using e(2) by (simp add: push_webhook_call)
qed

text \<open>
  C39. From the provider's report to the deposit: when a webhook leads the SDK to push an identity update,
  the SDK's token is valid and the server's services answer, the text the SDK sends is routed to the
  identity handler. If the provider's reference is a string that \<open>%q\<close> quotes as JSON does, the server answers
  200, a REQUESTED deposit is stored as IDENTIFIED with a verified tenant and nothing else changed, and
  the SDK reports success; the reference and the time of the verification are not kept. For any other reference the server
  answers 400, its state is unchanged and the verification is lost.
\<close>

theorem eid_push_outcome:
  assumes "HandleWebhook E h t0 body sig secret = (err, calls)" "PushKYC did p tok \<in> set calls"
    and "list_all path_char did" "JWTMiddleware (rc_jwt rc) (rc_secret rc) now (''Bearer '' @ tok) = Inr claims"
    and "server_inv (world_db w)" "stored w did = Some d" "lifecycle d = StateRequested" "working x"
    and "eid_url_ok E (base @ ''/deposits/'' @ did @ ''/identity'')"
    and "delivers E rc x now base w (kyc_request E base did p tok)"
  shows "\<exists>status rb es w'. serve_identity rc x now base (kyc_request E base did p tok) w = Some (Respond status rb, es, w')
    \<and> (if json_safe (eid_printable E) (KYCUpdatePayload_ProviderReference p)
       then status = 200 \<and> UpdateDepositKYCStatus E base did p tok = None
         \<and> stored w' did = Some (enter_state (env_repo_now (srv_env x)) StateIdentified
              (entry StateIdentified ''IDENTITY_PROVIDER'' [])
              (d\<lparr>Deposit_Tenant := (Deposit_Tenant d)\<lparr>Tenant_EIDStatus := EIDVerified\<rparr>\<rparr>))
       else status = 400 \<and> UpdateDepositKYCStatus E base did p tok = Some (ErrHTTP 400) \<and> w' = w \<and> es = [])"
proof -
  have ok: "did \<noteq> []" "KYCUpdatePayload_EIDStatus p = EIDStatusVerified"
    by (rule HandleWebhook_push [OF assms(1,2)]; simp)+
  note served = push_served [OF ok(1) assms(3,4), of x base E p w]
  note status = delivered_status [OF assms(10,9)]
  show ?thesis
  proof (cases "json_safe (eid_printable E) (KYCUpdatePayload_ProviderReference p)")
    case True
    let ?i = "the (decode_IdentityUpdateRequest (kyc_body E p))"
    have i: "decode_IdentityUpdateRequest (kyc_body E p) = Some ?i" "IdentityUpdateRequest_EIDStatus ?i = EIDVerified"
      "IdentityUpdateRequest_WalletMetadata ?i = None"
      using True ok(2) by (simp_all add: kyc_body_decoded EIDVerified_def)
    obtain d' es w' where s: "serve (rc_config rc) x (ReqIdentity (Some ?i) did) w = (Respond 200 (JSON_Deposit d'), es, w')"
      "stored w' did = Some d'" "d' = enter_state (env_repo_now (srv_env x)) StateIdentified
        (entry StateIdentified ''IDENTITY_PROVIDER'' []) (d\<lparr>Deposit_Tenant := (Deposit_Tenant d)\<lparr>Tenant_EIDStatus := EIDVerified\<rparr>\<rparr>)"
      using verified_update [OF assms(5,6,8,7) i(2,3) refl, of "rc_config rc"] by metis
    have sv: "serve_identity rc x now base (kyc_request E base did p tok) w = Some (Respond 200 (JSON_Deposit d'), es, w')"
      using served i(1) s(1) by simp
    with status [OF sv] True s(2,3) show ?thesis by simp
  next
    case False
    then have sv: "serve_identity rc x now base (kyc_request E base did p tok) w = Some (bad_json, [], w)"
      using served by (simp only: kyc_body_decoded if_False bad_body_rejected)
    obtain rb where "bad_json = Respond 400 rb" by (simp add: response_defs)
    with status sv False show ?thesis by auto
  qed
qed

theorem eid_push_outcome_witness:
  "\<exists>rb es w' d'. serve_identity demo_router (demo_services 2) (demo_time 2) ''v1''
      (kyc_request push_eid ''v1'' ''d1'' push_payload ''good'') world1 = Some (Respond 200 rb, es, w')
    \<and> UpdateDepositKYCStatus push_eid ''v1'' ''d1'' push_payload ''good'' = None
    \<and> stored w' ''d1'' = Some d' \<and> lifecycle d' = StateIdentified"
proof -
  obtain d es where d: "lifecycle d = StateRequested" "stored world1 ''d1'' = Some d" by (rule demo_created_deposit)
  obtain claims where c: "JWTMiddleware (rc_jwt demo_router) (rc_secret demo_router) (demo_time 2) (''Bearer '' @ ''good'') = Inr claims"
    using push_token by blast
  have "list_all plain_char ''ref-7''" by (simp add: plain_char_def char_code_def)
  then have safe: "json_safe (eid_printable push_eid) (KYCUpdatePayload_ProviderReference push_payload)"
    by (simp add: push_payload_def json_safe_plain del: json_safe.simps)
  have did: "list_all path_char ''d1''" by (simp add: path_char_def char_code_def is_digit_def)
  have url: "eid_url_ok push_eid (''v1'' @ ''/deposits/'' @ ''d1'' @ ''/identity'')" by (simp add: push_eid_def demo_eid_def)
  show ?thesis
    using eid_push_outcome [OF push_webhook_call _ did c reachable_server_inv [OF demo_reachable(1)] d(2,1) push_working
        url push_delivers] safe by auto
qed

text \<open>
  C40. Server and SDK disagree on the document of a deposit: whatever document the data model of the Go
  SDK is marshalled to, the server reads it without an error but finds no amount and no type in it, and
  answers a creation with 400. (The SDK writes \<open>deposit_details\<close> where the schema and the server have \<open>deposit\<close>.)
\<close>

theorem sdk_document_rejected:
  assumes "enc_SdkDeposit x = Some j"
  shows "\<exists>d. dec_Deposit j = Some d \<and> Tenant_Email (Deposit_Tenant d) = SdkTenant_Email (SdkDeposit_Tenant x)
    \<and> Landlord_Name (Deposit_Landlord d) = SdkLandlord_Name (SdkDeposit_Landlord x)
    \<and> Deposit_Property d = SdkDeposit_Property x \<and> DepositData_Amount (Deposit_Deposit d) = f_zero
    \<and> (\<forall>env db. \<exists>msg. CreateDeposit env (Some d) db = (writeError 400 msg ''VALIDATION_ERROR'', [], db))"
proof -
  have "CreateDeposit env (Some (server_view x)) db = (writeError 400 (sdk_complaint x) ''VALIDATION_ERROR'', [], db)" for env db
    by (simp add: CreateDeposit_def server_view_rejected invalid_def)
  then show ?thesis
    using sdk_document_read [OF assms] by (auto simp: server_view_def tenant_view_def landlord_view_def no_data_def)
qed

theorem sdk_document_rejected_witness:
  "\<exists>j d. enc_SdkDeposit demo_sdk_deposit = Some j \<and> dec_Deposit j = Some d
     \<and> (\<exists>msg. CreateDeposit (demo_env 1) (Some d) empty_db = (writeError 400 msg ''VALIDATION_ERROR'', [], empty_db))
     \<and> Tenant_Email (Deposit_Tenant d) = ''a@x.de''"
proof -
  have "enc_SdkDeposit demo_sdk_deposit \<noteq> None" by code_simp
  then obtain j where j: "enc_SdkDeposit demo_sdk_deposit = Some j" by auto
  have "SdkTenant_Email (SdkDeposit_Tenant demo_sdk_deposit) = ''a@x.de''" by (simp add: demo_sdk_deposit_def)
  with sdk_document_rejected [OF j] j show ?thesis by metis
qed

section \<open>Not modelled\<close>

text \<open>
  The HTTP server behind \<open>ListenAndServe\<close>, the delivery of mail over SMTP, the layout of the PDF
  library, the generator of the signing key, the router library's path matching (but for the route of
  EidPush) and logging middleware, the database pool behind its errors, concurrent refreshes of the key cache, the
  client interface of the Go SDK (which has no implementation), the SDKs in other languages, tests and
  examples. They are input/output or calls into libraries.
\<close>

end
